(* ===== verification/Prelude.thy ===== *)
theory Prelude
  imports Complex_Main "HOL-Library.Multiset" "HOL-Library.Char_ord" "HOL-Library.List_Lexorder"
begin

text \<open>
  Shared vocabulary of the Campus Hub development: the names of the model's
  types, the toast notifications every page handler emits, the rule
  collections the component theories fill, and generic facts on lists and
  association maps that the collection proofs share.
\<close>

named_theorems crud_simps "rewrite rules of the generic collection operations"
named_theorems page_defs "unfoldings of the page handlers"

text \<open>A JavaScript number (IEEE double) is modelled by an exact real.\<close>

type_synonym js_number = real

text \<open>Record identifiers are strings in every interface of the sources.\<close>

type_synonym ident = string

text \<open>
  The toaster of the UI kit (\<open>useToast\<close>): a handler pushes a notification with a
  title and a variant. The description strings are display text and are not
  modelled.
\<close>

datatype toast_variant = ToastDefault | ToastDestructive

record toast =
  toast_title :: string
  toast_variant :: toast_variant

definition mk_toast :: "string \<Rightarrow> toast" where
  "mk_toast t = \<lparr>toast_title = t, toast_variant = ToastDefault\<rparr>"

definition mk_destructive :: "string \<Rightarrow> toast" where
  "mk_destructive t = \<lparr>toast_title = t, toast_variant = ToastDestructive\<rparr>"

subsection \<open>Generic facts on keyed lists\<close>

text \<open>
  A collection is a list of records with a key function; its abstraction is the
  association map of the keys.
\<close>

lemma map_of_keyed_SomeD:
  "map_of (map (\<lambda>s. (k s, s)) xs) i = Some r \<Longrightarrow> r \<in> set xs \<and> k r = i"
proof -
  assume "map_of (map (\<lambda>s. (k s, s)) xs) i = Some r"
  then have "(i, r) \<in> set (map (\<lambda>s. (k s, s)) xs)" by (rule map_of_SomeD)
  then show ?thesis by auto
qed

lemma map_of_keyed_None:
  "map_of (map (\<lambda>s. (k s, s)) xs) i = None \<longleftrightarrow> i \<notin> k ` set xs"
  by (induction xs) auto

lemma map_of_keyed_distinct:
  "distinct (map k xs) \<Longrightarrow> r \<in> set xs \<Longrightarrow> map_of (map (\<lambda>s. (k s, s)) xs) (k r) = Some r"
  by (induction xs) (auto simp: image_iff)

lemma map_of_keyed_eq_iff:
  assumes "distinct (map k xs)"
  shows "map_of (map (\<lambda>s. (k s, s)) xs) i = Some r \<longleftrightarrow> r \<in> set xs \<and> k r = i"
proof
  assume "map_of (map (\<lambda>s. (k s, s)) xs) i = Some r"
  then show "r \<in> set xs \<and> k r = i" by (rule map_of_keyed_SomeD)
next
  assume r: "r \<in> set xs \<and> k r = i"
  then have "r \<in> set xs" by simp
  with assms have "map_of (map (\<lambda>s. (k s, s)) xs) (k r) = Some r"
    by (rule map_of_keyed_distinct)
  with r show "map_of (map (\<lambda>s. (k s, s)) xs) i = Some r" by simp
qed

lemma map_of_keyed_perm:
  assumes "distinct (map k xs)" and "distinct (map k ys)" and "set xs = set ys"
  shows "map_of (map (\<lambda>s. (k s, s)) xs) = map_of (map (\<lambda>s. (k s, s)) ys)"
proof
  fix i
  show "map_of (map (\<lambda>s. (k s, s)) xs) i = map_of (map (\<lambda>s. (k s, s)) ys) i"
  proof (cases "map_of (map (\<lambda>s. (k s, s)) xs) i")
    case None
    then have "i \<notin> k ` set ys" using assms(3) by (simp add: map_of_keyed_None)
    then have "map_of (map (\<lambda>s. (k s, s)) ys) i = None" by (simp add: map_of_keyed_None)
    with None show ?thesis by simp
  next
    case (Some r)
    then have r: "r \<in> set xs \<and> k r = i" by (rule map_of_keyed_SomeD)
    with assms(3) have "r \<in> set ys" by simp
    with assms(2) have "map_of (map (\<lambda>s. (k s, s)) ys) (k r) = Some r"
      by (rule map_of_keyed_distinct)
    with r Some show ?thesis by simp
  qed
qed

lemma distinct_map_update_keyed:
  "(\<And>s. k (f s) = k s) \<Longrightarrow>
   distinct (map k (map (\<lambda>s. if P s then f s else s) xs)) = distinct (map k xs)"
proof -
  assume "\<And>s. k (f s) = k s"
  then have "map k (map (\<lambda>s. if P s then f s else s) xs) = map k xs"
    by (induction xs) auto
  then show ?thesis by (simp only:)
qed

text \<open>\<open>those\<close> succeeds on a list whose every element maps to a value.\<close>

lemma those_map_Some:
  "(\<forall>x\<in>set xs. f x \<noteq> None) \<Longrightarrow> \<exists>ys. those (map f xs) = Some ys \<and> length ys = length xs"
  by (induction xs) (auto split: option.splits)

lemma map_filter_append: "List.map_filter f (xs @ ys) = List.map_filter f xs @ List.map_filter f ys"
  by (simp add: List.map_filter_def)

lemma those_map_None: "x \<in> set xs \<Longrightarrow> f x = None \<Longrightarrow> those (map f xs) = None"
  by (induction xs) (auto split: option.splits)

end
