(* ===== verification/Js_Runtime.thy ===== *)
theory Js_Runtime
  imports Prelude
begin

text \<open>
  The JavaScript built-ins the page handlers call, modelled from the
  ECMAScript specification (they are not code of this repository):
  \<^item> \<open>Array.prototype.sort(cmp)\<close> is stable (ES2019); for a consistent comparator its
    result is the unique stable sorted permutation, computed here by insertion;
  \<^item> \<open>String.prototype.localeCompare\<close> compares the locale's collation keys, a
    parameter \<open>coll\<close> of every model that sorts by name;
  \<^item> \<open>String(n)\<close> / \<open>n.toString()\<close> on a natural number is its decimal
    numeral, and \<open>s.slice(-k)\<close> keeps the last \<open>k\<close> characters;
  \<^item> \<open>toUpperCase\<close> on ASCII letters, \<open>Number(s)\<close> on decimal numerals.
\<close>

subsection \<open>Stable sort with a comparator\<close>

fun js_insert :: "('a \<Rightarrow> 'a \<Rightarrow> js_number) \<Rightarrow> 'a \<Rightarrow> 'a list \<Rightarrow> 'a list" where
  "js_insert cmp x [] = [x]"
| "js_insert cmp x (y # ys) = (if cmp x y \<le> 0 then x # y # ys else y # js_insert cmp x ys)"

definition js_sort :: "('a \<Rightarrow> 'a \<Rightarrow> js_number) \<Rightarrow> 'a list \<Rightarrow> 'a list" where
  "js_sort cmp xs = foldr (js_insert cmp) xs []"

text \<open>A comparator is consistent with a key when it orders exactly as the key does.\<close>

definition consistent_with :: "('a \<Rightarrow> 'a \<Rightarrow> js_number) \<Rightarrow> ('a \<Rightarrow> 'k::linorder) \<Rightarrow> bool" where
  "consistent_with cmp k \<longleftrightarrow> (\<forall>x y. cmp x y \<le> 0 \<longleftrightarrow> k x \<le> k y)"

definition locale_compare :: "(string \<Rightarrow> 'k::linorder) \<Rightarrow> string \<Rightarrow> string \<Rightarrow> js_number" where
  "locale_compare coll a b = (if coll a < coll b then -1 else if coll a = coll b then 0 else 1)"

lemma js_insert_insort_key:
  "consistent_with cmp k \<Longrightarrow> js_insert cmp x ys = insort_key k x ys"
  by (induction ys) (simp_all add: consistent_with_def)

text \<open>The stable sort under a consistent comparator is the library's \<open>sort_key\<close>.\<close>

lemma js_sort_sort_key:
  assumes "consistent_with cmp k"
  shows "js_sort cmp xs = sort_key k xs"
proof -
  have "foldr (js_insert cmp) xs [] = foldr (insort_key k) xs []"
    by (induction xs) (simp_all add: js_insert_insort_key [OF assms])
  then show ?thesis by (simp add: js_sort_def sort_key_def)
qed

lemma locale_compare_consistent:
  "consistent_with (\<lambda>a b. locale_compare coll (f a) (f b)) (\<lambda>a. coll (f a))"
  by (auto simp: consistent_with_def locale_compare_def)

text \<open>A descending numeric comparator \<open>(a, b) => t b - t a\<close>.\<close>

lemma desc_compare_consistent:
  "consistent_with (\<lambda>a b. t b - t a) (\<lambda>a. - t a)"
  by (auto simp: consistent_with_def)

lemma js_sort_mset [simp]: "consistent_with cmp k \<Longrightarrow> mset (js_sort cmp xs) = mset xs"
  by (simp add: js_sort_sort_key)

lemma js_sort_set [simp]: "consistent_with cmp k \<Longrightarrow> set (js_sort cmp xs) = set xs"
  by (simp add: js_sort_sort_key)

lemma js_sort_sorted: "consistent_with cmp k \<Longrightarrow> sorted (map k (js_sort cmp xs))"
  by (simp add: js_sort_sort_key)

lemma js_sort_distinct_map:
  "consistent_with cmp k \<Longrightarrow> distinct (map f (js_sort cmp xs)) = distinct (map f xs)"
proof -
  assume "consistent_with cmp k"
  then have "mset (map f (js_sort cmp xs)) = mset (map f xs)" by simp
  then show ?thesis by (rule mset_eq_imp_distinct_iff)
qed

lemma js_sort_length [simp]: "consistent_with cmp k \<Longrightarrow> length (js_sort cmp xs) = length xs"
  by (simp add: js_sort_sort_key)

lemma js_sort_sorted_id:
  "consistent_with cmp k \<Longrightarrow> sorted (map k xs) \<Longrightarrow> js_sort cmp xs = xs"
  by (simp add: js_sort_sort_key sort_key_id_if_sorted)

text \<open>Whatever the comparator, even an inconsistent one, the sort permutes its input.\<close>

lemma js_insert_mset: "mset (js_insert cmp x ys) = add_mset x (mset ys)"
  by (induction ys) auto

lemma js_sort_mset_any: "mset (js_sort cmp xs) = mset xs"
  by (induction xs) (simp_all add: js_sort_def js_insert_mset)

lemma js_sort_set_any: "set (js_sort cmp xs) = set xs"
  using arg_cong [OF js_sort_mset_any [of cmp xs], of set_mset] by simp

lemma js_sort_list_all: "list_all P (js_sort cmp xs) = list_all P xs"
  by (simp add: list_all_iff js_sort_set_any)

text \<open>
  A comparator that is consistent only on the elements actually sorted, as one
  that returns \<open>NaN\<close> (read as \<open>+0\<close> by the sort) for malformed entries, still
  yields the key sort when no such entry is present.
\<close>

definition consistent_on :: "'a set \<Rightarrow> ('a \<Rightarrow> 'a \<Rightarrow> js_number) \<Rightarrow> ('a \<Rightarrow> 'k::linorder) \<Rightarrow> bool" where
  "consistent_on A cmp k \<longleftrightarrow> (\<forall>x\<in>A. \<forall>y\<in>A. cmp x y \<le> 0 \<longleftrightarrow> k x \<le> k y)"

lemma js_insert_insort_key_on:
  "consistent_on A cmp k \<Longrightarrow> x \<in> A \<Longrightarrow> set ys \<subseteq> A \<Longrightarrow> js_insert cmp x ys = insort_key k x ys"
  by (induction ys) (auto simp: consistent_on_def)

lemma js_sort_sort_key_on:
  assumes "consistent_on (set xs) cmp k"
  shows "js_sort cmp xs = sort_key k xs"
proof -
  have "set ys \<subseteq> set xs \<Longrightarrow> foldr (js_insert cmp) ys [] = foldr (insort_key k) ys []" for ys
  proof (induction ys)
    case Nil
    then show ?case by simp
  next
    case (Cons y ys)
    then have "foldr (js_insert cmp) ys [] = foldr (insort_key k) ys []" by simp
    moreover have "set (foldr (insort_key k) ys []) \<subseteq> set xs"
      using Cons.prems by (simp add: set_insort_key [symmetric] sort_key_def [symmetric])
    ultimately show ?case
      using Cons.prems js_insert_insort_key_on [OF assms] by simp
  qed
  then show ?thesis by (simp add: js_sort_def sort_key_def)
qed

subsection \<open>Decimal strings of numbers\<close>

definition digit_char :: "nat \<Rightarrow> char" where
  "digit_char d = ''0123456789'' ! d"

fun string_of_nat :: "nat \<Rightarrow> string" where
  "string_of_nat n =
     (if n < 10 then [digit_char n] else string_of_nat (n div 10) @ [digit_char (n mod 10)])"

declare string_of_nat.simps [simp del]

text \<open>\<open>s.slice(-k)\<close>: the last \<open>k\<close> characters, or the whole string if it is shorter.\<close>

definition slice_last :: "nat \<Rightarrow> string \<Rightarrow> string" where
  "slice_last k s = drop (length s - k) s"

lemma string_of_nat_small: "n < 10 \<Longrightarrow> string_of_nat n = [digit_char n]"
  by (simp add: string_of_nat.simps)

lemma string_of_nat_snoc:
  "10 \<le> n \<Longrightarrow> string_of_nat n = string_of_nat (n div 10) @ [digit_char (n mod 10)]"
  by (simp add: string_of_nat.simps [of n])

lemma string_of_nat_last: "string_of_nat n \<noteq> [] \<and> last (string_of_nat n) = digit_char (n mod 10)"
  by (cases "n < 10") (simp_all add: string_of_nat_small string_of_nat_snoc)

text \<open>The last four digits of a number of at least four digits.\<close>

definition dec4 :: "nat \<Rightarrow> string" where
  "dec4 n = map digit_char [n div 1000 mod 10, n div 100 mod 10, n div 10 mod 10, n mod 10]"

lemma string_of_nat_last3:
  assumes "1000 \<le> n"
  shows "string_of_nat n =
    string_of_nat (n div 1000) @ map digit_char [n div 100 mod 10, n div 10 mod 10, n mod 10]"
proof -
  have "string_of_nat n = string_of_nat (n div 10) @ [digit_char (n mod 10)]"
    using assms by (simp add: string_of_nat_snoc)
  also have "string_of_nat (n div 10) =
      string_of_nat (n div 100) @ [digit_char (n div 10 mod 10)]"
    using assms by (simp add: string_of_nat_snoc div_mult2_eq [symmetric])
  also have "string_of_nat (n div 100) =
      string_of_nat (n div 1000) @ [digit_char (n div 100 mod 10)]"
    using assms by (simp add: string_of_nat_snoc div_mult2_eq [symmetric])
  finally show ?thesis by simp
qed

lemma slice_last_string_of_nat:
  assumes "1000 \<le> n"
  shows "slice_last 4 (string_of_nat n) = dec4 n"
proof -
  obtain xs where xs: "string_of_nat (n div 1000) = xs" by simp
  have ne: "xs \<noteq> []" and lst: "last xs = digit_char (n div 1000 mod 10)"
    using string_of_nat_last [of "n div 1000"] xs by simp_all
  have "drop (length xs - 1) xs = [last xs]"
    using ne by (cases xs rule: rev_cases) simp_all
  with lst have "drop (length xs + 3 - 4) (xs @ map digit_char [n div 100 mod 10, n div 10 mod 10, n mod 10])
      = digit_char (n div 1000 mod 10) # map digit_char [n div 100 mod 10, n div 10 mod 10, n mod 10]"
    using ne by (cases xs rule: rev_cases) simp_all
  then show ?thesis
    using assms xs by (simp add: slice_last_def string_of_nat_last3 dec4_def)
qed

lemma mod10000_digits:
  "n mod 10000 div 1000 mod 10 = n div 1000 mod 10"
  "n mod 10000 div 100 mod 10 = n div 100 mod 10"
  "n mod 10000 div 10 mod 10 = n div 10 mod 10"
  "n mod 10000 mod 10 = (n::nat) mod 10"
proof -
  have "n mod 10000 = 1000 * (n div 1000 mod 10) + n mod 1000"
    using mod_mult2_eq [of n 1000 10] by simp
  then show "n mod 10000 div 1000 mod 10 = n div 1000 mod 10" by simp
next
  have "n mod 10000 = 100 * (n div 100 mod 100) + n mod 100"
    using mod_mult2_eq [of n 100 100] by simp
  then have "n mod 10000 div 100 = n div 100 mod 100" by simp
  then show "n mod 10000 div 100 mod 10 = n div 100 mod 10" by (simp add: mod_mod_cancel)
next
  have "n mod 10000 = 10 * (n div 10 mod 1000) + n mod 10"
    using mod_mult2_eq [of n 10 1000] by simp
  then have "n mod 10000 div 10 = n div 10 mod 1000" by simp
  then show "n mod 10000 div 10 mod 10 = n div 10 mod 10" by (simp add: mod_mod_cancel)
next
  show "n mod 10000 mod 10 = n mod 10" by (simp add: mod_mod_cancel)
qed

lemma dec4_mod: "dec4 (n mod 10000) = dec4 n"
  by (simp add: dec4_def mod10000_digits)

subsection \<open>String conversions\<close>

text \<open>\<open>Array.prototype.join(sep)\<close> on strings.\<close>

fun js_join :: "string \<Rightarrow> string list \<Rightarrow> string" where
  "js_join sep [] = []"
| "js_join sep [x] = x"
| "js_join sep (x # y # xs) = x @ sep @ js_join sep (y # xs)"

text \<open>
  \<open>x || '-'\<close> on an optional string field: an absent (\<open>undefined\<close>) or empty
  string is falsy and shows the dash.
\<close>

definition or_dash :: "string option \<Rightarrow> string" where
  "or_dash x = (case x of None \<Rightarrow> ''-'' | Some v \<Rightarrow> if v = [] then ''-'' else v)"

text \<open>\<open>toUpperCase\<close> on ASCII letters; other characters are left as they are.\<close>

definition upper_char :: "char \<Rightarrow> char" where
  "upper_char c = (if (97::nat) \<le> of_char c \<and> of_char c \<le> (122::nat) then char_of (of_char c - (32::nat)) else c)"

definition to_upper :: "string \<Rightarrow> string" where
  "to_upper s = map upper_char s"

definition is_digit :: "char \<Rightarrow> bool" where
  "is_digit c \<longleftrightarrow> (48::nat) \<le> of_char c \<and> of_char c \<le> (57::nat)"

definition digit_val :: "char \<Rightarrow> nat" where
  "digit_val c = of_char c - (48::nat)"

definition nat_of_digits :: "string \<Rightarrow> nat" where
  "nat_of_digits s = foldl (\<lambda>acc c. 10 * acc + digit_val c) 0 s"

text \<open>
  \<open>Number(s)\<close> for the decimal numerals the sources apply it to: the empty string
  is \<open>0\<close>, a numeral its value, anything else \<open>NaN\<close> (\<open>None\<close>). JavaScript also
  reads signs, fractions, exponents and surrounding blanks; no string that reaches
  \<open>Number\<close> in the modelled code has them and is accepted by the test around it.
\<close>

definition js_Number :: "string \<Rightarrow> js_number option" where
  "js_Number s =
     (if s = [] then Some 0
      else if list_all is_digit s then Some (of_nat (nat_of_digits s)) else None)"

end
