(* ===== verification/Entity_List.thy ===== *)
theory Entity_List
  imports Js_Runtime
begin

text \<open>
  The collection pattern every management page repeats (spec section 4.1, "Entity
  List Manager"): a React state array of records with a string \<open>id\<close>, changed by
  \<^item> \<open>prev.map(s => s.id === x.id ? {...s, ...values} : s)\<close> (edit),
  \<^item> \<open>prev.filter(s => s.id !== x.id)\<close> (delete),
  \<^item> \<open>[...prev, r]\<close> or \<open>[r, ...prev]\<close> (create), sometimes followed by a sort,
  and the dialog state around it (which record is edited, which one is about to be
  deleted), plus react-hook-form's \<open>handleSubmit\<close>, which calls the page's handler
  only when the zod schema accepts the form.
  The abstract specification is the spec's manager: a finite map from identifiers
  to records whose update and delete fail with \<open>NotFound\<close> on an unknown
  identifier. The refinement lemmas relate the two through \<open>as_map\<close>.
\<close>

subsection \<open>Operations on the record list\<close>

definition update_by_id :: "('e \<Rightarrow> ident) \<Rightarrow> ident \<Rightarrow> ('e \<Rightarrow> 'e) \<Rightarrow> 'e list \<Rightarrow> 'e list" where
  "update_by_id key i f xs = map (\<lambda>s. if key s = i then f s else s) xs"

definition delete_by_id :: "('e \<Rightarrow> ident) \<Rightarrow> ident \<Rightarrow> 'e list \<Rightarrow> 'e list" where
  "delete_by_id key i xs = filter (\<lambda>s. key s \<noteq> i) xs"

definition ids_unique :: "('e \<Rightarrow> ident) \<Rightarrow> 'e list \<Rightarrow> bool" where
  "ids_unique key xs \<longleftrightarrow> distinct (map key xs)"

definition as_map :: "('e \<Rightarrow> ident) \<Rightarrow> 'e list \<Rightarrow> ident \<rightharpoonup> 'e" where
  "as_map key xs = map_of (map (\<lambda>s. (key s, s)) xs)"

definition ids_of :: "('e \<Rightarrow> ident) \<Rightarrow> 'e list \<Rightarrow> ident set" where
  "ids_of key xs = key ` set xs"

subsection \<open>Dialog state of a management page\<close>

text \<open>
  \<open>items\<close> is the state array, \<open>show_modal\<close> the add/edit dialog, \<open>editing\<close> the
  record the dialog edits (\<open>null\<close> when it adds) and \<open>to_delete\<close> the record
  the confirmation dialog is about to delete.
\<close>

record 'e crud_page =
  items :: "'e list"
  show_modal :: bool
  editing :: "'e option"
  to_delete :: "'e option"

type_synonym field_errors = "(string \<times> string) list"

definition open_add_modal :: "('e, 'x) crud_page_scheme \<Rightarrow> ('e, 'x) crud_page_scheme" where
  "open_add_modal st = st\<lparr>editing := None, show_modal := True\<rparr>"

definition open_edit_modal :: "'e \<Rightarrow> ('e, 'x) crud_page_scheme \<Rightarrow> ('e, 'x) crud_page_scheme" where
  "open_edit_modal r st = st\<lparr>editing := Some r, show_modal := True\<rparr>"

definition modal_open_change :: "bool \<Rightarrow> ('e, 'x) crud_page_scheme \<Rightarrow> ('e, 'x) crud_page_scheme" where
  "modal_open_change is_open st =
     (if is_open then st\<lparr>show_modal := True\<rparr> else st\<lparr>show_modal := False, editing := None\<rparr>)"

definition request_delete :: "'e \<Rightarrow> ('e, 'x) crud_page_scheme \<Rightarrow> ('e, 'x) crud_page_scheme" where
  "request_delete r st = st\<lparr>to_delete := Some r\<rparr>"

definition cancel_delete :: "('e, 'x) crud_page_scheme \<Rightarrow> ('e, 'x) crud_page_scheme" where
  "cancel_delete st = st\<lparr>to_delete := None\<rparr>"

text \<open>
  The delete confirmation of the pages that keep the list unsorted: remove every
  record with the chosen record's id, close the dialog and toast; nothing happens
  when no record is chosen.
\<close>

definition delete_confirm ::
  "('e \<Rightarrow> ident) \<Rightarrow> string \<Rightarrow> ('e, 'x) crud_page_scheme \<Rightarrow> ('e, 'x) crud_page_scheme \<times> toast list" where
  "delete_confirm key title st =
     (case to_delete st of
        None \<Rightarrow> (st, [])
      | Some d \<Rightarrow> (st\<lparr>items := delete_by_id key (key d) (items st), to_delete := None\<rparr>,
                   [mk_destructive title]))"

text \<open>
  react-hook-form's \<open>form.handleSubmit(onValid)\<close>: the resolver's errors are shown
  and \<open>onValid\<close> is not called, or the parsed values go to \<open>onValid\<close>.
\<close>

definition handle_submit ::
  "('v \<Rightarrow> field_errors) \<Rightarrow> ('v \<Rightarrow> 's \<Rightarrow> 's \<times> toast list) \<Rightarrow> 'v \<Rightarrow> 's \<Rightarrow> 's \<times> (field_errors + toast list)" where
  "handle_submit validate on_valid v st =
     (let errs = validate v in
      if errs = [] then (let (st', ts) = on_valid v st in (st', Inr ts)) else (st, Inl errs))"

text \<open>
  The \<open>handleFormSubmit\<close> of the pages that keep the list unsorted: with a record
  being edited, \<open>prev.map(r => r.id === editing.id ? {...r, ...values} : r)\<close>;
  otherwise append the new record; then close the dialog and toast.
\<close>

definition form_submit ::
  "('e \<Rightarrow> ident) \<Rightarrow> ('f \<Rightarrow> 'e \<Rightarrow> 'e) \<Rightarrow> ('f \<Rightarrow> 'e) \<Rightarrow> string \<Rightarrow> string \<Rightarrow>
   'f \<Rightarrow> ('e, 'x) crud_page_scheme \<Rightarrow> ('e, 'x) crud_page_scheme \<times> toast list" where
  "form_submit key apply new updated added v st =
     (case editing st of
        Some e \<Rightarrow> (st\<lparr>items := update_by_id key (key e) (apply v) (items st),
                      show_modal := False, editing := None\<rparr>, [mk_toast updated])
      | None \<Rightarrow> (st\<lparr>items := items st @ [new v], show_modal := False, editing := None\<rparr>,
                 [mk_toast added]))"

text \<open>
  The UI events of a management page and the page as a step function over them.
  The Add button and each row's Edit and Delete buttons are rendered for
  administrators only, and the row buttons pass the listed record; the form can
  only be submitted while its dialog is open. The dialogs have no trigger
  element, so their \<open>onOpenChange\<close> only ever reports closing (escape, a
  click outside, the close button). \<open>submit\<close> is the page's
  \<open>form.handleSubmit(handleFormSubmit)\<close> at the clock value \<open>now\<close>,
  \<open>del\<close> its \<open>handleDeleteConfirm\<close>.
\<close>

datatype ('e, 'f) crud_event =
    Add_Click
  | Edit_Click 'e
  | Delete_Click 'e
  | Delete_Confirm
  | Delete_Cancel
  | Delete_Dialog_Close
  | Form_Dialog_Close
  | Form_Cancel
  | Form_Submit nat 'f

fun crud_step ::
  "(nat \<Rightarrow> 'f \<Rightarrow> ('e, 'x) crud_page_scheme \<Rightarrow> ('e, 'x) crud_page_scheme \<times> (field_errors + toast list)) \<Rightarrow>
   (('e, 'x) crud_page_scheme \<Rightarrow> ('e, 'x) crud_page_scheme \<times> toast list) \<Rightarrow>
   bool \<Rightarrow> ('e, 'f) crud_event \<Rightarrow> ('e, 'x) crud_page_scheme \<Rightarrow> ('e, 'x) crud_page_scheme" where
  "crud_step submit del is_admin Add_Click st = (if is_admin then open_add_modal st else st)"
| "crud_step submit del is_admin (Edit_Click r) st =
     (if is_admin \<and> r \<in> set (items st) then open_edit_modal r st else st)"
| "crud_step submit del is_admin (Delete_Click r) st =
     (if is_admin \<and> r \<in> set (items st) then request_delete r st else st)"
| "crud_step submit del is_admin Delete_Confirm st = fst (del st)"
| "crud_step submit del is_admin Delete_Cancel st = cancel_delete st"
| "crud_step submit del is_admin Delete_Dialog_Close st = cancel_delete st"
| "crud_step submit del is_admin Form_Dialog_Close st = modal_open_change False st"
| "crud_step submit del is_admin Form_Cancel st = st\<lparr>show_modal := False, editing := None\<rparr>"
| "crud_step submit del is_admin (Form_Submit now v) st =
     (if show_modal st then fst (submit now v st) else st)"

definition crud_run ::
  "(nat \<Rightarrow> 'f \<Rightarrow> ('e, 'x) crud_page_scheme \<Rightarrow> ('e, 'x) crud_page_scheme \<times> (field_errors + toast list)) \<Rightarrow>
   (('e, 'x) crud_page_scheme \<Rightarrow> ('e, 'x) crud_page_scheme \<times> toast list) \<Rightarrow>
   bool \<Rightarrow> ('e, 'f) crud_event list \<Rightarrow> ('e, 'x) crud_page_scheme \<Rightarrow> ('e, 'x) crud_page_scheme" where
  "crud_run submit del is_admin es st = foldl (\<lambda>s e. crud_step submit del is_admin e s) st es"

subsection \<open>The list card of a management page\<close>

text \<open>
  Every management page renders its list as \<open>{xs.length === 0 ? (message) : (table)}\<close>:
  a message when there is nothing to list, otherwise one row per record.
  \<open>table_of\<close> is the card when building a row cannot fail; \<open>render_rows\<close> is
  the card when a row can throw (a \<open>format\<close> of an Invalid Date), in which case
  the page does not render (None).
\<close>

datatype 'r table = Empty_Table string | Table_Rows "'r list"

definition table_of :: "('a \<Rightarrow> 'r) \<Rightarrow> string \<Rightarrow> 'a list \<Rightarrow> 'r table" where
  "table_of row msg xs = (if xs = [] then Empty_Table msg else Table_Rows (map row xs))"

definition render_rows :: "('a \<Rightarrow> 'r option) \<Rightarrow> string \<Rightarrow> 'a list \<Rightarrow> 'r table option" where
  "render_rows row msg xs = (if xs = [] then Some (Empty_Table msg) else map_option Table_Rows (those (map row xs)))"

text \<open>
  The delete dialog's description \<open>prefix {toDelete?.field} suffix\<close>: with no
  record to delete, JSX renders the \<open>undefined\<close> field as nothing.
\<close>

definition delete_description ::
  "string \<Rightarrow> ('e \<Rightarrow> string) \<Rightarrow> string \<Rightarrow> ('e, 'x) crud_page_scheme \<Rightarrow> string" where
  "delete_description pre field post st =
     pre @ (case to_delete st of Some r \<Rightarrow> field r | None \<Rightarrow> []) @ post"

text \<open>A text of the form dialog: \<open>editingX ? edit : add\<close>.\<close>

definition edit_or_add :: "string \<Rightarrow> string \<Rightarrow> ('e, 'x) crud_page_scheme \<Rightarrow> string" where
  "edit_or_add e a st = (if editing st \<noteq> None then e else a)"

definition quote_char :: string where
  "quote_char = [char_of (34::nat)]"

subsection \<open>The abstract manager of the specification\<close>

datatype crud_error = NotFound ident

definition spec_update ::
  "ident \<Rightarrow> ('e \<Rightarrow> 'e) \<Rightarrow> (ident \<rightharpoonup> 'e) \<Rightarrow> crud_error + (ident \<rightharpoonup> 'e)" where
  "spec_update i f m = (case m i of None \<Rightarrow> Inl (NotFound i) | Some r \<Rightarrow> Inr (m(i \<mapsto> f r)))"

definition spec_delete :: "ident \<Rightarrow> (ident \<rightharpoonup> 'e) \<Rightarrow> crud_error + (ident \<rightharpoonup> 'e)" where
  "spec_delete i m = (case m i of None \<Rightarrow> Inl (NotFound i) | Some _ \<Rightarrow> Inr (m(i := None)))"

definition spec_create :: "ident \<Rightarrow> 'e \<Rightarrow> (ident \<rightharpoonup> 'e) \<Rightarrow> (ident \<rightharpoonup> 'e) option" where
  "spec_create i r m = (if i \<in> dom m then None else Some (m(i \<mapsto> r)))"

subsection \<open>Facts about the list operations\<close>

lemma ids_of_conv: "i \<in> ids_of key xs \<longleftrightarrow> (\<exists>s\<in>set xs. key s = i)"
  by (auto simp: ids_of_def)

lemma update_by_id_keys [simp]:
  "(\<And>s. key (f s) = key s) \<Longrightarrow> map key (update_by_id key i f xs) = map key xs"
  by (induction xs) (simp_all add: update_by_id_def)

lemma update_by_id_ids_unique [crud_simps]:
  "(\<And>s. key (f s) = key s) \<Longrightarrow> ids_unique key (update_by_id key i f xs) = ids_unique key xs"
  by (simp add: ids_unique_def)

lemma update_by_id_absent [crud_simps]:
  "i \<notin> ids_of key xs \<Longrightarrow> update_by_id key i f xs = xs"
  by (induction xs) (auto simp: update_by_id_def ids_of_def)

lemma update_by_id_map_inv:
  "(\<And>s. g (f s) = g s) \<Longrightarrow> map g (update_by_id key i f xs) = map g xs"
  by (induction xs) (simp_all add: update_by_id_def)

lemma update_by_id_other_mem:
  "s \<in> set xs \<Longrightarrow> key s \<noteq> i \<Longrightarrow> s \<in> set (update_by_id key i f xs)"
  by (induction xs) (auto simp: update_by_id_def)

lemma update_by_id_list_all:
  "list_all P xs \<Longrightarrow> (\<And>s. s \<in> set xs \<Longrightarrow> P (f s)) \<Longrightarrow> list_all P (update_by_id key i f xs)"
  by (induction xs) (simp_all add: update_by_id_def)

lemma delete_by_id_list_all: "list_all P xs \<Longrightarrow> list_all P (delete_by_id key i xs)"
  by (simp add: delete_by_id_def list_all_iff)

lemma update_by_id_Cons:
  "update_by_id key i f (x # xs) = (if key x = i then f x else x) # update_by_id key i f xs"
  by (simp add: update_by_id_def)

lemma update_by_id_fixed:
  "(\<And>s. s \<in> set xs \<Longrightarrow> key s = i \<Longrightarrow> f s = s) \<Longrightarrow> update_by_id key i f xs = xs"
  by (induction xs) (simp_all add: update_by_id_def)

lemma update_by_id_cong:
  "(\<And>s. s \<in> set xs \<Longrightarrow> key s = i \<Longrightarrow> f s = g s) \<Longrightarrow> update_by_id key i f xs = update_by_id key i g xs"
  by (induction xs) (simp_all add: update_by_id_def)

lemma ids_unique_filter_single:
  assumes "ids_unique key xs" and "r \<in> set xs"
  shows "filter (\<lambda>s. key s = key r) xs = [r]"
  using assms
proof (induction xs)
  case Nil
  then show ?case by simp
next
  case (Cons x xs)
  show ?case
  proof (cases "x = r")
    case True
    with Cons.prems have "\<forall>s\<in>set xs. key s \<noteq> key r"
      by (auto simp: ids_unique_def image_iff)
    with True show ?thesis by (simp add: filter_empty_conv)
  next
    case False
    with Cons.prems have "r \<in> set xs" and "ids_unique key xs" and "key x \<noteq> key r"
      by (auto simp: ids_unique_def)
    with Cons.IH show ?thesis by simp
  qed
qed

lemma ids_unique_as_map:
  "ids_unique key xs \<Longrightarrow> r \<in> set xs \<Longrightarrow> as_map key xs (key r) = Some r"
  by (simp add: as_map_def ids_unique_def map_of_keyed_distinct)

lemma as_map_SomeD: "as_map key xs i = Some r \<Longrightarrow> r \<in> set xs \<and> key r = i"
  unfolding as_map_def by (rule map_of_keyed_SomeD)

lemma update_by_id_length [simp]: "length (update_by_id key i f xs) = length xs"
  by (simp add: update_by_id_def)

lemma delete_by_id_ids_unique [crud_simps]:
  "ids_unique key xs \<Longrightarrow> ids_unique key (delete_by_id key i xs)"
  by (simp add: ids_unique_def delete_by_id_def distinct_map_filter)

lemma delete_by_id_absent [crud_simps]:
  "i \<notin> ids_of key xs \<Longrightarrow> delete_by_id key i xs = xs"
  by (induction xs) (auto simp: delete_by_id_def ids_of_def)

lemma delete_by_id_ids [simp]: "ids_of key (delete_by_id key i xs) = ids_of key xs - {i}"
  by (auto simp: ids_of_def delete_by_id_def)

lemma delete_by_id_length:
  assumes "ids_unique key xs" and "i \<in> ids_of key xs"
  shows "length (delete_by_id key i xs) = length xs - 1"
proof -
  have "distinct (map key xs)" using assms(1) by (simp add: ids_unique_def)
  then have "length (filter (\<lambda>s. key s = i) xs) \<le> 1"
    by (induction xs) (auto simp: filter_empty_conv intro: rev_image_eqI)
  moreover have "filter (\<lambda>s. key s = i) xs \<noteq> []"
    using assms(2) by (auto simp: filter_empty_conv ids_of_def)
  ultimately have "length (filter (\<lambda>s. key s = i) xs) = 1"
    by (cases "filter (\<lambda>s. key s = i) xs") auto
  moreover have "length (filter (\<lambda>s. key s \<noteq> i) xs) + length (filter (\<lambda>s. key s = i) xs) = length xs"
    using sum_length_filter_compl [of "\<lambda>s. key s = i" xs] by simp
  ultimately show ?thesis by (simp add: delete_by_id_def)
qed

lemma append_ids_unique [crud_simps]:
  "ids_unique key (xs @ [r]) \<longleftrightarrow> ids_unique key xs \<and> key r \<notin> ids_of key xs"
  by (auto simp: ids_unique_def ids_of_def)

lemma cons_ids_unique [crud_simps]:
  "ids_unique key (r # xs) \<longleftrightarrow> ids_unique key xs \<and> key r \<notin> ids_of key xs"
  by (auto simp: ids_unique_def ids_of_def)

lemma js_sort_ids_unique [crud_simps]:
  "consistent_with cmp k \<Longrightarrow> ids_unique key (js_sort cmp xs) = ids_unique key xs"
  by (simp add: ids_unique_def js_sort_distinct_map)

lemma js_sort_ids_of [crud_simps]:
  "consistent_with cmp k \<Longrightarrow> ids_of key (js_sort cmp xs) = ids_of key xs"
  by (simp add: ids_of_def)

subsection \<open>Refinement of the abstract manager\<close>

lemma as_map_None_iff: "as_map key xs i = None \<longleftrightarrow> i \<notin> ids_of key xs"
  by (auto simp: as_map_def ids_of_def map_of_keyed_None)

lemma as_map_absent: "i \<notin> ids_of key xs \<Longrightarrow> as_map key xs i = None"
  by (simp add: as_map_None_iff)

lemma as_map_present: "i \<in> ids_of key xs \<Longrightarrow> \<exists>r. as_map key xs i = Some r"
  by (cases "as_map key xs i") (simp_all add: as_map_None_iff)

lemma as_map_delete [crud_simps]:
  "as_map key (delete_by_id key i xs) = (as_map key xs)(i := None)"
  by (induction xs) (auto simp: as_map_def delete_by_id_def)

lemma as_map_cons [crud_simps]:
  "as_map key (r # xs) = (as_map key xs)(key r \<mapsto> r)"
  by (simp add: as_map_def)

lemma as_map_append_fresh [crud_simps]:
  "key r \<notin> ids_of key xs \<Longrightarrow> as_map key (xs @ [r]) = (as_map key xs)(key r \<mapsto> r)"
proof -
  assume fresh: "key r \<notin> ids_of key xs"
  have "map_of (map (\<lambda>s. (key s, s)) xs) (key r) = None"
    using fresh by (simp add: map_of_keyed_None ids_of_def)
  then show ?thesis
    by (auto simp: as_map_def map_add_def fun_eq_iff split: option.splits)
qed

lemma as_map_update:
  assumes "ids_unique key xs" and "\<And>s. key (f s) = key s" and "as_map key xs i = Some r"
  shows "as_map key (update_by_id key i f xs) = (as_map key xs)(i \<mapsto> f r)"
  using assms
proof (induction xs)
  case Nil
  then show ?case by (simp add: as_map_def)
next
  case (Cons x xs)
  show ?case
  proof (cases "key x = i")
    case True
    with Cons.prems have "x = r" by (simp add: as_map_def)
    have "i \<notin> ids_of key xs"
      using Cons.prems(1) True by (auto simp: ids_unique_def ids_of_def)
    then have "update_by_id key i f xs = xs" by (rule update_by_id_absent)
    with True \<open>x = r\<close> Cons.prems(2) show ?thesis
      by (simp add: update_by_id_Cons as_map_def fun_eq_iff)
  next
    case False
    with Cons.prems have "ids_unique key xs" and "as_map key xs i = Some r"
      by (simp_all add: ids_unique_def as_map_def)
    with Cons.IH Cons.prems(2) have "as_map key (update_by_id key i f xs) = (as_map key xs)(i \<mapsto> f r)"
      by blast
    then have "as_map key (update_by_id key i f (x # xs)) = ((as_map key xs)(i \<mapsto> f r))(key x \<mapsto> x)"
      using False by (simp add: update_by_id_Cons as_map_def)
    also have "\<dots> = ((as_map key xs)(key x \<mapsto> x))(i \<mapsto> f r)"
      using False by (auto simp: fun_eq_iff)
    finally show ?thesis by (simp only: as_map_cons)
  qed
qed

lemma as_map_js_sort [crud_simps]:
  assumes "consistent_with cmp k" and "ids_unique key xs"
  shows "as_map key (js_sort cmp xs) = as_map key xs"
  unfolding as_map_def
  by (rule map_of_keyed_perm)
     (use assms in \<open>simp_all add: ids_unique_def js_sort_distinct_map\<close>)

text \<open>
  Edit, delete and create on the list implement the abstract operations whenever
  the identifier is known (edit, delete) or fresh (create).
\<close>

lemma update_refines:
  assumes "ids_unique key xs" and "\<And>s. key (f s) = key s" and "i \<in> ids_of key xs"
  shows "spec_update i f (as_map key xs) = Inr (as_map key (update_by_id key i f xs))"
proof -
  obtain r where r: "as_map key xs i = Some r"
    using assms(3) as_map_present by blast
  with assms(1,2) show ?thesis by (simp add: spec_update_def as_map_update)
qed

lemma delete_refines:
  "i \<in> ids_of key xs \<Longrightarrow> spec_delete i (as_map key xs) = Inr (as_map key (delete_by_id key i xs))"
  by (auto simp: spec_delete_def as_map_delete dest: as_map_present)

lemma create_refines:
  "key r \<notin> ids_of key xs \<Longrightarrow> spec_create (key r) r (as_map key xs) = Some (as_map key (xs @ [r]))"
  by (simp add: spec_create_def as_map_append_fresh as_map_absent domIff)

text \<open>
  Where the identifier is unknown the abstract manager fails with \<open>NotFound\<close> but
  the list operations change nothing and report nothing.
\<close>

lemma unknown_id_silent:
  assumes "i \<notin> ids_of key xs"
  shows "spec_update i f (as_map key xs) = Inl (NotFound i)"
    and "spec_delete i (as_map key xs) = Inl (NotFound i)"
    and "update_by_id key i f xs = xs" and "delete_by_id key i xs = xs"
  using assms by (simp_all add: spec_update_def spec_delete_def as_map_absent crud_simps)

lemma handle_submit_invalid:
  "validate v \<noteq> [] \<Longrightarrow> handle_submit validate on_valid v st = (st, Inl (validate v))"
  by (simp add: handle_submit_def)

lemma handle_submit_valid:
  "validate v = [] \<Longrightarrow> handle_submit validate on_valid v st = (fst (on_valid v st), Inr (snd (on_valid v st)))"
  by (simp add: handle_submit_def split: prod.splits)

subsection \<open>Invariants of the page step\<close>

lemma crud_run_Nil [simp]: "crud_run submit del adm [] st = st"
  by (simp add: crud_run_def)

lemma crud_run_Cons [simp]:
  "crud_run submit del adm (e # es) st = crud_run submit del adm es (crud_step submit del adm e st)"
  by (simp add: crud_run_def)

text \<open>
  A property of every record that the page's submit and delete handlers keep holds
  of every record after any sequence of events.
\<close>

lemma crud_step_items:
  assumes "\<And>now v st. Q (items st) \<Longrightarrow> Q (items (fst (submit now v st)))"
    and "\<And>st. Q (items st) \<Longrightarrow> Q (items (fst (del st)))"
    and "Q (items st)"
  shows "Q (items (crud_step submit del adm e st))"
  using assms
  by (cases e) (simp_all add: open_add_modal_def open_edit_modal_def request_delete_def
      cancel_delete_def modal_open_change_def)

lemma crud_step_list_all:
  assumes "\<And>now v st. list_all P (items st) \<Longrightarrow> list_all P (items (fst (submit now v st)))"
    and "\<And>st. list_all P (items st) \<Longrightarrow> list_all P (items (fst (del st)))"
    and "list_all P (items st)"
  shows "list_all P (items (crud_step submit del adm e st))"
  using assms
  by (cases e) (simp_all add: open_add_modal_def open_edit_modal_def request_delete_def
      cancel_delete_def modal_open_change_def)

lemma crud_run_list_all:
  assumes "\<And>now v st. list_all P (items st) \<Longrightarrow> list_all P (items (fst (submit now v st)))"
    and "\<And>st. list_all P (items st) \<Longrightarrow> list_all P (items (fst (del st)))"
    and "list_all P (items st)"
  shows "list_all P (items (crud_run submit del adm es st))"
  using assms(3)
proof (induction es arbitrary: st)
  case Nil
  then show ?case by simp
next
  case (Cons e es)
  have "list_all P (items (crud_step submit del adm e st))"
    using assms(1,2) Cons.prems by (rule crud_step_list_all)
  then show ?case using Cons.IH by simp
qed

lemma form_submit_list_all:
  assumes "\<And>s. validate v = [] \<Longrightarrow> P (apply v s)" and "validate v = [] \<Longrightarrow> P (new v)"
    and "list_all P (items st)"
  shows "list_all P (items (fst (handle_submit validate (form_submit key apply new t1 t2) v st)))"
proof (cases "validate v = []")
  case True
  then show ?thesis
    using assms by (simp add: handle_submit_valid form_submit_def update_by_id_list_all split: option.splits)
next
  case False
  then show ?thesis using assms(3) by (simp add: handle_submit_invalid)
qed

lemma ids_unique_same_id:
  "ids_unique key xs \<Longrightarrow> r \<in> set xs \<Longrightarrow> p \<in> set xs \<Longrightarrow> key r = key p \<Longrightarrow> r = p"
  by (metis ids_unique_as_map option.inject)

lemma find_unique_id:
  "ids_unique key xs \<Longrightarrow> r \<in> set xs \<Longrightarrow> find (\<lambda>x. key x = key r) xs = Some r"
  by (induction xs) (auto simp: ids_unique_def)

lemma update_by_id_member:
  assumes "ids_unique key xs" and "r \<in> set xs" and "\<And>s. key (f s) = key s"
  shows "set (update_by_id key (key r) f xs) = insert (f r) (set xs - {r})"
  using assms
proof (induction xs)
  case Nil
  then show ?case by simp
next
  case (Cons x xs)
  show ?case
  proof (cases "x = r")
    case True
    with Cons.prems have "\<forall>s\<in>set xs. key s \<noteq> key r" "r \<notin> set xs"
      by (auto simp: ids_unique_def image_iff)
    then have "update_by_id key (key r) f xs = xs" by (auto intro: update_by_id_fixed)
    with True \<open>r \<notin> set xs\<close> show ?thesis by (auto simp: update_by_id_Cons)
  next
    case False
    with Cons.prems have "r \<in> set xs" "ids_unique key xs" "key x \<noteq> key r"
      by (auto simp: ids_unique_def)
    with Cons.IH Cons.prems(3) False show ?thesis by (auto simp: update_by_id_Cons)
  qed
qed

text \<open>
  Saving the edit dialog with a form the handler maps back to the edited record
  leaves the collection as it was (and closes the dialog).
\<close>

lemma form_submit_edit_unchanged:
  assumes "editing st = Some r" and "r \<in> set (items st)" and "ids_unique key (items st)"
    and "apply v r = r" and "validate v = []"
  shows "items (fst (handle_submit validate (form_submit key apply new t1 t2) v st)) = items st"
proof -
  have "update_by_id key (key r) (apply v) (items st) = items st"
    by (rule update_by_id_fixed) (use assms(2-4) ids_unique_same_id in metis)
  then show ?thesis using assms(1,5) by (simp add: handle_submit_valid form_submit_def)
qed

lemma delete_confirm_list_all:
  "list_all P (items st) \<Longrightarrow> list_all P (items (fst (delete_confirm key title st)))"
  by (simp add: delete_confirm_def delete_by_id_list_all split: option.splits)

text \<open>
  A user who is not an administrator sees no Add, Edit or Delete button, so from a
  page with both dialogs closed no event changes anything.
\<close>

lemma crud_step_non_admin_idle:
  assumes "\<not> show_modal st" and "editing st = None" and "to_delete st = None"
    and "\<And>s. to_delete s = None \<Longrightarrow> fst (del s) = s"
  shows "crud_step submit del False e st = st"
proof -
  have closed: "st\<lparr>show_modal := False, editing := None\<rparr> = st" using assms(1,2) by (cases st) simp
  have no_del: "st\<lparr>to_delete := None\<rparr> = st" using assms(3) by (cases st) simp
  show ?thesis
    using assms(1,3,4) closed no_del
    by (cases e) (simp_all add: cancel_delete_def modal_open_change_def)
qed

lemma crud_run_non_admin_idle:
  assumes "\<not> show_modal st" and "editing st = None" and "to_delete st = None"
    and "\<And>s. to_delete s = None \<Longrightarrow> fst (del s) = s"
  shows "crud_run submit del False es st = st"
  by (induction es) (simp_all add: crud_step_non_admin_idle [OF assms])

lemma delete_confirm_idle: "to_delete s = None \<Longrightarrow> fst (delete_confirm key title s) = s"
  by (simp add: delete_confirm_def)

text \<open>A card whose every row renders is shown, with one row per record.\<close>

lemma render_rows_Some:
  assumes "\<forall>x\<in>set xs. row x \<noteq> None"
  shows "\<exists>t. render_rows row msg xs = Some t
           \<and> (case t of Table_Rows rs \<Rightarrow> length rs = length xs | Empty_Table _ \<Rightarrow> xs = [])"
proof (cases "xs = []")
  case True
  then show ?thesis by (simp add: render_rows_def)
next
  case False
  then show ?thesis using those_map_Some [OF assms] by (auto simp: render_rows_def)
qed

end
