(* ===== verification/Dates.thy ===== *)
theory Dates
  imports Js_Runtime
begin

text \<open>
  Calendar dates as the forms produce them: \<open><input type="date">\<close> yields the
  empty string or \<open>YYYY-MM-DD\<close>. date-fns' \<open>isValid(parseISO(s))\<close> on such a string
  holds exactly when the month is 1 to 12 and the day exists in that month of the
  proleptic Gregorian calendar; \<open>parseISO\<close> also reads other ISO 8601 shapes (week
  dates, times, offsets), which no form of the application produces and which this
  model rejects. The day number orders dates as \<open>getTime()\<close> does at a fixed hour.
  The last section gives the browser's zone as a fixed offset, for the date-fns
  calls that read or build local calendar fields.
\<close>

definition leap_year :: "nat \<Rightarrow> bool" where
  "leap_year y \<longleftrightarrow> (4 dvd y \<and> \<not> 100 dvd y) \<or> 400 dvd y"

definition days_in_month :: "nat \<Rightarrow> nat \<Rightarrow> nat" where
  "days_in_month y m =
     (if m = 2 then (if leap_year y then 29 else 28)
      else if m \<in> {4, 6, 9, 11} then 30 else 31)"

record date =
  year :: nat
  month :: nat
  day :: nat

definition valid_date :: "date \<Rightarrow> bool" where
  "valid_date d \<longleftrightarrow> 1 \<le> month d \<and> month d \<le> 12 \<and> 1 \<le> day d \<and> day d \<le> days_in_month (year d) (month d)"

definition parse_iso_date :: "string \<Rightarrow> date option" where
  "parse_iso_date s =
     (if length s = 10 \<and> s ! 4 = CHR ''-'' \<and> s ! 7 = CHR ''-''
         \<and> list_all is_digit (take 4 s @ take 2 (drop 5 s) @ drop 8 s)
      then (let d = \<lparr>year = nat_of_digits (take 4 s), month = nat_of_digits (take 2 (drop 5 s)),
                     day = nat_of_digits (drop 8 s)\<rparr>
            in if valid_date d then Some d else None)
      else None)"

definition is_valid_iso_date :: "string \<Rightarrow> bool" where
  "is_valid_iso_date s \<longleftrightarrow> parse_iso_date s \<noteq> None"

text \<open>Days before a date, counted from 1 January of year 0.\<close>

definition days_before_year :: "nat \<Rightarrow> nat" where
  "days_before_year y = 365 * y + (y + 3) div 4 - (y + 99) div 100 + (y + 399) div 400"

definition day_number :: "date \<Rightarrow> nat" where
  "day_number d = days_before_year (year d) + sum_list (map (days_in_month (year d)) [1..<month d]) + day d - 1"

text \<open>
  \<open>new Date(s).getTime()\<close> on a date-only ISO string: milliseconds since
  1970-01-01T00:00Z (such strings are read as UTC), \<open>NaN\<close> (\<open>None\<close>) for a
  malformed or impossible date.
\<close>

definition js_date_time :: "string \<Rightarrow> js_number option" where
  "js_date_time s = map_option (\<lambda>d. (real (day_number d) - 719528) * 86400000) (parse_iso_date s)"

lemma parse_iso_date_valid: "parse_iso_date s = Some d \<Longrightarrow> valid_date d"
  by (auto simp: parse_iso_date_def Let_def split: if_splits)

lemma is_valid_iso_date_empty [simp]: "\<not> is_valid_iso_date []"
  by (simp add: is_valid_iso_date_def parse_iso_date_def)

text \<open>The facts that evaluate a concrete date string.\<close>

lemmas date_eval = js_date_time_def parse_iso_date_def valid_date_def days_in_month_def
  leap_year_def day_number_def days_before_year_def nat_of_digits_def digit_val_def
  is_digit_def upt_conv_Cons


subsection \<open>Printing a date\<close>

text \<open>
  date-fns' \<open>format(d, 'yyyy-MM-dd')\<close>: the year on four digits, month and day on
  two, zero-padded.
\<close>

fun digits_pad :: "nat \<Rightarrow> nat \<Rightarrow> string" where
  "digits_pad 0 k = []"
| "digits_pad (Suc n) k = digits_pad n (k div 10) @ [char_of (48 + k mod 10)]"

definition format_iso_date :: "date \<Rightarrow> string" where
  "format_iso_date d = digits_pad 4 (year d) @ ''-'' @ digits_pad 2 (month d) @ ''-'' @ digits_pad 2 (day d)"

lemma nat_of_digits_snoc: "nat_of_digits (xs @ [c]) = 10 * nat_of_digits xs + digit_val c"
  by (simp add: nat_of_digits_def)

lemma digit_val_pad: "digit_val (char_of (48 + (k::nat) mod 10)) = k mod 10"
proof -
  have "48 + k mod 10 < 256" by simp
  then show ?thesis by (simp add: digit_val_def of_char_of)
qed

lemma is_digit_pad: "is_digit (char_of (48 + (k::nat) mod 10))"
proof -
  have "k mod 10 < 10" by simp
  then show ?thesis by (simp add: is_digit_def of_char_of)
qed

lemma digits_pad_length [simp]: "length (digits_pad n k) = n"
  by (induction n arbitrary: k) simp_all

lemma digits_pad_digits: "list_all is_digit (digits_pad n k)"
  by (induction n arbitrary: k) (simp_all add: is_digit_pad)

lemma nat_of_digits_pad: "nat_of_digits (digits_pad n k) = k mod 10 ^ n"
proof (induction n arbitrary: k)
  case 0
  then show ?case by (simp add: nat_of_digits_def)
next
  case (Suc n)
  have "k mod (10 * 10 ^ n) = 10 * (k div 10 mod 10 ^ n) + k mod 10" by (rule mod_mult2_eq)
  then show ?case by (simp add: nat_of_digits_snoc Suc digit_val_pad)
qed

lemma char_of_digit_val: "is_digit c \<Longrightarrow> char_of (48 + digit_val c) = c"
  by (simp add: is_digit_def digit_val_def)

lemma digit_val_less: "is_digit c \<Longrightarrow> digit_val c < 10"
  unfolding is_digit_def digit_val_def by linarith

lemma digits_pad_nat_of_digits:
  "list_all is_digit s \<Longrightarrow> digits_pad (length s) (nat_of_digits s) = s"
proof (induction s rule: rev_induct)
  case Nil
  then show ?case by simp
next
  case (snoc c s)
  then have c: "is_digit c" and IH: "digits_pad (length s) (nat_of_digits s) = s" by simp_all
  have "(10 * nat_of_digits s + digit_val c) div 10 = nat_of_digits s"
    and "(10 * nat_of_digits s + digit_val c) mod 10 = digit_val c"
    using digit_val_less [OF c] by simp_all
  then show ?case by (simp add: nat_of_digits_snoc IH char_of_digit_val [OF c])
qed

lemma iso_date_split:
  assumes "length s = 10"
  shows "s = take 4 s @ [s ! 4] @ take 2 (drop 5 s) @ [s ! 7] @ drop 8 s"
proof -
  have a: "s = take 4 s @ s ! 4 # drop 5 s" using assms id_take_nth_drop [of 4 s] by simp
  have "drop 5 s = take 2 (drop 5 s) @ drop 5 s ! 2 # drop 3 (drop 5 s)"
    using assms id_take_nth_drop [of 2 "drop 5 s"] by simp
  then have "drop 5 s = take 2 (drop 5 s) @ s ! 7 # drop 8 s" using assms by simp
  with a show ?thesis by (metis append_Cons append_Nil)
qed

lemma days_in_month_le: "days_in_month y m \<le> 31"
  by (simp add: days_in_month_def)

text \<open>Printing a parsed date gives back the string, and parsing a printed valid date gives the date.\<close>

theorem format_parse_iso_date:
  assumes "parse_iso_date s = Some d"
  shows "format_iso_date d = s"
proof -
  have s: "length s = 10" "s ! 4 = CHR ''-''" "s ! 7 = CHR ''-''"
    and dg: "list_all is_digit (take 4 s)" "list_all is_digit (take 2 (drop 5 s))" "list_all is_digit (drop 8 s)"
    and d: "d = \<lparr>year = nat_of_digits (take 4 s), month = nat_of_digits (take 2 (drop 5 s)),
                 day = nat_of_digits (drop 8 s)\<rparr>"
    using assms by (auto simp: parse_iso_date_def Let_def split: if_splits)
  have "digits_pad 4 (nat_of_digits (take 4 s)) = take 4 s"
    using digits_pad_nat_of_digits [OF dg(1)] s(1) by simp
  moreover have "digits_pad 2 (nat_of_digits (take 2 (drop 5 s))) = take 2 (drop 5 s)"
    using digits_pad_nat_of_digits [OF dg(2)] s(1) by simp
  moreover have "digits_pad 2 (nat_of_digits (drop 8 s)) = drop 8 s"
    using digits_pad_nat_of_digits [OF dg(3)] s(1) by simp
  ultimately show ?thesis
    using iso_date_split [OF s(1)] s(2,3) d by (simp add: format_iso_date_def)
qed

theorem parse_format_iso_date:
  assumes "valid_date d" and "year d < 10000"
  shows "parse_iso_date (format_iso_date d) = Some d"
proof (cases d)
  case (fields y m dd)
  have m: "m < 100" and dd: "dd < 100"
    using assms(1) days_in_month_le [of y m] fields by (auto simp: valid_date_def)
  have "nat_of_digits (digits_pad 4 y) = y" and "nat_of_digits (digits_pad 2 m) = m"
    and "nat_of_digits (digits_pad 2 dd) = dd"
    using assms(2) m dd fields by (simp_all add: nat_of_digits_pad)
  then show ?thesis
    using assms(1) fields digits_pad_digits [of 4 y] digits_pad_digits [of 2 m] digits_pad_digits [of 2 dd]
    by (simp add: parse_iso_date_def format_iso_date_def nth_append Let_def)
qed

subsection \<open>The civil date of a day number\<close>

text \<open>
  The inverse of \<open>day_number\<close>: the year is found by a search upward from a lower
  bound, the month by walking the month lengths; \<open>date_of_day_number_inverse\<close>
  shows the result is a valid date with the given day number.
\<close>

lemma div_add_self_step:
  assumes k: "0 < (k::nat)"
  shows "(y + k) div k = (y + (k - 1)) div k + (if k dvd y then 1 else 0)"
proof -
  define q r where "q = y div k" and "r = y mod k"
  have y: "y = r + q * k" and r: "r < k" using k by (simp_all add: q_def r_def)
  have "(y + k) div k = Suc q" using y r k by simp
  moreover have "(y + (k - 1)) div k = q + (r + (k - 1)) div k"
  proof -
    have "y + (k - 1) = (r + (k - 1)) + q * k" using y by simp
    then show ?thesis using k by (simp only: div_mult_self1)
  qed
  moreover have "(r + (k - 1)) div k = (if r = 0 then 0 else 1)"
    using r k by (auto simp: div_if)
  moreover have "k dvd y \<longleftrightarrow> r = 0" by (simp add: r_def dvd_eq_mod_eq_0)
  ultimately show ?thesis by auto
qed

lemma century_le: "(y + 99) div 100 \<le> 365 * (y::nat) + (y + 3) div 4"
proof (cases "y = 0")
  case False
  then have "y + 99 \<le> 100 * y" by simp
  then have "(y + 99) div 100 \<le> (100 * y) div 100" by (rule div_le_mono)
  then show ?thesis by simp
qed simp

lemma leap_increments:
  "(if leap_year y then 366 else 365) =
     365 + (if 4 dvd y then 1 else 0) - (if 100 dvd y then 1 else (0::nat)) + (if 400 dvd y then 1 else 0)
   \<and> (if 100 dvd y then 1 else 0) \<le> (if 4 dvd y then 1 else (0::nat))"
proof -
  have d4: "100 dvd y \<Longrightarrow> 4 dvd y" and d100: "400 dvd y \<Longrightarrow> 100 dvd y"
    by (auto intro: dvd_trans [of 4 100] dvd_trans [of 100 400])
  then show ?thesis by (auto simp: leap_year_def)
qed

lemma days_before_year_Suc:
  "days_before_year (Suc y) = days_before_year y + (if leap_year y then 366 else 365)"
proof -
  define A B C where "A = (y + 3) div 4" and "B = (y + 99) div 100" and "C = (y + 399) div 400"
  define a b c where "a = (if 4 dvd y then 1 else 0::nat)" and "b = (if 100 dvd y then 1 else 0::nat)"
    and "c = (if 400 dvd y then 1 else 0::nat)"
  have s: "days_before_year (Suc y) = 365 * Suc y + (A + a) - (B + b) + (C + c)"
    using div_add_self_step [of 4 y] div_add_self_step [of 100 y] div_add_self_step [of 400 y]
    by (simp add: days_before_year_def A_def B_def C_def a_def b_def c_def add.commute)
  have s0: "days_before_year y = 365 * y + A - B + C" by (simp add: days_before_year_def A_def B_def C_def)
  have le: "B \<le> 365 * y + A" using century_le [of y] by (simp add: A_def B_def)
  have e: "(if leap_year y then 366 else 365) = 365 + a - b + c" and ba: "b \<le> a"
    using leap_increments [of y] by (simp_all add: a_def b_def c_def)
  show ?thesis unfolding s s0 e using le ba by arith
qed

lemma days_before_year_le: "days_before_year y \<le> 366 * y"
  by (induction y) (simp_all add: days_before_year_Suc, simp add: days_before_year_def)

lemma days_before_year_less_Suc: "days_before_year y < days_before_year (Suc y)"
  by (simp add: days_before_year_Suc)

function find_year :: "nat \<Rightarrow> nat \<Rightarrow> nat" where
  "find_year y n = (if n < days_before_year (Suc y) then y else find_year (Suc y) n)"
  by pat_completeness auto
termination
proof (relation "measure (\<lambda>(y, n). Suc n - days_before_year y)")
  fix y n :: nat
  assume "\<not> n < days_before_year (Suc y)"
  with days_before_year_less_Suc [of y]
  show "((Suc y, n), y, n) \<in> measure (\<lambda>(y, n). Suc n - days_before_year y)" by simp
qed simp

declare find_year.simps [simp del]

lemma find_year_bounds:
  "days_before_year y \<le> n \<Longrightarrow>
   days_before_year (find_year y n) \<le> n \<and> n < days_before_year (Suc (find_year y n))"
proof (induction y n rule: find_year.induct)
  case (1 y n)
  show ?case
  proof (cases "n < days_before_year (Suc y)")
    case True
    then show ?thesis using "1.prems" by (simp add: find_year.simps [of y n])
  next
    case False
    then show ?thesis using "1.IH" by (simp add: find_year.simps [of y n])
  qed
qed

function find_month :: "nat \<Rightarrow> nat \<Rightarrow> nat \<Rightarrow> nat \<times> nat" where
  "find_month y m d =
     (if 12 \<le> m \<or> d < days_in_month y m then (m, d) else find_month y (Suc m) (d - days_in_month y m))"
  by pat_completeness auto
termination
  by (relation "measure (\<lambda>(y, m, d). 12 - m)") auto

declare find_month.simps [simp del]

lemma find_month_spec:
  "1 \<le> m \<Longrightarrow> m \<le> 12 \<Longrightarrow> d < sum_list (map (days_in_month y) [m..<13]) \<Longrightarrow>
   find_month y m d = (m', d') \<Longrightarrow>
   m \<le> m' \<and> m' \<le> 12 \<and> d' < days_in_month y m' \<and> sum_list (map (days_in_month y) [m..<m']) + d' = d"
proof (induction y m d rule: find_month.induct)
  case (1 y m d)
  show ?case
  proof (cases "12 \<le> m \<or> d < days_in_month y m")
    case True
    then have "m' = m" "d' = d" using "1.prems"(4) by (simp_all add: find_month.simps [of y m d])
    moreover have "d < days_in_month y m"
      using True "1.prems"(2,3) by (auto simp: upt_rec)
    ultimately show ?thesis using "1.prems"(2) by simp
  next
    case False
    have split: "[m..<13] = m # [Suc m..<13]" using False by (simp add: upt_rec)
    have rest: "d - days_in_month y m < sum_list (map (days_in_month y) [Suc m..<13])"
      using "1.prems"(3) False split by simp arith
    have "Suc m \<le> m' \<and> m' \<le> 12 \<and> d' < days_in_month y m'
          \<and> sum_list (map (days_in_month y) [Suc m..<m']) + d' = d - days_in_month y m"
      using "1.IH" [OF False _ _ rest] "1.prems"(1,2,4) False by (simp add: find_month.simps [of y m d])
    moreover have "[m..<m'] = m # [Suc m..<m']" if "Suc m \<le> m'" using that by (simp add: upt_rec)
    ultimately show ?thesis using False by auto
  qed
qed

lemma year_days: "sum_list (map (days_in_month y) [1..<13]) = (if leap_year y then 366 else 365)"
  by (simp add: days_in_month_def upt_rec)

text \<open>The civil date of a day counted from 1 January of year 0.\<close>

definition date_of_day_number :: "nat \<Rightarrow> date" where
  "date_of_day_number n =
     (let y = find_year (n div 366) n; md = find_month y 1 (n - days_before_year y)
      in \<lparr>year = y, month = fst md, day = Suc (snd md)\<rparr>)"

lemma date_of_day_number_inverse:
  "valid_date (date_of_day_number n) \<and> day_number (date_of_day_number n) = n"
proof -
  define y where "y = find_year (n div 366) n"
  have "days_before_year (n div 366) \<le> n"
    using days_before_year_le [of "n div 366"] div_times_less_eq_dividend [of n 366] by (simp add: mult.commute)
  then have y: "days_before_year y \<le> n" "n < days_before_year (Suc y)"
    using find_year_bounds [of "n div 366" n] by (simp_all add: y_def)
  define d where "d = n - days_before_year y"
  have d: "d < sum_list (map (days_in_month y) [1..<13])"
    using y year_days [of y] days_before_year_Suc [of y] by (simp add: d_def)
  obtain m dd where md: "find_month y 1 d = (m, dd)" by fastforce
  have m: "1 \<le> m" "m \<le> 12" "dd < days_in_month y m" "sum_list (map (days_in_month y) [1..<m]) + dd = d"
    using find_month_spec [OF _ _ d md] by simp_all
  have "date_of_day_number n = \<lparr>year = y, month = m, day = Suc dd\<rparr>"
    using md by (simp add: date_of_day_number_def Let_def y_def [symmetric] d_def [symmetric])
  then show ?thesis using m y by (simp add: valid_date_def day_number_def d_def)
qed

subsection \<open>Dates in the browser's time zone\<close>

text \<open>
  A \<open>Date\<close> is a time value in ms since 1970-01-01T00:00Z; date-fns reads and builds
  calendar fields in the browser's zone, modelled as a fixed offset \<open>off\<close> in ms
  (local time minus UTC, \<open>-18000000\<close> for UTC-5). \<open>date_of_days\<close> is the civil date of
  a day counted from 1970-01-01; \<open>format_local\<close> is \<open>format(d, 'yyyy-MM-dd')\<close> and
  \<open>parse_iso_local\<close> is \<open>parseISO\<close> on a date-only string, which gives local midnight.
\<close>

definition date_of_days :: "int \<Rightarrow> date" where
  "date_of_days z = date_of_day_number (nat (z + 719528))"

definition format_local :: "int \<Rightarrow> js_number \<Rightarrow> string" where
  "format_local off t = format_iso_date (date_of_days \<lfloor>(t + real_of_int off) / 86400000\<rfloor>)"

definition parse_iso_local :: "int \<Rightarrow> string \<Rightarrow> js_number option" where
  "parse_iso_local off s = map_option (\<lambda>x. x - real_of_int off) (js_date_time s)"

lemma days_before_year_strict_mono: "y < y' \<Longrightarrow> days_before_year y < days_before_year y'"
  using lift_Suc_mono_less [of days_before_year, OF days_before_year_less_Suc] by blast

lemma days_before_year_mono: "y \<le> y' \<Longrightarrow> days_before_year y \<le> days_before_year y'"
  using days_before_year_strict_mono [of y y'] by (cases "y = y'") simp_all

lemma js_date_time_format:
  assumes "valid_date d" and "year d < 10000"
  shows "js_date_time (format_iso_date d) = Some ((real (day_number d) - 719528) * 86400000)"
  using parse_format_iso_date [OF assms] by (simp add: js_date_time_def)

lemma date_of_day_number_year:
  assumes "n < days_before_year 10000"
  shows "year (date_of_day_number n) < 10000"
proof (rule ccontr)
  assume "\<not> year (date_of_day_number n) < 10000"
  then have "days_before_year 10000 \<le> days_before_year (year (date_of_day_number n))"
    by (simp add: days_before_year_mono)
  moreover have "days_before_year (year (date_of_day_number n)) \<le> n"
    using date_of_day_number_inverse [of n] by (simp add: day_number_def valid_date_def) linarith
  ultimately show False using assms by simp
qed

text \<open>
  Printing a time in the zone and reading the string back with \<open>parseISO\<close> gives the
  local midnight that starts the time's day, for every date of years 0 to 9999.
\<close>

lemma parse_format_local:
  assumes "0 \<le> \<lfloor>(t + real_of_int off) / 86400000\<rfloor> + 719528"
    and "\<lfloor>(t + real_of_int off) / 86400000\<rfloor> + 719528 < int (days_before_year 10000)"
  shows "parse_iso_local off (format_local off t)
         = Some (real_of_int \<lfloor>(t + real_of_int off) / 86400000\<rfloor> * 86400000 - real_of_int off)"
proof -
  define z where "z = \<lfloor>(t + real_of_int off) / 86400000\<rfloor>"
  define n where "n = nat (z + 719528)"
  have n: "int n = z + 719528" "n < days_before_year 10000" using assms by (simp_all add: z_def n_def)
  have inv: "valid_date (date_of_day_number n)" "day_number (date_of_day_number n) = n"
    using date_of_day_number_inverse [of n] by simp_all
  have "js_date_time (format_iso_date (date_of_day_number n)) = Some ((real n - 719528) * 86400000)"
    using js_date_time_format [OF inv(1) date_of_day_number_year [OF n(2)]] inv(2) by simp
  moreover have "real n - 719528 = real_of_int z"
    using arg_cong [OF n(1), of real_of_int] by simp
  ultimately show ?thesis
    by (simp add: parse_iso_local_def format_local_def date_of_days_def z_def [symmetric] n_def [symmetric])
qed

lemma local_midnight_bounds:
  "t - 86400000 < real_of_int \<lfloor>(t + real_of_int off) / 86400000\<rfloor> * 86400000 - real_of_int off
   \<and> real_of_int \<lfloor>(t + real_of_int off) / 86400000\<rfloor> * 86400000 - real_of_int off \<le> t"
proof -
  define x where "x = (t + real_of_int off) / 86400000"
  have "real_of_int \<lfloor>x\<rfloor> \<le> x" "x < real_of_int \<lfloor>x\<rfloor> + 1" by linarith+
  then show ?thesis by (simp add: x_def field_simps)
qed

text \<open>\<open>new Date(t).toISOString().split('T')[0]\<close>: the UTC calendar date.\<close>

definition iso_date_part :: "js_number \<Rightarrow> string" where
  "iso_date_part t = format_local 0 t"

lemma digits_pad_numeral:
  "digits_pad (numeral n) k = digits_pad (pred_numeral n) (k div 10) @ [char_of (48 + k mod 10)]"
  by (subst numeral_eq_Suc) (rule digits_pad.simps(2))

text \<open>The facts that print a concrete date.\<close>

lemmas format_eval = format_iso_date_def digits_pad_numeral char_of_def bit_0

lemma date_of_days_valid:
  assumes "0 \<le> z + 719528" and "z + 719528 < int (days_before_year 10000)"
  shows "valid_date (date_of_days z) \<and> year (date_of_days z) < 10000
         \<and> int (day_number (date_of_days z)) = z + 719528"
proof -
  have "nat (z + 719528) < days_before_year 10000" using assms by simp
  then show ?thesis
    using date_of_day_number_inverse [of "nat (z + 719528)"] date_of_day_number_year assms
    by (simp add: date_of_days_def)
qed

lemma format_date_of_days_inj:
  assumes "0 \<le> z1 + 719528" and "z1 + 719528 < int (days_before_year 10000)"
    and "0 \<le> z2 + 719528" and "z2 + 719528 < int (days_before_year 10000)"
  shows "format_iso_date (date_of_days z1) = format_iso_date (date_of_days z2) \<longleftrightarrow> z1 = z2"
proof
  assume eq: "format_iso_date (date_of_days z1) = format_iso_date (date_of_days z2)"
  have p1: "parse_iso_date (format_iso_date (date_of_days z1)) = Some (date_of_days z1)"
    using date_of_days_valid [OF assms(1,2)] by (intro parse_format_iso_date) (simp_all only:)
  have p2: "parse_iso_date (format_iso_date (date_of_days z2)) = Some (date_of_days z2)"
    using date_of_days_valid [OF assms(3,4)] by (intro parse_format_iso_date) (simp_all only:)
  have "Some (date_of_days z1) = Some (date_of_days z2)"
    by (subst p1 [symmetric], subst p2 [symmetric]) (simp only: eq)
  then have "date_of_days z1 = date_of_days z2" by (rule option.inject [THEN iffD1])
  then have "int (day_number (date_of_days z1)) = int (day_number (date_of_days z2))" by (simp only:)
  moreover have "int (day_number (date_of_days z1)) = z1 + 719528"
    using date_of_days_valid [OF assms(1,2)] by (simp only:)
  moreover have "int (day_number (date_of_days z2)) = z2 + 719528"
    using date_of_days_valid [OF assms(3,4)] by (simp only:)
  ultimately show "z1 = z2" by linarith
qed simp

text \<open>
  The date part of \<open>toISOString\<close> and the local \<open>format(d, 'yyyy-MM-dd')\<close> agree
  exactly when the time's UTC day is its local day.
\<close>

lemma iso_date_part_local:
  assumes "0 \<le> \<lfloor>t / 86400000\<rfloor> + 719528" and "\<lfloor>t / 86400000\<rfloor> + 719528 < int (days_before_year 10000)"
    and "0 \<le> \<lfloor>(t + real_of_int off) / 86400000\<rfloor> + 719528"
    and "\<lfloor>(t + real_of_int off) / 86400000\<rfloor> + 719528 < int (days_before_year 10000)"
  shows "iso_date_part t = format_local off t \<longleftrightarrow> \<lfloor>t / 86400000\<rfloor> = \<lfloor>(t + real_of_int off) / 86400000\<rfloor>"
  using format_date_of_days_inj [OF assms] by (simp add: iso_date_part_def format_local_def)

text \<open>
  The local day of a UTC midnight: the day before it in a zone west of UTC, the
  same day in a zone east of it (offsets under a day).
\<close>

lemma floor_midnight_west:
  assumes "-86400000 \<le> off" and "off < 0"
  shows "\<lfloor>(real_of_int k * 86400000 + real_of_int off) / 86400000\<rfloor> = k - 1"
  by (rule floor_unique) (use assms in \<open>simp_all add: field_simps\<close>)

lemma floor_midnight_east:
  assumes "0 \<le> off" and "off < 86400000"
  shows "\<lfloor>(real_of_int k * 86400000 + real_of_int off) / 86400000\<rfloor> = k"
  by (rule floor_unique) (use assms in \<open>simp_all add: field_simps\<close>)

text \<open>The facts that evaluate the civil date of a concrete day number.\<close>

lemmas civil_date_eval = date_of_days_def date_of_day_number_def find_year.simps find_month.simps
  days_before_year_def days_in_month_def leap_year_def

end
