(* ===== verification/Validation.thy ===== *)
theory Validation
  imports Js_Runtime
begin

text \<open>
  The field checks the zod schemas of the pages write out by hand (the library's own
  checks, \<open>.email()\<close> and \<open>.url()\<close>, stay abstract).
  The phone pattern of the student and teacher forms,
  \<open>/^[+]?[(]?[0-9]{3}[)]?[-\s.]?[0-9]{3}[-\s.]?[0-9]{4,6}$/\<close>,
  is matched left to right: every optional item is a character that the item after
  it cannot match, so taking it whenever it is present is the only way the pattern
  can succeed, and the matcher needs no backtracking.
\<close>

text \<open>
  JavaScript's white space (\<open>\s\<close> in a pattern, what \<open>trim\<close> removes) within
  the 8-bit characters of the model: tab, line feed, vertical tab, form feed,
  carriage return, space and no-break space.
\<close>

definition is_space :: "char \<Rightarrow> bool" where
  "is_space c \<longleftrightarrow> c \<in> {CHR '' '', CHR 0x09, CHR 0x0A, CHR 0x0B, CHR 0x0C, CHR 0x0D, CHR 0xA0}"

definition js_trim :: "string \<Rightarrow> string" where
  "js_trim s = rev (dropWhile is_space (rev (dropWhile is_space s)))"

lemma all_dropWhile_iff: "(\<forall>x\<in>set (dropWhile P s). P x) \<longleftrightarrow> (\<forall>x\<in>set s. P x)"
  by (induction s) auto

lemma js_trim_Nil_iff: "js_trim s = [] \<longleftrightarrow> list_all is_space s"
  by (simp add: js_trim_def list_all_iff dropWhile_eq_Nil_conv all_dropWhile_iff)

definition opt_char :: "(char \<Rightarrow> bool) \<Rightarrow> string \<Rightarrow> string" where
  "opt_char p s = (case s of c # s' \<Rightarrow> if p c then s' else s | [] \<Rightarrow> s)"

definition take_digits :: "nat \<Rightarrow> string \<Rightarrow> string option" where
  "take_digits n s = (if n \<le> length s \<and> list_all is_digit (take n s) then Some (drop n s) else None)"

definition is_phone_sep :: "char \<Rightarrow> bool" where
  "is_phone_sep c \<longleftrightarrow> c = CHR ''-'' \<or> c = CHR ''.'' \<or> is_space c"

definition phone_regex :: "string \<Rightarrow> bool" where
  "phone_regex s =
     (let s2 = opt_char (\<lambda>c. c = CHR ''('') (opt_char (\<lambda>c. c = CHR ''+'') s) in
      case take_digits 3 s2 of
        None \<Rightarrow> False
      | Some s3 \<Rightarrow>
          (let s5 = opt_char is_phone_sep (opt_char (\<lambda>c. c = CHR '')'') s3) in
           case take_digits 3 s5 of
             None \<Rightarrow> False
           | Some s6 \<Rightarrow>
               (let s7 = opt_char is_phone_sep s6 in
                list_all is_digit s7 \<and> 4 \<le> length s7 \<and> length s7 \<le> 6)))"

lemma opt_char_length: "length (opt_char p s) \<le> length s"
  by (simp add: opt_char_def split: list.splits)

lemma take_digits_length: "take_digits n s = Some t \<Longrightarrow> length s = n + length t"
  by (auto simp: take_digits_def split: if_splits)

text \<open>Every string the pattern accepts has at least ten characters (its ten digits).\<close>

lemma phone_regex_length:
  assumes "phone_regex s"
  shows "10 \<le> length s"
proof -
  let ?s2 = "opt_char (\<lambda>c. c = CHR ''('') (opt_char (\<lambda>c. c = CHR ''+'') s)"
  obtain s3 where s3: "take_digits 3 ?s2 = Some s3"
    using assms by (auto simp: phone_regex_def Let_def split: option.splits)
  let ?s5 = "opt_char is_phone_sep (opt_char (\<lambda>c. c = CHR '')'') s3)"
  obtain s6 where s6: "take_digits 3 ?s5 = Some s6"
    using assms s3 by (auto simp: phone_regex_def Let_def split: option.splits)
  have "4 \<le> length (opt_char is_phone_sep s6)"
    using assms s3 s6 by (simp add: phone_regex_def Let_def)
  moreover have "length (opt_char is_phone_sep s6) \<le> length s6"
    by (rule opt_char_length)
  moreover have "length ?s5 = 3 + length s6" using s6 by (rule take_digits_length)
  moreover have "length ?s2 = 3 + length s3" using s3 by (rule take_digits_length)
  moreover have "length ?s5 \<le> length s3"
    using opt_char_length [of "\<lambda>c. c = CHR '')''" s3]
      opt_char_length [of is_phone_sep "opt_char (\<lambda>c. c = CHR '')'') s3"] by linarith
  moreover have "length ?s2 \<le> length s"
    using opt_char_length [of "\<lambda>c. c = CHR ''+''" s]
      opt_char_length [of "\<lambda>c. c = CHR ''(''" "opt_char (\<lambda>c. c = CHR ''+'') s"] by linarith
  ultimately show ?thesis by simp
qed

end
