(* ===== verification/Students.thy ===== *)
theory Students
  imports Entity_List Dates Validation
begin

text \<open>
  The student management page (\<open>src/src/app/(app)/students/page.tsx\<close>): the
  \<open>Student\<close> record and the zod form schema, the seeded list, and the handlers
  \<open>handleFormSubmit\<close> (add or edit), \<open>handleDeleteConfirm\<close>,
  \<open>handlePromoteStudent\<close> and the class filter. The list is kept sorted by
  \<open>name.localeCompare\<close>; the collation is the parameter \<open>coll\<close>.
\<close>

datatype gender = Male | Female | Other

record student =
  s_id :: ident
  s_name :: string
  s_className :: string
  s_section :: string
  s_admissionDate :: string
  s_rollNumber :: "string option"
  s_dateOfBirth :: "string option"
  s_gender :: "gender option"
  s_guardianName :: "string option"
  s_guardianPhone :: "string option"
  s_address :: "string option"

record student_form =
  sf_name :: string
  sf_className :: string
  sf_section :: string
  sf_admissionDate :: string
  sf_rollNumber :: string
  sf_dateOfBirth :: string
  sf_gender :: "gender option"
  sf_guardianName :: string
  sf_guardianPhone :: string
  sf_address :: string

subsection \<open>The form schema\<close>

definition student_phone_ok :: "string \<Rightarrow> bool" where
  "student_phone_ok v \<longleftrightarrow> v = [] \<or> phone_regex v \<or> 7 \<le> length v"

definition validate_student :: "student_form \<Rightarrow> field_errors" where
  "validate_student v =
     (if length (sf_name v) < 2 then [(''name'', ''Name must be at least 2 characters.'')] else []) @
     (if length (sf_className v) < 1 then [(''className'', ''Class is required.'')] else []) @
     (if length (sf_section v) < 1 then [(''section'', ''Section is required.'')]
      else if 2 < length (sf_section v)
        then [(''section'', ''Section should be a single character like A, B.'')] else []) @
     (if is_valid_iso_date (sf_admissionDate v) then []
      else [(''admissionDate'', ''Invalid admission date.'')]) @
     (if sf_dateOfBirth v = [] \<or> is_valid_iso_date (sf_dateOfBirth v) then []
      else [(''dateOfBirth'', ''Invalid date of birth.'')]) @
     (if student_phone_ok (sf_guardianPhone v) then []
      else [(''guardianPhone'', ''Invalid phone number format (min 7 digits)'')])"

subsection \<open>Seeded data and class options\<close>

definition student_cmp :: "(string \<Rightarrow> 'k::linorder) \<Rightarrow> student \<Rightarrow> student \<Rightarrow> js_number" where
  "student_cmp coll a b = locale_compare coll (s_name a) (s_name b)"

definition initial_students :: "(string \<Rightarrow> 'k::linorder) \<Rightarrow> student list" where
  "initial_students coll = js_sort (student_cmp coll) [
     \<lparr>s_id = ''S1001'', s_name = ''Alice Johnson'', s_className = ''10'', s_section = ''A'',
      s_admissionDate = ''2023-04-15'', s_rollNumber = Some ''10A01'', s_dateOfBirth = Some ''2008-03-10'',
      s_gender = Some Female, s_guardianName = Some ''John Johnson'', s_guardianPhone = Some ''555-1111'',
      s_address = Some ''123 Main St, Anytown''\<rparr>,
     \<lparr>s_id = ''S1002'', s_name = ''Bob Williams'', s_className = ''9'', s_section = ''B'',
      s_admissionDate = ''2023-05-01'', s_rollNumber = Some ''09B05'', s_dateOfBirth = Some ''2009-07-22'',
      s_gender = Some Male, s_guardianName = Some ''Sarah Williams'', s_guardianPhone = Some ''555-2222'',
      s_address = Some ''456 Oak Ave, Anytown''\<rparr>,
     \<lparr>s_id = ''S1003'', s_name = ''Charlie Brown'', s_className = ''11'', s_section = ''C'',
      s_admissionDate = ''2022-08-20'', s_rollNumber = Some ''11C12'', s_dateOfBirth = Some ''2007-01-15'',
      s_gender = Some Male, s_guardianName = Some ''James Brown'', s_guardianPhone = Some ''555-3333'',
      s_address = Some ''789 Pine Ln, Anytown''\<rparr>,
     \<lparr>s_id = ''S1004'', s_name = ''Diana Miller'', s_className = ''NC'', s_section = ''A'',
      s_admissionDate = ''2024-03-01'', s_rollNumber = Some ''NCA03'', s_dateOfBirth = Some ''2020-05-01'',
      s_gender = Some Female, s_guardianName = Some ''Laura Miller'', s_guardianPhone = Some ''555-4444'',
      s_address = Some ''321 Maple Dr, Anytown''\<rparr>,
     \<lparr>s_id = ''S1005'', s_name = ''Edward Davis'', s_className = ''12'', s_section = ''B'',
      s_admissionDate = ''2021-07-10'', s_rollNumber = Some ''12B08'', s_dateOfBirth = Some ''2006-11-30'',
      s_gender = Some Male, s_guardianName = Some ''Robert Davis'', s_guardianPhone = Some ''555-5555'',
      s_address = Some ''654 Willow Rd, Anytown''\<rparr>,
     \<lparr>s_id = ''S1006'', s_name = ''Fiona Garcia'', s_className = ''Graduated'', s_section = ''A'',
      s_admissionDate = ''2020-06-01'', s_rollNumber = Some ''GRADA01'', s_dateOfBirth = Some ''2002-09-05'',
      s_gender = Some Female, s_guardianName = Some ''Maria Garcia'', s_guardianPhone = Some ''555-6666'',
      s_address = Some ''987 Birch Ct, Anytown''\<rparr>]"

definition class_form_options :: "string list" where
  "class_form_options = [''NC'', ''1'', ''2'', ''3''] @ [''4'', ''5'', ''6'', ''7''] @ [''8'', ''9'', ''10'', ''11'', ''12'']"

definition class_filter_options :: "string list" where
  "class_filter_options = ''All'' # class_form_options @ [''Graduated'']"

subsection \<open>Page state and handlers\<close>

record student_page = "student crud_page" +
  class_filter :: string

definition initial_student_page :: "(string \<Rightarrow> 'k::linorder) \<Rightarrow> student_page" where
  "initial_student_page coll =
     \<lparr>items = initial_students coll, show_modal = False, editing = None, to_delete = None,
      class_filter = ''All''\<rparr>"

text \<open>\<open>{...s, ...values, section: values.section.toUpperCase()}\<close>: the id is kept.\<close>

definition apply_student_form :: "student_form \<Rightarrow> student \<Rightarrow> student" where
  "apply_student_form v s = s\<lparr>s_name := sf_name v, s_className := sf_className v,
     s_section := to_upper (sf_section v), s_admissionDate := sf_admissionDate v,
     s_rollNumber := Some (sf_rollNumber v), s_dateOfBirth := Some (sf_dateOfBirth v),
     s_gender := sf_gender v, s_guardianName := Some (sf_guardianName v),
     s_guardianPhone := Some (sf_guardianPhone v), s_address := Some (sf_address v)\<rparr>"

text \<open>
  \<open>resetFormFields(studentData?)\<close>: the dialog's form, filled from the edited student
  or empty; dates keep the part before \<open>T\<close> (\<open>split('T')[0]\<close>) and an empty
  admission date becomes today's (\<open>today\<close>, the date part of \<open>toISOString\<close>).
\<close>

definition split_t :: "string \<Rightarrow> string" where
  "split_t d = takeWhile (\<lambda>c. c \<noteq> CHR ''T'') d"

definition or_empty :: "string option \<Rightarrow> string" where
  "or_empty x = (case x of Some v \<Rightarrow> v | None \<Rightarrow> [])"

definition student_form_of :: "string \<Rightarrow> student option \<Rightarrow> student_form" where
  "student_form_of today d =
     (case d of
        None \<Rightarrow> \<lparr>sf_name = [], sf_className = [], sf_section = [], sf_admissionDate = today, sf_rollNumber = [],
                  sf_dateOfBirth = [], sf_gender = None, sf_guardianName = [], sf_guardianPhone = [], sf_address = []\<rparr>
      | Some s \<Rightarrow>
          \<lparr>sf_name = s_name s, sf_className = s_className s, sf_section = s_section s,
           sf_admissionDate = (if s_admissionDate s \<noteq> [] then split_t (s_admissionDate s) else today),
           sf_rollNumber = or_empty (s_rollNumber s),
           sf_dateOfBirth = (if or_empty (s_dateOfBirth s) \<noteq> [] then split_t (or_empty (s_dateOfBirth s)) else []),
           sf_gender = s_gender s, sf_guardianName = or_empty (s_guardianName s),
           sf_guardianPhone = or_empty (s_guardianPhone s), sf_address = or_empty (s_address s)\<rparr>)"

text \<open>\<open>S${Date.now().toString().slice(-4)}\<close>: the last four digits of the clock.\<close>

definition student_new_id :: "nat \<Rightarrow> ident" where
  "student_new_id now = ''S'' @ slice_last 4 (string_of_nat now)"

definition new_student :: "nat \<Rightarrow> student_form \<Rightarrow> student" where
  "new_student now v =
     \<lparr>s_id = student_new_id now, s_name = sf_name v, s_className = sf_className v,
      s_section = to_upper (sf_section v), s_admissionDate = sf_admissionDate v,
      s_rollNumber = Some (sf_rollNumber v), s_dateOfBirth = Some (sf_dateOfBirth v),
      s_gender = sf_gender v, s_guardianName = Some (sf_guardianName v),
      s_guardianPhone = Some (sf_guardianPhone v), s_address = Some (sf_address v)\<rparr>"

definition student_form_submit ::
  "(string \<Rightarrow> 'k::linorder) \<Rightarrow> nat \<Rightarrow> student_form \<Rightarrow> student_page \<Rightarrow> student_page \<times> toast list" where
  "student_form_submit coll now v st =
     (case editing st of
        Some e \<Rightarrow>
          (st\<lparr>items := js_sort (student_cmp coll) (update_by_id s_id (s_id e) (apply_student_form v) (items st)),
              show_modal := False, editing := None\<rparr>, [mk_toast ''Student Updated''])
      | None \<Rightarrow>
          (st\<lparr>items := js_sort (student_cmp coll) (items st @ [new_student now v]),
              show_modal := False, editing := None\<rparr>, [mk_toast ''Student Added'']))"

definition student_submit ::
  "(string \<Rightarrow> 'k::linorder) \<Rightarrow> nat \<Rightarrow> student_form \<Rightarrow> student_page \<Rightarrow> student_page \<times> (field_errors + toast list)" where
  "student_submit coll now v st = handle_submit validate_student (student_form_submit coll now) v st"

definition student_delete_confirm ::
  "(string \<Rightarrow> 'k::linorder) \<Rightarrow> student_page \<Rightarrow> student_page \<times> toast list" where
  "student_delete_confirm coll st =
     (case to_delete st of
        None \<Rightarrow> (st, [])
      | Some d \<Rightarrow> (st\<lparr>items := js_sort (student_cmp coll) (delete_by_id s_id (s_id d) (items st)),
                      to_delete := None\<rparr>, [mk_destructive ''Student Deleted'']))"

text \<open>The class ladder of \<open>handlePromoteStudent\<close>.\<close>

definition next_class :: "string \<Rightarrow> string" where
  "next_class c =
     (if c = ''NC'' then ''1''
      else if c = ''12'' then ''Graduated''
      else if (case js_Number c of None \<Rightarrow> False | Some n \<Rightarrow> n < 12 \<and> c \<in> set class_form_options)
        then string_of_nat (nat_of_digits c + 1)
      else c)"

definition promote_toasts :: "student \<Rightarrow> toast list" where
  "promote_toasts s =
     (if next_class (s_className s) \<noteq> s_className s then [mk_toast ''Student Promoted'']
      else if s_className s \<noteq> ''Graduated'' then [mk_toast ''Promotion Not Applicable''] else [])"

definition promote_student ::
  "(string \<Rightarrow> 'k::linorder) \<Rightarrow> ident \<Rightarrow> student_page \<Rightarrow> student_page \<times> toast list" where
  "promote_student coll sid st =
     (st\<lparr>items := js_sort (student_cmp coll)
           (update_by_id s_id sid (\<lambda>s. s\<lparr>s_className := next_class (s_className s)\<rparr>) (items st))\<rparr>,
      concat (map promote_toasts (filter (\<lambda>s. s_id s = sid) (items st))))"

definition filtered_students :: "student_page \<Rightarrow> student list" where
  "filtered_students st =
     (if class_filter st = ''All'' then items st else filter (\<lambda>s. s_className s = class_filter st) (items st))"

text \<open>
  The rendered page: the labels of the class filter, the list card's description,
  the table, and the texts of the two dialogs. The table shows a message when the
  filter leaves no student, and otherwise one row per student. The admission date
  goes through \<open>format(parseISO(d), 'PPP')\<close> (the parameter \<open>fmt\<close>), which throws
  a \<open>RangeError\<close> on a date that does not parse: the row is then None. An
  administrator's row has the Promote button, disabled with its own title on a
  graduated student.
\<close>

definition class_option_label :: "string \<Rightarrow> string" where
  "class_option_label c = (if c = ''All'' then ''All Classes'' else ''Class '' @ c)"

definition student_list_description :: "student_page \<Rightarrow> string" where
  "student_list_description st =
     ''Currently enrolled students. '' @ (if class_filter st \<noteq> ''All'' then ''(Class '' @ class_filter st @ '')'' else [])"

definition student_headers :: "bool \<Rightarrow> string list" where
  "student_headers adm =
     [''Student ID'', ''Name'', ''Class'', ''Section'', ''Roll No.'', ''Admission Date'', ''Guardian'']
     @ (if adm then [''Actions''] else [])"

record student_row =
  sr_cells :: "string list"
  sr_promote :: "(bool \<times> string) option"

definition student_row_view :: "(date \<Rightarrow> string) \<Rightarrow> bool \<Rightarrow> student \<Rightarrow> student_row option" where
  "student_row_view fmt adm s =
     map_option (\<lambda>a. \<lparr>sr_cells = [s_id s, s_name s, s_className s, s_section s, or_dash (s_rollNumber s), a,
                                  or_dash (s_guardianName s)],
                      sr_promote = (if adm then Some (s_className s = ''Graduated'',
                                        if s_className s = ''Graduated'' then ''Cannot promote graduated student''
                                        else ''Promote to next class'') else None)\<rparr>)
       (if s_admissionDate s = [] then Some ''-'' else map_option fmt (parse_iso_date (s_admissionDate s)))"

definition student_table_view :: "(date \<Rightarrow> string) \<Rightarrow> bool \<Rightarrow> student_page \<Rightarrow> student_row table option" where
  "student_table_view fmt adm st =
     render_rows (student_row_view fmt adm)
       (if class_filter st = ''All'' then ''Start by adding students to the system.''
        else ''No students found for Class '' @ class_filter st @ ''.'')
       (filtered_students st)"

definition student_dialog_title :: "student_page \<Rightarrow> string" where
  "student_dialog_title = edit_or_add ''Edit Student Details'' ''Add New Student''"

definition student_submit_label :: "student_page \<Rightarrow> string" where
  "student_submit_label = edit_or_add ''Save Changes'' ''Add Student''"

definition student_delete_description :: "student_page \<Rightarrow> string" where
  "student_delete_description =
     delete_description ''This action cannot be undone. This will permanently delete '' s_name
       ([char_of (39::nat)] @ ''s record.'')"

text \<open>
  The page's events: the generic ones, Promote (a row button), and the class filter.
  Edit, Delete and Promote are buttons of the rows the filter shows, rendered for
  an administrator; Promote is disabled on a graduated student.
\<close>

datatype student_event =
    St_Crud "(student, student_form) crud_event" | Promote_Click student | Set_Class_Filter string

fun student_step ::
  "(string \<Rightarrow> 'k::linorder) \<Rightarrow> bool \<Rightarrow> student_event \<Rightarrow> student_page \<Rightarrow> student_page" where
  "student_step coll is_admin (St_Crud (Edit_Click s)) st =
     (if is_admin \<and> s \<in> set (filtered_students st) then open_edit_modal s st else st)"
| "student_step coll is_admin (St_Crud (Delete_Click s)) st =
     (if is_admin \<and> s \<in> set (filtered_students st) then request_delete s st else st)"
| "student_step coll is_admin (St_Crud e) st =
     crud_step (student_submit coll) (student_delete_confirm coll) is_admin e st"
| "student_step coll is_admin (Promote_Click s) st =
     (if is_admin \<and> s \<in> set (filtered_students st) \<and> s_className s \<noteq> ''Graduated''
      then fst (promote_student coll (s_id s) st) else st)"
| "student_step coll is_admin (Set_Class_Filter c) st =
     (if c \<in> set class_filter_options then st\<lparr>class_filter := c\<rparr> else st)"

definition student_inv :: "(string \<Rightarrow> 'k::linorder) \<Rightarrow> student_page \<Rightarrow> bool" where
  "student_inv coll st \<longleftrightarrow> ids_unique s_id (items st) \<and> sorted (map (\<lambda>s. coll (s_name s)) (items st))"

subsection \<open>Sorting, identifiers and the class ladder\<close>

lemma student_cmp_consistent: "consistent_with (student_cmp coll) (\<lambda>s. coll (s_name s))"
  unfolding student_cmp_def by (rule locale_compare_consistent)

lemmas student_sort_facts =
  js_sort_ids_unique [OF student_cmp_consistent] js_sort_sorted [OF student_cmp_consistent]
  js_sort_ids_of [OF student_cmp_consistent]

lemma student_new_id_dec4: "1000 \<le> now \<Longrightarrow> student_new_id now = ''S'' @ dec4 now"
  by (simp add: student_new_id_def slice_last_string_of_nat)

lemma next_class_fixed: "c \<notin> set class_form_options \<Longrightarrow> next_class c = c"
  by (auto simp: next_class_def class_form_options_def split: option.splits)

lemma next_class_graduated [simp]: "next_class ''Graduated'' = ''Graduated''"
  by (rule next_class_fixed) (simp add: class_form_options_def)

lemma initial_students_ids:
  "ids_of s_id (initial_students coll) = {''S1001'', ''S1002'', ''S1003'', ''S1004'', ''S1005'', ''S1006''}"
  unfolding initial_students_def js_sort_ids_of [OF student_cmp_consistent] by (simp add: ids_of_def)

lemma initial_student_inv: "student_inv coll (initial_student_page coll)"
proof -
  have "ids_unique s_id (initial_students coll)"
    unfolding initial_students_def js_sort_ids_unique [OF student_cmp_consistent]
    by (simp add: ids_unique_def)
  moreover have "sorted (map (\<lambda>s. coll (s_name s)) (initial_students coll))"
    unfolding initial_students_def by (rule js_sort_sorted [OF student_cmp_consistent])
  ultimately show ?thesis by (simp add: student_inv_def initial_student_page_def)
qed

lemma apply_student_form_id [simp]: "s_id (apply_student_form v s) = s_id s"
  by (simp add: apply_student_form_def)

subsection \<open>Every handler keeps the list sorted and its identifiers unique\<close>

lemma student_delete_inv:
  "student_inv coll st \<Longrightarrow> student_inv coll (fst (student_delete_confirm coll st))"
  by (auto simp: student_delete_confirm_def student_inv_def student_sort_facts
      delete_by_id_ids_unique split: option.splits)

lemma promote_student_inv:
  "student_inv coll st \<Longrightarrow> student_inv coll (fst (promote_student coll sid st))"
  by (simp add: student_inv_def promote_student_def update_by_id_ids_unique student_sort_facts)

abbreviation names_sorted :: "(string \<Rightarrow> 'k::linorder) \<Rightarrow> student list \<Rightarrow> bool" where
  "names_sorted coll xs \<equiv> sorted (map (\<lambda>s. coll (s_name s)) xs)"

lemma student_submit_sorted:
  "names_sorted coll (items st) \<Longrightarrow> names_sorted coll (items (fst (student_submit coll now v st)))"
  by (cases "validate_student v = []")
     (simp_all add: student_submit_def handle_submit_valid handle_submit_invalid student_form_submit_def
       student_sort_facts split: option.splits)

lemma student_delete_sorted:
  "names_sorted coll (items st) \<Longrightarrow> names_sorted coll (items (fst (student_delete_confirm coll st)))"
  by (simp add: student_delete_confirm_def student_sort_facts split: option.splits)

lemma student_step_sorted:
  assumes "names_sorted coll (items st)"
  shows "names_sorted coll (items (student_step coll adm e st))"
proof (cases e)
  case (St_Crud ce)
  have "names_sorted coll (items (crud_step (student_submit coll) (student_delete_confirm coll) adm ce st))"
    using student_submit_sorted student_delete_sorted assms by (rule crud_step_items)
  then show ?thesis using St_Crud assms
    by (cases ce) (simp_all add: open_edit_modal_def request_delete_def)
next
  case (Promote_Click s)
  then show ?thesis using assms by (simp add: promote_student_def student_sort_facts)
next
  case (Set_Class_Filter c)
  then show ?thesis using assms by simp
qed

lemma student_run_sorted:
  "names_sorted coll (items st) \<Longrightarrow>
   names_sorted coll (items (foldl (\<lambda>s e. student_step coll adm e s) st es))"
  by (induction es arbitrary: st) (simp_all add: student_step_sorted)

text \<open>
  Whatever the events, the table lists the students of the chosen class in name
  order: the list is sorted in every reachable state, and the filter keeps the order.
\<close>

lemma student_table_sorted:
  "names_sorted coll (filtered_students (foldl (\<lambda>s e. student_step coll adm e s) (initial_student_page coll) es))"
proof -
  have "names_sorted coll (items (initial_student_page coll))"
    using initial_student_inv [of coll] by (simp add: student_inv_def)
  then have "names_sorted coll (items (foldl (\<lambda>s e. student_step coll adm e s) (initial_student_page coll) es))"
    by (rule student_run_sorted)
  then show ?thesis by (simp add: filtered_students_def sorted_filter)
qed

text \<open>
  The table never throws: the schema checks the admission date, Promote and Delete
  leave it, so in every state the events reach each student's admission date parses
  and the table has a row for each student the filter shows.
\<close>

abbreviation admissions_valid :: "student list \<Rightarrow> bool" where
  "admissions_valid xs \<equiv> list_all (\<lambda>s. is_valid_iso_date (s_admissionDate s)) xs"

lemma validate_student_admission:
  "validate_student v = [] \<Longrightarrow> is_valid_iso_date (sf_admissionDate v)"
  by (simp add: validate_student_def split: if_splits)

lemma student_submit_admissions:
  "admissions_valid (items st) \<Longrightarrow> admissions_valid (items (fst (student_submit coll now v st)))"
  by (cases "validate_student v = []")
     (simp_all add: student_submit_def handle_submit_valid handle_submit_invalid student_form_submit_def
       js_sort_list_all update_by_id_list_all apply_student_form_def new_student_def
       validate_student_admission split: option.splits)

lemma student_step_admissions:
  assumes "admissions_valid (items st)"
  shows "admissions_valid (items (student_step coll adm e st))"
proof (cases e)
  case (St_Crud ce)
  have "admissions_valid (items (crud_step (student_submit coll) (student_delete_confirm coll) adm ce st))"
    using student_submit_admissions _ assms
  proof (rule crud_step_list_all)
    fix st' :: student_page
    assume "admissions_valid (items st')"
    then show "admissions_valid (items (fst (student_delete_confirm coll st')))"
      by (simp add: student_delete_confirm_def js_sort_list_all delete_by_id_list_all split: option.splits)
  qed
  then show ?thesis using St_Crud assms
    by (cases ce) (simp_all add: open_edit_modal_def request_delete_def)
next
  case (Promote_Click s)
  have "admissions_valid (update_by_id s_id (s_id s) (\<lambda>s. s\<lparr>s_className := next_class (s_className s)\<rparr>) (items st))"
    using assms by (rule update_by_id_list_all) (use assms in \<open>simp add: list_all_iff\<close>)
  then show ?thesis using Promote_Click assms by (simp add: promote_student_def js_sort_list_all)
next
  case (Set_Class_Filter c)
  then show ?thesis using assms by simp
qed

lemma initial_students_admissions: "admissions_valid (items (initial_student_page coll))"
  by (simp add: initial_student_page_def initial_students_def js_sort_list_all is_valid_iso_date_def date_eval)

lemma student_table_renders:
  "\<exists>t. student_table_view fmt adm' (foldl (\<lambda>s e. student_step coll adm e s) (initial_student_page coll) es) = Some t
     \<and> (case t of Table_Rows rs \<Rightarrow>
            length rs = length (filtered_students (foldl (\<lambda>s e. student_step coll adm e s) (initial_student_page coll) es))
        | Empty_Table _ \<Rightarrow>
            filtered_students (foldl (\<lambda>s e. student_step coll adm e s) (initial_student_page coll) es) = [])"
proof -
  let ?st = "foldl (\<lambda>s e. student_step coll adm e s) (initial_student_page coll) es"
  have "admissions_valid (items ?st)"
    using initial_students_admissions [of coll]
    by (induction es rule: rev_induct) (simp_all add: student_step_admissions)
  then have "\<forall>s\<in>set (filtered_students ?st). student_row_view fmt adm' s \<noteq> None"
    by (auto simp: filtered_students_def list_all_iff is_valid_iso_date_def student_row_view_def)
  then show ?thesis unfolding student_table_view_def by (rule render_rows_Some)
qed

lemma split_t_id: "CHR ''T'' \<notin> set d \<Longrightarrow> split_t d = d"
  by (auto simp: split_t_def takeWhile_eq_all_conv)

text \<open>
  The prefill and the edit handler are inverse on a student whose optional fields
  are all present, whose dates have no time part and whose section is upper case
  (every student the page creates is such a student).
\<close>

lemma student_form_roundtrip:
  assumes "s_rollNumber s \<noteq> None" and "s_guardianName s \<noteq> None" and "s_guardianPhone s \<noteq> None"
    and "s_address s \<noteq> None" and "s_dateOfBirth s = Some d" and "CHR ''T'' \<notin> set d"
    and "s_admissionDate s \<noteq> []" and "CHR ''T'' \<notin> set (s_admissionDate s)"
    and "to_upper (s_section s) = s_section s"
  shows "apply_student_form (student_form_of today (Some s)) s = s"
  using assms by (auto simp: apply_student_form_def student_form_of_def or_empty_def split_t_id)

lemma student_edit_unchanged:
  assumes inv: "student_inv coll st" and ed: "editing st = Some s" and mem: "s \<in> set (items st)"
    and rt: "apply_student_form (student_form_of today (Some s)) s = s"
    and valid: "validate_student (student_form_of today (Some s)) = []"
  shows "items (fst (student_submit coll now (student_form_of today (Some s)) st)) = items st"
proof -
  have same: "x = s" if "x \<in> set (items st)" "s_id x = s_id s" for x
    using inv that mem ids_unique_same_id [of s_id "items st" x s] by (simp add: student_inv_def)
  have "update_by_id s_id (s_id s) (apply_student_form (student_form_of today (Some s))) (items st) = items st"
    by (rule update_by_id_fixed) (use same rt in auto)
  moreover have "names_sorted coll (items st)" using inv by (simp add: student_inv_def)
  ultimately show ?thesis using valid ed
    by (simp add: student_submit_def handle_submit_valid student_form_submit_def
        js_sort_sorted_id [OF student_cmp_consistent])
qed

text \<open>C1: an edit keeps the invariant; an add keeps it exactly when the clock gives a fresh id.\<close>

theorem student_submit_inv:
  assumes "student_inv coll st"
    and "editing st = None \<Longrightarrow> student_new_id now \<notin> ids_of s_id (items st)"
  shows "student_inv coll (fst (student_submit coll now v st))"
proof (cases "validate_student v = []")
  case False
  then show ?thesis using assms(1) by (simp add: student_submit_def handle_submit_invalid)
next
  case True
  show ?thesis
  proof (cases "editing st")
    case None
    with assms have "ids_unique s_id (items st @ [new_student now v])"
      by (simp add: student_inv_def append_ids_unique new_student_def)
    with True None show ?thesis
      by (simp add: student_submit_def handle_submit_valid student_form_submit_def student_inv_def
          student_sort_facts)
  next
    case (Some e)
    with True assms(1) show ?thesis
      by (simp add: student_submit_def handle_submit_valid student_form_submit_def student_inv_def
          update_by_id_ids_unique student_sort_facts)
  qed
qed


text \<open>The identifiers the add handler makes repeat every ten seconds of the clock.\<close>

theorem student_new_id_period:
  assumes "1000 \<le> now"
  shows "student_new_id (now + 10000 * k) = student_new_id now"
proof -
  have "dec4 (now + 10000 * k) = dec4 ((now + 10000 * k) mod 10000)" by (rule dec4_mod [symmetric])
  also have "\<dots> = dec4 (now mod 10000)" by simp
  also have "\<dots> = dec4 now" by (rule dec4_mod)
  finally show ?thesis using assms by (simp add: student_new_id_dec4)
qed

text \<open>
  C11: adding a student at a clock value ending in 1001 gives the seeded
  identifier \<open>S1001\<close> a second owner.
\<close>

theorem student_new_id_collision:
  "\<not> ids_unique s_id (items (fst (student_form_submit coll 1720000001001 v
                                    (open_add_modal (initial_student_page coll)))))"
proof -
  have "student_new_id 1720000001001 = ''S1001''"
    by (simp add: student_new_id_dec4 dec4_def digit_char_def)
  then have "s_id (new_student 1720000001001 v) \<in> ids_of s_id (initial_students coll)"
    by (simp add: new_student_def initial_students_ids)
  then show ?thesis
    by (simp add: student_form_submit_def open_add_modal_def initial_student_page_def
        student_sort_facts append_ids_unique)
qed

text \<open>
  C19: the guardian phone check accepts every string of seven or more characters;
  the phone pattern in front of it never decides anything.
\<close>

theorem student_phone_ok_iff: "student_phone_ok v \<longleftrightarrow> v = [] \<or> 7 \<le> length v"
  using phone_regex_length [of v] by (auto simp: student_phone_ok_def)

lemma promote_graduated_noop:
  assumes inv: "student_inv coll st" and r: "r \<in> set (items st)"
    and grad: "s_className r = ''Graduated''"
  shows "promote_student coll (s_id r) st = (st, [])"
proof -
  let ?f = "\<lambda>s. s\<lparr>s_className := next_class (s_className s)\<rparr>"
  have uniq: "ids_unique s_id (items st)" and srt: "sorted (map (\<lambda>s. coll (s_name s)) (items st))"
    using inv by (simp_all add: student_inv_def)
  have single: "filter (\<lambda>s. s_id s = s_id r) (items st) = [r]"
    by (rule ids_unique_filter_single [OF uniq r])
  have fixed: "update_by_id s_id (s_id r) ?f (items st) = items st"
  proof (rule update_by_id_fixed)
    fix s assume "s \<in> set (items st)" and "s_id s = s_id r"
    then have "s \<in> set (filter (\<lambda>s. s_id s = s_id r) (items st))" by simp
    with single have "s = r" by simp
    with grad show "?f s = s" by simp
  qed
  have "js_sort (student_cmp coll) (items st) = items st"
    using srt by (rule js_sort_sorted_id [OF student_cmp_consistent])
  with fixed single grad show ?thesis
    by (simp add: promote_student_def promote_toasts_def)
qed

text \<open>
  C4: promoting a class-12 student graduates that student alone, with the toast
  "Student Promoted"; promoting the graduate again changes nothing and toasts nothing.
\<close>

theorem promote_twelve_then_graduated:
  assumes inv: "student_inv coll st" and r: "r \<in> set (items st)"
    and twelve: "s_className r = ''12''"
  shows "as_map s_id (items (fst (promote_student coll (s_id r) st)))
           = (as_map s_id (items st))(s_id r \<mapsto> r\<lparr>s_className := ''Graduated''\<rparr>)
       \<and> snd (promote_student coll (s_id r) st) = [mk_toast ''Student Promoted'']
       \<and> promote_student coll (s_id r) (fst (promote_student coll (s_id r) st))
           = (fst (promote_student coll (s_id r) st), [])"
proof -
  let ?f = "\<lambda>s. s\<lparr>s_className := next_class (s_className s)\<rparr>"
  let ?st' = "fst (promote_student coll (s_id r) st)"
  have uniq: "ids_unique s_id (items st)" using inv by (simp add: student_inv_def)
  have look: "as_map s_id (items st) (s_id r) = Some r"
    using uniq r by (rule ids_unique_as_map)
  have nc: "next_class ''12'' = ''Graduated''" by (simp add: next_class_def)
  have upd: "as_map s_id (update_by_id s_id (s_id r) ?f (items st))
      = (as_map s_id (items st))(s_id r \<mapsto> ?f r)"
    by (rule as_map_update [OF uniq _ look]) simp
  have uniq': "ids_unique s_id (update_by_id s_id (s_id r) ?f (items st))"
    using uniq by (simp add: update_by_id_ids_unique)
  have one: "as_map s_id (items ?st') = (as_map s_id (items st))(s_id r \<mapsto> r\<lparr>s_className := ''Graduated''\<rparr>)"
    using upd as_map_js_sort [OF student_cmp_consistent uniq'] twelve nc
    by (simp add: promote_student_def)
  have two: "snd (promote_student coll (s_id r) st) = [mk_toast ''Student Promoted'']"
    using ids_unique_filter_single [OF uniq r] twelve nc
    by (simp add: promote_student_def promote_toasts_def)
  have inv': "student_inv coll ?st'" using inv by (rule promote_student_inv)
  have "as_map s_id (items ?st') (s_id r) = Some (r\<lparr>s_className := ''Graduated''\<rparr>)"
    using one by simp
  then have "r\<lparr>s_className := ''Graduated''\<rparr> \<in> set (items ?st')"
    by (auto dest!: as_map_SomeD)
  then have three: "promote_student coll (s_id r) ?st' = (?st', [])"
    using promote_graduated_noop [OF inv'] by fastforce
  from one two three show ?thesis by simp
qed

text \<open>
  C9: a valid edit of a listed student is the abstract manager's update: the edited
  record takes the form's fields and keeps its id, every other record is unchanged.
\<close>

theorem student_edit_refines:
  assumes inv: "student_inv coll st" and ed: "editing st = Some e"
    and known: "s_id e \<in> ids_of s_id (items st)" and valid: "validate_student v = []"
  shows "spec_update (s_id e) (apply_student_form v) (as_map s_id (items st))
           = Inr (as_map s_id (items (fst (student_submit coll now v st))))"
proof -
  have uniq: "ids_unique s_id (items st)" using inv by (simp add: student_inv_def)
  have uniq': "ids_unique s_id (update_by_id s_id (s_id e) (apply_student_form v) (items st))"
    using uniq by (simp add: update_by_id_ids_unique)
  have "spec_update (s_id e) (apply_student_form v) (as_map s_id (items st))
      = Inr (as_map s_id (update_by_id s_id (s_id e) (apply_student_form v) (items st)))"
    using uniq _ known by (rule update_refines) simp
  also have "as_map s_id (update_by_id s_id (s_id e) (apply_student_form v) (items st))
      = as_map s_id (js_sort (student_cmp coll) (update_by_id s_id (s_id e) (apply_student_form v) (items st)))"
    by (rule as_map_js_sort [OF student_cmp_consistent uniq', symmetric])
  finally show ?thesis
    using ed valid by (simp add: student_submit_def handle_submit_valid student_form_submit_def)
qed

text \<open>
  A form whose section is longer than two characters is rejected with an error
  on \<open>section\<close>, and the page state is left as it was.
\<close>

theorem student_long_section_rejected:
  assumes "2 < length (sf_section v)"
  shows "\<exists>errs msg. student_submit coll now v st = (st, Inl errs) \<and> (''section'', msg) \<in> set errs"
proof -
  have sec: "(''section'', ''Section should be a single character like A, B.'') \<in> set (validate_student v)"
    using assms by (auto simp: validate_student_def)
  then have "validate_student v \<noteq> []" by auto
  then have "student_submit coll now v st = (st, Inl (validate_student v))"
    by (simp add: student_submit_def handle_submit_invalid)
  with sec show ?thesis by blast
qed

subsection \<open>Witnesses\<close>

definition edward :: student where
  "edward = \<lparr>s_id = ''S1005'', s_name = ''Edward Davis'', s_className = ''12'', s_section = ''B'',
      s_admissionDate = ''2021-07-10'', s_rollNumber = Some ''12B08'', s_dateOfBirth = Some ''2006-11-30'',
      s_gender = Some Male, s_guardianName = Some ''Robert Davis'', s_guardianPhone = Some ''555-5555'',
      s_address = Some ''654 Willow Rd, Anytown''\<rparr>"

definition sample_student_form :: student_form where
  "sample_student_form = \<lparr>sf_name = ''Gita Rao'', sf_className = ''5'', sf_section = ''b'',
      sf_admissionDate = ''2024-06-03'', sf_rollNumber = '''', sf_dateOfBirth = '''', sf_gender = None,
      sf_guardianName = '''', sf_guardianPhone = '''', sf_address = ''''\<rparr>"

lemma edward_listed: "edward \<in> set (items (initial_student_page coll))"
  unfolding initial_student_page_def initial_students_def
  by (simp add: js_sort_set [OF student_cmp_consistent] edward_def)

lemma sample_student_form_valid: "validate_student sample_student_form = []"
  by (simp add: validate_student_def sample_student_form_def is_valid_iso_date_def parse_iso_date_def
      valid_date_def days_in_month_def leap_year_def is_digit_def nat_of_digits_def digit_val_def
      student_phone_ok_def)

theorem student_submit_inv_witness:
  "student_inv (id :: string \<Rightarrow> string) (open_add_modal (initial_student_page id))
   \<and> student_new_id 1720000002024 \<notin> ids_of s_id (items (open_add_modal (initial_student_page id)))
   \<and> student_inv id (fst (student_submit id 1720000002024 sample_student_form
                           (open_add_modal (initial_student_page id))))"
proof -
  have inv: "student_inv (id :: string \<Rightarrow> string) (open_add_modal (initial_student_page id))"
    using initial_student_inv [of id] by (simp add: open_add_modal_def student_inv_def)
  have fresh: "student_new_id 1720000002024
      \<notin> ids_of s_id (items (open_add_modal (initial_student_page (id :: string \<Rightarrow> string))))"
    by (simp add: student_new_id_dec4 dec4_def digit_char_def open_add_modal_def initial_student_page_def
        initial_students_ids)
  show ?thesis using inv fresh student_submit_inv [OF inv fresh] by simp
qed

theorem student_new_id_period_witness:
  "student_new_id (1720000001001 + 10000 * 3) = student_new_id 1720000001001"
  by (rule student_new_id_period) simp

theorem promote_twelve_then_graduated_witness:
  "student_inv (id :: string \<Rightarrow> string) (initial_student_page id)
   \<and> edward \<in> set (items (initial_student_page id)) \<and> s_className edward = ''12''
   \<and> snd (promote_student id (s_id edward) (initial_student_page id)) = [mk_toast ''Student Promoted'']"
proof -
  have inv: "student_inv (id :: string \<Rightarrow> string) (initial_student_page id)" by (rule initial_student_inv)
  have r: "edward \<in> set (items (initial_student_page (id :: string \<Rightarrow> string)))" by (rule edward_listed)
  have c: "s_className edward = ''12''" by (simp add: edward_def)
  show ?thesis using promote_twelve_then_graduated [OF inv r c] inv r c by simp
qed

theorem student_edit_refines_witness:
  "student_inv (id :: string \<Rightarrow> string) (open_edit_modal edward (initial_student_page id))
   \<and> editing (open_edit_modal edward (initial_student_page id)) = Some edward
   \<and> s_id edward \<in> ids_of s_id (items (open_edit_modal edward (initial_student_page id)))
   \<and> validate_student sample_student_form = []
   \<and> spec_update (s_id edward) (apply_student_form sample_student_form)
       (as_map s_id (items (open_edit_modal edward (initial_student_page id))))
     = Inr (as_map s_id (items (fst (student_submit id 0 sample_student_form
                                        (open_edit_modal edward (initial_student_page id))))))"
proof -
  let ?st = "open_edit_modal edward (initial_student_page (id :: string \<Rightarrow> string))"
  have inv: "student_inv id ?st"
    using initial_student_inv [of id] by (simp add: open_edit_modal_def student_inv_def)
  have ed: "editing ?st = Some edward" by (simp add: open_edit_modal_def)
  have known: "s_id edward \<in> ids_of s_id (items ?st)"
    using edward_listed [of id] by (auto simp: open_edit_modal_def ids_of_def)
  show ?thesis
    using student_edit_refines [OF inv ed known sample_student_form_valid] inv ed known
      sample_student_form_valid by simp
qed

theorem student_long_section_rejected_witness:
  "\<exists>errs msg. student_submit (id :: string \<Rightarrow> string) 0 (sample_student_form\<lparr>sf_section := ''ABC''\<rparr>)
     (initial_student_page id) = (initial_student_page id, Inl errs) \<and> (''section'', msg) \<in> set errs"
  by (rule student_long_section_rejected) simp

end
