(* ===== verification/Fees.thy ===== *)
theory Fees
  imports Entity_List Dates
begin

text \<open>
  The fees page (\<open>src/src/app/(app)/fees/page.tsx\<close>): fee structures, managed with
  the collection pattern, and student fee records, changed only by
  \<open>handlePaymentFormSubmit\<close>, which adds a payment and recomputes the status.
  \<open>isPast(parseISO(dueDate))\<close> reads the clock; it is the parameter \<open>is_past\<close>.
  The page is also a small state machine (\<open>fees_step\<close>): the events are the
  buttons and dialogs a user can use, each enabled as the rendered page enables it.
\<close>

datatype frequency = Monthly | Quarterly | Annually | One_time

record fee_structure =
  fs_id :: ident
  fs_className :: string
  fs_feeType :: string
  fs_amount :: js_number
  fs_frequency :: frequency

datatype fee_status = Fee_Paid | Fee_Pending | Fee_Overdue | Fee_Partially_Paid

record student_fee_record =
  fr_id :: ident
  fr_studentName :: string
  fr_className :: string
  fr_feeTypeDescription :: string
  fr_amountDue :: js_number
  fr_amountPaid :: js_number
  fr_dueDate :: string
  fr_status :: fee_status
  fr_lastPaymentDate :: "string option"
  fr_notes :: "string option"

record fee_structure_form =
  fsf_className :: string
  fsf_feeType :: string
  fsf_amount :: js_number
  fsf_frequency :: frequency

record payment_form =
  pf_paymentAmount :: js_number
  pf_paymentDate :: string
  pf_notes :: "string option"

subsection \<open>Schemas and seeded data\<close>

definition validate_fee_structure :: "fee_structure_form \<Rightarrow> field_errors" where
  "validate_fee_structure v =
     (if length (fsf_className v) < 1 then [(''className'', ''Class is required.'')] else []) @
     (if length (fsf_feeType v) < 3 then [(''feeType'', ''Fee type must be at least 3 characters.'')] else []) @
     (if 0 < fsf_amount v then [] else [(''amount'', ''Amount must be a positive number.'')])"

text \<open>
  \<open>Date.parse\<close> of the payment date: the date input gives \<open>YYYY-MM-DD\<close> or the
  empty string, read as in \<open>Dates\<close>.
\<close>

definition validate_payment :: "payment_form \<Rightarrow> field_errors" where
  "validate_payment v =
     (if 0 < pf_paymentAmount v then [] else [(''paymentAmount'', ''Payment amount must be positive.'')]) @
     (if is_valid_iso_date (pf_paymentDate v) then [] else [(''paymentDate'', ''Invalid payment date.'')])"

definition initial_fee_structures :: "fee_structure list" where
  "initial_fee_structures = [
     \<lparr>fs_id = ''FS1'', fs_className = ''10'', fs_feeType = ''Tuition Fee'', fs_amount = 15000, fs_frequency = Quarterly\<rparr>,
     \<lparr>fs_id = ''FS2'', fs_className = ''5'', fs_feeType = ''Activity Fee'', fs_amount = 2000, fs_frequency = Annually\<rparr>,
     \<lparr>fs_id = ''FS3'', fs_className = ''NC'', fs_feeType = ''Admission Fee'', fs_amount = 5000, fs_frequency = One_time\<rparr>,
     \<lparr>fs_id = ''FS4'', fs_className = ''12'', fs_feeType = ''Lab Fee'', fs_amount = 3000, fs_frequency = Annually\<rparr>]"

definition initial_fee_records :: "student_fee_record list" where
  "initial_fee_records = [
     \<lparr>fr_id = ''SFR001'', fr_studentName = ''Alice Johnson'', fr_className = ''10'',
      fr_feeTypeDescription = ''Tuition Fee - Q1'', fr_amountDue = 15000, fr_amountPaid = 15000,
      fr_dueDate = ''2024-04-15'', fr_status = Fee_Paid, fr_lastPaymentDate = Some ''2024-04-10'',
      fr_notes = Some ''Full payment received.''\<rparr>,
     \<lparr>fr_id = ''SFR002'', fr_studentName = ''Bob Williams'', fr_className = ''9'',
      fr_feeTypeDescription = ''Activity Fee'', fr_amountDue = 1800, fr_amountPaid = 0,
      fr_dueDate = ''2024-05-01'', fr_status = Fee_Pending, fr_lastPaymentDate = None, fr_notes = Some []\<rparr>,
     \<lparr>fr_id = ''SFR003'', fr_studentName = ''Charlie Brown'', fr_className = ''11'',
      fr_feeTypeDescription = ''Transport Fee - Term 1'', fr_amountDue = 7500, fr_amountPaid = 3000,
      fr_dueDate = ''2024-04-20'', fr_status = Fee_Partially_Paid, fr_lastPaymentDate = Some ''2024-04-18'',
      fr_notes = Some ''First installment paid.''\<rparr>,
     \<lparr>fr_id = ''SFR004'', fr_studentName = ''Diana Miller'', fr_className = ''NC'',
      fr_feeTypeDescription = ''Admission Fee'', fr_amountDue = 5000, fr_amountPaid = 0,
      fr_dueDate = ''2024-03-01'', fr_status = Fee_Overdue, fr_lastPaymentDate = None, fr_notes = None\<rparr>,
     \<lparr>fr_id = ''SFR005'', fr_studentName = ''Edward Davis'', fr_className = ''12'',
      fr_feeTypeDescription = ''Lab Fee'', fr_amountDue = 3000, fr_amountPaid = 3000,
      fr_dueDate = ''2024-06-10'', fr_status = Fee_Paid, fr_lastPaymentDate = Some ''2024-06-08'',
      fr_notes = None\<rparr>]"

subsection \<open>Page state\<close>

record fees_page =
  structures :: "fee_structure crud_page"
  fee_records :: "student_fee_record list"
  show_payment_modal :: bool
  processing :: "student_fee_record option"

definition initial_fees_page :: fees_page where
  "initial_fees_page =
     \<lparr>structures = \<lparr>items = initial_fee_structures, show_modal = False, editing = None, to_delete = None\<rparr>,
      fee_records = initial_fee_records, show_payment_modal = False, processing = None\<rparr>"

subsection \<open>Fee structures\<close>

definition apply_structure_form :: "fee_structure_form \<Rightarrow> fee_structure \<Rightarrow> fee_structure" where
  "apply_structure_form v s = s\<lparr>fs_className := fsf_className v, fs_feeType := fsf_feeType v,
     fs_amount := fsf_amount v, fs_frequency := fsf_frequency v\<rparr>"

definition structure_new_id :: "nat \<Rightarrow> ident" where
  "structure_new_id now = ''FS'' @ slice_last 4 (string_of_nat now)"

definition structure_form_submit ::
  "nat \<Rightarrow> fee_structure_form \<Rightarrow> fee_structure crud_page \<Rightarrow> fee_structure crud_page \<times> toast list" where
  "structure_form_submit now v st =
     (case editing st of
        Some e \<Rightarrow> (st\<lparr>items := update_by_id fs_id (fs_id e) (apply_structure_form v) (items st),
                      show_modal := False, editing := None\<rparr>, [mk_toast ''Fee Structure Updated''])
      | None \<Rightarrow> (st\<lparr>items := items st @ [\<lparr>fs_id = structure_new_id now, fs_className = fsf_className v,
                       fs_feeType = fsf_feeType v, fs_amount = fsf_amount v, fs_frequency = fsf_frequency v\<rparr>],
                     show_modal := False, editing := None\<rparr>, [mk_toast ''Fee Structure Added'']))"

text \<open>
  The structure dialog's values: \<open>structureForm.reset(editingStructure)\<close> when editing
  (zod strips the extra \<open>id\<close> on submit), the blank values otherwise.
\<close>

definition structure_form_of :: "fee_structure \<Rightarrow> fee_structure_form" where
  "structure_form_of s = \<lparr>fsf_className = fs_className s, fsf_feeType = fs_feeType s,
     fsf_amount = fs_amount s, fsf_frequency = fs_frequency s\<rparr>"

definition structure_blank_form :: fee_structure_form where
  "structure_blank_form = \<lparr>fsf_className = [], fsf_feeType = [], fsf_amount = 0, fsf_frequency = Monthly\<rparr>"

subsection \<open>Payments\<close>

text \<open>The amount the payment dialog proposes (\<open>useEffect\<close> on the processed record).\<close>

definition payment_default :: "student_fee_record \<Rightarrow> js_number" where
  "payment_default r =
     (if fr_amountDue r - fr_amountPaid r > 0 then fr_amountDue r - fr_amountPaid r else 0)"

definition payment_status :: "(string \<Rightarrow> bool) \<Rightarrow> student_fee_record \<Rightarrow> js_number \<Rightarrow> fee_status" where
  "payment_status is_past p new_paid =
     (if fr_amountDue p \<le> new_paid then Fee_Paid
      else if 0 < new_paid then Fee_Partially_Paid
      else if is_past (fr_dueDate p) then Fee_Overdue else Fee_Pending)"

definition record_payment ::
  "(string \<Rightarrow> bool) \<Rightarrow> student_fee_record \<Rightarrow> payment_form \<Rightarrow> student_fee_record \<Rightarrow> student_fee_record" where
  "record_payment is_past p v r =
     r\<lparr>fr_amountPaid := fr_amountPaid p + pf_paymentAmount v, fr_lastPaymentDate := Some (pf_paymentDate v),
       fr_notes := pf_notes v, fr_status := payment_status is_past p (fr_amountPaid p + pf_paymentAmount v)\<rparr>"

definition payment_form_submit ::
  "(string \<Rightarrow> bool) \<Rightarrow> payment_form \<Rightarrow> fees_page \<Rightarrow> fees_page \<times> toast list" where
  "payment_form_submit is_past v st =
     (case processing st of
        None \<Rightarrow> (st, [])
      | Some p \<Rightarrow> (st\<lparr>fee_records := update_by_id fr_id (fr_id p) (record_payment is_past p v) (fee_records st),
                      show_payment_modal := False, processing := None\<rparr>, [mk_toast ''Payment Recorded'']))"

text \<open>The "Manage Payment" button of a row is disabled once the record is paid.\<close>

definition payment_enabled :: "student_fee_record \<Rightarrow> bool" where
  "payment_enabled r \<longleftrightarrow> fr_status r \<noteq> Fee_Paid"

definition open_payment_modal :: "student_fee_record \<Rightarrow> fees_page \<Rightarrow> fees_page" where
  "open_payment_modal r st = st\<lparr>processing := Some r, show_payment_modal := True\<rparr>"

definition payment_modal_change :: "bool \<Rightarrow> fees_page \<Rightarrow> fees_page" where
  "payment_modal_change is_open st =
     (if is_open then st\<lparr>show_payment_modal := True\<rparr> else st\<lparr>show_payment_modal := False, processing := None\<rparr>)"

subsection \<open>The rendered records\<close>

text \<open>\<open>getStatusBadgeVariant\<close>: Pending shares the \<open>outline\<close> look of the default branch.\<close>

definition fee_status_badge :: "fee_status \<Rightarrow> string" where
  "fee_status_badge st =
     (case st of Fee_Paid \<Rightarrow> ''default'' | Fee_Partially_Paid \<Rightarrow> ''secondary''
      | Fee_Pending \<Rightarrow> ''outline'' | Fee_Overdue \<Rightarrow> ''destructive'')"

text \<open>
  The payment dialog's description, shown while a record is being processed;
  \<open>to_fixed\<close> is \<open>toFixed(2)\<close>. The remaining amount is printed as computed, negative
  after an overpayment.
\<close>

definition payment_dialog_description ::
  "(js_number \<Rightarrow> string) \<Rightarrow> student_fee_record option \<Rightarrow> string list option" where
  "payment_dialog_description to_fixed p =
     map_option (\<lambda>r.
       [''Recording payment for '' @ fr_studentName r @ '' (Class '' @ fr_className r @ '') - ''
          @ fr_feeTypeDescription r @ ''.'',
        ''Amount Due: $'' @ to_fixed (fr_amountDue r) @ '' | Already Paid: $'' @ to_fixed (fr_amountPaid r)
          @ '' | Remaining: $'' @ to_fixed (fr_amountDue r - fr_amountPaid r)]) p"

subsection \<open>The page as a state machine\<close>

datatype fees_event =
    Structure_Add
  | Structure_Edit fee_structure
  | Structure_Submit nat fee_structure_form
  | Structure_Request_Delete fee_structure
  | Structure_Confirm_Delete
  | Structure_Dialog bool
  | Open_Payment ident
  | Payment_Submit payment_form
  | Payment_Dialog bool

definition find_fee_record :: "ident \<Rightarrow> student_fee_record list \<Rightarrow> student_fee_record option" where
  "find_fee_record i rs = find (\<lambda>r. fr_id r = i) rs"

text \<open>
  One event of an administrator (only \<open>admin\<close> sees the action buttons). A row's
  "Manage Payment" button passes that row's record and is disabled when it is paid;
  a form is submitted through react-hook-form, so the handler sees valid values only.
\<close>

fun fees_step :: "(string \<Rightarrow> bool) \<Rightarrow> fees_page \<Rightarrow> fees_event \<Rightarrow> fees_page" where
  "fees_step is_past st Structure_Add = st\<lparr>structures := open_add_modal (structures st)\<rparr>"
| "fees_step is_past st (Structure_Edit s) =
     (if s \<in> set (items (structures st)) then st\<lparr>structures := open_edit_modal s (structures st)\<rparr> else st)"
| "fees_step is_past st (Structure_Submit now v) =
     (if show_modal (structures st) \<and> validate_fee_structure v = []
      then st\<lparr>structures := fst (structure_form_submit now v (structures st))\<rparr> else st)"
| "fees_step is_past st (Structure_Request_Delete s) =
     (if s \<in> set (items (structures st)) then st\<lparr>structures := request_delete s (structures st)\<rparr> else st)"
| "fees_step is_past st Structure_Confirm_Delete =
     st\<lparr>structures := fst (delete_confirm fs_id ''Fee Structure Deleted'' (structures st))\<rparr>"
| "fees_step is_past st (Structure_Dialog b) = st\<lparr>structures := modal_open_change b (structures st)\<rparr>"
| "fees_step is_past st (Open_Payment i) =
     (case find_fee_record i (fee_records st) of
        Some r \<Rightarrow> if payment_enabled r then open_payment_modal r st else st
      | None \<Rightarrow> st)"
| "fees_step is_past st (Payment_Submit v) =
     (if show_payment_modal st \<and> validate_payment v = [] then fst (payment_form_submit is_past v st) else st)"
| "fees_step is_past st (Payment_Dialog b) = payment_modal_change b st"

fun fees_run :: "(string \<Rightarrow> bool) \<Rightarrow> fees_page \<Rightarrow> fees_event list \<Rightarrow> fees_page" where
  "fees_run is_past st [] = st"
| "fees_run is_past st (e # es) = fees_run is_past (fees_step is_past st e) es"


subsection \<open>Step lemmas\<close>

lemma find_fee_record_unique:
  "ids_unique fr_id rs \<Longrightarrow> r \<in> set rs \<Longrightarrow> find_fee_record (fr_id r) rs = Some r"
proof (induction rs)
  case Nil
  then show ?case by simp
next
  case (Cons x rs)
  then show ?case
    by (auto simp: find_fee_record_def ids_unique_def image_iff)
qed

lemma record_payment_id [simp]: "fr_id (record_payment is_past p v r) = fr_id r"
  by (simp add: record_payment_def)

lemma fees_open_payment:
  assumes "ids_unique fr_id (fee_records st)" and "r \<in> set (fee_records st)"
  shows "fees_step is_past st (Open_Payment (fr_id r))
           = (if payment_enabled r then open_payment_modal r st else st)"
  using find_fee_record_unique [OF assms] by simp

lemma fees_pay:
  assumes "processing st = Some p" and "show_payment_modal st" and "validate_payment v = []"
  shows "fees_step is_past st (Payment_Submit v)
           = st\<lparr>fee_records := update_by_id fr_id (fr_id p) (record_payment is_past p v) (fee_records st),
                show_payment_modal := False, processing := None\<rparr>"
  using assms by (simp add: payment_form_submit_def)

lemma valid_payment_form:
  "0 < a \<Longrightarrow> is_valid_iso_date d \<Longrightarrow> validate_payment \<lparr>pf_paymentAmount = a, pf_paymentDate = d, pf_notes = n\<rparr> = []"
  by (simp add: validate_payment_def)

text \<open>One payment on a listed record, through the row's button and the dialog.\<close>

lemma fees_pay_listed:
  assumes uniq: "ids_unique fr_id (fee_records st)" and r: "r \<in> set (fee_records st)"
    and en: "payment_enabled r" and valid: "validate_payment v = []"
  shows "fees_run is_past st [Open_Payment (fr_id r), Payment_Submit v]
           = st\<lparr>fee_records := update_by_id fr_id (fr_id r) (record_payment is_past r v) (fee_records st),
                show_payment_modal := False, processing := None\<rparr>"
  using fees_open_payment [OF uniq r] en fees_pay [of "open_payment_modal r st" r v] valid
  by (simp add: open_payment_modal_def)

text \<open>
  Opening a fee structure for editing and saving the dialog unchanged leaves the
  structures as they were.
\<close>

lemma structure_edit_unchanged:
  assumes "editing (structures st) = Some s" and "s \<in> set (items (structures st))"
    and "ids_unique fs_id (items (structures st))" and "show_modal (structures st)"
  shows "items (structures (fees_step is_past st (Structure_Submit now (structure_form_of s)))) = items (structures st)"
proof -
  have same: "apply_structure_form (structure_form_of s) s = s"
    by (cases s) (simp add: apply_structure_form_def structure_form_of_def)
  have "update_by_id fs_id (fs_id s) (apply_structure_form (structure_form_of s)) (items (structures st))
        = items (structures st)"
    by (rule update_by_id_fixed) (use assms(2,3) same ids_unique_same_id in metis)
  then show ?thesis
    using assms(1,4)
    by (cases "validate_fee_structure (structure_form_of s) = []") (simp_all add: structure_form_submit_def)
qed

subsection \<open>The invariant of the fee records\<close>

definition fee_record_ok :: "student_fee_record \<Rightarrow> bool" where
  "fee_record_ok r \<longleftrightarrow> 0 \<le> fr_amountPaid r
     \<and> (fr_status r = Fee_Paid \<longleftrightarrow> fr_amountDue r \<le> fr_amountPaid r)
     \<and> (fr_status r = Fee_Partially_Paid \<longleftrightarrow> 0 < fr_amountPaid r \<and> fr_amountPaid r < fr_amountDue r)"

definition fees_inv :: "fees_page \<Rightarrow> bool" where
  "fees_inv st \<longleftrightarrow> ids_unique fr_id (fee_records st) \<and> list_all fee_record_ok (fee_records st)
     \<and> (case processing st of None \<Rightarrow> True | Some p \<Rightarrow> p \<in> set (fee_records st))"

lemma record_payment_ok:
  "0 \<le> fr_amountPaid p \<Longrightarrow> 0 < pf_paymentAmount v \<Longrightarrow> fee_record_ok (record_payment is_past p v p)"
  by (auto simp: fee_record_ok_def record_payment_def payment_status_def)

lemma fees_payment_inv:
  assumes inv: "fees_inv st" and pr: "processing st = Some p" and pos: "0 < pf_paymentAmount v"
  shows "fees_inv (st\<lparr>fee_records := update_by_id fr_id (fr_id p) (record_payment is_past p v) (fee_records st),
                     show_payment_modal := False, processing := None\<rparr>)"
proof -
  have uniq: "ids_unique fr_id (fee_records st)" and oks: "list_all fee_record_ok (fee_records st)"
    and mem: "p \<in> set (fee_records st)"
    using inv pr by (simp_all add: fees_inv_def)
  have "fee_record_ok p" using oks mem by (simp add: list_all_iff)
  then have "0 \<le> fr_amountPaid p" by (simp add: fee_record_ok_def)
  then have "fee_record_ok (record_payment is_past p v p)"
    using pos by (rule record_payment_ok)
  moreover have "set (update_by_id fr_id (fr_id p) (record_payment is_past p v) (fee_records st))
      = insert (record_payment is_past p v p) (set (fee_records st) - {p})"
    by (rule update_by_id_member [OF uniq mem]) simp
  ultimately show ?thesis
    using uniq oks by (auto simp: fees_inv_def update_by_id_ids_unique list_all_iff)
qed

lemma fees_step_inv: "fees_inv st \<Longrightarrow> fees_inv (fees_step is_past st e)"
proof (cases e)
  case (Open_Payment i)
  assume inv: "fees_inv st"
  then show ?thesis using Open_Payment
    by (auto simp: fees_inv_def open_payment_modal_def find_fee_record_def find_Some_iff
        split: option.splits dest!: nth_mem)
next
  case (Payment_Submit v)
  assume inv: "fees_inv st"
  show ?thesis
  proof (cases "show_payment_modal st \<and> validate_payment v = []")
    case True
    then have pos: "0 < pf_paymentAmount v" by (auto simp: validate_payment_def split: if_splits)
    show ?thesis
    proof (cases "processing st")
      case None
      with inv Payment_Submit show ?thesis by (simp add: payment_form_submit_def)
    next
      case (Some p)
      with True Payment_Submit fees_payment_inv [OF inv Some pos] show ?thesis
        by (simp add: payment_form_submit_def)
    qed
  next
    case False
    then have "fees_step is_past st e = st" using Payment_Submit by auto
    with inv show ?thesis by simp
  qed
next
  case (Payment_Dialog b)
  assume "fees_inv st"
  then show ?thesis using Payment_Dialog
    by (simp add: fees_inv_def payment_modal_change_def split: option.splits)
qed (simp_all add: fees_inv_def split: option.splits)


lemma initial_fees_inv: "fees_inv initial_fees_page"
  by (simp add: fees_inv_def initial_fees_page_def initial_fee_records_def ids_unique_def fee_record_ok_def)

lemma fees_run_inv: "fees_inv st \<Longrightarrow> fees_inv (fees_run is_past st es)"
  by (induction es arbitrary: st) (simp_all add: fees_step_inv)

text \<open>
  The payment dialog opens with the outstanding balance; on a record the button
  accepts (not yet paid), submitting it as it was filled is accepted and settles
  the fee exactly.
\<close>

lemma payment_default_settles:
  assumes "fee_record_ok r" and "payment_enabled r" and "is_valid_iso_date d"
  shows "validate_payment \<lparr>pf_paymentAmount = payment_default r, pf_paymentDate = d, pf_notes = n\<rparr> = []
         \<and> fr_amountPaid (record_payment is_past r \<lparr>pf_paymentAmount = payment_default r, pf_paymentDate = d,
              pf_notes = n\<rparr> r) = fr_amountDue r
         \<and> fr_status (record_payment is_past r \<lparr>pf_paymentAmount = payment_default r, pf_paymentDate = d,
              pf_notes = n\<rparr> r) = Fee_Paid"
proof -
  have "fr_amountPaid r < fr_amountDue r"
    using assms(1,2) by (auto simp: fee_record_ok_def payment_enabled_def)
  then have "payment_default r = fr_amountDue r - fr_amountPaid r" and "0 < payment_default r"
    by (simp_all add: payment_default_def)
  then show ?thesis
    using assms(3) by (simp add: validate_payment_def record_payment_def payment_status_def)
qed

lemma fees_pay_once:
  assumes inv: "fees_inv st" and r: "r \<in> set (fee_records st)" and en: "payment_enabled r"
    and valid: "validate_payment v = []"
  shows "fees_inv (fees_run is_past st [Open_Payment (fr_id r), Payment_Submit v])
       \<and> find_fee_record (fr_id r) (fee_records (fees_run is_past st [Open_Payment (fr_id r), Payment_Submit v]))
           = Some (record_payment is_past r v r)"
proof -
  have uniq: "ids_unique fr_id (fee_records st)" using inv by (simp add: fees_inv_def)
  define st' where "st' = fees_run is_past st [Open_Payment (fr_id r), Payment_Submit v]"
  have st': "st' = st\<lparr>fee_records := update_by_id fr_id (fr_id r) (record_payment is_past r v) (fee_records st),
                show_payment_modal := False, processing := None\<rparr>"
    unfolding st'_def by (rule fees_pay_listed [OF uniq r en valid])
  have inv': "fees_inv st'" unfolding st'_def by (rule fees_run_inv [OF inv])
  have mem: "record_payment is_past r v r \<in> set (fee_records st')"
    using update_by_id_member [OF uniq r, of "record_payment is_past r v"] st' by simp
  have "ids_unique fr_id (fee_records st')" using inv' by (simp add: fees_inv_def)
  then have "find_fee_record (fr_id (record_payment is_past r v r)) (fee_records st')
      = Some (record_payment is_past r v r)"
    using mem by (rule find_fee_record_unique)
  then have found: "find_fee_record (fr_id r) (fee_records st') = Some (record_payment is_past r v r)"
    by simp
  show ?thesis unfolding st'_def [symmetric] using inv' found by (rule conjI)
qed

text \<open>
  C3: in every state the page can reach, fee record ids are unique, a record is
  \<open>Paid\<close> exactly when its amount paid reaches the amount due, \<open>Partially Paid\<close>
  exactly when something but not all is paid, and the record in the payment dialog
  is one of the listed records.
\<close>

theorem fees_reachable_inv: "fees_inv (fees_run is_past initial_fees_page es)"
  by (rule fees_run_inv [OF initial_fees_inv])

text \<open>
  C2: the specification's payment example: a record owing 5000 with nothing paid
  becomes \<open>Partially Paid\<close> with 3000 after a payment of 3000, \<open>Paid\<close> with 5000
  after a further 2000, and its "Manage Payment" button then does nothing.
\<close>

theorem fee_payment_scenario:
  assumes inv: "fees_inv st" and r: "r \<in> set (fee_records st)"
    and due: "fr_amountDue r = 5000" and paid: "fr_amountPaid r = 0"
    and d1: "is_valid_iso_date d1" and d2: "is_valid_iso_date d2"
  shows "find_fee_record (fr_id r) (fee_records (fees_run is_past st
             [Open_Payment (fr_id r), Payment_Submit \<lparr>pf_paymentAmount = 3000, pf_paymentDate = d1, pf_notes = n1\<rparr>]))
           = Some (r\<lparr>fr_amountPaid := 3000, fr_lastPaymentDate := Some d1, fr_notes := n1,
                     fr_status := Fee_Partially_Paid\<rparr>)
       \<and> find_fee_record (fr_id r) (fee_records (fees_run is_past st
             [Open_Payment (fr_id r), Payment_Submit \<lparr>pf_paymentAmount = 3000, pf_paymentDate = d1, pf_notes = n1\<rparr>,
              Open_Payment (fr_id r), Payment_Submit \<lparr>pf_paymentAmount = 2000, pf_paymentDate = d2, pf_notes = n2\<rparr>]))
           = Some (r\<lparr>fr_amountPaid := 5000, fr_lastPaymentDate := Some d2, fr_notes := n2, fr_status := Fee_Paid\<rparr>)
       \<and> fees_step is_past (fees_run is_past st
             [Open_Payment (fr_id r), Payment_Submit \<lparr>pf_paymentAmount = 3000, pf_paymentDate = d1, pf_notes = n1\<rparr>,
              Open_Payment (fr_id r), Payment_Submit \<lparr>pf_paymentAmount = 2000, pf_paymentDate = d2, pf_notes = n2\<rparr>])
             (Open_Payment (fr_id r))
         = fees_run is_past st
             [Open_Payment (fr_id r), Payment_Submit \<lparr>pf_paymentAmount = 3000, pf_paymentDate = d1, pf_notes = n1\<rparr>,
              Open_Payment (fr_id r), Payment_Submit \<lparr>pf_paymentAmount = 2000, pf_paymentDate = d2, pf_notes = n2\<rparr>]"
proof -
  let ?v1 = "\<lparr>pf_paymentAmount = 3000, pf_paymentDate = d1, pf_notes = n1\<rparr> :: payment_form"
  let ?v2 = "\<lparr>pf_paymentAmount = 2000, pf_paymentDate = d2, pf_notes = n2\<rparr> :: payment_form"
  define st1 where "st1 = fees_run is_past st [Open_Payment (fr_id r), Payment_Submit ?v1]"
  define st2 where "st2 = fees_run is_past st1 [Open_Payment (fr_id r), Payment_Submit ?v2]"
  let ?r1 = "record_payment is_past r ?v1 r"
  let ?r2 = "record_payment is_past ?r1 ?v2 ?r1"
  have run4: "fees_run is_past st [Open_Payment (fr_id r), Payment_Submit ?v1,
                                   Open_Payment (fr_id r), Payment_Submit ?v2] = st2"
    unfolding st2_def st1_def by (simp only: fees_run.simps)
  have ok: "fee_record_ok r" using inv r by (simp add: fees_inv_def list_all_iff)
  have en: "payment_enabled r" using ok due paid by (simp add: fee_record_ok_def payment_enabled_def)
  have one: "fees_inv st1 \<and> find_fee_record (fr_id r) (fee_records st1) = Some ?r1"
    unfolding st1_def by (rule fees_pay_once [OF inv r en]) (simp add: valid_payment_form d1)
  have r1: "?r1 = r\<lparr>fr_amountPaid := 3000, fr_lastPaymentDate := Some d1, fr_notes := n1,
                     fr_status := Fee_Partially_Paid\<rparr>"
    using due paid by (simp add: record_payment_def payment_status_def)
  have r1_mem: "?r1 \<in> set (fee_records st1)"
    using one by (auto simp: find_fee_record_def find_Some_iff)
  have en1: "payment_enabled ?r1" using r1 by (simp add: payment_enabled_def)
  have inv1: "fees_inv st1" using one by simp
  have "fees_inv (fees_run is_past st1 [Open_Payment (fr_id ?r1), Payment_Submit ?v2])
      \<and> find_fee_record (fr_id ?r1) (fee_records (fees_run is_past st1 [Open_Payment (fr_id ?r1), Payment_Submit ?v2]))
          = Some ?r2"
    by (rule fees_pay_once [OF inv1 r1_mem en1]) (simp add: valid_payment_form d2)
  then have two: "fees_inv st2 \<and> find_fee_record (fr_id r) (fee_records st2) = Some ?r2"
    unfolding st2_def by (simp only: record_payment_id)
  have r2: "?r2 = r\<lparr>fr_amountPaid := 5000, fr_lastPaymentDate := Some d2, fr_notes := n2, fr_status := Fee_Paid\<rparr>"
    using due paid by (simp add: record_payment_def payment_status_def)
  have r2_mem: "?r2 \<in> set (fee_records st2)"
    using two by (auto simp: find_fee_record_def find_Some_iff)
  have "ids_unique fr_id (fee_records st2)" using two by (simp add: fees_inv_def)
  then have three: "fees_step is_past st2 (Open_Payment (fr_id r)) = st2"
    using fees_open_payment [OF _ r2_mem] r2 by (simp add: payment_enabled_def)
  have f1: "find_fee_record (fr_id r) (fee_records st1)
      = Some (r\<lparr>fr_amountPaid := 3000, fr_lastPaymentDate := Some d1, fr_notes := n1,
                 fr_status := Fee_Partially_Paid\<rparr>)"
    using one r1 by simp
  have f2: "find_fee_record (fr_id r) (fee_records st2)
      = Some (r\<lparr>fr_amountPaid := 5000, fr_lastPaymentDate := Some d2, fr_notes := n2, fr_status := Fee_Paid\<rparr>)"
    using two r2 by simp
  show ?thesis unfolding run4 st1_def [symmetric] using f1 f2 three by blast
qed

text \<open>
  A valid payment (a positive amount) on a record with a non-negative amount
  paid always yields \<open>Paid\<close> or \<open>Partially Paid\<close>: the \<open>Pending\<close>/\<open>Overdue\<close> branch
  of \<open>handlePaymentFormSubmit\<close> is unreachable.
\<close>

theorem payment_status_after_valid_payment:
  assumes "0 \<le> fr_amountPaid p" and "0 < pf_paymentAmount v"
  shows "fr_status (record_payment is_past p v r) \<in> {Fee_Paid, Fee_Partially_Paid}"
  using assms by (simp add: record_payment_def payment_status_def)

text \<open>
  C18: a payment adds exactly the amount entered; nothing bounds it by the amount
  still due, so a record can be paid beyond its amount due.
\<close>

theorem fee_payment_adds_amount:
  assumes "fees_inv st" and "r \<in> set (fee_records st)" and "payment_enabled r" and "validate_payment v = []"
  shows "\<exists>r'. find_fee_record (fr_id r) (fee_records (fees_run is_past st [Open_Payment (fr_id r), Payment_Submit v]))
               = Some r'
             \<and> fr_amountPaid r' = fr_amountPaid r + pf_paymentAmount v
             \<and> fr_amountDue r' = fr_amountDue r"
  using fees_pay_once [OF assms] by (simp add: record_payment_def)

text \<open>
  C17: events other than a payment never change the fee records: a status is not
  recomputed when its due date passes.
\<close>

definition is_payment_event :: "fees_event \<Rightarrow> bool" where
  "is_payment_event e \<longleftrightarrow> (case e of Payment_Submit _ \<Rightarrow> True | _ \<Rightarrow> False)"

theorem fee_records_frame:
  "\<forall>e\<in>set es. \<not> is_payment_event e \<Longrightarrow> fee_records (fees_run is_past st es) = fee_records st"
proof (induction es arbitrary: st)
  case Nil
  then show ?case by simp
next
  case (Cons e es)
  then have "fee_records (fees_step is_past st e) = fee_records st"
    by (cases e) (auto simp: is_payment_event_def open_payment_modal_def payment_modal_change_def
        split: option.splits)
  with Cons show ?case by simp
qed

subsection \<open>Witnesses\<close>

definition diana_fee :: student_fee_record where
  "diana_fee = \<lparr>fr_id = ''SFR004'', fr_studentName = ''Diana Miller'', fr_className = ''NC'',
      fr_feeTypeDescription = ''Admission Fee'', fr_amountDue = 5000, fr_amountPaid = 0,
      fr_dueDate = ''2024-03-01'', fr_status = Fee_Overdue, fr_lastPaymentDate = None, fr_notes = None\<rparr>"

definition charlie_fee :: student_fee_record where
  "charlie_fee = \<lparr>fr_id = ''SFR003'', fr_studentName = ''Charlie Brown'', fr_className = ''11'',
      fr_feeTypeDescription = ''Transport Fee - Term 1'', fr_amountDue = 7500, fr_amountPaid = 3000,
      fr_dueDate = ''2024-04-20'', fr_status = Fee_Partially_Paid, fr_lastPaymentDate = Some ''2024-04-18'',
      fr_notes = Some ''First installment paid.''\<rparr>"

lemma valid_date_0701: "is_valid_iso_date ''2024-07-01''"
  by (simp add: is_valid_iso_date_def parse_iso_date_def valid_date_def days_in_month_def
      is_digit_def nat_of_digits_def digit_val_def)

lemma valid_date_0715: "is_valid_iso_date ''2024-07-15''"
  by (simp add: is_valid_iso_date_def parse_iso_date_def valid_date_def days_in_month_def
      is_digit_def nat_of_digits_def digit_val_def)

theorem fee_payment_scenario_witness:
  "fees_inv initial_fees_page \<and> diana_fee \<in> set (fee_records initial_fees_page)
   \<and> find_fee_record ''SFR004'' (fee_records (fees_run (\<lambda>_. True) initial_fees_page
        [Open_Payment ''SFR004'', Payment_Submit \<lparr>pf_paymentAmount = 3000, pf_paymentDate = ''2024-07-01'', pf_notes = None\<rparr>,
         Open_Payment ''SFR004'', Payment_Submit \<lparr>pf_paymentAmount = 2000, pf_paymentDate = ''2024-07-15'', pf_notes = None\<rparr>]))
      = Some (diana_fee\<lparr>fr_amountPaid := 5000, fr_lastPaymentDate := Some ''2024-07-15'', fr_notes := None,
                        fr_status := Fee_Paid\<rparr>)"
proof -
  have mem: "diana_fee \<in> set (fee_records initial_fees_page)"
    by (simp add: initial_fees_page_def initial_fee_records_def diana_fee_def)
  have "fr_id diana_fee = ''SFR004''" by (simp add: diana_fee_def)
  have due: "fr_amountDue diana_fee = 5000" and paid: "fr_amountPaid diana_fee = 0"
    by (simp_all add: diana_fee_def)
  note s = fee_payment_scenario [OF initial_fees_inv mem due paid valid_date_0701 valid_date_0715,
        of "\<lambda>_. True" None None]
  show ?thesis using initial_fees_inv mem s [unfolded \<open>fr_id diana_fee = ''SFR004''\<close>] by blast
qed

theorem payment_status_after_valid_payment_witness:
  "fr_status (record_payment (\<lambda>_. True) diana_fee \<lparr>pf_paymentAmount = 1, pf_paymentDate = ''2024-07-01'', pf_notes = None\<rparr>
      diana_fee) \<in> {Fee_Paid, Fee_Partially_Paid}"
  by (rule payment_status_after_valid_payment) (simp_all add: diana_fee_def)

theorem fee_payment_adds_amount_witness:
  "\<exists>r'. find_fee_record ''SFR003'' (fee_records (fees_run (\<lambda>_. True) initial_fees_page
          [Open_Payment ''SFR003'', Payment_Submit \<lparr>pf_paymentAmount = 10000, pf_paymentDate = ''2024-07-01'', pf_notes = None\<rparr>]))
        = Some r' \<and> fr_amountPaid r' = 13000 \<and> fr_amountDue r' = 7500"
proof -
  have mem: "charlie_fee \<in> set (fee_records initial_fees_page)"
    by (simp add: initial_fees_page_def initial_fee_records_def charlie_fee_def)
  have en: "payment_enabled charlie_fee" by (simp add: payment_enabled_def charlie_fee_def)
  have v: "validate_payment \<lparr>pf_paymentAmount = 10000, pf_paymentDate = ''2024-07-01'', pf_notes = None\<rparr> = []"
    by (simp add: valid_payment_form valid_date_0701)
  show ?thesis
    using fee_payment_adds_amount [OF initial_fees_inv mem en v, of "\<lambda>_. True"]
    by (simp add: charlie_fee_def)
qed

theorem fee_records_frame_witness:
  "fee_records (fees_run (\<lambda>_. True) initial_fees_page [Structure_Add, Payment_Dialog False, Open_Payment ''SFR002''])
     = fee_records initial_fees_page"
  by (rule fee_records_frame) (simp add: is_payment_event_def)

end
