(* ===== verification/Leave.thy ===== *)
theory Leave
  imports Entity_List Dates
begin

text \<open>
  The attendance and leave page (\<open>attendance-leave/page.tsx\<close>): a fixed list of
  leave requests that an administrator approves or rejects through a confirmation
  dialog. The page is a state machine; \<open>leave_step\<close> is its step relation over
  the UI events (select an action on a row, confirm, cancel, and the render, which
  sorts the state array in place), and \<open>leave_reachable\<close> the states the page
  reaches from its initial state. The rendered table (rows, status badges, the
  Actions cell, the empty state) and the confirmation dialog's text and button are
  functions of the state.
\<close>

datatype leave_request_status = Leave_Pending | Leave_Approved | Leave_Rejected

datatype leave_type = Annual | Sick | Casual | Unpaid

record leave_request =
  lr_id :: ident
  lr_employeeName :: string
  lr_employeeId :: string
  lr_leaveType :: leave_type
  lr_startDate :: string
  lr_endDate :: string
  lr_reason :: string
  lr_status :: leave_request_status
  lr_appliedDate :: string

datatype leave_action = Approve | Reject

definition initial_leave_requests :: "leave_request list" where
  "initial_leave_requests =
    [\<lparr>lr_id = ''LR001'', lr_employeeName = ''Mr. Samuel Green'', lr_employeeId = ''T2002'',
      lr_leaveType = Annual, lr_startDate = ''2024-08-05'', lr_endDate = ''2024-08-07'',
      lr_reason = ''Family vacation'', lr_status = Leave_Pending, lr_appliedDate = ''2024-07-20''\<rparr>,
     \<lparr>lr_id = ''LR002'', lr_employeeName = ''Ms. Olivia Chen'', lr_employeeId = ''T2003'',
      lr_leaveType = Sick, lr_startDate = ''2024-07-22'', lr_endDate = ''2024-07-23'',
      lr_reason = ''Flu symptoms'', lr_status = Leave_Approved, lr_appliedDate = ''2024-07-21''\<rparr>,
     \<lparr>lr_id = ''LR003'', lr_employeeName = ''Dr. Eleanor Vance'', lr_employeeId = ''T2001'',
      lr_leaveType = Casual, lr_startDate = ''2024-08-10'', lr_endDate = ''2024-08-10'',
      lr_reason = ''Personal appointment'', lr_status = Leave_Pending, lr_appliedDate = ''2024-07-25''\<rparr>,
     \<lparr>lr_id = ''LR004'', lr_employeeName = ''Mr. David Lee'', lr_employeeId = ''T2004'',
      lr_leaveType = Unpaid, lr_startDate = ''2024-07-28'', lr_endDate = ''2024-07-29'',
      lr_reason = ''Urgent travel'', lr_status = Leave_Rejected, lr_appliedDate = ''2024-07-26''\<rparr>]"

record leave_page =
  leave_requests :: "leave_request list"
  request_to_process :: "(ident \<times> leave_action) option"

definition initial_leave_page :: leave_page where
  "initial_leave_page = \<lparr>leave_requests = initial_leave_requests, request_to_process = None\<rparr>"

definition action_status :: "leave_action \<Rightarrow> leave_request_status" where
  "action_status a = (if a = Approve then Leave_Approved else Leave_Rejected)"

definition handle_process_request :: "leave_page \<Rightarrow> leave_page \<times> toast list" where
  "handle_process_request st =
     (case request_to_process st of
        None \<Rightarrow> (st, [])
      | Some (i, a) \<Rightarrow>
          (st\<lparr>leave_requests := update_by_id lr_id i (\<lambda>r. r\<lparr>lr_status := action_status a\<rparr>) (leave_requests st),
              request_to_process := None\<rparr>,
           [mk_toast (''Leave Request '' @ (if a = Approve then ''Approved'' else ''Rejected''))]))"

text \<open>
  The table comparator \<open>(a, b) => new Date(b.appliedDate).getTime() -
  new Date(a.appliedDate).getTime()\<close>; a \<open>NaN\<close> difference is read as \<open>+0\<close> by the sort.
\<close>

definition leave_cmp :: "leave_request \<Rightarrow> leave_request \<Rightarrow> js_number" where
  "leave_cmp a b =
     (case (js_date_time (lr_appliedDate b), js_date_time (lr_appliedDate a)) of
        (Some tb, Some ta) \<Rightarrow> tb - ta
      | _ \<Rightarrow> 0)"

text \<open>
  The render calls \<open>leaveRequests.sort(...)\<close> on the state array itself, so the
  array held by the state is reordered by every render.
\<close>

definition render_leave_table :: "leave_page \<Rightarrow> leave_page" where
  "render_leave_table st = st\<lparr>leave_requests := js_sort leave_cmp (leave_requests st)\<rparr>"

text \<open>Approve and Reject are rendered for an administrator on Pending rows only.\<close>

definition leave_actions_shown :: "bool \<Rightarrow> leave_request \<Rightarrow> bool" where
  "leave_actions_shown is_admin r \<longleftrightarrow> is_admin \<and> lr_status r = Leave_Pending"

inductive leave_step :: "bool \<Rightarrow> leave_page \<Rightarrow> leave_page \<Rightarrow> bool" for is_admin where
  render: "leave_step is_admin st (render_leave_table st)"
| select: "r \<in> set (leave_requests st) \<Longrightarrow> leave_actions_shown is_admin r \<Longrightarrow>
    leave_step is_admin st (st\<lparr>request_to_process := Some (lr_id r, a)\<rparr>)"
| confirm: "leave_step is_admin st (fst (handle_process_request st))"
| cancel: "leave_step is_admin st (st\<lparr>request_to_process := None\<rparr>)"

text \<open>
  The same events as a function, for composing the page with the rest of the
  application: a render, a click on Approve or Reject of a row (a no-op when the row
  shows no buttons), and the dialog's Confirm and Cancel.
\<close>

datatype leave_event =
    Leave_Render
  | Leave_Select leave_request leave_action
  | Leave_Confirm
  | Leave_Cancel

fun leave_event_step :: "bool \<Rightarrow> leave_event \<Rightarrow> leave_page \<Rightarrow> leave_page" where
  "leave_event_step is_admin Leave_Render st = render_leave_table st"
| "leave_event_step is_admin (Leave_Select r a) st =
     (if r \<in> set (leave_requests st) \<and> leave_actions_shown is_admin r
      then st\<lparr>request_to_process := Some (lr_id r, a)\<rparr> else st)"
| "leave_event_step is_admin Leave_Confirm st = fst (handle_process_request st)"
| "leave_event_step is_admin Leave_Cancel st = st\<lparr>request_to_process := None\<rparr>"

inductive leave_reachable :: "bool \<Rightarrow> leave_page \<Rightarrow> bool" for is_admin where
  init: "leave_reachable is_admin initial_leave_page"
| step: "leave_reachable is_admin st \<Longrightarrow> leave_step is_admin st st' \<Longrightarrow> leave_reachable is_admin st'"

code_pred leave_step .

inductive_cases leave_stepE: "leave_step is_admin st st'"

text \<open>A request without its status: what no event of the page can change.\<close>

definition request_fields :: "leave_request \<Rightarrow> leave_request" where
  "request_fields r = r\<lparr>lr_status := Leave_Pending\<rparr>"

definition applied_key :: "leave_request \<Rightarrow> js_number" where
  "applied_key r = (case js_date_time (lr_appliedDate r) of Some t \<Rightarrow> - t | None \<Rightarrow> 0)"

definition leave_inv :: "leave_page \<Rightarrow> bool" where
  "leave_inv st \<longleftrightarrow>
     ids_unique lr_id (leave_requests st)
     \<and> mset (map request_fields (leave_requests st)) = mset (map request_fields initial_leave_requests)
     \<and> (case request_to_process st of
          None \<Rightarrow> True
        | Some (i, a) \<Rightarrow> (\<exists>r\<in>set (leave_requests st). lr_id r = i \<and> lr_status r = Leave_Pending))"

subsection \<open>The rendered page\<close>

text \<open>\<open>getStatusBadgeVariant\<close>; its \<open>default\<close> branch has no status left to take.\<close>

definition status_badge_variant :: "leave_request_status \<Rightarrow> string" where
  "status_badge_variant s =
     (case s of Leave_Approved \<Rightarrow> ''default'' | Leave_Pending \<Rightarrow> ''secondary'' | Leave_Rejected \<Rightarrow> ''destructive'')"

definition status_name :: "leave_request_status \<Rightarrow> string" where
  "status_name s = (case s of Leave_Pending \<Rightarrow> ''Pending'' | Leave_Approved \<Rightarrow> ''Approved'' | Leave_Rejected \<Rightarrow> ''Rejected'')"

definition leave_type_name :: "leave_type \<Rightarrow> string" where
  "leave_type_name t = (case t of Annual \<Rightarrow> ''Annual'' | Sick \<Rightarrow> ''Sick'' | Casual \<Rightarrow> ''Casual'' | Unpaid \<Rightarrow> ''Unpaid'')"

definition action_word :: "leave_action \<Rightarrow> string" where
  "action_word a = (if a = Approve then ''approve'' else ''reject'')"

datatype leave_actions_cell = Approve_Reject_Buttons | Processed_Label

record leave_row =
  row_cells :: "string list"
  row_badge :: string
  row_actions :: "leave_actions_cell option"

text \<open>
  One row of the table; \<open>fmt\<close> is \<open>format(new Date(s), 'PP')\<close>. The Actions column
  exists for administrators only, with the two buttons on a pending request and the
  Processed label on any other.
\<close>

definition leave_row_view :: "(string \<Rightarrow> string) \<Rightarrow> bool \<Rightarrow> leave_request \<Rightarrow> leave_row" where
  "leave_row_view fmt is_admin r =
     \<lparr>row_cells = [lr_employeeName r, leave_type_name (lr_leaveType r), fmt (lr_startDate r), fmt (lr_endDate r),
                  lr_reason r, status_name (lr_status r), fmt (lr_appliedDate r)],
      row_badge = status_badge_variant (lr_status r),
      row_actions = (if is_admin then Some (if lr_status r = Leave_Pending then Approve_Reject_Buttons else Processed_Label)
                     else None)\<rparr>"

definition leave_headers :: "bool \<Rightarrow> string list" where
  "leave_headers is_admin =
     [''Employee Name'', ''Leave Type'', ''Start Date'', ''End Date'', ''Reason'', ''Status'', ''Applied On'']
     @ (if is_admin then [''Actions''] else [])"

datatype leave_table_view = No_Leave_Requests | Leave_Rows "leave_row list"

definition leave_table_view :: "(string \<Rightarrow> string) \<Rightarrow> bool \<Rightarrow> leave_page \<Rightarrow> leave_table_view" where
  "leave_table_view fmt is_admin st =
     (if leave_requests st = [] then No_Leave_Requests
      else Leave_Rows (map (leave_row_view fmt is_admin) (js_sort leave_cmp (leave_requests st))))"

text \<open>
  The confirmation dialog: open while a request is chosen; its text interpolates
  \<open>requestToProcess?.action\<close> and the name \<open>find\<close> gives (\<open>undefined\<close> when either
  is missing); the confirm button reads Approve only for an approval and is
  destructive only for a rejection.
\<close>

record leave_dialog =
  dlg_open :: bool
  dlg_text :: string
  dlg_confirm_label :: string
  dlg_confirm_variant :: string

definition request_name :: "leave_request list \<Rightarrow> ident \<Rightarrow> string" where
  "request_name rs i = (case find (\<lambda>r. lr_id r = i) rs of Some r \<Rightarrow> lr_employeeName r | None \<Rightarrow> ''undefined'')"

definition leave_dialog_view :: "leave_page \<Rightarrow> leave_dialog" where
  "leave_dialog_view st =
     (case request_to_process st of
        None \<Rightarrow> \<lparr>dlg_open = False,
                 dlg_text = ''Are you sure you want to undefined this leave request for undefined?'',
                 dlg_confirm_label = ''Reject'', dlg_confirm_variant = ''default''\<rparr>
      | Some (i, a) \<Rightarrow> \<lparr>dlg_open = True,
                 dlg_text = ''Are you sure you want to '' @ action_word a @ '' this leave request for ''
                            @ request_name (leave_requests st) i @ ''?'',
                 dlg_confirm_label = (if a = Approve then ''Approve'' else ''Reject''),
                 dlg_confirm_variant = (if a = Reject then ''destructive'' else ''default'')\<rparr>)"

text \<open>The toast's description, read from the requests before the update.\<close>

definition process_toast_description :: "leave_page \<Rightarrow> string" where
  "process_toast_description st =
     (case request_to_process st of
        None \<Rightarrow> []
      | Some (i, a) \<Rightarrow> ''The leave request for '' @ request_name (leave_requests st) i @ '' has been ''
                      @ (if a = Approve then ''approved'' else ''rejected'') @ ''.'')"

subsection \<open>The table sort\<close>

lemma leave_cmp_consistent_on:
  assumes "\<forall>r\<in>A. js_date_time (lr_appliedDate r) \<noteq> None"
  shows "consistent_on A leave_cmp applied_key"
  unfolding consistent_on_def
proof (intro ballI)
  fix x y assume "x \<in> A" "y \<in> A"
  with assms obtain tx ty where "js_date_time (lr_appliedDate x) = Some tx"
      "js_date_time (lr_appliedDate y) = Some ty"
    by blast
  then show "leave_cmp x y \<le> 0 \<longleftrightarrow> applied_key x \<le> applied_key y"
    by (simp add: leave_cmp_def applied_key_def)
qed

lemma request_fields_applied [simp]: "lr_appliedDate (request_fields r) = lr_appliedDate r"
  by (simp add: request_fields_def)

lemma initial_applied_valid: "\<forall>r\<in>set initial_leave_requests. js_date_time (lr_appliedDate r) \<noteq> None"
  by (simp add: initial_leave_requests_def date_eval)

lemma fields_applied_valid:
  assumes "mset (map request_fields xs) = mset (map request_fields initial_leave_requests)"
  shows "\<forall>r\<in>set xs. js_date_time (lr_appliedDate r) \<noteq> None"
proof
  fix r assume "r \<in> set xs"
  then have "request_fields r \<in> set (map request_fields initial_leave_requests)"
    using arg_cong [OF assms, of set_mset] by auto
  then obtain r0 where r0: "r0 \<in> set initial_leave_requests" "request_fields r = request_fields r0"
    by auto
  then have "lr_appliedDate r = lr_appliedDate r0" by (metis request_fields_applied)
  with r0 initial_applied_valid show "js_date_time (lr_appliedDate r) \<noteq> None" by simp
qed

lemma leave_sort_key:
  "mset (map request_fields xs) = mset (map request_fields initial_leave_requests) \<Longrightarrow>
   js_sort leave_cmp xs = sort_key applied_key xs"
  by (rule js_sort_sort_key_on [OF leave_cmp_consistent_on [OF fields_applied_valid]])

lemma leave_sort_mset:
  "mset (map request_fields xs) = mset (map request_fields initial_leave_requests) \<Longrightarrow>
   mset (js_sort leave_cmp xs) = mset xs"
  by (simp add: leave_sort_key)

lemma mset_map_eq: "mset xs = mset ys \<Longrightarrow> mset (map f xs) = mset (map f ys)"
  by simp

lemma render_leave_inv: "leave_inv st \<Longrightarrow> leave_inv (render_leave_table st)"
proof -
  assume inv: "leave_inv st"
  then have m: "mset (map request_fields (leave_requests st)) = mset (map request_fields initial_leave_requests)"
    by (simp add: leave_inv_def)
  then have ms: "mset (js_sort leave_cmp (leave_requests st)) = mset (leave_requests st)"
    by (rule leave_sort_mset)
  then have set_eq: "set (js_sort leave_cmp (leave_requests st)) = set (leave_requests st)"
    by (metis set_mset_mset)
  have uniq: "ids_unique lr_id (js_sort leave_cmp (leave_requests st))"
    using inv mset_eq_imp_distinct_iff [OF mset_map_eq [OF ms, of lr_id]]
    by (simp add: leave_inv_def ids_unique_def)
  have "mset (map request_fields (js_sort leave_cmp (leave_requests st)))
      = mset (map request_fields initial_leave_requests)"
    using m mset_map_eq [OF ms, of request_fields] by simp
  with inv uniq show ?thesis
    by (auto simp: leave_inv_def render_leave_table_def set_eq split: option.splits)
qed

subsection \<open>The invariant of the page\<close>

lemma request_fields_status [simp]: "request_fields (r\<lparr>lr_status := x\<rparr>) = request_fields r"
  by (simp add: request_fields_def)

lemma update_status_fields [simp]:
  "image_mset request_fields (mset (update_by_id lr_id i (\<lambda>r. r\<lparr>lr_status := x\<rparr>) xs))
   = image_mset request_fields (mset xs)"
proof -
  have "map request_fields (update_by_id lr_id i (\<lambda>r. r\<lparr>lr_status := x\<rparr>) xs) = map request_fields xs"
    by (rule update_by_id_map_inv) simp
  then show ?thesis by (metis mset_map)
qed

lemma process_leave_inv: "leave_inv st \<Longrightarrow> leave_inv (fst (handle_process_request st))"
  by (auto simp: leave_inv_def handle_process_request_def crud_simps split: option.splits)

lemma leave_step_inv: "leave_step adm st st' \<Longrightarrow> leave_inv st \<Longrightarrow> leave_inv st'"
proof (induction rule: leave_step.induct)
  case (render st)
  then show ?case by (rule render_leave_inv)
next
  case (select r st a)
  then show ?case by (auto simp: leave_inv_def leave_actions_shown_def)
next
  case (confirm st)
  then show ?case by (rule process_leave_inv)
next
  case (cancel st)
  then show ?case by (simp add: leave_inv_def)
qed

lemma initial_leave_inv: "leave_inv initial_leave_page"
  by (simp add: leave_inv_def initial_leave_page_def ids_unique_def initial_leave_requests_def)

lemma leave_reachable_inv: "leave_reachable adm st \<Longrightarrow> leave_inv st"
  by (induction rule: leave_reachable.induct) (auto intro: initial_leave_inv leave_step_inv)

lemma render_leave_mset:
  "leave_inv st \<Longrightarrow> mset (leave_requests (render_leave_table st)) = mset (leave_requests st)"
  by (simp add: render_leave_table_def leave_inv_def leave_sort_mset)

lemma render_leave_sorted:
  "leave_inv st \<Longrightarrow> sorted (map applied_key (leave_requests (render_leave_table st)))"
  by (simp add: render_leave_table_def leave_inv_def leave_sort_key)

lemma leave_inv_pending_target:
  "leave_inv st \<Longrightarrow> request_to_process st = Some (i, a) \<Longrightarrow>
   \<exists>p\<in>set (leave_requests st). lr_id p = i \<and> lr_status p = Leave_Pending"
  by (simp add: leave_inv_def)

subsection \<open>The rendered page\<close>

text \<open>
  In every reachable state an open confirmation dialog names the employee of a
  pending request with the chosen id (never \<open>undefined\<close>), says the chosen action,
  and its confirm button reads and looks like that action.
\<close>

lemma leave_dialog_names_pending:
  assumes "leave_reachable adm st" and "request_to_process st = Some (i, a)"
  shows "\<exists>r\<in>set (leave_requests st). lr_id r = i \<and> lr_status r = Leave_Pending
           \<and> leave_dialog_view st = \<lparr>dlg_open = True,
                 dlg_text = ''Are you sure you want to '' @ action_word a @ '' this leave request for ''
                            @ lr_employeeName r @ ''?'',
                 dlg_confirm_label = (if a = Approve then ''Approve'' else ''Reject''),
                 dlg_confirm_variant = (if a = Reject then ''destructive'' else ''default'')\<rparr>"
proof -
  have inv: "leave_inv st" using assms(1) by (rule leave_reachable_inv)
  then obtain r where r: "r \<in> set (leave_requests st)" "lr_id r = i" "lr_status r = Leave_Pending"
    using leave_inv_pending_target [OF inv assms(2)] by blast
  have "request_name (leave_requests st) i = lr_employeeName r"
    using find_unique_id [of lr_id "leave_requests st" r] inv r by (simp add: leave_inv_def request_name_def)
  then show ?thesis using r assms(2) by (auto simp: leave_dialog_view_def)
qed

text \<open>
  The table lists every request once, in the render's order, and shows the Actions
  column with its buttons to administrators only, on exactly the pending requests.
\<close>

lemma leave_table_rows:
  assumes "leave_requests st \<noteq> []"
  shows "leave_table_view fmt adm st = Leave_Rows (map (leave_row_view fmt adm) (leave_requests (render_leave_table st)))
         \<and> mset (leave_requests (render_leave_table st)) = mset (leave_requests st)
         \<and> (\<forall>r. row_actions (leave_row_view fmt adm r) = Some Approve_Reject_Buttons
                \<longleftrightarrow> leave_actions_shown adm r)
         \<and> (\<not> adm \<longrightarrow> ''Actions'' \<notin> set (leave_headers adm))"
  using assms
  by (simp add: leave_table_view_def render_leave_table_def js_sort_mset_any leave_row_view_def
      leave_actions_shown_def leave_headers_def)

lemma leave_table_empty: "leave_table_view fmt adm st = No_Leave_Requests \<longleftrightarrow> leave_requests st = []"
  by (simp add: leave_table_view_def)

subsection \<open>Properties of the page\<close>

text \<open>
  A request that has been approved or rejected is final: no step of the
  page, in any reachable state, removes or changes it.
\<close>

theorem leave_processed_final:
  assumes "leave_reachable adm st" and "leave_step adm st st'"
    and "r \<in> set (leave_requests st)" and "lr_status r \<noteq> Leave_Pending"
  shows "r \<in> set (leave_requests st')"
proof -
  have inv: "leave_inv st" using assms(1) by (rule leave_reachable_inv)
  show ?thesis
    using assms(2)
  proof (cases rule: leave_step.cases)
    case render
    then show ?thesis using assms(3) render_leave_mset [OF inv] by (metis set_mset_mset)
  next
    case (select q a)
    then show ?thesis using assms(3) by simp
  next
    case confirm
    show ?thesis
    proof (cases "request_to_process st")
      case None
      then show ?thesis using confirm assms(3) by (simp add: handle_process_request_def)
    next
      case (Some t)
      then obtain i a where t: "request_to_process st = Some (i, a)" by (cases t) auto
      then obtain p where p: "p \<in> set (leave_requests st)" "lr_id p = i" "lr_status p = Leave_Pending"
        using leave_inv_pending_target [OF inv] by blast
      have "lr_id r \<noteq> i"
        using ids_unique_same_id [of lr_id "leave_requests st" r p] inv assms(3,4) p
        by (auto simp: leave_inv_def)
      then show ?thesis
        using confirm t assms(3) by (simp add: handle_process_request_def update_by_id_other_mem)
    qed
  next
    case cancel
    then show ?thesis using assms(3) by simp
  qed
qed

theorem leave_processed_final_witness:
  "initial_leave_requests ! 1 \<in> set (leave_requests
     (fst (handle_process_request (initial_leave_page\<lparr>request_to_process := Some (''LR001'', Reject)\<rparr>))))"
proof -
  let ?st = "initial_leave_page\<lparr>request_to_process := Some (''LR001'', Reject)\<rparr>"
  have "leave_step True initial_leave_page ?st"
    using leave_step.select [of "initial_leave_requests ! 0" initial_leave_page True Reject]
    by (simp add: initial_leave_page_def initial_leave_requests_def leave_actions_shown_def)
  then have "leave_reachable True ?st" by (rule leave_reachable.step [OF leave_reachable.init])
  then show ?thesis
    using leave_processed_final [OF _ leave_step.confirm, of True ?st "initial_leave_requests ! 1"]
    by (simp add: initial_leave_page_def initial_leave_requests_def)
qed

text \<open>
  C16: for an administrator, choosing Approve or Reject on a Pending request and
  confirming is a reachable step sequence; it closes the dialog and changes the
  collection exactly as the abstract manager's update of that request's status to
  Approved or Rejected respectively.
\<close>

theorem leave_decision_refines:
  assumes "leave_reachable True st" and "r \<in> set (leave_requests st)"
    and "lr_status r = Leave_Pending"
  shows "let st' = fst (handle_process_request (st\<lparr>request_to_process := Some (lr_id r, a)\<rparr>)) in
           leave_reachable True st' \<and> request_to_process st' = None
           \<and> spec_update (lr_id r) (\<lambda>q. q\<lparr>lr_status := if a = Approve then Leave_Approved else Leave_Rejected\<rparr>) (as_map lr_id (leave_requests st))
               = Inr (as_map lr_id (leave_requests st'))"
proof -
  let ?s1 = "st\<lparr>request_to_process := Some (lr_id r, a)\<rparr>"
  have inv: "leave_inv st" using assms(1) by (rule leave_reachable_inv)
  have "leave_step True st ?s1"
    using assms(2,3) by (simp add: leave_step.select leave_actions_shown_def)
  then have "leave_reachable True ?s1" by (rule leave_reachable.step [OF assms(1)])
  then have reach: "leave_reachable True (fst (handle_process_request ?s1))"
    by (rule leave_reachable.step [OF _ leave_step.confirm])
  have "lr_id r \<in> ids_of lr_id (leave_requests st)" using assms(2) by (auto simp: ids_of_conv)
  then have "spec_update (lr_id r) (\<lambda>q. q\<lparr>lr_status := action_status a\<rparr>) (as_map lr_id (leave_requests st))
      = Inr (as_map lr_id (update_by_id lr_id (lr_id r) (\<lambda>q. q\<lparr>lr_status := action_status a\<rparr>) (leave_requests st)))"
    using inv by (intro update_refines) (simp_all add: leave_inv_def)
  with reach show ?thesis by (simp add: handle_process_request_def action_status_def)
qed

theorem leave_decision_refines_witness:
  "let st' = fst (handle_process_request
                 (initial_leave_page\<lparr>request_to_process := Some (lr_id (initial_leave_requests ! 0), Approve)\<rparr>)) in
     leave_reachable True st' \<and> request_to_process st' = None
     \<and> spec_update (lr_id (initial_leave_requests ! 0)) (\<lambda>q. q\<lparr>lr_status := Leave_Approved\<rparr>)
         (as_map lr_id (leave_requests initial_leave_page))
         = Inr (as_map lr_id (leave_requests st'))"
  using leave_decision_refines [OF leave_reachable.init, of "initial_leave_requests ! 0" Approve]
  by (simp add: initial_leave_page_def initial_leave_requests_def)

text \<open>
  The actions are rendered for administrators only, so a user of any other
  role never changes a request and never opens the confirmation dialog.
\<close>

theorem leave_non_admin_readonly:
  "leave_reachable False st \<Longrightarrow>
   mset (leave_requests st) = mset initial_leave_requests \<and> request_to_process st = None"
proof (induction rule: leave_reachable.induct)
  case init
  then show ?case by (simp add: initial_leave_page_def)
next
  case (step st st')
  have inv: "leave_inv st" using step.hyps(1) by (rule leave_reachable_inv)
  from step.hyps(2) show ?case
  proof (cases rule: leave_step.cases)
    case render
    then show ?thesis using step.IH render_leave_mset [OF inv] by (simp add: render_leave_table_def)
  next
    case (select r a)
    then show ?thesis by (simp add: leave_actions_shown_def)
  next
    case confirm
    then show ?thesis using step.IH by (simp add: handle_process_request_def)
  next
    case cancel
    then show ?thesis using step.IH by simp
  qed
qed

theorem leave_non_admin_readonly_witness:
  "mset (leave_requests (render_leave_table initial_leave_page)) = mset initial_leave_requests"
proof -
  have "leave_reachable False (render_leave_table initial_leave_page)"
    by (rule leave_reachable.step [OF leave_reachable.init leave_step.render])
  then show ?thesis using leave_non_admin_readonly by blast
qed

text \<open>
  The render sorts the state array in place (\<open>leaveRequests.sort(...)\<close>
  without a copy); in every reachable state this reorders the array by applied date,
  newest first, keeps every request as it is, and a second render changes nothing.
\<close>

theorem leave_render_in_place:
  assumes "leave_reachable adm st"
  shows "as_map lr_id (leave_requests (render_leave_table st)) = as_map lr_id (leave_requests st)
         \<and> sorted (map applied_key (leave_requests (render_leave_table st)))
         \<and> render_leave_table (render_leave_table st) = render_leave_table st"
proof -
  have inv: "leave_inv st" using assms by (rule leave_reachable_inv)
  have inv': "leave_inv (render_leave_table st)" using inv by (rule render_leave_inv)
  have ms: "mset (leave_requests (render_leave_table st)) = mset (leave_requests st)"
    using inv by (rule render_leave_mset)
  have sorted: "sorted (map applied_key (leave_requests (render_leave_table st)))"
    using inv by (rule render_leave_sorted)
  have "as_map lr_id (leave_requests (render_leave_table st)) = as_map lr_id (leave_requests st)"
    unfolding as_map_def
    by (rule map_of_keyed_perm)
       (use inv inv' ms in \<open>simp_all add: leave_inv_def ids_unique_def flip: set_mset_mset\<close>)
  moreover have "render_leave_table (render_leave_table st) = render_leave_table st"
    using inv' sorted
    by (simp add: render_leave_table_def [of "render_leave_table st"] leave_inv_def leave_sort_key
        sort_key_id_if_sorted)
  ultimately show ?thesis using sorted by simp
qed

theorem leave_render_in_place_witness:
  "as_map lr_id (leave_requests (render_leave_table initial_leave_page)) = as_map lr_id initial_leave_requests
   \<and> map lr_id (leave_requests (render_leave_table initial_leave_page)) = [''LR004'', ''LR003'', ''LR002'', ''LR001'']"
proof
  show "as_map lr_id (leave_requests (render_leave_table initial_leave_page)) = as_map lr_id initial_leave_requests"
    using leave_render_in_place [of True initial_leave_page, OF leave_reachable.init] by (simp add: initial_leave_page_def)
  show "map lr_id (leave_requests (render_leave_table initial_leave_page)) = [''LR004'', ''LR003'', ''LR002'', ''LR001'']"
    by (simp add: render_leave_table_def initial_leave_page_def initial_leave_requests_def js_sort_def
        leave_cmp_def date_eval)
qed

subsection \<open>The events as a function\<close>

text \<open>
  The function and the relation agree: every event is a step of the relation or
  changes nothing, and every step of the relation is the outcome of an event.
\<close>

lemma leave_event_step_sound:
  "leave_event_step adm ev st = st \<or> leave_step adm st (leave_event_step adm ev st)"
  by (cases ev) (auto intro: leave_step.intros)

lemma leave_event_step_complete:
  assumes "leave_step adm st st'"
  shows "\<exists>ev. leave_event_step adm ev st = st'"
  using assms
proof (cases rule: leave_step.cases)
  case render
  then show ?thesis by (metis leave_event_step.simps(1))
next
  case (select r a)
  then show ?thesis by (metis leave_event_step.simps(2))
next
  case confirm
  then show ?thesis by (metis leave_event_step.simps(3))
next
  case cancel
  then show ?thesis by (metis leave_event_step.simps(4))
qed

lemma leave_event_inv: "leave_inv st \<Longrightarrow> leave_inv (leave_event_step adm ev st)"
  using leave_event_step_sound [of adm ev st] leave_step_inv by metis

text \<open>
  A user other than an administrator is shown no Approve or Reject button: their
  events only reorder the requests (the render's in-place sort) and leave no
  request selected.
\<close>

lemma leave_event_non_admin:
  assumes "leave_inv st" and "request_to_process st = None"
  shows "mset (leave_requests (leave_event_step False ev st)) = mset (leave_requests st)
         \<and> request_to_process (leave_event_step False ev st) = None"
  using assms
  by (cases ev) (simp_all add: render_leave_mset leave_actions_shown_def handle_process_request_def,
      simp add: render_leave_table_def)

end
