(* ===== verification/Library.thy ===== *)
theory Library
  imports Entity_List Validation
begin

text \<open>
  The library page (\<open>src/src/app/(app)/library/page.tsx\<close>): the \<open>Book\<close> record,
  the zod schema with its ISBN pattern and the object-level check
  \<open>availableCopies <= totalCopies\<close>, the seeded catalogue, the add/edit and delete
  handlers, the title-sorted view, and the page as a step function over its UI
  events (\<open>library_step\<close>; the Add, Edit and Delete buttons are rendered for
  administrators only). The form holds \<open>Number(input)\<close> for the two copy fields,
  \<open>None\<close> standing for \<open>NaN\<close>, which is what \<open>z.coerce.number()\<close> passes on.
\<close>

record book =
  b_id :: ident
  b_title :: string
  b_author :: string
  b_isbn :: "string option"
  b_totalCopies :: js_number
  b_availableCopies :: js_number

record book_form =
  bf_title :: string
  bf_author :: string
  bf_isbn :: "string option"
  bf_totalCopies :: "js_number option"
  bf_availableCopies :: "js_number option"

subsection \<open>The ISBN pattern\<close>

text \<open>
  \<open>/^(?=(?:\D*\d){10}(?:(?:\D*\d){3})?$)[\d-]+$/\<close>. One \<open>\D*\d\<close> can only
  stop at the first digit, so it is deterministic; the lookahead takes ten of them,
  then either three more or none, and must then be at the end of the string.
\<close>

definition nd_d :: "string \<Rightarrow> string option" where
  "nd_d s = (case dropWhile (\<lambda>c. \<not> is_digit c) s of [] \<Rightarrow> None | c # r \<Rightarrow> Some r)"

fun rep_nd_d :: "nat \<Rightarrow> string \<Rightarrow> string option" where
  "rep_nd_d 0 s = Some s"
| "rep_nd_d (Suc k) s = (case nd_d s of None \<Rightarrow> None | Some r \<Rightarrow> rep_nd_d k r)"

definition isbn_lookahead :: "string \<Rightarrow> bool" where
  "isbn_lookahead s =
     (case rep_nd_d 10 s of
        None \<Rightarrow> False
      | Some r \<Rightarrow> rep_nd_d 3 r = Some [] \<or> r = [])"

definition isbn_regex :: "string \<Rightarrow> bool" where
  "isbn_regex s \<longleftrightarrow> isbn_lookahead s \<and> s \<noteq> [] \<and> list_all (\<lambda>c. is_digit c \<or> c = CHR ''-'') s"

subsection \<open>The form schema\<close>

text \<open>
  zod runs the object-level \<open>refine\<close> when every field has the right type (a
  failed length or sign check does not stop it), and skips it when a field is
  \<open>NaN\<close>.
\<close>

definition validate_book :: "book_form \<Rightarrow> field_errors" where
  "validate_book v =
     (if length (bf_title v) < 3 then [(''title'', ''Title must be at least 3 characters.'')] else []) @
     (if length (bf_author v) < 2 then [(''author'', ''Author name must be at least 2 characters.'')] else []) @
     (case bf_isbn v of
        Some i \<Rightarrow> if i = [] \<or> isbn_regex i then []
                  else [(''isbn'', ''Invalid ISBN format (10 or 13 digits, can include hyphens).'')]
      | None \<Rightarrow> []) @
     (case bf_totalCopies v of
        None \<Rightarrow> [(''totalCopies'', ''Expected number, received nan'')]
      | Some t \<Rightarrow> if 0 < t then [] else [(''totalCopies'', ''Total copies must be a positive number.'')]) @
     (case bf_availableCopies v of
        None \<Rightarrow> [(''availableCopies'', ''Expected number, received nan'')]
      | Some a \<Rightarrow> if 0 \<le> a then [] else [(''availableCopies'', ''Available copies cannot be negative.'')]) @
     (case (bf_totalCopies v, bf_availableCopies v) of
        (Some t, Some a) \<Rightarrow> if a \<le> t then []
                            else [(''availableCopies'', ''Available copies cannot exceed total copies.'')]
      | _ \<Rightarrow> [])"

subsection \<open>Seeded catalogue and page state\<close>

definition initial_books :: "book list" where
  "initial_books =
    [\<lparr>b_id = ''BK001'', b_title = ''The Great Gatsby'', b_author = ''F. Scott Fitzgerald'',
      b_isbn = Some ''978-0743273565'', b_totalCopies = 10, b_availableCopies = 7\<rparr>,
     \<lparr>b_id = ''BK002'', b_title = ''To Kill a Mockingbird'', b_author = ''Harper Lee'',
      b_isbn = Some ''978-0061120084'', b_totalCopies = 15, b_availableCopies = 12\<rparr>,
     \<lparr>b_id = ''BK003'', b_title = ''1984'', b_author = ''George Orwell'',
      b_isbn = Some ''978-0451524935'', b_totalCopies = 8, b_availableCopies = 5\<rparr>,
     \<lparr>b_id = ''BK004'', b_title = ''Pride and Prejudice'', b_author = ''Jane Austen'',
      b_isbn = Some ''978-0141439518'', b_totalCopies = 12, b_availableCopies = 12\<rparr>]"

type_synonym library_page = "book crud_page"

definition initial_library_page :: library_page where
  "initial_library_page = \<lparr>items = initial_books, show_modal = False, editing = None, to_delete = None\<rparr>"

subsection \<open>Handlers\<close>

text \<open>\<open>{ ...b, ...values }\<close>: every form field overwrites the book's, the id is kept.\<close>

definition apply_book_form :: "book_form \<Rightarrow> book \<Rightarrow> book" where
  "apply_book_form v b = b\<lparr>b_title := bf_title v, b_author := bf_author v, b_isbn := bf_isbn v,
     b_totalCopies := the (bf_totalCopies v), b_availableCopies := the (bf_availableCopies v)\<rparr>"

definition book_new_id :: "nat \<Rightarrow> ident" where
  "book_new_id now = ''BK'' @ slice_last 4 (string_of_nat now)"

definition new_book :: "nat \<Rightarrow> book_form \<Rightarrow> book" where
  "new_book now v = \<lparr>b_id = book_new_id now, b_title = bf_title v, b_author = bf_author v,
     b_isbn = bf_isbn v, b_totalCopies = the (bf_totalCopies v),
     b_availableCopies = the (bf_availableCopies v)\<rparr>"

definition book_form_submit :: "nat \<Rightarrow> book_form \<Rightarrow> library_page \<Rightarrow> library_page \<times> toast list" where
  "book_form_submit now v st = form_submit b_id apply_book_form (new_book now) ''Book Updated'' ''Book Added'' v st"

definition book_submit :: "nat \<Rightarrow> book_form \<Rightarrow> library_page \<Rightarrow> library_page \<times> (field_errors + toast list)" where
  "book_submit now v st = handle_submit validate_book (book_form_submit now) v st"

text \<open>The dialog's form: the edited book (\<open>form.reset(editingBook)\<close>) or the defaults.\<close>

definition book_form_of :: "book option \<Rightarrow> book_form" where
  "book_form_of e =
     (case e of
        None \<Rightarrow> \<lparr>bf_title = [], bf_author = [], bf_isbn = Some [], bf_totalCopies = Some 1, bf_availableCopies = Some 1\<rparr>
      | Some b \<Rightarrow> \<lparr>bf_title = b_title b, bf_author = b_author b, bf_isbn = b_isbn b,
                   bf_totalCopies = Some (b_totalCopies b), bf_availableCopies = Some (b_availableCopies b)\<rparr>)"

definition book_delete_confirm :: "library_page \<Rightarrow> library_page \<times> toast list" where
  "book_delete_confirm st = delete_confirm b_id ''Book Deleted'' st"

definition sorted_books :: "(string \<Rightarrow> 'k::linorder) \<Rightarrow> library_page \<Rightarrow> book list" where
  "sorted_books coll st = js_sort (\<lambda>a b. locale_compare coll (b_title a) (b_title b)) (items st)"

subsection \<open>The page as a step function\<close>

definition library_step ::
  "bool \<Rightarrow> (book, book_form) crud_event \<Rightarrow> library_page \<Rightarrow> library_page" where
  "library_step is_admin e st = crud_step book_submit book_delete_confirm is_admin e st"

subsection \<open>The rendered catalog\<close>

text \<open>
  The catalog card lists the books sorted by title; the ISBN cell is
  \<open>book.isbn || '-'\<close> and the copy counts print through \<open>num_str\<close> (the number's
  \<open>toString\<close>). The dialog's title and submit label and the delete dialog's text
  follow \<open>editingBook\<close> and \<open>bookToDelete\<close>.
\<close>

definition book_headers :: "bool \<Rightarrow> string list" where
  "book_headers adm = [''Title'', ''Author'', ''ISBN'', ''Total Copies'', ''Available'']
     @ (if adm then [''Actions''] else [])"

definition book_row :: "(js_number \<Rightarrow> string) \<Rightarrow> book \<Rightarrow> string list" where
  "book_row num_str b = [b_title b, b_author b, or_dash (b_isbn b), num_str (b_totalCopies b),
     num_str (b_availableCopies b)]"

definition catalog_view ::
  "(string \<Rightarrow> 'k::linorder) \<Rightarrow> (js_number \<Rightarrow> string) \<Rightarrow> bool \<Rightarrow> library_page \<Rightarrow> string list table" where
  "catalog_view coll num_str adm st =
     table_of (book_row num_str)
       (if adm then ''Start by adding new books to the catalog.'' else ''The library catalog is currently empty.'')
       (sorted_books coll st)"

definition book_dialog_title :: "library_page \<Rightarrow> string" where
  "book_dialog_title = edit_or_add ''Edit Book Details'' ''Add New Book to Catalog''"

definition book_submit_label :: "library_page \<Rightarrow> string" where
  "book_submit_label = edit_or_add ''Save Changes'' ''Add Book''"

definition book_delete_description :: "library_page \<Rightarrow> string" where
  "book_delete_description =
     delete_description (''This action cannot be undone. This will permanently delete the book: '' @ quote_char)
       b_title (quote_char @ ''.'')"

subsection \<open>What the ISBN pattern accepts\<close>

lemma nd_d_SomeD:
  assumes "nd_d s = Some r"
  shows "\<exists>p c. s = p @ c # r \<and> (\<forall>x\<in>set p. \<not> is_digit x) \<and> is_digit c"
proof -
  let ?P = "\<lambda>c. \<not> is_digit c"
  obtain c where d: "dropWhile ?P s = c # r"
    using assms by (auto simp: nd_d_def split: list.splits)
  have "s = takeWhile ?P s @ dropWhile ?P s" by simp
  moreover have "\<forall>x\<in>set (takeWhile ?P s). ?P x" by (auto dest: set_takeWhileD)
  moreover have "is_digit c" using hd_dropWhile [of ?P s] d by simp
  ultimately show ?thesis using d by metis
qed

lemma nd_d_digit:
  assumes "0 < length (filter is_digit s)"
  shows "\<exists>r. nd_d s = Some r \<and> length (filter is_digit r) = length (filter is_digit s) - 1"
proof -
  have "dropWhile (\<lambda>c. \<not> is_digit c) s \<noteq> []"
    using assms by (auto simp: dropWhile_eq_Nil_conv filter_empty_conv)
  then obtain c r where "dropWhile (\<lambda>c. \<not> is_digit c) s = c # r"
    by (cases "dropWhile (\<lambda>c. \<not> is_digit c) s") auto
  then have r: "nd_d s = Some r" by (simp add: nd_d_def)
  then obtain p c where "s = p @ c # r" "\<forall>x\<in>set p. \<not> is_digit x" "is_digit c"
    using nd_d_SomeD by blast
  then have "length (filter is_digit r) = length (filter is_digit s) - 1"
    by (simp add: filter_empty_conv)
  with r show ?thesis by blast
qed

lemma rep_nd_d_SomeD:
  "rep_nd_d k s = Some r \<Longrightarrow>
   \<exists>p. s = p @ r \<and> length (filter is_digit p) = k \<and> (k = 0 \<longrightarrow> p = [])
        \<and> (0 < k \<longrightarrow> p \<noteq> [] \<and> is_digit (last p))"
proof (induction k arbitrary: s)
  case 0
  then show ?case by simp
next
  case (Suc k)
  then obtain r1 where r1: "nd_d s = Some r1" "rep_nd_d k r1 = Some r"
    by (auto split: option.splits)
  obtain p1 c where s: "s = p1 @ c # r1" "\<forall>x\<in>set p1. \<not> is_digit x" "is_digit c"
    using nd_d_SomeD [OF r1(1)] by blast
  obtain p2 where p2: "r1 = p2 @ r" "length (filter is_digit p2) = k" "k = 0 \<longrightarrow> p2 = []"
      "0 < k \<longrightarrow> p2 \<noteq> [] \<and> is_digit (last p2)"
    using Suc.IH [OF r1(2)] by blast
  have "length (filter is_digit p1) = 0" using s(2) by (simp add: filter_empty_conv)
  then have "s = (p1 @ c # p2) @ r \<and> length (filter is_digit (p1 @ c # p2)) = Suc k"
    using s p2 by simp
  moreover have "is_digit (last (p1 @ c # p2))"
    using p2(3,4) s(3) by (cases "k = 0") auto
  ultimately show ?case by blast
qed

lemma rep_nd_d_enough:
  "k \<le> length (filter is_digit s) \<Longrightarrow> \<exists>r. rep_nd_d k s = Some r"
proof (induction k arbitrary: s)
  case 0
  then show ?case by simp
next
  case (Suc k)
  have "0 < length (filter is_digit s)" using Suc.prems by linarith
  then obtain r where r: "nd_d s = Some r" "length (filter is_digit r) = length (filter is_digit s) - 1"
    using nd_d_digit by blast
  then have "k \<le> length (filter is_digit r)" using Suc.prems by simp
  then obtain r' where "rep_nd_d k r = Some r'" using Suc.IH by blast
  with r show ?case by simp
qed

lemma no_digit_suffix:
  "length (filter is_digit r) = 0 \<Longrightarrow> is_digit (last (p @ r)) \<Longrightarrow> r = []"
  by (cases r rule: rev_cases) (auto simp: filter_empty_conv)

text \<open>The lookahead holds exactly for 10 or 13 digits with a digit last.\<close>

lemma isbn_lookahead_digits:
  assumes "isbn_lookahead s"
  shows "(length (filter is_digit s) = 10 \<or> length (filter is_digit s) = 13) \<and> is_digit (last s)"
proof -
  from assms obtain r where r: "rep_nd_d 10 s = Some r" and r2: "rep_nd_d 3 r = Some [] \<or> r = []"
    unfolding isbn_lookahead_def by (cases "rep_nd_d 10 s") simp_all
  obtain p where p: "s = p @ r" "length (filter is_digit p) = 10" "p \<noteq> []" "is_digit (last p)"
    using rep_nd_d_SomeD [OF r] by auto
  show ?thesis
  proof (cases "r = []")
    case True
    then show ?thesis using p by simp
  next
    case False
    then have "rep_nd_d 3 r = Some []" using r2 by simp
    then obtain q where "r = q @ []" "length (filter is_digit q) = 3" "q \<noteq> []" "is_digit (last q)"
      using rep_nd_d_SomeD [of 3 r "[]"] by auto
    then show ?thesis using p by simp
  qed
qed

lemma isbn_lookahead_intro:
  assumes cnt: "length (filter is_digit s) = 10 \<or> length (filter is_digit s) = 13"
    and lst: "is_digit (last s)"
  shows "isbn_lookahead s"
proof -
  have "10 \<le> length (filter is_digit s)" using cnt by linarith
  then obtain r where r: "rep_nd_d 10 s = Some r" using rep_nd_d_enough by blast
  obtain p where p: "s = p @ r" "length (filter is_digit p) = 10"
    using rep_nd_d_SomeD [OF r] by blast
  have cr: "length (filter is_digit r) = length (filter is_digit s) - 10" using p by simp
  have "rep_nd_d 3 r = Some [] \<or> r = []"
  proof (cases "length (filter is_digit s) = 10")
    case True
    then have z: "length (filter is_digit r) = 0" using cr by simp
    have "is_digit (last (p @ r))" using lst p(1) by (simp only:)
    with z have "r = []" by (rule no_digit_suffix)
    then show ?thesis by simp
  next
    case False
    then have three: "length (filter is_digit r) = 3" using cr cnt by simp
    then obtain r' where r': "rep_nd_d 3 r = Some r'" using rep_nd_d_enough [of 3 r] by auto
    obtain q where q: "r = q @ r'" "length (filter is_digit q) = 3"
      using rep_nd_d_SomeD [OF r'] by blast
    then have "length (filter is_digit r') = 0" using three by simp
    moreover have "is_digit (last ((p @ q) @ r'))" using lst p(1) q(1) by (simp only: append_assoc)
    ultimately have "r' = []" by (rule no_digit_suffix)
    then show ?thesis using r' by simp
  qed
  then show ?thesis using r by (simp add: isbn_lookahead_def)
qed

text \<open>
  C28: the ISBN pattern accepts exactly the non-empty strings of digits and hyphens
  with 10 or 13 digits whose last character is a digit: hyphens may lead and
  repeat, but may not trail.
\<close>

lemma isbn_regex_iff:
  "isbn_regex s \<longleftrightarrow>
     s \<noteq> [] \<and> list_all (\<lambda>c. is_digit c \<or> c = CHR ''-'') s
     \<and> (length (filter is_digit s) = 10 \<or> length (filter is_digit s) = 13) \<and> is_digit (last s)"
  unfolding isbn_regex_def using isbn_lookahead_digits isbn_lookahead_intro by blast

lemma apply_book_form_of: "apply_book_form (book_form_of (Some b)) b = b"
  by (cases b) (simp add: apply_book_form_def book_form_of_def)

text \<open>Saving the edit dialog unchanged leaves the catalogue as it was.\<close>

lemma book_edit_unchanged:
  assumes "editing st = Some b" and "b \<in> set (items st)" and "ids_unique b_id (items st)"
    and "validate_book (book_form_of (Some b)) = []"
  shows "items (fst (book_submit now (book_form_of (Some b)) st)) = items st"
  unfolding book_submit_def book_form_submit_def
  using assms(1-3) apply_book_form_of assms(4) by (rule form_submit_edit_unchanged)

subsection \<open>The copy-count invariant\<close>

definition book_ok :: "book \<Rightarrow> bool" where
  "book_ok b \<longleftrightarrow> 0 < b_totalCopies b \<and> 0 \<le> b_availableCopies b \<and> b_availableCopies b \<le> b_totalCopies b"

lemma validate_book_numbers:
  assumes "validate_book v = []"
  shows "\<exists>t a. bf_totalCopies v = Some t \<and> bf_availableCopies v = Some a \<and> 0 < t \<and> 0 \<le> a \<and> a \<le> t"
  using assms
  by (cases "bf_totalCopies v"; cases "bf_availableCopies v")
     (simp_all add: validate_book_def split: if_splits)

lemma validate_book_apply_ok: "validate_book v = [] \<Longrightarrow> book_ok (apply_book_form v b)"
  by (auto simp: book_ok_def apply_book_form_def dest: validate_book_numbers)

lemma validate_book_new_ok: "validate_book v = [] \<Longrightarrow> book_ok (new_book now v)"
  by (auto simp: book_ok_def new_book_def dest: validate_book_numbers)

lemma book_submit_ok:
  "list_all book_ok (items st) \<Longrightarrow> list_all book_ok (items (fst (book_submit now v st)))"
  unfolding book_submit_def book_form_submit_def
  by (rule form_submit_list_all) (simp_all add: validate_book_apply_ok validate_book_new_ok)

lemma initial_books_ok: "list_all book_ok initial_books"
  by (simp add: initial_books_def book_ok_def)

lemma library_step_ok:
  "list_all book_ok (items st) \<Longrightarrow> list_all book_ok (items (library_step adm e st))"
  unfolding library_step_def
  by (rule crud_step_list_all)
     (simp_all add: book_submit_ok book_delete_confirm_def delete_confirm_list_all)

subsection \<open>Properties of the page\<close>

text \<open>
  C13: every book of every state the page reaches, whatever the user and the
  clock, has a positive total and an available count between 0 and the total.
\<close>

theorem library_reachable_inv:
  "list_all book_ok (items (foldl (\<lambda>s e. library_step adm e s) initial_library_page es))"
proof -
  have "list_all book_ok (items (crud_run book_submit book_delete_confirm adm es initial_library_page))"
    by (rule crud_run_list_all)
       (simp_all add: book_submit_ok book_delete_confirm_def delete_confirm_list_all
         initial_library_page_def initial_books_ok)
  then show ?thesis by (simp add: crud_run_def library_step_def)
qed

text \<open>
  C5: a book whose available copies exceed its total copies is rejected with the
  error on \<open>availableCopies\<close>, and the page state is unchanged.
\<close>

theorem book_copies_exceed_rejected:
  assumes "bf_totalCopies v = Some t" and "bf_availableCopies v = Some a" and "t < a"
  shows "(''availableCopies'', ''Available copies cannot exceed total copies.'') \<in> set (validate_book v)
         \<and> book_submit now v st = (st, Inl (validate_book v))"
proof -
  have "(''availableCopies'', ''Available copies cannot exceed total copies.'') \<in> set (validate_book v)"
    using assms by (simp add: validate_book_def)
  moreover from this have "validate_book v \<noteq> []" by auto
  ultimately show ?thesis by (simp add: book_submit_def handle_submit_invalid)
qed

definition sample_book_form :: book_form where
  "sample_book_form = \<lparr>bf_title = ''Dune'', bf_author = ''Frank Herbert'', bf_isbn = Some ''978-0441013593'',
     bf_totalCopies = Some 3, bf_availableCopies = Some 5\<rparr>"

theorem book_copies_exceed_rejected_witness:
  "(''availableCopies'', ''Available copies cannot exceed total copies.'') \<in> set (validate_book sample_book_form)
   \<and> book_submit 1720000001234 sample_book_form initial_library_page
       = (initial_library_page, Inl (validate_book sample_book_form))"
  by (rule book_copies_exceed_rejected [of sample_book_form 3 5]) (simp_all add: sample_book_form_def)

text \<open>
  C10: confirming the deletion of a listed book removes exactly that book, closes
  the dialog, and a second confirmation changes nothing.
\<close>

theorem book_delete_once:
  assumes "ids_unique b_id (items st)" and "b \<in> set (items st)"
  shows "let st1 = library_step True Delete_Confirm (library_step True (Delete_Click b) st) in
           length (items st1) = length (items st) - 1
           \<and> as_map b_id (items st1) = (as_map b_id (items st))(b_id b := None)
           \<and> to_delete st1 = None \<and> library_step True Delete_Confirm st1 = st1"
proof -
  have "b_id b \<in> ids_of b_id (items st)" using assms(2) by (auto simp: ids_of_conv)
  then show ?thesis
    using assms delete_by_id_length [OF assms(1)]
    by (simp add: library_step_def request_delete_def book_delete_confirm_def delete_confirm_def crud_simps)
qed

theorem book_delete_once_witness:
  "let st1 = library_step True Delete_Confirm (library_step True (Delete_Click (initial_books ! 2)) initial_library_page) in
     length (items st1) = length (items initial_library_page) - 1
     \<and> as_map b_id (items st1) = (as_map b_id (items initial_library_page))(b_id (initial_books ! 2) := None)
     \<and> to_delete st1 = None \<and> library_step True Delete_Confirm st1 = st1"
  by (rule book_delete_once) (simp_all add: initial_library_page_def initial_books_def ids_unique_def)

end
