(* ===== verification/Exams.thy ===== *)
theory Exams
  imports Entity_List Dates
begin

text \<open>
  The exam schedule page (\<open>src/src/app/(app)/exams/page.tsx\<close>): the
  \<open>ExamSchedule\<close> record, the zod schema with its date checks and the object-level
  check \<open>parseISO(endDate) >= parseISO(startDate)\<close>, the seeded schedules, the
  add/edit/delete handlers, the class checkboxes of the form, the view sorted by
  start date (newest first), and the page as the generic management step.
  \<open>parseISO\<close> of a date-only string is local midnight; it differs from
  \<open>js_date_time\<close> (UTC) by the zone offset, which cancels in every comparison and
  difference the page makes.
\<close>

datatype exam_status = Upcoming | Ongoing | Completed | Results_Declared

record exam_schedule =
  ex_id :: ident
  ex_examName :: string
  ex_applicableClasses :: "string list"
  ex_startDate :: string
  ex_endDate :: string
  ex_status :: exam_status

record exam_form =
  ef_examName :: string
  ef_applicableClasses :: "string list"
  ef_startDate :: string
  ef_endDate :: string
  ef_status :: exam_status

definition exam_class_options :: "string list" where
  "exam_class_options = [''NC'', ''1'', ''2'', ''3''] @ [''4'', ''5'', ''6''] @ [''7'', ''8'', ''9''] @ [''10'', ''11'', ''12'']"

subsection \<open>The form schema\<close>

text \<open>
  \<open>parseISO(e) >= parseISO(s)\<close> compares the two times; it is false when either
  is \<open>NaN\<close>, so an invalid date also fails the object-level check.
\<close>

definition date_ge :: "string \<Rightarrow> string \<Rightarrow> bool" where
  "date_ge e s =
     (case (js_date_time e, js_date_time s) of (Some te, Some ts) \<Rightarrow> ts \<le> te | _ \<Rightarrow> False)"

definition validate_exam :: "exam_form \<Rightarrow> field_errors" where
  "validate_exam v =
     (if length (ef_examName v) < 3 then [(''examName'', ''Exam name must be at least 3 characters.'')] else []) @
     (if ef_applicableClasses v = [] then [(''applicableClasses'', ''At least one class must be selected.'')] else []) @
     (if is_valid_iso_date (ef_startDate v) then [] else [(''startDate'', ''Invalid start date.'')]) @
     (if is_valid_iso_date (ef_endDate v) then [] else [(''endDate'', ''Invalid end date.'')]) @
     (if date_ge (ef_endDate v) (ef_startDate v) then [] else [(''endDate'', ''End date cannot be before start date.'')])"

text \<open>A class checkbox is checked when the list holds the class; a click toggles it.\<close>

definition toggle_class :: "string \<Rightarrow> string list \<Rightarrow> string list" where
  "toggle_class c cs = (if c \<in> set cs then filter (\<lambda>x. x \<noteq> c) cs else cs @ [c])"

subsection \<open>Seeded schedules and page state\<close>

definition initial_exam_schedules :: "exam_schedule list" where
  "initial_exam_schedules =
    [\<lparr>ex_id = ''EXM001'', ex_examName = ''Mid-Term Exams 2024'', ex_applicableClasses = [''10'', ''11'', ''12''],
      ex_startDate = ''2024-09-15'', ex_endDate = ''2024-09-30'', ex_status = Upcoming\<rparr>,
     \<lparr>ex_id = ''EXM002'', ex_examName = ''Annual Exams 2024 - Junior Wing'',
      ex_applicableClasses = [''NC'', ''1'', ''2''] @ [''3'', ''4'', ''5''],
      ex_startDate = ''2024-03-01'', ex_endDate = ''2024-03-15'', ex_status = Completed\<rparr>,
     \<lparr>ex_id = ''EXM003'', ex_examName = ''Unit Test 1 - Seniors'', ex_applicableClasses = [''9'', ''10''],
      ex_startDate = ''2024-07-20'', ex_endDate = ''2024-07-25'', ex_status = Ongoing\<rparr>]"

type_synonym exam_page = "exam_schedule crud_page"

definition initial_exam_page :: exam_page where
  "initial_exam_page = \<lparr>items = initial_exam_schedules, show_modal = False, editing = None, to_delete = None\<rparr>"

subsection \<open>Handlers\<close>

definition apply_exam_form :: "exam_form \<Rightarrow> exam_schedule \<Rightarrow> exam_schedule" where
  "apply_exam_form v s = s\<lparr>ex_examName := ef_examName v, ex_applicableClasses := ef_applicableClasses v,
     ex_startDate := ef_startDate v, ex_endDate := ef_endDate v, ex_status := ef_status v\<rparr>"

definition exam_new_id :: "nat \<Rightarrow> ident" where
  "exam_new_id now = ''EXM'' @ slice_last 4 (string_of_nat now)"

definition new_exam :: "nat \<Rightarrow> exam_form \<Rightarrow> exam_schedule" where
  "new_exam now v = \<lparr>ex_id = exam_new_id now, ex_examName = ef_examName v,
     ex_applicableClasses = ef_applicableClasses v, ex_startDate = ef_startDate v,
     ex_endDate = ef_endDate v, ex_status = ef_status v\<rparr>"

definition exam_form_submit :: "nat \<Rightarrow> exam_form \<Rightarrow> exam_page \<Rightarrow> exam_page \<times> toast list" where
  "exam_form_submit now v st =
     form_submit ex_id apply_exam_form (new_exam now) ''Exam Schedule Updated'' ''Exam Schedule Added'' v st"

definition exam_submit :: "nat \<Rightarrow> exam_form \<Rightarrow> exam_page \<Rightarrow> exam_page \<times> (field_errors + toast list)" where
  "exam_submit now v st = handle_submit validate_exam (exam_form_submit now) v st"

definition exam_delete_confirm :: "exam_page \<Rightarrow> exam_page \<times> toast list" where
  "exam_delete_confirm st = delete_confirm ex_id ''Exam Schedule Deleted'' st"

text \<open>\<open>(a, b) => parseISO(b.startDate).getTime() - parseISO(a.startDate).getTime()\<close>.\<close>

definition exam_cmp :: "exam_schedule \<Rightarrow> exam_schedule \<Rightarrow> js_number" where
  "exam_cmp a b =
     (case (js_date_time (ex_startDate b), js_date_time (ex_startDate a)) of
        (Some tb, Some ta) \<Rightarrow> tb - ta
      | _ \<Rightarrow> 0)"

definition sorted_schedules :: "exam_page \<Rightarrow> exam_schedule list" where
  "sorted_schedules st = js_sort exam_cmp (items st)"

text \<open>
  The dialog's form (the \<open>useEffect\<close> reset): the edited schedule with its dates
  through \<open>format(parseISO(d), 'yyyy-MM-dd')\<close>, which throws on an invalid date
  (\<open>None\<close>), or empty fields with today's date \<open>tday\<close> for an add.
\<close>

definition exam_form_of :: "date \<Rightarrow> exam_schedule option \<Rightarrow> exam_form option" where
  "exam_form_of tday e =
     (case e of
        None \<Rightarrow> Some \<lparr>ef_examName = [], ef_applicableClasses = [], ef_startDate = format_iso_date tday,
                       ef_endDate = format_iso_date tday, ef_status = Upcoming\<rparr>
      | Some s \<Rightarrow>
          (case (parse_iso_date (ex_startDate s), parse_iso_date (ex_endDate s)) of
             (Some a, Some b) \<Rightarrow> Some \<lparr>ef_examName = ex_examName s, ef_applicableClasses = ex_applicableClasses s,
                                     ef_startDate = format_iso_date a, ef_endDate = format_iso_date b,
                                     ef_status = ex_status s\<rparr>
           | _ \<Rightarrow> None))"

definition exam_step :: "bool \<Rightarrow> (exam_schedule, exam_form) crud_event \<Rightarrow> exam_page \<Rightarrow> exam_page" where
  "exam_step is_admin e st = crud_step exam_submit exam_delete_confirm is_admin e st"

subsection \<open>The rendered table and dialogs\<close>

definition exam_status_name :: "exam_status \<Rightarrow> string" where
  "exam_status_name st = (case st of Upcoming \<Rightarrow> ''Upcoming'' | Ongoing \<Rightarrow> ''Ongoing''
     | Completed \<Rightarrow> ''Completed'' | Results_Declared \<Rightarrow> ''Results Declared'')"

definition exam_status_class :: "exam_status \<Rightarrow> string" where
  "exam_status_class st = (case st of Upcoming \<Rightarrow> ''bg-blue-100 text-blue-700''
     | Ongoing \<Rightarrow> ''bg-yellow-100 text-yellow-700'' | Completed \<Rightarrow> ''bg-green-100 text-green-700''
     | Results_Declared \<Rightarrow> ''bg-purple-100 text-purple-700'')"

record exam_row =
  er_cells :: "string list"
  er_status_class :: string
  er_actions :: bool

text \<open>
  A row; \<open>fmt\<close> is \<open>format(d, 'PPP')\<close> of the date \<open>parseISO\<close> reads. On an
  invalid date \<open>format\<close> throws a RangeError and the page fails to render
  (\<open>None\<close>).
\<close>

definition exam_row_view :: "(date \<Rightarrow> string) \<Rightarrow> bool \<Rightarrow> exam_schedule \<Rightarrow> exam_row option" where
  "exam_row_view fmt adm s =
     (case (parse_iso_date (ex_startDate s), parse_iso_date (ex_endDate s)) of
        (Some a, Some b) \<Rightarrow> Some \<lparr>er_cells = [ex_examName s, js_join '', '' (ex_applicableClasses s),
                                       fmt a, fmt b, exam_status_name (ex_status s)],
                             er_status_class = exam_status_class (ex_status s), er_actions = adm\<rparr>
      | _ \<Rightarrow> None)"

definition exam_table_view :: "(date \<Rightarrow> string) \<Rightarrow> bool \<Rightarrow> exam_page \<Rightarrow> exam_row table option" where
  "exam_table_view fmt adm st =
     render_rows (exam_row_view fmt adm)
       (if adm then ''Start by adding new exam schedules.'' else ''No exam schedules are currently defined.'')
       (sorted_schedules st)"

text \<open>
  The delete dialog's description (\<open>scheduleToDelete?.examName\<close>) and the form's
  submit label.
\<close>

definition exam_delete_description :: "exam_page \<Rightarrow> string" where
  "exam_delete_description =
     delete_description (''This action cannot be undone. This will permanently delete the exam schedule: '' @ quote_char)
       ex_examName (quote_char @ ''.'')"

definition exam_submit_label :: "exam_page \<Rightarrow> string" where
  "exam_submit_label = edit_or_add ''Save Changes'' ''Add Schedule''"

subsection \<open>The schedule invariant\<close>

definition exam_ok :: "exam_schedule \<Rightarrow> bool" where
  "exam_ok s \<longleftrightarrow> 3 \<le> length (ex_examName s) \<and> ex_applicableClasses s \<noteq> []
     \<and> date_ge (ex_endDate s) (ex_startDate s)"

definition start_key :: "exam_schedule \<Rightarrow> js_number" where
  "start_key s = (case js_date_time (ex_startDate s) of Some t \<Rightarrow> - t | None \<Rightarrow> 0)"

lemma validate_exam_ok:
  assumes "validate_exam v = []"
  shows "3 \<le> length (ef_examName v) \<and> ef_applicableClasses v \<noteq> [] \<and> date_ge (ef_endDate v) (ef_startDate v)"
  using assms by (simp add: validate_exam_def split: if_splits)

lemma exam_submit_ok:
  "list_all exam_ok (items st) \<Longrightarrow> list_all exam_ok (items (fst (exam_submit now v st)))"
  unfolding exam_submit_def exam_form_submit_def
  by (rule form_submit_list_all)
     (auto simp: exam_ok_def apply_exam_form_def new_exam_def dest: validate_exam_ok)

lemma exam_delete_ok:
  "list_all exam_ok (items st) \<Longrightarrow> list_all exam_ok (items (fst (exam_delete_confirm st)))"
  unfolding exam_delete_confirm_def by (rule delete_confirm_list_all)

lemma initial_exams_ok: "list_all exam_ok initial_exam_schedules"
  by (simp add: initial_exam_schedules_def exam_ok_def date_ge_def date_eval)

lemma date_ge_valid: "date_ge e s \<Longrightarrow> js_date_time s \<noteq> None \<and> js_date_time e \<noteq> None"
  by (auto simp: date_ge_def split: option.splits)

lemma exam_cmp_consistent_on:
  assumes "list_all exam_ok xs"
  shows "consistent_on (set xs) exam_cmp start_key"
  unfolding consistent_on_def
proof (intro ballI)
  fix x y assume "x \<in> set xs" "y \<in> set xs"
  with assms obtain tx ty where "js_date_time (ex_startDate x) = Some tx"
      "js_date_time (ex_startDate y) = Some ty"
    by (fastforce simp: list_all_iff exam_ok_def dest: date_ge_valid)
  then show "exam_cmp x y \<le> 0 \<longleftrightarrow> start_key x \<le> start_key y"
    by (simp add: exam_cmp_def start_key_def)
qed

lemma exam_step_ok: "list_all exam_ok (items st) \<Longrightarrow> list_all exam_ok (items (exam_step adm e st))"
  unfolding exam_step_def by (rule crud_step_list_all [OF exam_submit_ok exam_delete_ok])

lemma exam_run_ok:
  "list_all exam_ok (items (foldl (\<lambda>s e. exam_step adm e s) initial_exam_page es))"
proof -
  have "list_all exam_ok (items (crud_run exam_submit exam_delete_confirm adm es initial_exam_page))"
    by (rule crud_run_list_all)
       (simp_all add: exam_submit_ok exam_delete_ok initial_exam_page_def initial_exams_ok)
  then show ?thesis by (simp add: crud_run_def exam_step_def)
qed

lemma date_ge_iff:
  "date_ge e s \<longleftrightarrow>
     (\<exists>de ds. parse_iso_date e = Some de \<and> parse_iso_date s = Some ds \<and> day_number ds \<le> day_number de)"
  by (auto simp: date_ge_def js_date_time_def split: option.splits)

text \<open>
  Opening a well-formed schedule for edit and saving the form as it was filled
  leaves the schedules as they were: the date fields print back the stored strings.
\<close>

lemma exam_edit_unchanged:
  assumes ok: "list_all exam_ok (items st)" and uniq: "ids_unique ex_id (items st)"
    and ed: "editing st = Some s" and mem: "s \<in> set (items st)"
  shows "\<exists>f. exam_form_of tday (Some s) = Some f \<and> items (fst (exam_submit now f st)) = items st"
proof -
  have "exam_ok s" using ok mem by (simp add: list_all_iff)
  then obtain a b where a: "parse_iso_date (ex_startDate s) = Some a" and b: "parse_iso_date (ex_endDate s) = Some b"
    and name: "3 \<le> length (ex_examName s)" and cls: "ex_applicableClasses s \<noteq> []"
    and ge: "date_ge (ex_endDate s) (ex_startDate s)"
    by (auto simp: exam_ok_def date_ge_iff)
  let ?f = "\<lparr>ef_examName = ex_examName s, ef_applicableClasses = ex_applicableClasses s,
             ef_startDate = ex_startDate s, ef_endDate = ex_endDate s, ef_status = ex_status s\<rparr>"
  have f: "exam_form_of tday (Some s) = Some ?f"
    using a b by (simp add: exam_form_of_def format_parse_iso_date)
  have "validate_exam ?f = []"
    using a b name cls ge by (simp add: validate_exam_def is_valid_iso_date_def)
  moreover have "apply_exam_form ?f s = s" by (simp add: apply_exam_form_def)
  ultimately have "items (fst (exam_submit now ?f st)) = items st"
    unfolding exam_submit_def exam_form_submit_def using ed mem uniq
    by (intro form_submit_edit_unchanged) simp_all
  with f show ?thesis by blast
qed

subsection \<open>Properties of the page\<close>

text \<open>
  The table never fails to render: in every state the events reach, every schedule's
  dates parse, so no row's \<open>format\<close> throws, and the table has a row for each
  schedule.
\<close>

lemma exam_table_renders:
  "\<exists>t. exam_table_view fmt adm' (foldl (\<lambda>s e. exam_step adm e s) initial_exam_page es) = Some t
     \<and> (case t of Table_Rows rs \<Rightarrow> length rs = length (items (foldl (\<lambda>s e. exam_step adm e s) initial_exam_page es))
        | Empty_Table _ \<Rightarrow> items (foldl (\<lambda>s e. exam_step adm e s) initial_exam_page es) = [])"
proof -
  let ?st = "foldl (\<lambda>s e. exam_step adm e s) initial_exam_page es"
  have ok: "\<forall>s\<in>set (sorted_schedules ?st). exam_row_view fmt adm' s \<noteq> None"
    using exam_run_ok [of adm es]
    by (auto simp: sorted_schedules_def js_sort_set_any list_all_iff exam_ok_def date_ge_iff exam_row_view_def)
  have len: "length (sorted_schedules ?st) = length (items ?st)"
    using arg_cong [OF js_sort_mset_any [of exam_cmp "items ?st"], of size] by (simp add: sorted_schedules_def)
  obtain t where t: "exam_table_view fmt adm' ?st = Some t"
    and c: "case t of Table_Rows rs \<Rightarrow> length rs = length (sorted_schedules ?st)
              | Empty_Table _ \<Rightarrow> sorted_schedules ?st = []"
    using render_rows_Some [OF ok] unfolding exam_table_view_def by blast
  show ?thesis using t c len by (cases t) simp_all
qed

text \<open>
  C14: in every state the page reaches (any user, any clock, any events), every
  schedule has a parseable start and end date, the end on or after the start, and
  at least one class.
\<close>

theorem exam_reachable_dates:
  assumes "s \<in> set (items (foldl (\<lambda>st e. exam_step adm e st) initial_exam_page es))"
  shows "\<exists>ds de. parse_iso_date (ex_startDate s) = Some ds \<and> parse_iso_date (ex_endDate s) = Some de
           \<and> day_number ds \<le> day_number de \<and> ex_applicableClasses s \<noteq> []"
proof -
  have "exam_ok s" using exam_run_ok [of adm es] assms by (simp add: list_all_iff)
  then show ?thesis by (auto simp: exam_ok_def date_ge_iff)
qed

theorem exam_reachable_dates_witness:
  "\<exists>ds de. parse_iso_date (ex_startDate (initial_exam_schedules ! 0)) = Some ds
     \<and> parse_iso_date (ex_endDate (initial_exam_schedules ! 0)) = Some de
     \<and> day_number ds \<le> day_number de \<and> ex_applicableClasses (initial_exam_schedules ! 0) \<noteq> []"
  by (rule exam_reachable_dates [of _ False "[]"]) (simp add: initial_exam_page_def initial_exam_schedules_def)

text \<open>
  C6: a schedule whose end date is before its start date is rejected with the
  error on \<open>endDate\<close>, and the page state is unchanged.
\<close>

theorem exam_end_before_start_rejected:
  assumes "parse_iso_date (ef_startDate v) = Some ds" and "parse_iso_date (ef_endDate v) = Some de"
    and "day_number de < day_number ds"
  shows "(''endDate'', ''End date cannot be before start date.'') \<in> set (validate_exam v)
         \<and> exam_submit now v st = (st, Inl (validate_exam v))"
proof -
  have "\<not> date_ge (ef_endDate v) (ef_startDate v)"
    using assms by (simp add: date_ge_def js_date_time_def)
  then have err: "(''endDate'', ''End date cannot be before start date.'') \<in> set (validate_exam v)"
    by (simp add: validate_exam_def)
  then have "validate_exam v \<noteq> []" by auto
  with err show ?thesis by (simp add: exam_submit_def handle_submit_invalid)
qed

definition reversed_exam_form :: exam_form where
  "reversed_exam_form = \<lparr>ef_examName = ''Final Exams'', ef_applicableClasses = [''10''],
     ef_startDate = ''2024-09-30'', ef_endDate = ''2024-09-15'', ef_status = Upcoming\<rparr>"

theorem exam_end_before_start_rejected_witness:
  "(''endDate'', ''End date cannot be before start date.'') \<in> set (validate_exam reversed_exam_form)
   \<and> exam_submit 1720000005678 reversed_exam_form initial_exam_page
       = (initial_exam_page, Inl (validate_exam reversed_exam_form))"
  by (rule exam_end_before_start_rejected
        [of reversed_exam_form "\<lparr>year = 2024, month = 9, day = 30\<rparr>" "\<lparr>year = 2024, month = 9, day = 15\<rparr>"])
     (simp_all add: reversed_exam_form_def date_eval)

text \<open>
  In every reachable state the table shows exactly the listed schedules,
  ordered by start date, the latest first.
\<close>

theorem sorted_schedules_view:
  "let st = foldl (\<lambda>st e. exam_step adm e st) initial_exam_page es in
     mset (sorted_schedules st) = mset (items st) \<and> sorted (map start_key (sorted_schedules st))"
proof -
  let ?st = "foldl (\<lambda>st e. exam_step adm e st) initial_exam_page es"
  have "js_sort exam_cmp (items ?st) = sort_key start_key (items ?st)"
    by (rule js_sort_sort_key_on [OF exam_cmp_consistent_on [OF exam_run_ok]])
  then show ?thesis by (simp add: sorted_schedules_def)
qed

text \<open>
  A click on a class checkbox flips exactly that class and keeps the list of
  selected classes free of duplicates.
\<close>

theorem toggle_class_flips:
  assumes "distinct cs"
  shows "distinct (toggle_class c cs)
         \<and> set (toggle_class c cs) = (if c \<in> set cs then set cs - {c} else insert c (set cs))"
  using assms by (auto simp: toggle_class_def)

theorem toggle_class_flips_witness:
  "distinct (toggle_class ''10'' [''9'', ''10''])
   \<and> set (toggle_class ''10'' [''9'', ''10'']) = set [''9'', ''10''] - {''10''}"
  using toggle_class_flips [of "[''9'', ''10'']" "''10''"] by simp

end
