(* ===== verification/Auth.thy ===== *)
theory Auth
  imports Js_Runtime
begin

text \<open>
  Authentication and navigation: the mock \<open>AuthProvider\<close>
  (\<open>src/src/contexts/AuthContext.tsx\<close>) with its session kept in
  \<open>localStorage\<close>, the login form (\<open>src/src/app/login/page.tsx\<close>), the guard of the
  authenticated layout (\<open>src/src/app/(app)/layout.tsx\<close>) and the role-filtered
  sidebar (\<open>src/src/components/layout/AppSidebar.tsx\<close>). The stored entry is the
  value \<open>JSON.parse\<close> returns for the key \<open>campusHubUser\<close>: \<open>JSON.stringify\<close> and
  \<open>JSON.parse\<close> are inverse on the flat \<open>User\<close> object, so the entry holds the user
  itself, or \<open>None\<close> when the text does not parse to an object.
\<close>

text \<open>
  \<open>UserRole\<close> is a TypeScript type only: nothing checks it at run time, so a role
  read back from \<open>localStorage\<close> may be any string. \<open>Role_Other s\<close> is a role string
  \<open>s\<close> that is none of the seven values (the absent role is \<open>Role_Other []\<close>).
\<close>

datatype user_role =
  Role_Admin | Role_Teacher | Role_Student | Role_Parent | Role_Accountant | Role_Principal | Role_Librarian
| Role_Other string

text \<open>The string values of \<open>UserRole\<close>.\<close>

primrec role_value :: "user_role \<Rightarrow> string" where
  "role_value Role_Admin = ''admin''"
| "role_value Role_Teacher = ''teacher''"
| "role_value Role_Student = ''student''"
| "role_value Role_Parent = ''parent''"
| "role_value Role_Accountant = ''accountant''"
| "role_value Role_Principal = ''principal''"
| "role_value Role_Librarian = ''librarian''"
| "role_value (Role_Other s) = s"

text \<open>The seven members of the \<open>UserRole\<close> union.\<close>

definition known_roles :: "user_role list" where
  "known_roles = [Role_Admin, Role_Teacher, Role_Student, Role_Parent, Role_Accountant, Role_Principal, Role_Librarian]"

text \<open>The role of a parsed entry: the value of \<open>parsedUser.role\<close>, read as a \<open>UserRole\<close>.\<close>

definition role_of_string :: "string \<Rightarrow> user_role" where
  "role_of_string s =
     (if s = ''admin'' then Role_Admin else if s = ''teacher'' then Role_Teacher
      else if s = ''student'' then Role_Student else if s = ''parent'' then Role_Parent
      else if s = ''accountant'' then Role_Accountant else if s = ''principal'' then Role_Principal
      else if s = ''librarian'' then Role_Librarian else Role_Other s)"

record user =
  u_id :: string
  u_name :: "string option"
  u_email :: "string option"
  u_role :: user_role

datatype stored_entry = No_Entry | Json_Entry "user option"

record auth_state =
  auth_user :: "user option"
  is_loading :: bool
  storage :: stored_entry
  path :: string

definition initial_auth_state :: "stored_entry \<Rightarrow> string \<Rightarrow> auth_state" where
  "initial_auth_state e p = \<lparr>auth_user = None, is_loading = True, storage = e, path = p\<rparr>"

subsection \<open>The provider\<close>

text \<open>
  The mount effect: restore a stored user with a non-empty \<open>id\<close> and a non-empty
  \<open>role\<close> (\<open>parsedUser.id && parsedUser.role\<close>, whatever the role string), drop anything else.
\<close>

definition restore_user :: "auth_state \<Rightarrow> auth_state" where
  "restore_user st =
     (case storage st of
        No_Entry \<Rightarrow> st
      | Json_Entry (Some u) \<Rightarrow> if u_id u \<noteq> [] \<and> role_value (u_role u) \<noteq> [] then st\<lparr>auth_user := Some u\<rparr> else st\<lparr>storage := No_Entry\<rparr>
      | Json_Entry None \<Rightarrow> st\<lparr>storage := No_Entry\<rparr>)\<lparr>is_loading := False\<rparr>"

text \<open>\<open>email.split('@')[0]\<close>.\<close>

definition email_local_part :: "string \<Rightarrow> string" where
  "email_local_part e = takeWhile (\<lambda>c. c \<noteq> CHR ''@'') e"

definition login :: "nat \<Rightarrow> string \<Rightarrow> user_role option \<Rightarrow> auth_state \<Rightarrow> auth_state" where
  "login now email role st =
     (let u = \<lparr>u_id = string_of_nat now, u_name = Some (email_local_part email), u_email = Some email,
               u_role = (case role of Some r \<Rightarrow> r | None \<Rightarrow> Role_Student)\<rparr>
      in st\<lparr>auth_user := Some u, storage := Json_Entry (Some u), path := ''/dashboard''\<rparr>)"

definition logout :: "auth_state \<Rightarrow> auth_state" where
  "logout st = st\<lparr>auth_user := None, storage := No_Entry, path := ''/login''\<rparr>"

subsection \<open>The layout guard\<close>

definition layout_effect :: "auth_state \<Rightarrow> auth_state" where
  "layout_effect st = (if \<not> is_loading st \<and> auth_user st = None then st\<lparr>path := ''/login''\<rparr> else st)"

definition layout_shows_app :: "auth_state \<Rightarrow> bool" where
  "layout_shows_app st \<longleftrightarrow> \<not> is_loading st \<and> auth_user st \<noteq> None"

definition is_admin_user :: "user option \<Rightarrow> bool" where
  "is_admin_user u \<longleftrightarrow> (case u of Some u \<Rightarrow> u_role u = Role_Admin | None \<Rightarrow> False)"

subsection \<open>The login form\<close>

record login_form =
  lf_email :: string
  lf_password :: string
  lf_role :: "user_role option"

text \<open>
  zod's \<open>.email()\<close> pattern is the library's; it is the parameter \<open>is_email\<close>.
  \<open>z.enum(roles)\<close> accepts exactly the seven role values.
\<close>

definition validate_login :: "(string \<Rightarrow> bool) \<Rightarrow> login_form \<Rightarrow> (string \<times> string) list" where
  "validate_login is_email v =
     (if is_email (lf_email v) then [] else [(''email'', ''Please enter a valid email address.'')]) @
     (if lf_password v = [] then [(''password'', ''Password is required.'')] else []) @
     (if (case lf_role v of Some r \<Rightarrow> r \<notin> set known_roles | None \<Rightarrow> True)
      then [(''role'', ''Please select a role.'')] else [])"

definition login_submit :: "(string \<Rightarrow> bool) \<Rightarrow> nat \<Rightarrow> login_form \<Rightarrow> auth_state \<Rightarrow> auth_state" where
  "login_submit is_email now v st =
     (if validate_login is_email v = [] then login now (lf_email v) (lf_role v) st else st)"

subsection \<open>The sidebar\<close>

record nav_item =
  nav_href :: string
  nav_label :: string
  nav_allowed :: "user_role list"

definition nav_items :: "nav_item list" where
  "nav_items =
    [\<lparr>nav_href = ''/dashboard'', nav_label = ''Dashboard'', nav_allowed = [Role_Admin, Role_Teacher, Role_Student,
        Role_Parent, Role_Accountant, Role_Principal, Role_Librarian]\<rparr>,
     \<lparr>nav_href = ''/students'', nav_label = ''Students'', nav_allowed = [Role_Admin, Role_Principal, Role_Teacher]\<rparr>,
     \<lparr>nav_href = ''/teachers'', nav_label = ''Teachers'', nav_allowed = [Role_Admin, Role_Principal]\<rparr>,
     \<lparr>nav_href = ''/timetable'', nav_label = ''Timetable'', nav_allowed = [Role_Admin, Role_Teacher, Role_Student,
        Role_Parent, Role_Principal]\<rparr>,
     \<lparr>nav_href = ''/exams'', nav_label = ''Exams'', nav_allowed = [Role_Admin, Role_Teacher, Role_Student,
        Role_Parent, Role_Principal]\<rparr>,
     \<lparr>nav_href = ''/library'', nav_label = ''Library'', nav_allowed = [Role_Admin, Role_Librarian, Role_Teacher,
        Role_Student, Role_Principal]\<rparr>,
     \<lparr>nav_href = ''/transport'', nav_label = ''Transport'', nav_allowed = [Role_Admin, Role_Principal]\<rparr>,
     \<lparr>nav_href = ''/gallery'', nav_label = ''Gallery'', nav_allowed = [Role_Admin, Role_Teacher, Role_Student,
        Role_Parent, Role_Principal, Role_Librarian, Role_Accountant]\<rparr>,
     \<lparr>nav_href = ''/notices'', nav_label = ''Notices'', nav_allowed = [Role_Admin, Role_Teacher, Role_Student,
        Role_Parent, Role_Principal, Role_Librarian, Role_Accountant]\<rparr>,
     \<lparr>nav_href = ''/fees'', nav_label = ''Fees Mgt.'', nav_allowed = [Role_Admin, Role_Accountant, Role_Principal]\<rparr>,
     \<lparr>nav_href = ''/salaries'', nav_label = ''Salaries Mgt.'', nav_allowed = [Role_Admin, Role_Accountant, Role_Principal]\<rparr>,
     \<lparr>nav_href = ''/attendance-leave'', nav_label = ''Attendance & Leave'', nav_allowed = [Role_Admin,
        Role_Principal, Role_Teacher]\<rparr>,
     \<lparr>nav_href = ''/study-questions'', nav_label = ''Study Questions'', nav_allowed = [Role_Admin, Role_Teacher,
        Role_Student, Role_Principal]\<rparr>,
     \<lparr>nav_href = ''/form-admin'', nav_label = ''Form Admin'', nav_allowed = [Role_Admin]\<rparr>]"

definition filtered_nav_items :: "user option \<Rightarrow> nav_item list" where
  "filtered_nav_items u =
     filter (\<lambda>i. case u of None \<Rightarrow> False | Some u \<Rightarrow> u_role u \<in> set (nav_allowed i)) nav_items"

text \<open>\<open>pathname === href || (href !== '/dashboard' && pathname.startsWith(href))\<close>.\<close>

definition nav_active :: "string \<Rightarrow> string \<Rightarrow> bool" where
  "nav_active pathname href \<longleftrightarrow>
     pathname = href \<or> (href \<noteq> ''/dashboard'' \<and> take (length href) pathname = href)"

text \<open>
  The rendered sidebar: one link per allowed entry, highlighted by \<open>nav_active\<close>,
  and the footer with the user's name and role (a \<open>null\<close> name renders nothing).
\<close>

definition sidebar_links :: "string \<Rightarrow> user option \<Rightarrow> (string \<times> string \<times> bool) list" where
  "sidebar_links pathname u =
     map (\<lambda>i. (nav_label i, nav_href i, nav_active pathname (nav_href i))) (filtered_nav_items u)"

definition sidebar_footer :: "user option \<Rightarrow> (string \<times> string) option" where
  "sidebar_footer u =
     map_option (\<lambda>v. (case u_name v of Some n \<Rightarrow> n | None \<Rightarrow> [], role_value (u_role v))) u"

text \<open>
  \<open>useAuth()\<close>: the context's value, or the error it throws outside an
  \<open>AuthProvider\<close>.
\<close>

definition use_auth :: "auth_state option \<Rightarrow> string + auth_state" where
  "use_auth ctx = (case ctx of None \<Rightarrow> Inl ''useAuth must be used within an AuthProvider'' | Some s \<Rightarrow> Inr s)"

subsection \<open>The session as a sequence of events\<close>

datatype auth_event = Login_Submit nat login_form | Logout_Click | Layout_Effect | Navigate string

fun auth_step :: "(string \<Rightarrow> bool) \<Rightarrow> auth_state \<Rightarrow> auth_event \<Rightarrow> auth_state" where
  "auth_step is_email st (Login_Submit now v) = login_submit is_email now v st"
| "auth_step is_email st Logout_Click = logout st"
| "auth_step is_email st Layout_Effect = layout_effect st"
| "auth_step is_email st (Navigate p) = st\<lparr>path := p\<rparr>"

text \<open>A session: the provider mounts on a stored entry, then the events follow.\<close>

definition auth_session :: "(string \<Rightarrow> bool) \<Rightarrow> stored_entry \<Rightarrow> string \<Rightarrow> auth_event list \<Rightarrow> auth_state" where
  "auth_session is_email e p es = foldl (auth_step is_email) (restore_user (initial_auth_state e p)) es"

subsection \<open>Session consistency\<close>

definition session_ok :: "auth_state \<Rightarrow> bool" where
  "session_ok st \<longleftrightarrow> \<not> is_loading st \<and>
     (case storage st of
        No_Entry \<Rightarrow> auth_user st = None
      | Json_Entry (Some u) \<Rightarrow> u_id u \<noteq> [] \<and> role_value (u_role u) \<noteq> [] \<and> auth_user st = Some u
      | Json_Entry None \<Rightarrow> False)"

lemma restore_user_ok: "session_ok (restore_user (initial_auth_state e p))"
  by (cases e rule: stored_entry.exhaust)
     (auto simp: session_ok_def restore_user_def initial_auth_state_def split: option.splits)

lemma string_of_nat_nonempty: "string_of_nat n \<noteq> []"
  using string_of_nat_last by blast

lemma role_of_string_other:
  "s \<notin> set (map role_value known_roles) \<Longrightarrow> role_of_string s = Role_Other s"
  by (simp add: role_of_string_def known_roles_def)

lemma validate_login_role:
  "validate_login is_email v = [] \<Longrightarrow> \<exists>r. lf_role v = Some r \<and> r \<in> set known_roles \<and> role_value r \<noteq> []"
  by (auto simp: validate_login_def known_roles_def split: option.splits if_splits)

lemma auth_step_ok: "session_ok st \<Longrightarrow> session_ok (auth_step is_email st e)"
  by (cases e)
     (auto simp: session_ok_def login_submit_def login_def Let_def string_of_nat_nonempty
       logout_def layout_effect_def split: stored_entry.splits option.splits dest!: validate_login_role)

lemma auth_session_ok: "session_ok (auth_session is_email e p es)"
proof -
  have "session_ok st \<Longrightarrow> session_ok (foldl (auth_step is_email) st es)" for st
    by (induction es arbitrary: st) (simp_all add: auth_step_ok)
  then show ?thesis by (simp add: auth_session_def restore_user_ok)
qed

subsection \<open>Properties\<close>

text \<open>
  C22: whatever the stored entry at start and whatever the events (logins,
  logouts, navigation), the provider has finished loading and a reload would
  restore exactly the user the page holds: the session in memory and the one in
  \<open>localStorage\<close> never disagree.
\<close>

theorem session_reload_restores:
  "let st = auth_session is_email e p es in
     \<not> is_loading st \<and> auth_user (restore_user (initial_auth_state (storage st) q)) = auth_user st"
  using auth_session_ok [of is_email e p es]
  by (auto simp: session_ok_def restore_user_def initial_auth_state_def Let_def
      split: stored_entry.splits option.splits)

text \<open>
  The sidebar shows nothing without a user, the full list exactly to an
  administrator, and the Form Admin entry to no other role.
\<close>

theorem nav_items_by_role:
  "filtered_nav_items None = []
   \<and> (filtered_nav_items (Some u) = nav_items \<longleftrightarrow> u_role u = Role_Admin)
   \<and> (''/form-admin'' \<in> nav_href ` set (filtered_nav_items (Some u)) \<longleftrightarrow> u_role u = Role_Admin)"
  by (cases "u_role u") (simp_all add: filtered_nav_items_def nav_items_def)

lemma nav_hrefs_prefix_free:
  "\<forall>i\<in>set nav_items. \<forall>j\<in>set nav_items. take (length (nav_href i)) (nav_href j) = nav_href i \<longrightarrow> i = j"
  by (simp add: nav_items_def)

lemma take_prefix_cases:
  assumes "take (length a) p = a" and "take (length b) p = b"
  shows "take (length a) b = a \<or> take (length b) a = b"
proof (cases "length a \<le> length b")
  case True
  then have "take (length a) b = take (length a) (take (length b) p)" using assms(2) by simp
  also have "\<dots> = a" using True assms(1) by (simp add: min_def)
  finally show ?thesis by simp
next
  case False
  then have "take (length b) a = take (length b) (take (length a) p)" using assms(1) by simp
  also have "\<dots> = b" using False assms(2) by (simp add: min_def)
  finally show ?thesis by simp
qed

lemma nav_active_take: "nav_active p h \<Longrightarrow> take (length h) p = h"
  by (auto simp: nav_active_def)

text \<open>
  For every path at most one sidebar entry is highlighted: no entry's
  \<open>href\<close> is a prefix of another's, and Dashboard is matched exactly.
\<close>

theorem nav_single_active:
  assumes "i \<in> set nav_items" and "j \<in> set nav_items"
    and "nav_active p (nav_href i)" and "nav_active p (nav_href j)"
  shows "i = j"
  using take_prefix_cases [OF nav_active_take [OF assms(3)] nav_active_take [OF assms(4)]]
    nav_hrefs_prefix_free assms(1,2) by blast

theorem nav_single_active_witness:
  "nav_active ''/students/S1001'' (nav_href (nav_items ! 1))
   \<and> \<not> nav_active ''/students/S1001'' (nav_href (nav_items ! 12))"
proof
  show a: "nav_active ''/students/S1001'' (nav_href (nav_items ! 1))"
    by (simp add: nav_items_def nav_active_def)
  show "\<not> nav_active ''/students/S1001'' (nav_href (nav_items ! 12))"
  proof
    assume b: "nav_active ''/students/S1001'' (nav_href (nav_items ! 12))"
    have "nav_items ! 1 = nav_items ! 12"
      by (rule nav_single_active [OF _ _ a b]) (simp_all add: nav_items_def)
    then show False by (simp add: nav_items_def)
  qed
qed

end
