(* ===== verification/Study_Questions.thy ===== *)
theory Study_Questions
  imports Validation
begin

text \<open>
  The structured generation flow (\<open>src/src/ai/flows/generate-study-questions.ts\<close>)
  and its page (\<open>src/src/app/(app)/study-questions/page.tsx\<close>). The hosted model
  is the collaborator: its reply to a request is an error, a value that conforms to
  the output schema \<open>{questions: string[]}\<close>, or no conforming value (genkit then
  reports a schema validation failure, for \<open>output!\<close> on \<open>null\<close> as well). The
  page's \<open>await\<close> splits \<open>handleGenerateQuestions\<close> in two: the click, which
  checks the content and dispatches the request, and the completion, which stores
  the reply. The page is an inductive step relation over typing, clicking and
  completion, in which the collaborator may answer anything.
\<close>

subsection \<open>The flow\<close>

definition prompt_template :: "string \<Rightarrow> string" where
  "prompt_template content =
     ''You are an expert educator. Generate study questions based on the following document content:''
     @ [CHR 0x0A, CHR 0x0A] @ content @ [CHR 0x0A, CHR 0x0A]
     @ ''Ensure the questions are comprehensive and cover the key concepts in the document.''
     @ [CHR 0x0A] @ ''Return the questions as a JSON array of strings.''"

datatype model_reply = Reply_Error string | Reply_Output "string list option"

definition schema_failure :: string where
  "schema_failure = ''Schema validation failed''"

definition generate_study_questions :: "model_reply \<Rightarrow> string + string list" where
  "generate_study_questions r =
     (case r of
        Reply_Error m \<Rightarrow> Inl m
      | Reply_Output (Some qs) \<Rightarrow> Inr qs
      | Reply_Output None \<Rightarrow> Inl schema_failure)"

subsection \<open>The page\<close>

record sq_page =
  document_content :: string
  questions :: "string list"
  sq_loading :: bool
  sq_error :: "string option"
  in_flight :: "string option"

definition initial_sq_page :: sq_page where
  "initial_sq_page = \<lparr>document_content = [], questions = [], sq_loading = False, sq_error = None, in_flight = None\<rparr>"

text \<open>Up to the \<open>await\<close>: a blank document is refused before any request.\<close>

definition generate_click :: "sq_page \<Rightarrow> sq_page \<times> toast list" where
  "generate_click st =
     (if js_trim (document_content st) = []
      then (st\<lparr>sq_error := Some ''Please enter some document content.''\<rparr>, [mk_destructive ''Input Required''])
      else (st\<lparr>sq_loading := True, sq_error := None, questions := [],
               in_flight := Some (document_content st)\<rparr>, []))"

text \<open>After the \<open>await\<close>: the \<open>try\<close>, \<open>catch\<close> and \<open>finally\<close> branches.\<close>

definition generation_done :: "string + string list \<Rightarrow> sq_page \<Rightarrow> sq_page \<times> toast list" where
  "generation_done res st =
     (case res of
        Inr qs \<Rightarrow> (st\<lparr>questions := qs, sq_loading := False, in_flight := None\<rparr>, [mk_toast ''Success!''])
      | Inl m \<Rightarrow> (st\<lparr>sq_error := Some (''Failed to generate questions: '' @ m), sq_loading := False,
                    in_flight := None\<rparr>, [mk_destructive ''Error Generating Questions'']))"

text \<open>
  The textarea and the button are disabled while loading; the button also
  without a user.
\<close>

inductive sq_step :: "bool \<Rightarrow> sq_page \<Rightarrow> sq_page \<Rightarrow> bool" for has_user where
  type: "\<not> sq_loading st \<Longrightarrow> sq_step has_user st (st\<lparr>document_content := s\<rparr>)"
| click: "\<not> sq_loading st \<Longrightarrow> has_user \<Longrightarrow> sq_step has_user st (fst (generate_click st))"
| reply: "in_flight st = Some c \<Longrightarrow>
    sq_step has_user st (fst (generation_done (generate_study_questions r) st))"

text \<open>
  The same events as a function, for composing the page with the application:
  typing, the click, and the completion of the request in flight with the
  collaborator's reply (a completion with no request in flight changes nothing).
\<close>

datatype sq_event = Sq_Type string | Sq_Click | Sq_Reply model_reply

fun sq_event_step :: "bool \<Rightarrow> sq_event \<Rightarrow> sq_page \<Rightarrow> sq_page" where
  "sq_event_step has_user (Sq_Type s) st = (if \<not> sq_loading st then st\<lparr>document_content := s\<rparr> else st)"
| "sq_event_step has_user Sq_Click st = (if \<not> sq_loading st \<and> has_user then fst (generate_click st) else st)"
| "sq_event_step has_user (Sq_Reply r) st =
     (if in_flight st \<noteq> None then fst (generation_done (generate_study_questions r) st) else st)"

inductive sq_reachable :: "bool \<Rightarrow> sq_page \<Rightarrow> bool" for has_user where
  init: "sq_reachable has_user initial_sq_page"
| step: "sq_reachable has_user st \<Longrightarrow> sq_step has_user st st' \<Longrightarrow> sq_reachable has_user st'"

subsection \<open>The results card\<close>

text \<open>
  The "Generated Questions" card, shown while loading or when there are questions:
  three placeholder rows while loading without questions, otherwise one accordion
  item per question, titled with its number and its first 100 characters.
\<close>

definition question_title :: "nat \<Rightarrow> string \<Rightarrow> string" where
  "question_title i q = ''Question '' @ string_of_nat (i + 1) @ '': '' @ take 100 q @ (if 100 < length q then ''...'' else [])"

datatype sq_results_view = No_Results_Card | Skeleton_Rows nat | Question_Items "(string \<times> string) list" | Empty_Results

definition sq_results :: "sq_page \<Rightarrow> sq_results_view" where
  "sq_results st =
     (if questions st \<noteq> [] \<or> sq_loading st then
        (if sq_loading st \<and> questions st = [] then Skeleton_Rows 3
         else if questions st \<noteq> [] then
           Question_Items (map (\<lambda>(i, q). (question_title i q, q)) (zip [0..<length (questions st)] (questions st)))
         else Empty_Results)
      else No_Results_Card)"

subsection \<open>The invariant of the page\<close>

definition sq_inv :: "sq_page \<Rightarrow> bool" where
  "sq_inv st \<longleftrightarrow> (sq_loading st \<longleftrightarrow> in_flight st \<noteq> None) \<and>
     (case in_flight st of
        None \<Rightarrow> True
      | Some c \<Rightarrow> c = document_content st \<and> js_trim c \<noteq> [] \<and> questions st = [] \<and> sq_error st = None)"

lemma sq_step_inv: "sq_step u st st' \<Longrightarrow> sq_inv st \<Longrightarrow> sq_inv st'"
  by (induction rule: sq_step.induct)
     (auto simp: sq_inv_def generate_click_def generation_done_def split: option.splits sum.splits)

lemma sq_reachable_inv: "sq_reachable u st \<Longrightarrow> sq_inv st"
proof (induction rule: sq_reachable.induct)
  case init
  then show ?case by (simp add: sq_inv_def initial_sq_page_def)
next
  case (step st st')
  then show ?case by (blast intro: sq_step_inv)
qed

lemma sq_in_flight_loading: "sq_inv st \<Longrightarrow> in_flight st = Some c \<Longrightarrow> sq_loading st"
  by (simp add: sq_inv_def)

subsection \<open>Properties of the flow and the page\<close>

text \<open>
  C7: a document that is empty or only white space is refused on the page: from
  any reachable state holding such a document no step dispatches a request to the
  collaborator.
\<close>

theorem blank_content_not_dispatched:
  assumes "sq_reachable u st" and "list_all is_space (document_content st)" and "sq_step u st st'"
  shows "in_flight st' = None"
proof -
  have inv: "sq_inv st" using assms(1) by (rule sq_reachable_inv)
  have none: "in_flight st = None"
    using inv assms(2) by (auto simp: sq_inv_def js_trim_Nil_iff split: option.splits)
  from assms(3) show ?thesis
  proof (cases rule: sq_step.cases)
    case (type s)
    then show ?thesis using none by simp
  next
    case click
    then show ?thesis using none assms(2) by (simp add: generate_click_def js_trim_Nil_iff)
  next
    case (reply c r)
    then show ?thesis using none by simp
  qed
qed

theorem blank_content_not_dispatched_witness:
  "in_flight (fst (generate_click (initial_sq_page\<lparr>document_content := [CHR '' '', CHR 0x0A]\<rparr>))) = None"
proof -
  let ?st = "initial_sq_page\<lparr>document_content := [CHR '' '', CHR 0x0A]\<rparr>"
  have "sq_step True initial_sq_page ?st" by (rule sq_step.type) (simp add: initial_sq_page_def)
  then have r: "sq_reachable True ?st" by (rule sq_reachable.step [OF sq_reachable.init])
  have st: "sq_step True ?st (fst (generate_click ?st))"
    by (rule sq_step.click) (simp_all add: initial_sq_page_def)
  show ?thesis
    by (rule blank_content_not_dispatched [OF r _ st]) (simp add: is_space_def)
qed

text \<open>
  C12: while a request is in flight the page shows the loading state, and its only
  possible step is that request's completion: no second request is dispatched and
  the document cannot change under it.
\<close>

theorem single_request_in_flight:
  assumes "sq_reachable u st" and "in_flight st = Some c" and "sq_step u st st'"
  shows "sq_loading st \<and> c = document_content st \<and> in_flight st' = None \<and> \<not> sq_loading st'
         \<and> document_content st' = c"
proof -
  have inv: "sq_inv st" using assms(1) by (rule sq_reachable_inv)
  then have load: "sq_loading st" and cur: "c = document_content st"
    using assms(2) by (simp_all add: sq_inv_def)
  from assms(3) have "in_flight st' = None \<and> \<not> sq_loading st' \<and> document_content st' = c"
  proof (cases rule: sq_step.cases)
    case (type s)
    then show ?thesis using load by simp
  next
    case click
    then show ?thesis using load by simp
  next
    case (reply c' r)
    then show ?thesis using cur
      by (simp add: generation_done_def split: sum.splits)
  qed
  with load cur show ?thesis by simp
qed

theorem single_request_in_flight_witness:
  "let st = fst (generate_click (initial_sq_page\<lparr>document_content := ''Photosynthesis''\<rparr>)) in
     in_flight st = Some ''Photosynthesis''
     \<and> sq_loading st \<and> in_flight (fst (generation_done (generate_study_questions (Reply_Error ''quota'')) st)) = None"
proof -
  let ?s0 = "initial_sq_page\<lparr>document_content := ''Photosynthesis''\<rparr>"
  let ?st = "fst (generate_click ?s0)"
  have "sq_step True initial_sq_page ?s0" by (rule sq_step.type) (simp add: initial_sq_page_def)
  then have r0: "sq_reachable True ?s0" by (rule sq_reachable.step [OF sq_reachable.init])
  have "sq_step True ?s0 ?st" by (rule sq_step.click) (simp_all add: initial_sq_page_def)
  then have r: "sq_reachable True ?st" by (rule sq_reachable.step [OF r0])
  have fl: "in_flight ?st = Some ''Photosynthesis''"
    by (simp add: generate_click_def initial_sq_page_def js_trim_def is_space_def)
  have "sq_step True ?st (fst (generation_done (generate_study_questions (Reply_Error ''quota'')) ?st))"
    by (rule sq_step.reply [OF fl])
  then have "sq_loading ?st \<and> ''Photosynthesis'' = document_content ?st
      \<and> in_flight (fst (generation_done (generate_study_questions (Reply_Error ''quota'')) ?st)) = None
      \<and> \<not> sq_loading (fst (generation_done (generate_study_questions (Reply_Error ''quota'')) ?st))
      \<and> document_content (fst (generation_done (generate_study_questions (Reply_Error ''quota'')) ?st))
          = ''Photosynthesis''"
    by (rule single_request_in_flight [OF r fl])
  with fl show ?thesis by (simp add: Let_def)
qed

text \<open>
  C8: the result is all or nothing: when the request completes, the page shows
  exactly the list the collaborator returned and no error, or no question and the
  failure message; nothing of a failed reply is kept.
\<close>

theorem generation_all_or_nothing:
  assumes "sq_reachable u st" and "in_flight st = Some c"
  shows "let st' = fst (generation_done (generate_study_questions r) st) in
           \<not> sq_loading st' \<and>
           (case generate_study_questions r of
              Inl m \<Rightarrow> questions st' = [] \<and> sq_error st' = Some (''Failed to generate questions: '' @ m)
            | Inr qs \<Rightarrow> questions st' = qs \<and> sq_error st' = None)"
proof -
  have "sq_inv st" using assms(1) by (rule sq_reachable_inv)
  then have "questions st = [] \<and> sq_error st = None" using assms(2) by (simp add: sq_inv_def)
  then show ?thesis by (simp add: generation_done_def Let_def split: sum.splits)
qed

theorem generation_all_or_nothing_witness:
  "let st = fst (generate_click (initial_sq_page\<lparr>document_content := ''Cells''\<rparr>));
       st' = fst (generation_done (generate_study_questions (Reply_Output (Some []))) st) in
     \<not> sq_loading st' \<and> questions st' = [] \<and> sq_error st' = None
     \<and> snd (generation_done (generate_study_questions (Reply_Output (Some []))) st) = [mk_toast ''Success!'']"
proof -
  let ?s0 = "initial_sq_page\<lparr>document_content := ''Cells''\<rparr>"
  let ?st = "fst (generate_click ?s0)"
  have "sq_step True initial_sq_page ?s0" by (rule sq_step.type) (simp add: initial_sq_page_def)
  then have r0: "sq_reachable True ?s0" by (rule sq_reachable.step [OF sq_reachable.init])
  have "sq_step True ?s0 ?st" by (rule sq_step.click) (simp_all add: initial_sq_page_def)
  then have r: "sq_reachable True ?st" by (rule sq_reachable.step [OF r0])
  have fl: "in_flight ?st = Some ''Cells''"
    by (simp add: generate_click_def initial_sq_page_def js_trim_def is_space_def)
  have "let st' = fst (generation_done (generate_study_questions (Reply_Output (Some []))) ?st) in
      \<not> sq_loading st' \<and>
      (case generate_study_questions (Reply_Output (Some [])) of
         Inl m \<Rightarrow> questions st' = [] \<and> sq_error st' = Some (''Failed to generate questions: '' @ m)
       | Inr qs \<Rightarrow> questions st' = qs \<and> sq_error st' = None)"
    by (rule generation_all_or_nothing [OF r fl])
  then show ?thesis
    by (simp add: Let_def generate_study_questions_def generation_done_def)
qed

text \<open>
  While a request runs the card shows only the placeholder rows: no question of
  an earlier request stays on screen. After a success the card lists exactly the
  model's questions in order, each under its numbered title; an empty list is a
  success that shows no card at all.
\<close>

lemma sq_loading_skeleton:
  assumes "sq_reachable u st" and "sq_loading st"
  shows "sq_results st = Skeleton_Rows 3"
proof -
  have "sq_inv st" using assms(1) by (rule sq_reachable_inv)
  then have "questions st = []" using assms(2) by (auto simp: sq_inv_def)
  then show ?thesis using assms(2) by (simp add: sq_results_def)
qed

lemma sq_results_success:
  "sq_results (fst (generation_done (Inr qs) st)) =
     (if qs = [] then No_Results_Card
      else Question_Items (map (\<lambda>(i, q). (question_title i q, q)) (zip [0..<length qs] qs)))"
  by (simp add: sq_results_def generation_done_def)

lemma sq_results_contents:
  assumes "sq_results st = Question_Items its"
  shows "map snd its = questions st"
proof -
  have "snd \<circ> (\<lambda>(i, q). (question_title i q, q)) = (snd :: nat \<times> string \<Rightarrow> string)" by auto
  then show ?thesis using assms by (auto simp: sq_results_def map_snd_zip split: if_splits)
qed

subsection \<open>The events as a function\<close>

lemma sq_event_step_sound:
  "sq_event_step u ev st = st \<or> sq_step u st (sq_event_step u ev st)"
  by (cases ev) (auto intro: sq_step.intros)

lemma sq_event_step_complete:
  assumes "sq_step u st st'"
  shows "\<exists>ev. sq_event_step u ev st = st'"
  using assms
proof (cases rule: sq_step.cases)
  case (type s)
  then show ?thesis by (metis sq_event_step.simps(1))
next
  case click
  then show ?thesis by (metis sq_event_step.simps(2))
next
  case (reply c r)
  then show ?thesis by (metis option.distinct(1) sq_event_step.simps(3))
qed

lemma sq_event_inv: "sq_inv st \<Longrightarrow> sq_inv (sq_event_step u ev st)"
  using sq_event_step_sound [of u ev st] sq_step_inv by metis

end
