(* ===== verification/Salaries.thy ===== *)
theory Salaries
  imports Entity_List "HOL-Library.Product_Lexorder"
begin

text \<open>
  The salary page (\<open>src/src/app/(app)/salaries/page.tsx\<close>): the
  \<open>SalaryRecord\<close>, the teacher directory the form chooses from, the zod schema
  (its year bounds depend on the current year \<open>cy\<close>), \<open>handleFormSubmit\<close> with
  its teacher lookup, computed net salary and payment date, the delete handler,
  the sorted view, and the page as the generic management step. The clock gives the
  new id (\<open>now\<close>, milliseconds) and the payment date (\<open>to_iso now\<close>, the library's
  \<open>toISOString\<close>). In edit mode the teacher, month and year controls are disabled,
  so the submitted values of those fields are the edited record's.
\<close>

datatype salary_status = Salary_Paid | Salary_Pending

record salary_record =
  sr_id :: ident
  sr_teacherId :: string
  sr_teacherName :: string
  sr_month :: js_number
  sr_year :: js_number
  sr_basicSalary :: js_number
  sr_totalAllowances :: js_number
  sr_totalDeductions :: js_number
  sr_netSalary :: js_number
  sr_paymentStatus :: salary_status
  sr_paymentDate :: "string option"

record salary_form =
  slf_teacherId :: string
  slf_month :: "js_number option"
  slf_year :: "js_number option"
  slf_basicSalary :: "js_number option"
  slf_totalAllowances :: "js_number option"
  slf_totalDeductions :: "js_number option"
  slf_paymentStatus :: salary_status

definition sample_teachers_for_salary :: "(ident \<times> string) list" where
  "sample_teachers_for_salary =
     [(''T2001'', ''Dr. Eleanor Vance''), (''T2002'', ''Mr. Samuel Green''),
      (''T2003'', ''Ms. Olivia Chen''), (''T2004'', ''Mr. David Lee'')]"

subsection \<open>The form schema\<close>

definition nan_error :: "string \<Rightarrow> string \<times> string" where
  "nan_error f = (f, ''Expected number, received nan'')"

definition validate_salary :: "nat \<Rightarrow> salary_form \<Rightarrow> field_errors" where
  "validate_salary cy v =
     (if slf_teacherId v = [] then [(''teacherId'', ''Teacher is required.'')] else []) @
     (case slf_month v of
        None \<Rightarrow> [nan_error ''month'']
      | Some m \<Rightarrow> (if m < 1 then [(''month'', ''Number must be greater than or equal to 1'')] else []) @
                  (if 12 < m then [(''month'', ''Month must be between 1 and 12.'')] else [])) @
     (case slf_year v of
        None \<Rightarrow> [nan_error ''year'']
      | Some y \<Rightarrow> (if y < real cy - 5
                   then [(''year'', ''Number must be greater than or equal to '' @ string_of_nat (cy - 5))] else []) @
                  (if real cy + 1 < y
                   then [(''year'', ''Year must be between '' @ string_of_nat (cy - 5) @ '' and ''
                                    @ string_of_nat (cy + 1) @ ''.'')] else [])) @
     (case slf_basicSalary v of
        None \<Rightarrow> [nan_error ''basicSalary'']
      | Some b \<Rightarrow> if 0 < b then [] else [(''basicSalary'', ''Basic salary must be positive.'')]) @
     (case slf_totalAllowances v of
        None \<Rightarrow> [nan_error ''totalAllowances'']
      | Some a \<Rightarrow> if 0 \<le> a then [] else [(''totalAllowances'', ''Allowances cannot be negative.'')]) @
     (case slf_totalDeductions v of
        None \<Rightarrow> [nan_error ''totalDeductions'']
      | Some d \<Rightarrow> if 0 \<le> d then [] else [(''totalDeductions'', ''Deductions cannot be negative.'')])"

subsection \<open>Seeded records and page state\<close>

text \<open>\<open>new Date(2024, 5, 28).toISOString()\<close> depends on the zone; the strings are those of UTC.\<close>

definition initial_salary_records :: "salary_record list" where
  "initial_salary_records =
    [\<lparr>sr_id = ''SR1'', sr_teacherId = ''T2001'', sr_teacherName = ''Dr. Eleanor Vance'', sr_month = 6,
      sr_year = 2024, sr_basicSalary = 50000, sr_totalAllowances = 5000, sr_totalDeductions = 2000,
      sr_netSalary = 53000, sr_paymentStatus = Salary_Paid, sr_paymentDate = Some ''2024-06-28T00:00:00.000Z''\<rparr>,
     \<lparr>sr_id = ''SR2'', sr_teacherId = ''T2002'', sr_teacherName = ''Mr. Samuel Green'', sr_month = 6,
      sr_year = 2024, sr_basicSalary = 55000, sr_totalAllowances = 6000, sr_totalDeductions = 2500,
      sr_netSalary = 58500, sr_paymentStatus = Salary_Pending, sr_paymentDate = None\<rparr>,
     \<lparr>sr_id = ''SR3'', sr_teacherId = ''T2001'', sr_teacherName = ''Dr. Eleanor Vance'', sr_month = 5,
      sr_year = 2024, sr_basicSalary = 50000, sr_totalAllowances = 5000, sr_totalDeductions = 2000,
      sr_netSalary = 53000, sr_paymentStatus = Salary_Paid, sr_paymentDate = Some ''2024-05-30T00:00:00.000Z''\<rparr>]"

type_synonym salary_page = "salary_record crud_page"

definition initial_salary_page :: salary_page where
  "initial_salary_page = \<lparr>items = initial_salary_records, show_modal = False, editing = None, to_delete = None\<rparr>"

subsection \<open>Handlers\<close>

definition net_salary :: "salary_form \<Rightarrow> js_number" where
  "net_salary v = the (slf_basicSalary v) + the (slf_totalAllowances v) - the (slf_totalDeductions v)"

text \<open>\<open>values.paymentStatus === 'Paid' ? (r.paymentDate || now) : undefined\<close>.\<close>

definition edit_payment_date :: "(nat \<Rightarrow> string) \<Rightarrow> nat \<Rightarrow> salary_status \<Rightarrow> string option \<Rightarrow> string option" where
  "edit_payment_date to_iso now s d =
     (if s = Salary_Paid then (case d of Some x \<Rightarrow> if x \<noteq> [] then Some x else Some (to_iso now) | None \<Rightarrow> Some (to_iso now))
      else None)"

definition apply_salary_form :: "(nat \<Rightarrow> string) \<Rightarrow> nat \<Rightarrow> string \<Rightarrow> salary_form \<Rightarrow> salary_record \<Rightarrow> salary_record" where
  "apply_salary_form to_iso now name v r = r\<lparr>sr_teacherId := slf_teacherId v, sr_month := the (slf_month v),
     sr_year := the (slf_year v), sr_basicSalary := the (slf_basicSalary v),
     sr_totalAllowances := the (slf_totalAllowances v), sr_totalDeductions := the (slf_totalDeductions v),
     sr_paymentStatus := slf_paymentStatus v, sr_teacherName := name, sr_netSalary := net_salary v,
     sr_paymentDate := edit_payment_date to_iso now (slf_paymentStatus v) (sr_paymentDate r)\<rparr>"

definition new_salary_record :: "(nat \<Rightarrow> string) \<Rightarrow> nat \<Rightarrow> string \<Rightarrow> salary_form \<Rightarrow> salary_record" where
  "new_salary_record to_iso now name v =
     \<lparr>sr_id = ''SR'' @ slice_last 4 (string_of_nat now), sr_teacherId = slf_teacherId v,
      sr_teacherName = name, sr_month = the (slf_month v), sr_year = the (slf_year v),
      sr_basicSalary = the (slf_basicSalary v), sr_totalAllowances = the (slf_totalAllowances v),
      sr_totalDeductions = the (slf_totalDeductions v), sr_netSalary = net_salary v,
      sr_paymentStatus = slf_paymentStatus v,
      sr_paymentDate = (if slf_paymentStatus v = Salary_Paid then Some (to_iso now) else None)\<rparr>"

definition salary_form_submit ::
  "(nat \<Rightarrow> string) \<Rightarrow> nat \<Rightarrow> salary_form \<Rightarrow> salary_page \<Rightarrow> salary_page \<times> toast list" where
  "salary_form_submit to_iso now v st =
     (case find (\<lambda>t. fst t = slf_teacherId v) sample_teachers_for_salary of
        None \<Rightarrow> (st, [mk_destructive ''Error''])
      | Some t \<Rightarrow>
          (case editing st of
             Some e \<Rightarrow> (st\<lparr>items := update_by_id sr_id (sr_id e) (apply_salary_form to_iso now (snd t) v) (items st),
                           show_modal := False, editing := None\<rparr>, [mk_toast ''Salary Record Updated''])
           | None \<Rightarrow> (st\<lparr>items := items st @ [new_salary_record to_iso now (snd t) v],
                           show_modal := False, editing := None\<rparr>, [mk_toast ''Salary Record Added''])))"

definition salary_submit ::
  "(nat \<Rightarrow> string) \<Rightarrow> nat \<Rightarrow> nat \<Rightarrow> salary_form \<Rightarrow> salary_page \<Rightarrow> salary_page \<times> (field_errors + toast list)" where
  "salary_submit to_iso cy now v st = handle_submit (validate_salary cy) (salary_form_submit to_iso now) v st"

text \<open>The values the form holds when submitted: the disabled controls keep the edited record's.\<close>

definition salary_form_seen :: "salary_page \<Rightarrow> salary_form \<Rightarrow> salary_form" where
  "salary_form_seen st v =
     (case editing st of
        Some e \<Rightarrow> v\<lparr>slf_teacherId := sr_teacherId e, slf_month := Some (sr_month e), slf_year := Some (sr_year e)\<rparr>
      | None \<Rightarrow> v)"

definition salary_delete_confirm :: "salary_page \<Rightarrow> salary_page \<times> toast list" where
  "salary_delete_confirm st = delete_confirm sr_id ''Salary Record Deleted'' st"

text \<open>\<open>b.year - a.year || b.month - a.month || a.teacherName.localeCompare(b.teacherName)\<close>.\<close>

definition salary_cmp :: "(string \<Rightarrow> 'k::linorder) \<Rightarrow> salary_record \<Rightarrow> salary_record \<Rightarrow> js_number" where
  "salary_cmp coll a b =
     (if sr_year b - sr_year a \<noteq> 0 then sr_year b - sr_year a
      else if sr_month b - sr_month a \<noteq> 0 then sr_month b - sr_month a
      else locale_compare coll (sr_teacherName a) (sr_teacherName b))"

definition sorted_salary_records :: "(string \<Rightarrow> 'k::linorder) \<Rightarrow> salary_page \<Rightarrow> salary_record list" where
  "sorted_salary_records coll st = js_sort (salary_cmp coll) (items st)"

definition salary_step ::
  "(nat \<Rightarrow> string) \<Rightarrow> nat \<Rightarrow> bool \<Rightarrow> (salary_record, salary_form) crud_event \<Rightarrow> salary_page \<Rightarrow> salary_page" where
  "salary_step to_iso cy is_admin e st =
     crud_step (\<lambda>now v s. salary_submit to_iso cy now (salary_form_seen s v) s) salary_delete_confirm is_admin e st"

text \<open>
  The form the dialog shows: the edited record's values (the \<open>useEffect\<close> reset in
  edit mode), or the defaults with the current month \<open>cm\<close> and year \<open>cy\<close>.
\<close>

definition salary_form_of_record :: "salary_record \<Rightarrow> salary_form" where
  "salary_form_of_record r =
     \<lparr>slf_teacherId = sr_teacherId r, slf_month = Some (sr_month r), slf_year = Some (sr_year r),
      slf_basicSalary = Some (sr_basicSalary r), slf_totalAllowances = Some (sr_totalAllowances r),
      slf_totalDeductions = Some (sr_totalDeductions r), slf_paymentStatus = sr_paymentStatus r\<rparr>"

definition salary_default_form :: "nat \<Rightarrow> nat \<Rightarrow> salary_form" where
  "salary_default_form cm cy =
     \<lparr>slf_teacherId = [], slf_month = Some (real cm), slf_year = Some (real cy), slf_basicSalary = Some 0,
      slf_totalAllowances = Some 0, slf_totalDeductions = Some 0, slf_paymentStatus = Salary_Pending\<rparr>"

text \<open>The live preview: \<open>Number(x) || 0\<close> for each watched field (NaN counts as 0).\<close>

definition number_or_zero :: "js_number option \<Rightarrow> js_number" where
  "number_or_zero x = (case x of Some n \<Rightarrow> n | None \<Rightarrow> 0)"

definition calculated_net_salary :: "salary_form \<Rightarrow> js_number" where
  "calculated_net_salary v =
     number_or_zero (slf_basicSalary v) + number_or_zero (slf_totalAllowances v)
     - number_or_zero (slf_totalDeductions v)"

subsection \<open>The rendered table\<close>

text \<open>
  The Salary Records card: a message when there is no record, otherwise one row per
  record in the sorted order. \<open>MONTH_NAMES[record.month-1]\<close> is \<open>undefined\<close> (printed
  as such) unless the month is one of 1 to 12; \<open>num_str\<close> is the number's
  \<open>toString\<close>, \<open>to_fixed\<close> is \<open>toFixed(2)\<close> and \<open>fmt_date\<close> is
  \<open>format(new Date(d), 'PP')\<close>. The status badge is green for Paid and yellow
  otherwise; an administrator's row has Edit and Delete.
\<close>

definition month_names :: "string list" where
  "month_names = [''January'', ''February'', ''March'', ''April'', ''May'', ''June'', ''July'',
     ''August'', ''September'', ''October'', ''November'', ''December'']"

definition month_label :: "js_number \<Rightarrow> string" where
  "month_label m = (case find (\<lambda>k. real (Suc k) = m) [0..<12] of Some k \<Rightarrow> month_names ! k | None \<Rightarrow> ''undefined'')"

definition salary_status_name :: "salary_status \<Rightarrow> string" where
  "salary_status_name s = (if s = Salary_Paid then ''Paid'' else ''Pending'')"

definition salary_headers :: "bool \<Rightarrow> string list" where
  "salary_headers adm =
     [''Teacher'', ''Month/Year'', ''Basic Salary'', ''Allowances'', ''Deductions'', ''Net Salary'', ''Status'',
      ''Payment Date''] @ (if adm then [''Actions''] else [])"

record salary_row =
  srw_cells :: "string list"
  srw_paid_badge :: bool
  srw_actions :: bool

definition salary_row_view ::
  "(js_number \<Rightarrow> string) \<Rightarrow> (js_number \<Rightarrow> string) \<Rightarrow> (string \<Rightarrow> string) \<Rightarrow> bool \<Rightarrow> salary_record \<Rightarrow> salary_row" where
  "salary_row_view num_str to_fixed fmt_date adm r =
     \<lparr>srw_cells = [sr_teacherName r, month_label (sr_month r) @ '' '' @ num_str (sr_year r),
                   ''$'' @ to_fixed (sr_basicSalary r), ''$'' @ to_fixed (sr_totalAllowances r),
                   ''$'' @ to_fixed (sr_totalDeductions r), ''$'' @ to_fixed (sr_netSalary r),
                   salary_status_name (sr_paymentStatus r),
                   (case sr_paymentDate r of Some d \<Rightarrow> if d = [] then ''-'' else fmt_date d | None \<Rightarrow> ''-'')],
      srw_paid_badge = (sr_paymentStatus r = Salary_Paid), srw_actions = adm\<rparr>"

definition salary_table_view ::
  "(string \<Rightarrow> 'k::linorder) \<Rightarrow> (js_number \<Rightarrow> string) \<Rightarrow> (js_number \<Rightarrow> string) \<Rightarrow> (string \<Rightarrow> string) \<Rightarrow>
   bool \<Rightarrow> salary_page \<Rightarrow> salary_row table" where
  "salary_table_view coll num_str to_fixed fmt_date adm st =
     table_of (salary_row_view num_str to_fixed fmt_date adm)
       (if adm then ''Start by adding salary records.'' else ''No salary records are currently available.'')
       (sorted_salary_records coll st)"

text \<open>The delete dialog's description; with no record to delete its parts are empty.\<close>

definition salary_delete_description :: "(js_number \<Rightarrow> string) \<Rightarrow> salary_page \<Rightarrow> string" where
  "salary_delete_description num_str st =
     ''This action cannot be undone. This will permanently delete the salary record for ''
     @ (case to_delete st of
          Some r \<Rightarrow> sr_teacherName r @ '' ('' @ month_label (sr_month r) @ '' '' @ num_str (sr_year r) @ '').''
        | None \<Rightarrow> '' ( ).'')"

subsection \<open>The record invariant\<close>

definition salary_ok :: "salary_record \<Rightarrow> bool" where
  "salary_ok r \<longleftrightarrow>
     sr_netSalary r = sr_basicSalary r + sr_totalAllowances r - sr_totalDeductions r
     \<and> (sr_paymentDate r \<noteq> None \<longleftrightarrow> sr_paymentStatus r = Salary_Paid)
     \<and> (sr_teacherId r, sr_teacherName r) \<in> set sample_teachers_for_salary"

lemma find_teacher_SomeD:
  "find (\<lambda>t. fst t = i) sample_teachers_for_salary = Some t \<Longrightarrow>
   (i, snd t) \<in> set sample_teachers_for_salary"
proof -
  assume "find (\<lambda>t. fst t = i) sample_teachers_for_salary = Some t"
  then obtain k where "k < length sample_teachers_for_salary" "sample_teachers_for_salary ! k = t" "fst t = i"
    by (auto simp: find_Some_iff)
  then show ?thesis by (metis nth_mem prod.collapse)
qed

lemma salary_form_submit_ok:
  assumes "list_all salary_ok (items st)"
  shows "list_all salary_ok (items (fst (salary_form_submit to_iso now v st)))"
proof (cases "find (\<lambda>t. fst t = slf_teacherId v) sample_teachers_for_salary")
  case None
  then show ?thesis using assms by (simp add: salary_form_submit_def)
next
  case (Some t)
  then have t: "(slf_teacherId v, snd t) \<in> set sample_teachers_for_salary" by (rule find_teacher_SomeD)
  have "salary_ok (apply_salary_form to_iso now (snd t) v r)" for r
    using t by (simp add: salary_ok_def apply_salary_form_def net_salary_def edit_payment_date_def
        split: option.splits)
  moreover have "salary_ok (new_salary_record to_iso now (snd t) v)"
    using t by (simp add: salary_ok_def new_salary_record_def net_salary_def)
  ultimately show ?thesis
    using assms Some
    by (simp add: salary_form_submit_def update_by_id_list_all split: option.splits)
qed

lemma salary_submit_ok:
  "list_all salary_ok (items st) \<Longrightarrow> list_all salary_ok (items (fst (salary_submit to_iso cy now v st)))"
  by (cases "validate_salary cy v = []")
     (simp_all add: salary_submit_def handle_submit_valid handle_submit_invalid salary_form_submit_ok)

lemma initial_salary_ok: "list_all salary_ok initial_salary_records"
  by (simp add: initial_salary_records_def salary_ok_def sample_teachers_for_salary_def)

lemma salary_cmp_consistent:
  "consistent_with (salary_cmp coll) (\<lambda>r. (- sr_year r, - sr_month r, coll (sr_teacherName r)))"
  by (auto simp: consistent_with_def salary_cmp_def locale_compare_def less_eq_prod_def)

lemma sorted_salary_records_sorted:
  "sorted (map (\<lambda>r. (- sr_year r, - sr_month r, coll (sr_teacherName r))) (sorted_salary_records coll st))
   \<and> mset (sorted_salary_records coll st) = mset (items st)"
  using salary_cmp_consistent [of coll]
  by (simp add: sorted_salary_records_def js_sort_sorted)

text \<open>The preview shows, for every form the schema accepts, the net salary that is stored.\<close>

lemma calculated_net_salary_stored:
  "validate_salary cy v = [] \<Longrightarrow> calculated_net_salary v = net_salary v"
  by (simp add: validate_salary_def calculated_net_salary_def number_or_zero_def net_salary_def
      split: option.splits if_splits)

lemma salary_teacher_find:
  "(i, n) \<in> set sample_teachers_for_salary \<Longrightarrow> find (\<lambda>t. fst t = i) sample_teachers_for_salary = Some (i, n)"
  by (auto simp: sample_teachers_for_salary_def)

lemma apply_salary_form_of_record:
  assumes "salary_ok r" and "sr_paymentDate r \<noteq> Some []"
  shows "apply_salary_form to_iso now (sr_teacherName r) (salary_form_of_record r) r = r"
proof -
  have "edit_payment_date to_iso now (sr_paymentStatus r) (sr_paymentDate r) = sr_paymentDate r"
    using assms by (cases "sr_paymentDate r") (auto simp: salary_ok_def edit_payment_date_def)
  then show ?thesis using assms(1)
    by (simp add: apply_salary_form_def salary_form_of_record_def net_salary_def salary_ok_def)
qed

text \<open>
  Opening a record for edit and saving the form as it was filled leaves every
  record as it was: the prefill and the handler are inverse on well-formed records.
\<close>

lemma salary_edit_unchanged:
  assumes ok: "salary_ok r" and ed: "editing st = Some r" and mem: "r \<in> set (items st)"
    and uniq: "ids_unique sr_id (items st)" and pd: "sr_paymentDate r \<noteq> Some []"
    and valid: "validate_salary cy (salary_form_of_record r) = []"
  shows "items (fst (salary_submit to_iso cy now (salary_form_seen st (salary_form_of_record r)) st)) = items st"
proof -
  have seen: "salary_form_seen st (salary_form_of_record r) = salary_form_of_record r"
    using ed by (simp add: salary_form_seen_def salary_form_of_record_def)
  have t: "find (\<lambda>t. fst t = sr_teacherId r) sample_teachers_for_salary = Some (sr_teacherId r, sr_teacherName r)"
    using ok by (simp add: salary_ok_def salary_teacher_find)
  have same: "s = r" if "s \<in> set (items st)" "sr_id s = sr_id r" for s
    using ids_unique_same_id [OF uniq that(1) mem that(2)] .
  have "update_by_id sr_id (sr_id r) (apply_salary_form to_iso now (sr_teacherName r) (salary_form_of_record r))
          (items st) = items st"
    by (rule update_by_id_fixed) (use same apply_salary_form_of_record [OF ok pd] in auto)
  then show ?thesis using seen valid t ed
    by (simp add: salary_submit_def handle_submit_valid salary_form_submit_def salary_form_of_record_def)
qed

subsection \<open>Properties of the page\<close>

lemma salary_step_ok:
  "list_all salary_ok (items st) \<Longrightarrow> list_all salary_ok (items (salary_step to_iso cy adm e st))"
  unfolding salary_step_def
  by (rule crud_step_list_all) (simp_all add: salary_submit_ok salary_delete_confirm_def delete_confirm_list_all)

lemma salary_crud_run_ok:
  "list_all salary_ok (items (crud_run (\<lambda>now v s. salary_submit to_iso cy now (salary_form_seen s v) s)
      salary_delete_confirm adm es initial_salary_page))"
  by (rule crud_run_list_all)
     (simp_all add: salary_submit_ok salary_delete_confirm_def delete_confirm_list_all
       initial_salary_page_def initial_salary_ok)

text \<open>
  Every row of the table shows the net salary that basic, allowances and deductions
  give, and the green Paid badge exactly on the rows with a payment date.
\<close>

lemma salary_rows_consistent:
  assumes "r \<in> set (sorted_salary_records coll (foldl (\<lambda>s e. salary_step to_iso cy adm e s) initial_salary_page es))"
  shows "srw_cells (salary_row_view num_str to_fixed fmt_date adm' r) ! 5
           = ''$'' @ to_fixed (sr_basicSalary r + sr_totalAllowances r - sr_totalDeductions r)
         \<and> (srw_paid_badge (salary_row_view num_str to_fixed fmt_date adm' r) \<longleftrightarrow> sr_paymentDate r \<noteq> None)"
proof -
  have "salary_ok r"
    using salary_crud_run_ok [of to_iso cy adm es] assms
    by (simp add: crud_run_def salary_step_def sorted_salary_records_def js_sort_set_any list_all_iff)
  then show ?thesis by (simp add: salary_ok_def salary_row_view_def)
qed

text \<open>
  C15: in every state the page reaches (any user, clock and events), every salary
  record has a net salary equal to basic plus allowances minus deductions, a payment
  date exactly when it is Paid, and the name of the directory's teacher with its id.
\<close>

theorem salary_reachable_inv:
  "list_all salary_ok (items (foldl (\<lambda>s e. salary_step to_iso cy adm e s) initial_salary_page es))"
  using salary_crud_run_ok [of to_iso cy adm es] by (simp add: crud_run_def salary_step_def)

text \<open>
  A valid form naming a teacher that is not in the directory is refused with
  the destructive Error toast; the records and the dialog stay as they are.
\<close>

theorem salary_unknown_teacher:
  assumes "slf_teacherId v \<notin> fst ` set sample_teachers_for_salary" and "validate_salary cy v = []"
  shows "salary_submit to_iso cy now v st = (st, Inr [mk_destructive ''Error''])"
proof -
  have "\<forall>t\<in>set sample_teachers_for_salary. fst t \<noteq> slf_teacherId v" using assms(1) by force
  then have "find (\<lambda>t. fst t = slf_teacherId v) sample_teachers_for_salary = None"
    unfolding find_None_iff by blast
  with assms(2) show ?thesis
    by (simp add: salary_submit_def handle_submit_valid salary_form_submit_def)
qed

definition unknown_teacher_form :: salary_form where
  "unknown_teacher_form = \<lparr>slf_teacherId = ''T9999'', slf_month = Some 7, slf_year = Some 2024,
     slf_basicSalary = Some 40000, slf_totalAllowances = Some 0, slf_totalDeductions = Some 0,
     slf_paymentStatus = Salary_Pending\<rparr>"

theorem salary_unknown_teacher_witness:
  "salary_submit (\<lambda>_. ''2024-07-01T00:00:00.000Z'') 2024 1720000000000 unknown_teacher_form initial_salary_page
   = (initial_salary_page, Inr [mk_destructive ''Error''])"
  by (rule salary_unknown_teacher)
     (simp_all add: unknown_teacher_form_def sample_teachers_for_salary_def validate_salary_def)

text \<open>
  C21: a salary record dated more than five years before the current year can
  never be saved from its edit dialog. The teacher, month and year controls are
  disabled while editing, so the form keeps the record's year, and the schema's
  year bound is relative to the clock: every Save fails with the year message
  under a control the user cannot change, and the page stays as it is.
\<close>

theorem salary_old_record_locked:
  assumes "editing st = Some r" and "sr_year r < real cy - 5"
  shows "salary_step to_iso cy adm (Form_Submit now v) st = st
         \<and> (''year'', ''Number must be greater than or equal to '' @ string_of_nat (cy - 5))
             \<in> set (validate_salary cy (salary_form_seen st v))"
proof -
  have seen: "slf_year (salary_form_seen st v) = Some (sr_year r)"
    using assms(1) by (simp add: salary_form_seen_def)
  then have err: "(''year'', ''Number must be greater than or equal to '' @ string_of_nat (cy - 5))
      \<in> set (validate_salary cy (salary_form_seen st v))"
    using assms(2) by (simp add: validate_salary_def)
  then have "validate_salary cy (salary_form_seen st v) \<noteq> []" by auto
  then have "salary_submit to_iso cy now (salary_form_seen st v) st = (st, Inl (validate_salary cy (salary_form_seen st v)))"
    by (simp add: salary_submit_def handle_submit_invalid)
  then show ?thesis using err by (simp add: salary_step_def)
qed

theorem salary_old_record_locked_witness:
  "salary_step (\<lambda>_. ''2030-07-01T00:00:00.000Z'') 2030 True (Form_Submit 1900000000000 (salary_form_of_record (initial_salary_records ! 0)))
     (open_edit_modal (initial_salary_records ! 0) initial_salary_page)
   = open_edit_modal (initial_salary_records ! 0) initial_salary_page
   \<and> (''year'', ''Number must be greater than or equal to 2025'')
       \<in> set (validate_salary 2030 (salary_form_seen (open_edit_modal (initial_salary_records ! 0) initial_salary_page)
            (salary_form_of_record (initial_salary_records ! 0))))"
proof -
  have "editing (open_edit_modal (initial_salary_records ! 0) initial_salary_page) = Some (initial_salary_records ! 0)"
    by (simp add: open_edit_modal_def)
  moreover have "sr_year (initial_salary_records ! 0) < real 2030 - 5"
    by (simp add: initial_salary_records_def)
  moreover have "string_of_nat (2030 - 5) = ''2025''"
    by (simp add: string_of_nat.simps digit_char_def)
  ultimately show ?thesis
    using salary_old_record_locked [of "open_edit_modal (initial_salary_records ! 0) initial_salary_page"
        "initial_salary_records ! 0" 2030 "\<lambda>_. ''2030-07-01T00:00:00.000Z''" True 1900000000000
        "salary_form_of_record (initial_salary_records ! 0)"]
    by simp
qed

end
