(* ===== verification/Teachers.thy ===== *)
theory Teachers
  imports Entity_List Validation
begin

text \<open>
  The teacher page (\<open>src/src/app/(app)/teachers/page.tsx\<close>): the \<open>Teacher\<close>
  record, the zod schema (whose phone check is the phone pattern alone), the
  seeded list sorted by name, the add/edit handler that re-sorts by
  \<open>name.localeCompare\<close> (collation \<open>coll\<close>), the delete handler and the page as
  the generic management step. The edit dialog's form is reset to the edited
  teacher (\<open>form.reset(editingTeacher)\<close>), which is \<open>teacher_form_of\<close>.
\<close>

record teacher =
  t_id :: ident
  t_name :: string
  t_subject :: string
  t_email :: string
  t_phone :: "string option"

record teacher_form =
  tf_name :: string
  tf_subject :: string
  tf_email :: string
  tf_phone :: "string option"

definition validate_teacher :: "(string \<Rightarrow> bool) \<Rightarrow> teacher_form \<Rightarrow> field_errors" where
  "validate_teacher is_email v =
     (if length (tf_name v) < 2 then [(''name'', ''Name must be at least 2 characters.'')] else []) @
     (if length (tf_subject v) < 2 then [(''subject'', ''Subject must be at least 2 characters.'')] else []) @
     (if is_email (tf_email v) then [] else [(''email'', ''Invalid email address.'')]) @
     (case tf_phone v of
        Some p \<Rightarrow> if p = [] \<or> phone_regex p then [] else [(''phone'', ''Invalid phone number format'')]
      | None \<Rightarrow> [])"

definition teacher_cmp :: "(string \<Rightarrow> 'k::linorder) \<Rightarrow> teacher \<Rightarrow> teacher \<Rightarrow> js_number" where
  "teacher_cmp coll a b = locale_compare coll (t_name a) (t_name b)"

definition initial_teachers :: "(string \<Rightarrow> 'k::linorder) \<Rightarrow> teacher list" where
  "initial_teachers coll = js_sort (teacher_cmp coll)
    [\<lparr>t_id = ''T2001'', t_name = ''Dr. Eleanor Vance'', t_subject = ''Physics'',
      t_email = ''eleanor.vance@example.com'', t_phone = Some ''555-0101''\<rparr>,
     \<lparr>t_id = ''T2002'', t_name = ''Mr. Samuel Green'', t_subject = ''Mathematics'',
      t_email = ''samuel.green@example.com'', t_phone = Some ''555-0102''\<rparr>,
     \<lparr>t_id = ''T2003'', t_name = ''Ms. Olivia Chen'', t_subject = ''Chemistry'',
      t_email = ''olivia.chen@example.com'', t_phone = None\<rparr>,
     \<lparr>t_id = ''T2004'', t_name = ''Mr. David Lee'', t_subject = ''History'',
      t_email = ''david.lee@example.com'', t_phone = Some ''555-0104''\<rparr>]"

type_synonym teacher_page = "teacher crud_page"

definition initial_teacher_page :: "(string \<Rightarrow> 'k::linorder) \<Rightarrow> teacher_page" where
  "initial_teacher_page coll = \<lparr>items = initial_teachers coll, show_modal = False, editing = None, to_delete = None\<rparr>"

definition teacher_form_of :: "teacher \<Rightarrow> teacher_form" where
  "teacher_form_of t = \<lparr>tf_name = t_name t, tf_subject = t_subject t, tf_email = t_email t, tf_phone = t_phone t\<rparr>"

definition apply_teacher_form :: "teacher_form \<Rightarrow> teacher \<Rightarrow> teacher" where
  "apply_teacher_form v t = t\<lparr>t_name := tf_name v, t_subject := tf_subject v, t_email := tf_email v,
     t_phone := tf_phone v\<rparr>"

definition new_teacher :: "nat \<Rightarrow> teacher_form \<Rightarrow> teacher" where
  "new_teacher now v = \<lparr>t_id = ''T'' @ slice_last 4 (string_of_nat now), t_name = tf_name v,
     t_subject = tf_subject v, t_email = tf_email v, t_phone = tf_phone v\<rparr>"

definition teacher_form_submit ::
  "(string \<Rightarrow> 'k::linorder) \<Rightarrow> nat \<Rightarrow> teacher_form \<Rightarrow> teacher_page \<Rightarrow> teacher_page \<times> toast list" where
  "teacher_form_submit coll now v st =
     (case editing st of
        Some e \<Rightarrow> (st\<lparr>items := js_sort (teacher_cmp coll) (update_by_id t_id (t_id e) (apply_teacher_form v) (items st)),
                      show_modal := False, editing := None\<rparr>, [mk_toast ''Teacher Updated''])
      | None \<Rightarrow> (st\<lparr>items := js_sort (teacher_cmp coll) (new_teacher now v # items st),
                      show_modal := False, editing := None\<rparr>, [mk_toast ''Teacher Added'']))"

definition teacher_submit ::
  "(string \<Rightarrow> bool) \<Rightarrow> (string \<Rightarrow> 'k::linorder) \<Rightarrow> nat \<Rightarrow> teacher_form \<Rightarrow> teacher_page \<Rightarrow>
   teacher_page \<times> (field_errors + toast list)" where
  "teacher_submit is_email coll now v st = handle_submit (validate_teacher is_email) (teacher_form_submit coll now) v st"

definition teacher_delete_confirm :: "teacher_page \<Rightarrow> teacher_page \<times> toast list" where
  "teacher_delete_confirm st = delete_confirm t_id ''Teacher Deleted'' st"

definition teacher_step ::
  "(string \<Rightarrow> bool) \<Rightarrow> (string \<Rightarrow> 'k::linorder) \<Rightarrow> bool \<Rightarrow> (teacher, teacher_form) crud_event \<Rightarrow>
   teacher_page \<Rightarrow> teacher_page" where
  "teacher_step is_email coll is_admin e st = crud_step (teacher_submit is_email coll) teacher_delete_confirm is_admin e st"

text \<open>
  The rendered page: the blank form of the Add button, the texts of the dialogs, and
  the Teacher List card (\<open>teachers.map\<close> in list order; the phone cell is
  \<open>teacher.phone || '-'\<close>).
\<close>

definition teacher_blank_form :: teacher_form where
  "teacher_blank_form = \<lparr>tf_name = [], tf_subject = [], tf_email = [], tf_phone = Some []\<rparr>"

definition teacher_dialog_title :: "teacher_page \<Rightarrow> string" where
  "teacher_dialog_title = edit_or_add ''Edit Teacher Details'' ''Add New Teacher''"

definition teacher_submit_label :: "teacher_page \<Rightarrow> string" where
  "teacher_submit_label = edit_or_add ''Save Changes'' ''Add Teacher''"

definition teacher_delete_description :: "teacher_page \<Rightarrow> string" where
  "teacher_delete_description =
     delete_description ''This action cannot be undone. This will permanently delete '' t_name
       ([char_of (39::nat)] @ ''s record.'')"

definition teacher_headers :: "bool \<Rightarrow> string list" where
  "teacher_headers adm = [''ID'', ''Name'', ''Subject'', ''Email'', ''Phone''] @ (if adm then [''Actions''] else [])"

definition teacher_row :: "teacher \<Rightarrow> string list" where
  "teacher_row t = [t_id t, t_name t, t_subject t, t_email t, or_dash (t_phone t)]"

definition teacher_list_view :: "teacher_page \<Rightarrow> string list table" where
  "teacher_list_view st = table_of teacher_row ''Start by adding teachers to the system.'' (items st)"

subsection \<open>Properties\<close>

lemma teacher_cmp_consistent: "consistent_with (teacher_cmp coll) (\<lambda>t. coll (t_name t))"
  unfolding teacher_cmp_def by (rule locale_compare_consistent)

lemma initial_teachers_phones:
  "t \<in> set (initial_teachers coll) \<Longrightarrow> t_phone t = Some p \<Longrightarrow> length p = 8"
  using js_sort_set [OF teacher_cmp_consistent [of coll]]
  by (auto simp: initial_teachers_def)

text \<open>
  C20: the seeded phone numbers do not satisfy the page's own phone pattern: the
  edit dialog of a seeded teacher with a phone opens with a form that is refused
  on \<open>phone\<close>, so saving it unchanged fails and the list stays as it is.
\<close>

theorem seeded_teacher_edit_rejected:
  assumes "t \<in> set (initial_teachers coll)" and "t_phone t = Some p"
  shows "(''phone'', ''Invalid phone number format'') \<in> set (validate_teacher is_email (teacher_form_of t))
         \<and> teacher_submit is_email coll now (teacher_form_of t) st
             = (st, Inl (validate_teacher is_email (teacher_form_of t)))"
proof -
  have "length p = 8" using initial_teachers_phones [OF assms] .
  then have "\<not> phone_regex p" and "p \<noteq> []" using phone_regex_length [of p] by auto
  then have err: "(''phone'', ''Invalid phone number format'') \<in> set (validate_teacher is_email (teacher_form_of t))"
    using assms(2) by (simp add: validate_teacher_def teacher_form_of_def)
  then have "validate_teacher is_email (teacher_form_of t) \<noteq> []" by auto
  with err show ?thesis by (simp add: teacher_submit_def handle_submit_invalid)
qed

definition vance :: teacher where
  "vance = \<lparr>t_id = ''T2001'', t_name = ''Dr. Eleanor Vance'', t_subject = ''Physics'',
     t_email = ''eleanor.vance@example.com'', t_phone = Some ''555-0101''\<rparr>"

lemma vance_listed: "vance \<in> set (initial_teachers (id :: string \<Rightarrow> string))"
  using js_sort_set [OF teacher_cmp_consistent [of "id :: string \<Rightarrow> string"]]
  by (simp add: initial_teachers_def vance_def)

theorem seeded_teacher_edit_rejected_witness:
  "(''phone'', ''Invalid phone number format'') \<in> set (validate_teacher (\<lambda>_. True) (teacher_form_of vance))
   \<and> teacher_submit (\<lambda>_. True) (id :: string \<Rightarrow> string) 1720000000000 (teacher_form_of vance)
       (open_edit_modal vance (initial_teacher_page id))
     = (open_edit_modal vance (initial_teacher_page id), Inl (validate_teacher (\<lambda>_. True) (teacher_form_of vance)))"
  by (rule seeded_teacher_edit_rejected [OF vance_listed]) (simp add: vance_def)

text \<open>
  The Teacher List maps the state's list in order; every handler re-sorts it by
  name or filters it, so in every reachable state the rows are in name order.
\<close>

abbreviation teachers_sorted :: "(string \<Rightarrow> 'k::linorder) \<Rightarrow> teacher list \<Rightarrow> bool" where
  "teachers_sorted coll xs \<equiv> sorted (map (\<lambda>t. coll (t_name t)) xs)"

lemma teacher_step_sorted:
  assumes "teachers_sorted coll (items st)"
  shows "teachers_sorted coll (items (teacher_step is_email coll adm e st))"
  unfolding teacher_step_def
proof (rule crud_step_items [where Q = "teachers_sorted coll", OF _ _ assms])
  fix now v and s :: teacher_page
  assume "teachers_sorted coll (items s)"
  then show "teachers_sorted coll (items (fst (teacher_submit is_email coll now v s)))"
    by (cases "validate_teacher is_email v = []")
       (simp_all add: teacher_submit_def handle_submit_valid handle_submit_invalid teacher_form_submit_def
         js_sort_sorted [OF teacher_cmp_consistent] split: option.splits)
next
  fix s :: teacher_page
  assume "teachers_sorted coll (items s)"
  then show "teachers_sorted coll (items (fst (teacher_delete_confirm s)))"
    by (simp add: teacher_delete_confirm_def delete_confirm_def delete_by_id_def sorted_filter
        split: option.splits)
qed

lemma initial_teachers_sorted: "teachers_sorted coll (items (initial_teacher_page coll))"
  by (simp add: initial_teacher_page_def initial_teachers_def js_sort_sorted [OF teacher_cmp_consistent])

lemma teacher_list_sorted:
  assumes "teacher_list_view (foldl (\<lambda>s e. teacher_step is_email coll adm e s) (initial_teacher_page coll) es)
             = Table_Rows rs"
  shows "sorted (map (\<lambda>r. coll (r ! 1)) rs)"
proof -
  let ?st = "foldl (\<lambda>s e. teacher_step is_email coll adm e s) (initial_teacher_page coll) es"
  have "teachers_sorted coll (items (initial_teacher_page coll))" by (rule initial_teachers_sorted)
  then have "teachers_sorted coll (items ?st)"
    by (induction es rule: rev_induct) (simp_all add: teacher_step_sorted)
  moreover have "rs = map teacher_row (items ?st)"
    using assms by (simp add: teacher_list_view_def table_of_def split: if_splits)
  ultimately show ?thesis by (simp add: teacher_row_def comp_def)
qed

text \<open>
  The identifier clash of the add handler, with its consequence: \<open>'T'\<close> and the
  last four digits of the clock give a teacher added at a clock value ending in 2001
  the seeded identifier \<open>T2001\<close>; deleting Dr. Vance afterwards filters by that
  identifier and removes the new teacher as well.
\<close>

lemma teacher_id_collision_deletes_both:
  fixes coll :: "string \<Rightarrow> 'k::linorder" and v :: teacher_form
  defines "st1 \<equiv> fst (teacher_form_submit coll 1720000002001 v (open_add_modal (initial_teacher_page coll)))"
  shows "new_teacher 1720000002001 v \<in> set (items st1) \<and> t_id (new_teacher 1720000002001 v) = t_id vance
         \<and> new_teacher 1720000002001 v \<notin> set (items (fst (teacher_delete_confirm (request_delete vance st1))))"
proof -
  have id: "t_id (new_teacher 1720000002001 v) = ''T2001''"
    by (simp add: new_teacher_def slice_last_string_of_nat dec4_def digit_char_def)
  have "new_teacher 1720000002001 v \<in> set (items st1)"
    by (simp add: st1_def teacher_form_submit_def open_add_modal_def js_sort_set [OF teacher_cmp_consistent])
  moreover have "new_teacher 1720000002001 v \<notin> set (items (fst (teacher_delete_confirm (request_delete vance st1))))"
    using id by (simp add: teacher_delete_confirm_def delete_confirm_def request_delete_def delete_by_id_def vance_def)
  ultimately show ?thesis using id by (simp add: vance_def)
qed

end
