(* ===== verification/Gallery.thy ===== *)
theory Gallery
  imports Entity_List Validation Dates
begin

text \<open>
  The gallery page (\<open>src/src/app/(app)/gallery/page.tsx\<close>): the
  \<open>GalleryItem\<close> record, the zod schema with its image-hint word count
  (\<open>value.trim().split(/\s+/)\<close>), the add/edit handler with the placeholder image
  and the creation date, the delete handler, the event-tag filter options, the
  filtered and date-sorted view, and the page as the generic management step plus
  the filter and sort controls. zod's \<open>.url()\<close> is the parameter \<open>is_url\<close>;
  \<open>to_iso now\<close> is \<open>new Date().toISOString()\<close>.
\<close>

record gallery_item =
  g_id :: ident
  g_title :: string
  g_imageUrl :: string
  g_imageHint :: string
  g_date :: string
  g_eventTag :: "string option"

record gallery_form =
  gf_title :: string
  gf_imageUrl :: "string option"
  gf_imageHint :: string
  gf_eventTag :: "string option"

subsection \<open>The hint's words\<close>

text \<open>\<open>s.split(/\s+/)\<close>: the pieces between maximal runs of white space.\<close>

lemma split_ws_step_shorter:
  assumes "dropWhile (\<lambda>c. \<not> is_space c) s \<noteq> []"
  shows "length (dropWhile is_space (dropWhile (\<lambda>c. \<not> is_space c) s)) < length s"
proof -
  obtain a l where al: "dropWhile (\<lambda>c. \<not> is_space c) s = a # l"
    using assms by (cases "dropWhile (\<lambda>c. \<not> is_space c) s") simp_all
  have "is_space a" using hd_dropWhile [of "\<lambda>c. \<not> is_space c" s] assms al by simp
  then have "length (dropWhile is_space (a # l)) < length (a # l)"
    by (simp add: le_imp_less_Suc length_dropWhile_le)
  moreover have "length (a # l) \<le> length s" using al length_dropWhile_le [of _ s] by metis
  ultimately show ?thesis using al by simp
qed

function split_ws :: "string \<Rightarrow> string list" where
  "split_ws s =
     (let piece = takeWhile (\<lambda>c. \<not> is_space c) s; rest = dropWhile (\<lambda>c. \<not> is_space c) s in
      if rest = [] then [piece] else piece # split_ws (dropWhile is_space rest))"
  by pat_completeness auto
termination
  by (relation "measure length") (simp_all add: split_ws_step_shorter)

declare split_ws.simps [simp del]

definition hint_words_ok :: "string \<Rightarrow> bool" where
  "hint_words_ok h \<longleftrightarrow> (let n = length (split_ws (js_trim h)) in 1 \<le> n \<and> n \<le> 2)"

definition gallery_placeholder :: string where
  "gallery_placeholder = ''https://placehold.co/600x400.png''"

definition validate_gallery :: "(string \<Rightarrow> bool) \<Rightarrow> gallery_form \<Rightarrow> field_errors" where
  "validate_gallery is_url v =
     (if length (gf_title v) < 3 then [(''title'', ''Title must be at least 3 characters.'')] else []) @
     (case gf_imageUrl v of
        Some u \<Rightarrow> if u = [] \<or> is_url u then [] else [(''imageUrl'', ''Please enter a valid URL.'')]
      | None \<Rightarrow> []) @
     (if length (gf_imageHint v) < 1 then [(''imageHint'', ''Image hint is required.'')] else []) @
     (if hint_words_ok (gf_imageHint v) then []
      else [(''imageHint'', ''Hint must be one or two words (e.g., 'sports children', 'science fair').'')])"

subsection \<open>Seeded items and page state\<close>

definition initial_gallery_items :: "gallery_item list" where
  "initial_gallery_items =
    [\<lparr>g_id = ''1'', g_title = ''Annual Sports Day'', g_imageUrl = gallery_placeholder,
      g_imageHint = ''sports children'', g_date = ''2024-03-15'', g_eventTag = Some ''Sports''\<rparr>,
     \<lparr>g_id = ''2'', g_title = ''Science Fair Exhibition'', g_imageUrl = gallery_placeholder,
      g_imageHint = ''science experiment'', g_date = ''2024-04-22'', g_eventTag = Some ''Academics''\<rparr>,
     \<lparr>g_id = ''3'', g_title = ''Art & Craft Workshop'', g_imageUrl = gallery_placeholder,
      g_imageHint = ''art craft'', g_date = ''2024-05-10'', g_eventTag = Some ''Workshop''\<rparr>,
     \<lparr>g_id = ''4'', g_title = ''Graduation Ceremony'', g_imageUrl = gallery_placeholder,
      g_imageHint = ''graduation students'', g_date = ''2024-06-01'', g_eventTag = Some ''Ceremony''\<rparr>,
     \<lparr>g_id = ''5'', g_title = ''Cultural Fest'', g_imageUrl = gallery_placeholder,
      g_imageHint = ''cultural dance'', g_date = ''2023-11-20'', g_eventTag = Some ''Culture''\<rparr>,
     \<lparr>g_id = ''6'', g_title = ''Tree Plantation Drive'', g_imageUrl = gallery_placeholder,
      g_imageHint = ''tree planting'', g_date = ''2023-09-05'', g_eventTag = Some ''Social''\<rparr>]"

datatype sort_order = Newest | Oldest

record gallery_page = "gallery_item crud_page" +
  event_filter :: string
  sort_order :: sort_order

definition initial_gallery_page :: gallery_page where
  "initial_gallery_page = \<lparr>items = initial_gallery_items, show_modal = False, editing = None, to_delete = None,
     event_filter = ''all'', sort_order = Newest\<rparr>"

subsection \<open>Handlers\<close>

definition final_image_url :: "gallery_form \<Rightarrow> string" where
  "final_image_url v = (case gf_imageUrl v of Some u \<Rightarrow> if u \<noteq> [] then u else gallery_placeholder
                                          | None \<Rightarrow> gallery_placeholder)"

definition apply_gallery_form :: "gallery_form \<Rightarrow> gallery_item \<Rightarrow> gallery_item" where
  "apply_gallery_form v i = i\<lparr>g_title := gf_title v, g_imageHint := gf_imageHint v,
     g_eventTag := gf_eventTag v, g_imageUrl := final_image_url v\<rparr>"

definition new_gallery_item :: "(nat \<Rightarrow> string) \<Rightarrow> nat \<Rightarrow> gallery_form \<Rightarrow> gallery_item" where
  "new_gallery_item to_iso now v = \<lparr>g_id = string_of_nat now, g_title = gf_title v,
     g_imageUrl = final_image_url v, g_imageHint = gf_imageHint v,
     g_date = takeWhile (\<lambda>c. c \<noteq> CHR ''T'') (to_iso now), g_eventTag = gf_eventTag v\<rparr>"

definition gallery_form_submit ::
  "(nat \<Rightarrow> string) \<Rightarrow> nat \<Rightarrow> gallery_form \<Rightarrow> gallery_page \<Rightarrow> gallery_page \<times> toast list" where
  "gallery_form_submit to_iso now v st =
     (case editing st of
        Some e \<Rightarrow> (st\<lparr>items := update_by_id g_id (g_id e) (apply_gallery_form v) (items st),
                      show_modal := False, editing := None\<rparr>, [mk_toast ''Gallery Item Updated''])
      | None \<Rightarrow> (st\<lparr>items := new_gallery_item to_iso now v # items st, show_modal := False, editing := None\<rparr>,
                 [mk_toast ''Gallery Item Created'']))"

definition gallery_submit ::
  "(string \<Rightarrow> bool) \<Rightarrow> (nat \<Rightarrow> string) \<Rightarrow> nat \<Rightarrow> gallery_form \<Rightarrow> gallery_page \<Rightarrow>
   gallery_page \<times> (field_errors + toast list)" where
  "gallery_submit is_url to_iso now v st = handle_submit (validate_gallery is_url) (gallery_form_submit to_iso now) v st"

text \<open>
  The dialog's form (the \<open>useEffect\<close> reset): the edited item with
  \<open>eventTag || ""\<close>, or empty fields.
\<close>

definition gallery_form_of :: "gallery_item option \<Rightarrow> gallery_form" where
  "gallery_form_of e =
     (case e of
        None \<Rightarrow> \<lparr>gf_title = [], gf_imageUrl = Some [], gf_imageHint = [], gf_eventTag = Some []\<rparr>
      | Some i \<Rightarrow> \<lparr>gf_title = g_title i, gf_imageUrl = Some (g_imageUrl i), gf_imageHint = g_imageHint i,
                   gf_eventTag = Some (case g_eventTag i of Some t \<Rightarrow> t | None \<Rightarrow> [])\<rparr>)"

definition gallery_delete_confirm :: "gallery_page \<Rightarrow> gallery_page \<times> toast list" where
  "gallery_delete_confirm st = delete_confirm g_id ''Gallery Item Deleted'' st"

text \<open>\<open>['all', ...new Set(tags.filter(Boolean))]\<close>: a set iterates in first-insertion order.\<close>

definition unique_event_tags :: "gallery_page \<Rightarrow> string list" where
  "unique_event_tags st =
     ''all'' # rev (remdups (rev (filter (\<lambda>t. t \<noteq> []) (List.map_filter g_eventTag (items st)))))"

definition gallery_cmp :: "sort_order \<Rightarrow> gallery_item \<Rightarrow> gallery_item \<Rightarrow> js_number" where
  "gallery_cmp ord a b =
     (case (js_date_time (g_date a), js_date_time (g_date b)) of
        (Some ta, Some tb) \<Rightarrow> if ord = Newest then tb - ta else ta - tb
      | _ \<Rightarrow> 0)"

definition processed_gallery_items :: "gallery_page \<Rightarrow> gallery_item list" where
  "processed_gallery_items st =
     js_sort (gallery_cmp (sort_order st))
       (if event_filter st \<noteq> ''all'' then filter (\<lambda>i. g_eventTag i = Some (event_filter st)) (items st)
        else items st)"

definition toggle_sort_order :: "gallery_page \<Rightarrow> gallery_page" where
  "toggle_sort_order st = st\<lparr>sort_order := (if sort_order st = Newest then Oldest else Newest)\<rparr>"

datatype gallery_event =
    Gallery_Crud "(gallery_item, gallery_form) crud_event"
  | Filter_Change string
  | Toggle_Sort

fun gallery_step ::
  "(string \<Rightarrow> bool) \<Rightarrow> (nat \<Rightarrow> string) \<Rightarrow> bool \<Rightarrow> gallery_event \<Rightarrow> gallery_page \<Rightarrow> gallery_page" where
  "gallery_step is_url to_iso is_admin (Gallery_Crud e) st =
     crud_step (gallery_submit is_url to_iso) gallery_delete_confirm is_admin e st"
| "gallery_step is_url to_iso is_admin (Filter_Change t) st =
     (if t \<in> set (unique_event_tags st) then st\<lparr>event_filter := t\<rparr> else st)"
| "gallery_step is_url to_iso is_admin Toggle_Sort st = toggle_sort_order st"

text \<open>
  The rendered gallery: a message card when the filtered list is empty, otherwise
  one card per item in the processed order. \<open>loc_date\<close> is
  \<open>new Date(item.date).toLocaleDateString()\<close> (it prints Invalid Date rather
  than throwing); the tag badge shows when the tag is present and non-empty;
  an administrator's card has Edit and Delete.
\<close>

record gallery_card =
  gc_image :: string
  gc_alt :: string
  gc_hint :: string
  gc_tag :: "string option"
  gc_title :: string
  gc_date :: string
  gc_actions :: bool

definition gallery_card_view :: "(string \<Rightarrow> string) \<Rightarrow> bool \<Rightarrow> gallery_item \<Rightarrow> gallery_card" where
  "gallery_card_view loc_date adm i =
     \<lparr>gc_image = g_imageUrl i, gc_alt = g_title i, gc_hint = g_imageHint i,
      gc_tag = (case g_eventTag i of Some t \<Rightarrow> if t = [] then None else Some t | None \<Rightarrow> None),
      gc_title = g_title i, gc_date = loc_date (g_date i), gc_actions = adm\<rparr>"

definition gallery_empty_message :: "gallery_page \<Rightarrow> string" where
  "gallery_empty_message st =
     (if event_filter st = ''all'' \<and> items st = []
      then ''Start by creating a new gallery item to share school memories.''
      else ''No gallery items match the current filter '' @ quote_char
           @ (if event_filter st = ''all'' then ''All Events'' else event_filter st) @ quote_char @ ''.'')"

definition gallery_view :: "(string \<Rightarrow> string) \<Rightarrow> bool \<Rightarrow> gallery_page \<Rightarrow> gallery_card table" where
  "gallery_view loc_date adm st =
     table_of (gallery_card_view loc_date adm) (gallery_empty_message st) (processed_gallery_items st)"

definition gallery_dialog_title :: "gallery_page \<Rightarrow> string" where
  "gallery_dialog_title = edit_or_add ''Edit Gallery Item'' ''Create New Gallery Item''"

definition gallery_submit_label :: "gallery_page \<Rightarrow> string" where
  "gallery_submit_label = edit_or_add ''Save Changes'' ''Create Item''"

definition gallery_delete_description :: "gallery_page \<Rightarrow> string" where
  "gallery_delete_description =
     delete_description (''This action cannot be undone. This will permanently delete the gallery item '' @ quote_char)
       g_title (quote_char @ ''.'')"

text \<open>
  The order the comparator sorts by, when every date parses: newest first or oldest
  first by the date's time value.
\<close>

definition gallery_key :: "sort_order \<Rightarrow> gallery_item \<Rightarrow> js_number" where
  "gallery_key ord i = (case js_date_time (g_date i) of Some t \<Rightarrow> if ord = Newest then - t else t | None \<Rightarrow> 0)"

subsection \<open>Properties\<close>

abbreviation tag_or_empty :: "gallery_item \<Rightarrow> gallery_item" where
  "tag_or_empty x \<equiv> x\<lparr>g_eventTag := Some (case g_eventTag x of Some t \<Rightarrow> t | None \<Rightarrow> [])\<rparr>"

lemma apply_gallery_form_of:
  "g_imageUrl i \<noteq> [] \<Longrightarrow> apply_gallery_form (gallery_form_of (Some i)) i = tag_or_empty i"
  by (simp add: apply_gallery_form_def gallery_form_of_def final_image_url_def)

lemma tags_normalise:
  "filter (\<lambda>t. t \<noteq> []) (List.map_filter g_eventTag (update_by_id g_id k tag_or_empty xs))
   = filter (\<lambda>t. t \<noteq> []) (List.map_filter g_eventTag xs)"
  by (induction xs) (auto simp: update_by_id_def map_filter_simps split: option.splits)

text \<open>
  Saving the edit dialog unchanged keeps every item but for an absent event tag,
  which becomes the empty tag (\<open>eventTag || ""\<close>); the event filter's tags do not
  change, since empty tags are filtered out.
\<close>

lemma gallery_edit_unchanged:
  assumes ed: "editing st = Some i" and mem: "i \<in> set (items st)" and uniq: "ids_unique g_id (items st)"
    and url: "g_imageUrl i \<noteq> []" and valid: "validate_gallery is_url (gallery_form_of (Some i)) = []"
  shows "items (fst (gallery_submit is_url to_iso now (gallery_form_of (Some i)) st))
           = update_by_id g_id (g_id i) tag_or_empty (items st)
         \<and> unique_event_tags (fst (gallery_submit is_url to_iso now (gallery_form_of (Some i)) st))
           = unique_event_tags st"
proof -
  have "update_by_id g_id (g_id i) (apply_gallery_form (gallery_form_of (Some i))) (items st)
      = update_by_id g_id (g_id i) tag_or_empty (items st)"
    by (rule update_by_id_cong) (use ids_unique_same_id [OF uniq _ mem] apply_gallery_form_of [OF url] in auto)
  then have it: "items (fst (gallery_submit is_url to_iso now (gallery_form_of (Some i)) st))
      = update_by_id g_id (g_id i) tag_or_empty (items st)"
    using ed valid by (simp add: gallery_submit_def handle_submit_valid gallery_form_submit_def)
  then show ?thesis by (simp add: unique_event_tags_def tags_normalise)
qed

lemma split_ws_Nil [simp]: "split_ws [] = [[]]"
  by (simp add: split_ws.simps)

lemma hint_words_ok_blank: "list_all is_space h \<Longrightarrow> hint_words_ok h"
  by (simp add: hint_words_ok_def js_trim_Nil_iff [symmetric])

text \<open>
  A hint made only of white space passes the hint checks: it is not empty, so
  \<open>min(1)\<close> holds, and \<open>''.trim().split(/\s+/)\<close> is \<open>['']\<close>, one "word"; the
  form raises no error on \<open>imageHint\<close>, although the message asks for one or two
  words.
\<close>

theorem blank_hint_accepted:
  assumes "list_all is_space (gf_imageHint v)" and "gf_imageHint v \<noteq> []"
  shows "filter (\<lambda>e. fst e = ''imageHint'') (validate_gallery is_url v) = []"
  using assms hint_words_ok_blank [OF assms(1)] by (simp add: validate_gallery_def split: option.splits)

theorem blank_hint_accepted_witness:
  "validate_gallery (\<lambda>_. True) \<lparr>gf_title = ''Sports Day'', gf_imageUrl = Some [], gf_imageHint = '' '',
      gf_eventTag = Some ''Sports''\<rparr> = []"
proof -
  let ?v = "\<lparr>gf_title = ''Sports Day'', gf_imageUrl = Some [], gf_imageHint = '' '', gf_eventTag = Some ''Sports''\<rparr>"
  have "filter (\<lambda>e. fst e = ''imageHint'') (validate_gallery (\<lambda>_. True) ?v) = []"
    by (rule blank_hint_accepted) (simp_all add: is_space_def)
  then show ?thesis by (simp add: validate_gallery_def)
qed

lemma length_filter_dropWhile: "length (filter P (dropWhile Q xs)) \<le> length (filter P xs)"
  by (induction xs) auto

lemma filter_space_split:
  "filter is_space s = filter is_space (dropWhile (\<lambda>c. \<not> is_space c) s)"
  by (induction s) auto

text \<open>
  The split of the hint into words terminates on every string, and makes at most
  one piece more than the string has white-space characters.
\<close>

theorem split_ws_terminates:
  "split_ws_dom s \<and> length (split_ws s) \<le> Suc (length (filter is_space s))"
proof
  show "split_ws_dom s"
  proof (induction s rule: measure_induct_rule [of length])
    case (less s)
    show ?case
    proof (rule accpI)
      fix y assume "split_ws_rel y s"
      then show "split_ws_dom y" using less split_ws_step_shorter by (auto elim!: split_ws_rel.cases)
    qed
  qed
  show "length (split_ws s) \<le> Suc (length (filter is_space s))"
  proof (induction s rule: split_ws.induct)
    case (1 s)
    let ?rest = "dropWhile (\<lambda>c. \<not> is_space c) s"
    show ?case
    proof (cases "?rest = []")
      case True
      then show ?thesis by (simp add: split_ws.simps [of s])
    next
      case False
      then obtain a l where al: "?rest = a # l" by (cases ?rest) simp_all
      have "is_space a" using hd_dropWhile [of "\<lambda>c. \<not> is_space c" s] False al by simp
      then have "length (filter is_space (dropWhile is_space ?rest)) < length (filter is_space s)"
        using al filter_space_split [of s] length_filter_dropWhile [of is_space is_space l]
        by (simp add: le_imp_less_Suc)
      then show ?thesis
        using "1" [OF refl refl False] False by (simp add: split_ws.simps [of s] Let_def)
    qed
  qed
qed

text \<open>
  The filter is not reset when its tag disappears: deleting the last item that
  carries the selected tag leaves the filter on a tag the select no longer offers,
  and the page shows the no-match message for it.
\<close>

lemma gallery_stale_filter:
  assumes "to_delete st = Some d" and "event_filter st = t" and "t \<noteq> ''all''"
    and "\<forall>i\<in>set (items st). g_eventTag i = Some t \<longrightarrow> g_id i = g_id d"
  shows "let st' = gallery_step is_url to_iso adm (Gallery_Crud Delete_Confirm) st in
           event_filter st' = t \<and> t \<notin> set (unique_event_tags st')
           \<and> gallery_view loc_date adm' st' =
                Empty_Table (''No gallery items match the current filter '' @ quote_char @ t @ quote_char @ ''.'')"
proof -
  let ?st = "gallery_step is_url to_iso adm (Gallery_Crud Delete_Confirm) st"
  have it: "items ?st = delete_by_id g_id (g_id d) (items st)" and f: "event_filter ?st = t"
    using assms(1,2) by (simp_all add: gallery_delete_confirm_def delete_confirm_def)
  then have none: "\<forall>i\<in>set (items ?st). g_eventTag i \<noteq> Some t"
    using assms(4) by (auto simp: delete_by_id_def)
  then have "t \<notin> set (unique_event_tags ?st)"
    using assms(3) by (auto simp: unique_event_tags_def List.map_filter_def)
  moreover have "processed_gallery_items ?st = []"
    using none f assms(3) by (simp add: processed_gallery_items_def js_sort_def filter_empty_conv)
  ultimately show ?thesis
    using f assms(3) by (simp add: gallery_view_def table_of_def gallery_empty_message_def)
qed

subsection \<open>The order of the grid\<close>

abbreviation gallery_date_ok :: "gallery_item \<Rightarrow> bool" where
  "gallery_date_ok i \<equiv> js_date_time (g_date i) \<noteq> None"

lemma gallery_cmp_consistent_on:
  assumes "\<forall>i\<in>A. gallery_date_ok i"
  shows "consistent_on A (gallery_cmp ord) (gallery_key ord)"
  unfolding consistent_on_def
proof (intro ballI)
  fix x y assume "x \<in> A" "y \<in> A"
  with assms obtain tx ty where "js_date_time (g_date x) = Some tx" "js_date_time (g_date y) = Some ty"
    by blast
  then show "gallery_cmp ord x y \<le> 0 \<longleftrightarrow> gallery_key ord x \<le> gallery_key ord y"
    by (cases ord) (simp_all add: gallery_cmp_def gallery_key_def)
qed

text \<open>
  When every date parses, the grid shows the items of the selected tag (all of
  them for \<open>all\<close>) sorted by date, newest or oldest first as selected; items of
  the same date keep the order of the state (the sort is stable).
\<close>

lemma processed_gallery_sort_key:
  assumes "list_all gallery_date_ok (items st)"
  shows "processed_gallery_items st =
           sort_key (gallery_key (sort_order st))
             (if event_filter st \<noteq> ''all'' then filter (\<lambda>i. g_eventTag i = Some (event_filter st)) (items st)
              else items st)"
  unfolding processed_gallery_items_def
  by (rule js_sort_sort_key_on, rule gallery_cmp_consistent_on) (use assms in \<open>auto simp: list_all_iff\<close>)

lemma gallery_submit_dates_ok:
  assumes "\<And>n. js_date_time (takeWhile (\<lambda>c. c \<noteq> CHR ''T'') (to_iso n)) \<noteq> None"
    and "list_all gallery_date_ok (items st)"
  shows "list_all gallery_date_ok (items (fst (gallery_submit is_url to_iso now v st)))"
proof (cases "validate_gallery is_url v = []")
  case True
  show ?thesis
  proof (cases "editing st")
    case None
    then show ?thesis using True assms
      by (simp add: gallery_submit_def handle_submit_valid gallery_form_submit_def new_gallery_item_def)
  next
    case (Some e)
    have "list_all gallery_date_ok (update_by_id g_id (g_id e) (apply_gallery_form v) (items st))"
      using assms(2) by (rule update_by_id_list_all) (use assms(2) in \<open>simp add: apply_gallery_form_def list_all_iff\<close>)
    then show ?thesis using True Some
      by (simp add: gallery_submit_def handle_submit_valid gallery_form_submit_def)
  qed
next
  case False
  then show ?thesis using assms(2) by (simp add: gallery_submit_def handle_submit_invalid)
qed

lemma gallery_step_dates_ok:
  assumes "\<And>n. js_date_time (takeWhile (\<lambda>c. c \<noteq> CHR ''T'') (to_iso n)) \<noteq> None"
    and "list_all gallery_date_ok (items st)"
  shows "list_all gallery_date_ok (items (gallery_step is_url to_iso adm e st))"
proof (cases e)
  case (Gallery_Crud ce)
  have "list_all gallery_date_ok (items (crud_step (gallery_submit is_url to_iso) gallery_delete_confirm adm ce st))"
    by (rule crud_step_list_all [OF gallery_submit_dates_ok [OF assms(1)]])
       (simp_all add: gallery_delete_confirm_def delete_confirm_list_all assms(2) del: not_None_eq)
  then show ?thesis using Gallery_Crud by simp
qed (use assms(2) in \<open>simp_all add: toggle_sort_order_def\<close>)

lemma initial_gallery_dates_ok: "list_all gallery_date_ok (items initial_gallery_page)"
  by (simp add: initial_gallery_page_def initial_gallery_items_def date_eval)

text \<open>
  In every state the page reaches, when \<open>toISOString\<close> prints a date that
  parses, the grid is the selected items sorted by date in the selected order.
\<close>

lemma gallery_grid_order:
  assumes "\<And>n. js_date_time (takeWhile (\<lambda>c. c \<noteq> CHR ''T'') (to_iso n)) \<noteq> None"
    and st': "st' = foldl (\<lambda>s e. gallery_step is_url to_iso adm e s) initial_gallery_page es"
  shows "processed_gallery_items st' =
           sort_key (gallery_key (sort_order st'))
             (if event_filter st' \<noteq> ''all'' then filter (\<lambda>i. g_eventTag i = Some (event_filter st')) (items st')
              else items st')"
proof -
  have "list_all gallery_date_ok (items (foldl (\<lambda>s e. gallery_step is_url to_iso adm e s) initial_gallery_page es))"
  proof (induction es rule: rev_induct)
    case Nil
    show ?case using initial_gallery_dates_ok by simp
  next
    case (snoc e es)
    then show ?case using gallery_step_dates_ok [OF assms(1)] by simp
  qed
  then show ?thesis using st' by (simp add: processed_gallery_sort_key)
qed

end
