(* ===== verification/Notices.thy ===== *)
theory Notices
  imports Entity_List Dates
begin

text \<open>
  The notices page (\<open>src/src/app/(app)/notices/page.tsx\<close>): the \<open>Notice\<close>
  record, whose dates are JavaScript \<open>Date\<close> objects (their time value, \<open>None\<close>
  for an Invalid Date), the zod schema, the add/edit handler that re-sorts by issue
  date, the delete handler, and the two sections of the page: active notices (no
  expiry date, or not yet past) and expired ones. The clock \<open>now\<close> (ms) is the time
  of the event or render; \<open>t0\<close> is the time the module is loaded (the seeded
  urgent notice is issued then); \<open>parse_iso\<close> and \<open>date_parse\<close> are date-fns'
  \<open>parseISO\<close> and \<open>Date.parse\<close>. Edit and Delete buttons exist on active notices
  only. The edit dialog's prefill prints the expiry with \<open>format\<close>; with the zone
  model of \<open>Dates\<close> the last lemmas show that saving it unchanged can expire a notice.
\<close>

datatype notice_type = General | Academic | Event | Urgent | Administrative | Holiday

datatype audience = Aud_All | Aud_Teachers | Aud_Students | Aud_Parents

record notice =
  n_id :: ident
  n_title :: string
  n_content :: string
  n_issuedDate :: "js_number option"
  n_expiryDate :: "js_number option option"
  n_author :: string
  n_noticeType :: "notice_type option"
  n_targetAudience :: "audience list option"

record notice_form =
  nf_title :: string
  nf_content :: string
  nf_author :: string
  nf_expiryDate :: string
  nf_noticeType :: notice_type
  nf_targetAudience :: "audience list"

definition validate_notice :: "(string \<Rightarrow> js_number option) \<Rightarrow> notice_form \<Rightarrow> field_errors" where
  "validate_notice date_parse v =
     (if length (nf_title v) < 5 then [(''title'', ''Title must be at least 5 characters.'')] else []) @
     (if length (nf_content v) < 10 then [(''content'', ''Content must be at least 10 characters.'')] else []) @
     (if length (nf_author v) < 2 then [(''author'', ''Author name must be at least 2 characters.'')] else []) @
     (if nf_expiryDate v = [] \<or> date_parse (nf_expiryDate v) \<noteq> None then []
      else [(''expiryDate'', ''Invalid date format for expiry date.'')])"

text \<open>\<open>new Date('2024-07-15')\<close> reads a date-only string as UTC midnight.\<close>

definition initial_notices :: "real \<Rightarrow> notice list" where
  "initial_notices t0 =
    [\<lparr>n_id = ''1'', n_title = ''Upcoming Parent-Teacher Meeting'',
      n_content = ''A parent-teacher meeting is scheduled for next Saturday, 10:00 AM - 01:00 PM. Please register your preferred time slot.'',
      n_issuedDate = js_date_time ''2024-07-15'', n_expiryDate = Some (js_date_time ''2024-07-25''),
      n_author = ''Admin Office'', n_noticeType = Some Event, n_targetAudience = Some [Aud_Parents, Aud_Teachers]\<rparr>,
     \<lparr>n_id = ''2'', n_title = ''Holiday Announcement: Summer Break'',
      n_content = ''The school will be closed for summer break from July 28th to August 15th. Enjoy your holidays!'',
      n_issuedDate = js_date_time ''2024-07-10'', n_expiryDate = None,
      n_author = ''Admin Office'', n_noticeType = Some Holiday, n_targetAudience = Some [Aud_All]\<rparr>,
     \<lparr>n_id = ''3'', n_title = ''Library Books Due'',
      n_content = ''All library books issued before June 1st must be returned by July 20th to avoid fines.'',
      n_issuedDate = js_date_time ''2024-07-05'', n_expiryDate = Some (js_date_time ''2024-07-20''),
      n_author = ''Librarian'', n_noticeType = Some Administrative, n_targetAudience = Some [Aud_Students]\<rparr>,
     \<lparr>n_id = ''4'', n_title = ''Annual Science Fair Registration'',
      n_content = ''Registrations for the Annual Science Fair are now open. Last date to submit projects is August 5th.'',
      n_issuedDate = js_date_time ''2024-06-20'', n_expiryDate = Some (js_date_time ''2024-08-05''),
      n_author = ''Science Club'', n_noticeType = Some Event, n_targetAudience = Some [Aud_Students, Aud_Teachers]\<rparr>,
     \<lparr>n_id = ''5'', n_title = ''PTA Meeting (Expired)'', n_content = ''PTA meeting was held last month.'',
      n_issuedDate = js_date_time ''2024-05-01'', n_expiryDate = Some (js_date_time ''2024-05-15''),
      n_author = ''PTA Committee'', n_noticeType = Some Event, n_targetAudience = Some [Aud_Parents]\<rparr>,
     \<lparr>n_id = ''6'', n_title = ''Urgent: Water Supply Disruption Tomorrow'',
      n_content = ''Due to maintanence work, water supply will be disrupted tomorrow from 10 AM to 2 PM.'',
      n_issuedDate = Some t0, n_expiryDate = None,
      n_author = ''Admin Office'', n_noticeType = Some Urgent, n_targetAudience = Some [Aud_All]\<rparr>]"

type_synonym notice_page = "notice crud_page"

definition initial_notice_page :: "real \<Rightarrow> notice_page" where
  "initial_notice_page t0 = \<lparr>items = initial_notices t0, show_modal = False, editing = None, to_delete = None\<rparr>"

subsection \<open>Handlers\<close>

text \<open>\<open>(a, b) => b.issuedDate.getTime() - a.issuedDate.getTime()\<close>.\<close>

definition notice_cmp :: "notice \<Rightarrow> notice \<Rightarrow> js_number" where
  "notice_cmp a b =
     (case (n_issuedDate b, n_issuedDate a) of (Some tb, Some ta) \<Rightarrow> tb - ta | _ \<Rightarrow> 0)"

definition form_expiry :: "(string \<Rightarrow> js_number option) \<Rightarrow> notice_form \<Rightarrow> js_number option option" where
  "form_expiry parse_iso v = (if nf_expiryDate v \<noteq> [] then Some (parse_iso (nf_expiryDate v)) else None)"

definition apply_notice_form :: "(string \<Rightarrow> js_number option) \<Rightarrow> notice_form \<Rightarrow> notice \<Rightarrow> notice" where
  "apply_notice_form parse_iso v n = n\<lparr>n_title := nf_title v, n_content := nf_content v,
     n_author := nf_author v, n_noticeType := Some (nf_noticeType v),
     n_targetAudience := Some (nf_targetAudience v), n_expiryDate := form_expiry parse_iso v\<rparr>"

definition new_notice :: "(string \<Rightarrow> js_number option) \<Rightarrow> nat \<Rightarrow> notice_form \<Rightarrow> notice" where
  "new_notice parse_iso now v = \<lparr>n_id = string_of_nat now, n_title = nf_title v, n_content = nf_content v,
     n_issuedDate = Some (real now), n_expiryDate = form_expiry parse_iso v, n_author = nf_author v,
     n_noticeType = Some (nf_noticeType v), n_targetAudience = Some (nf_targetAudience v)\<rparr>"

definition notice_form_submit ::
  "(string \<Rightarrow> js_number option) \<Rightarrow> nat \<Rightarrow> notice_form \<Rightarrow> notice_page \<Rightarrow> notice_page \<times> toast list" where
  "notice_form_submit parse_iso now v st =
     (case editing st of
        Some e \<Rightarrow> (st\<lparr>items := js_sort notice_cmp (update_by_id n_id (n_id e) (apply_notice_form parse_iso v) (items st)),
                      show_modal := False, editing := None\<rparr>, [mk_toast ''Notice Updated''])
      | None \<Rightarrow> (st\<lparr>items := js_sort notice_cmp (new_notice parse_iso now v # items st),
                      show_modal := False, editing := None\<rparr>, [mk_toast ''Notice Created'']))"

definition notice_submit ::
  "(string \<Rightarrow> js_number option) \<Rightarrow> (string \<Rightarrow> js_number option) \<Rightarrow> nat \<Rightarrow> notice_form \<Rightarrow> notice_page \<Rightarrow>
   notice_page \<times> (field_errors + toast list)" where
  "notice_submit date_parse parse_iso now v st =
     handle_submit (validate_notice date_parse) (notice_form_submit parse_iso now) v st"

definition notice_delete_confirm :: "notice_page \<Rightarrow> notice_page \<times> toast list" where
  "notice_delete_confirm st = delete_confirm n_id ''Notice Deleted'' st"

subsection \<open>The two sections\<close>

text \<open>\<open>isPast(d)\<close>: the time is before now; an Invalid Date is never past.\<close>

definition is_past_time :: "nat \<Rightarrow> js_number option \<Rightarrow> bool" where
  "is_past_time now d = (case d of Some t \<Rightarrow> t < real now | None \<Rightarrow> False)"

definition active_notices :: "nat \<Rightarrow> notice_page \<Rightarrow> notice list" where
  "active_notices now st =
     js_sort notice_cmp (filter (\<lambda>n. case n_expiryDate n of None \<Rightarrow> True | Some d \<Rightarrow> \<not> is_past_time now d) (items st))"

definition expired_notices :: "nat \<Rightarrow> notice_page \<Rightarrow> notice list" where
  "expired_notices now st =
     js_sort notice_cmp (filter (\<lambda>n. case n_expiryDate n of None \<Rightarrow> False | Some d \<Rightarrow> is_past_time now d) (items st))"

definition notice_step ::
  "(string \<Rightarrow> js_number option) \<Rightarrow> (string \<Rightarrow> js_number option) \<Rightarrow> nat \<Rightarrow> bool \<Rightarrow>
   (notice, notice_form) crud_event \<Rightarrow> notice_page \<Rightarrow> notice_page" where
  "notice_step date_parse parse_iso now is_admin e st =
     (case e of
        Edit_Click n \<Rightarrow> if is_admin \<and> n \<in> set (active_notices now st) then open_edit_modal n st else st
      | Delete_Click n \<Rightarrow> if is_admin \<and> n \<in> set (active_notices now st) then request_delete n st else st
      | _ \<Rightarrow> crud_step (notice_submit date_parse parse_iso) notice_delete_confirm is_admin e st)"

text \<open>
  The dialog's values (the \<open>useEffect\<close> on \<open>editingNotice\<close> and \<open>openAddModal\<close>).
  Editing prefills the notice's fields; \<open>fmt\<close> is \<open>format(d, 'yyyy-MM-dd')\<close>, which
  throws a RangeError on an Invalid Date (\<open>None\<close>); \<open>||\<close> falls back to General and
  All only when the field is absent. Adding resets to a blank form whose author is the
  user's name, or Admin Office when there is none or it is empty.
\<close>

definition notice_form_of :: "(js_number \<Rightarrow> string) \<Rightarrow> notice \<Rightarrow> notice_form option" where
  "notice_form_of fmt n =
     (case n_expiryDate n of
        Some None \<Rightarrow> None
      | _ \<Rightarrow> Some \<lparr>nf_title = n_title n, nf_content = n_content n, nf_author = n_author n,
               nf_expiryDate = (case n_expiryDate n of Some (Some t) \<Rightarrow> fmt t | _ \<Rightarrow> []),
               nf_noticeType = (case n_noticeType n of Some ty \<Rightarrow> ty | None \<Rightarrow> General),
               nf_targetAudience = (case n_targetAudience n of Some a \<Rightarrow> a | None \<Rightarrow> [Aud_All])\<rparr>)"

definition notice_blank_form :: "string option \<Rightarrow> notice_form" where
  "notice_blank_form user_name =
     \<lparr>nf_title = [], nf_content = [],
      nf_author = (case user_name of Some nm \<Rightarrow> if nm = [] then ''Admin Office'' else nm | None \<Rightarrow> ''Admin Office''),
      nf_expiryDate = [], nf_noticeType = General, nf_targetAudience = [Aud_All]\<rparr>"

subsection \<open>The rendered sections\<close>

text \<open>
  The cards of the two sections. \<open>fmt\<close> is \<open>format(d, 'PPP')\<close>; it throws a
  RangeError on an Invalid Date, so a card whose issue date or expiry date is
  Invalid is \<open>None\<close> and the whole page fails to render. An Invalid Date object is
  truthy, so \<open>notice.expiryDate && ...\<close> reaches \<open>format\<close>. The badge shows the
  type (General when absent), destructive for Urgent, with the suffix (Expired) and
  the secondary variant in the expired section; an administrator gets Edit and
  Delete on active cards only.
\<close>

primrec notice_type_name :: "notice_type \<Rightarrow> string" where
  "notice_type_name General = ''General''"
| "notice_type_name Academic = ''Academic''"
| "notice_type_name Event = ''Event''"
| "notice_type_name Urgent = ''Urgent''"
| "notice_type_name Administrative = ''Administrative''"
| "notice_type_name Holiday = ''Holiday''"

primrec audience_name :: "audience \<Rightarrow> string" where
  "audience_name Aud_All = ''All''"
| "audience_name Aud_Teachers = ''Teachers''"
| "audience_name Aud_Students = ''Students''"
| "audience_name Aud_Parents = ''Parents''"

record notice_card =
  nc_title :: string
  nc_badge :: string
  nc_badge_destructive :: bool
  nc_issued :: string
  nc_content :: string
  nc_audience :: "string option"
  nc_expiry :: "string option"
  nc_actions :: bool

definition notice_card_view :: "(js_number \<Rightarrow> string) \<Rightarrow> bool \<Rightarrow> bool \<Rightarrow> notice \<Rightarrow> notice_card option" where
  "notice_card_view fmt expired adm n =
     (case (n_issuedDate n, n_expiryDate n) of
        (None, _) \<Rightarrow> None
      | (_, Some None) \<Rightarrow> None
      | (Some ti, ex) \<Rightarrow>
          Some \<lparr>nc_title = n_title n,
                nc_badge = notice_type_name (case n_noticeType n of Some ty \<Rightarrow> ty | None \<Rightarrow> General)
                           @ (if expired then '' (Expired)'' else []),
                nc_badge_destructive = (\<not> expired \<and> n_noticeType n = Some Urgent),
                nc_issued = ''Issued by: '' @ n_author n @ '' on '' @ fmt ti,
                nc_content = n_content n,
                nc_audience = (case n_targetAudience n of
                                 Some a \<Rightarrow> if a = [] then None else Some (''For: '' @ js_join '', '' (map audience_name a))
                               | None \<Rightarrow> None),
                nc_expiry = (case ex of
                               Some (Some te) \<Rightarrow> Some ((if expired then ''Expired on: '' else ''Expires on: '') @ fmt te)
                             | _ \<Rightarrow> None),
                nc_actions = (\<not> expired \<and> adm)\<rparr>)"

datatype notices_view = No_Notices string | Notice_Sections "notice_card list" "notice_card list"

definition notices_view :: "(js_number \<Rightarrow> string) \<Rightarrow> nat \<Rightarrow> bool \<Rightarrow> notice_page \<Rightarrow> notices_view option" where
  "notices_view fmt now adm st =
     (if items st = []
      then Some (No_Notices (''There are no active notices at the moment. '' @ (if adm then ''Try creating one!'' else [])))
      else (case (those (map (notice_card_view fmt False adm) (active_notices now st)),
                  those (map (notice_card_view fmt True adm) (expired_notices now st))) of
              (Some a, Some e) \<Rightarrow> Some (Notice_Sections a e)
            | _ \<Rightarrow> None))"

subsection \<open>Properties\<close>

lemma expired_is_not_active:
  "(\<lambda>n. case n_expiryDate n of None \<Rightarrow> False | Some d \<Rightarrow> is_past_time now d)
   = (\<lambda>n. \<not> (case n_expiryDate n of None \<Rightarrow> True | Some d \<Rightarrow> \<not> is_past_time now d))"
  by (auto simp: fun_eq_iff split: option.splits)

text \<open>
  At every moment the Active and Expired sections of the page split the
  notices: every notice is shown in exactly one of them, once.
\<close>

theorem notices_partition:
  "mset (active_notices now st) + mset (expired_notices now st) = mset (items st)
   \<and> set (active_notices now st) \<inter> set (expired_notices now st) = {}"
proof -
  let ?P = "\<lambda>n. case n_expiryDate n of None \<Rightarrow> True | Some d \<Rightarrow> \<not> is_past_time now d"
  have a: "mset (active_notices now st) = mset (filter ?P (items st))"
    by (simp add: active_notices_def js_sort_mset_any)
  have e: "mset (expired_notices now st) = mset (filter (\<lambda>n. \<not> ?P n) (items st))"
    by (simp add: expired_notices_def js_sort_mset_any expired_is_not_active)
  have "mset (filter ?P (items st)) + mset (filter (\<lambda>n. \<not> ?P n) (items st)) = mset (items st)"
    by (simp add: multiset_partition [symmetric])
  moreover have "set (active_notices now st) = set (filter ?P (items st))"
    using arg_cong [OF a, of set_mset] by simp
  moreover have "set (expired_notices now st) = set (filter (\<lambda>n. \<not> ?P n) (items st))"
    using arg_cong [OF e, of set_mset] by simp
  ultimately show ?thesis using a e by auto
qed

text \<open>
  Saving the prefilled dialog unchanged rewrites a notice's expiry from \<open>t\<close> to
  \<open>parseISO(format(t))\<close>, and fills in the type and audience defaults; nothing else of the
  notice changes.
\<close>

lemma notice_resave_record:
  assumes "notice_form_of fmt n = Some f"
  shows "apply_notice_form parse_iso f n =
           n\<lparr>n_noticeType := Some (case n_noticeType n of Some ty \<Rightarrow> ty | None \<Rightarrow> General),
             n_targetAudience := Some (case n_targetAudience n of Some a \<Rightarrow> a | None \<Rightarrow> [Aud_All]),
             n_expiryDate := (case n_expiryDate n of
                                Some (Some t) \<Rightarrow> if fmt t = [] then None else Some (parse_iso (fmt t))
                              | _ \<Rightarrow> None)\<rparr>"
  using assms
  by (cases n) (auto simp: notice_form_of_def apply_notice_form_def form_expiry_def split: option.splits)

lemma notice_one_expiry:
  "js_date_time ''2024-07-25'' = Some 1721865600000"
  by (simp add: date_eval)

lemma notice_one_floor: "\<lfloor>(1721865600000 + real_of_int (-18000000)) / 86400000\<rfloor> = 19928"
  by (rule floor_unique) simp_all

lemma notice_one_local_day:
  "format_local (-18000000) 1721865600000 = ''2024-07-24''"
proof -
  have "date_of_days 19928 = \<lparr>year = 2024, month = 7, day = 24\<rparr>"
    by (simp add: date_of_days_def date_of_day_number_def find_year.simps find_month.simps
        days_before_year_def days_in_month_def leap_year_def)
  then show ?thesis using notice_one_floor by (simp add: format_local_def format_eval)
qed

lemma notice_one_local_midnight:
  "parse_iso_local (-18000000) ''2024-07-24'' = Some 1721797200000"
  by (simp add: parse_iso_local_def date_eval)

lemma notice_one_date_valid: "js_date_time ''2024-07-24'' \<noteq> None"
  by (simp add: date_eval)

text \<open>
  Editing a notice and saving the dialog unchanged can expire it. In a browser at
  UTC-5, the seeded notice 1 (expiry \<open>new Date('2024-07-25')\<close>, UTC midnight) is active
  at 2024-07-24T20:00Z; its dialog shows the expiry as 2024-07-24, and saving reads that
  back as local midnight, 2024-07-24T05:00Z, which is already past: the notice moves to
  the Expired section, and no Edit or Delete button is offered for it any more.
\<close>

theorem notice_resave_expires:
  "let off = -18000000; now = 1721851200000; st0 = initial_notice_page t0; n = hd (items st0);
       st1 = notice_step js_date_time (parse_iso_local off) now True (Edit_Click n) st0
   in n \<in> set (active_notices now st0)
      \<and> (case notice_form_of (format_local off) n of
            None \<Rightarrow> False
          | Some f \<Rightarrow> nf_expiryDate f = ''2024-07-24''
              \<and> n\<lparr>n_expiryDate := Some (Some 1721797200000)\<rparr>
                  \<in> set (expired_notices now
                          (notice_step js_date_time (parse_iso_local off) now True (Form_Submit now f) st1)))"
  by (simp add: Let_def initial_notice_page_def initial_notices_def notice_step_def active_notices_def
      expired_notices_def js_sort_set_any is_past_time_def notice_form_of_def notice_one_expiry
      notice_one_local_day notice_one_local_midnight notice_one_date_valid open_edit_modal_def
      notice_submit_def handle_submit_valid validate_notice_def notice_form_submit_def
      update_by_id_def apply_notice_form_def form_expiry_def)

text \<open>
  C29: editing a notice and saving the dialog unchanged moves its expiry from
  \<open>t\<close> to the local midnight that starts \<open>t\<close>'s day in the browser's zone: up to a
  day earlier, and never later. The dialog prints the expiry with
  \<open>format(d, 'yyyy-MM-dd')\<close> and the save reads it back with \<open>parseISO\<close>; every
  other notice stays as it was. This holds for every zone offset and every expiry
  in the years 0 to 9999.
\<close>

theorem notice_resave_local_midnight:
  assumes "editing st = Some n" and "n \<in> set (items st)" and "ids_unique n_id (items st)"
    and "n_expiryDate n = Some (Some t)"
    and "notice_form_of (format_local off) n = Some f" and "validate_notice date_parse f = []"
    and "0 \<le> \<lfloor>(t + real_of_int off) / 86400000\<rfloor> + 719528"
    and "\<lfloor>(t + real_of_int off) / 86400000\<rfloor> + 719528 < int (days_before_year 10000)"
  shows "let t' = real_of_int \<lfloor>(t + real_of_int off) / 86400000\<rfloor> * 86400000 - real_of_int off in
           t - 86400000 < t' \<and> t' \<le> t
           \<and> set (items (fst (notice_submit date_parse (parse_iso_local off) now f st)))
               = insert (n\<lparr>n_noticeType := Some (case n_noticeType n of Some ty \<Rightarrow> ty | None \<Rightarrow> General),
                           n_targetAudience := Some (case n_targetAudience n of Some a \<Rightarrow> a | None \<Rightarrow> [Aud_All]),
                           n_expiryDate := Some (Some t')\<rparr>)
                        (set (items st) - {n})"
proof -
  define t' where "t' = real_of_int \<lfloor>(t + real_of_int off) / 86400000\<rfloor> * 86400000 - real_of_int off"
  have p: "parse_iso_local off (format_local off t) = Some t'"
    using parse_format_local [OF assms(7,8)] by (simp add: t'_def)
  have ne: "format_local off t \<noteq> []" by (simp add: format_local_def format_iso_date_def)
  have ap: "apply_notice_form (parse_iso_local off) f n =
      n\<lparr>n_noticeType := Some (case n_noticeType n of Some ty \<Rightarrow> ty | None \<Rightarrow> General),
        n_targetAudience := Some (case n_targetAudience n of Some a \<Rightarrow> a | None \<Rightarrow> [Aud_All]),
        n_expiryDate := Some (Some t')\<rparr>"
    using notice_resave_record [OF assms(5), of "parse_iso_local off"] assms(4) p ne by simp
  have "items (fst (notice_submit date_parse (parse_iso_local off) now f st))
        = js_sort notice_cmp (update_by_id n_id (n_id n) (apply_notice_form (parse_iso_local off) f) (items st))"
    using assms(1,6) by (simp add: notice_submit_def handle_submit_valid notice_form_submit_def)
  moreover have "set (update_by_id n_id (n_id n) (apply_notice_form (parse_iso_local off) f) (items st))
        = insert (apply_notice_form (parse_iso_local off) f n) (set (items st) - {n})"
    by (rule update_by_id_member [OF assms(3,2)]) (simp add: apply_notice_form_def)
  ultimately show ?thesis
    using local_midnight_bounds [of t off] ap by (simp add: js_sort_set_any t'_def [symmetric] Let_def)
qed

theorem notice_resave_local_midnight_witness:
  "let n = hd (initial_notices 0); st = open_edit_modal n (initial_notice_page 0);
       f = the (notice_form_of (format_local (-18000000)) n)
   in n\<lparr>n_expiryDate := Some (Some 1721797200000)\<rparr>
        \<in> set (items (fst (notice_submit js_date_time (parse_iso_local (-18000000)) 0 f st)))
      \<and> is_past_time 1721851200000 (Some 1721797200000)"
proof -
  define n where "n = hd (initial_notices 0)"
  define st where "st = open_edit_modal n (initial_notice_page 0)"
  define f where "f = the (notice_form_of (format_local (-18000000)) n)"
  have e: "n_expiryDate n = Some (Some 1721865600000)"
    by (simp add: n_def initial_notices_def notice_one_expiry)
  have fo: "notice_form_of (format_local (-18000000)) n = Some f"
    using e by (simp add: f_def notice_form_of_def)
  have v: "validate_notice js_date_time f = []"
    using e notice_one_local_day notice_one_date_valid
    by (simp add: f_def notice_form_of_def validate_notice_def n_def initial_notices_def)
  have mem: "n \<in> set (items st)" and ed: "editing st = Some n" and u: "ids_unique n_id (items st)"
    by (simp_all add: st_def n_def open_edit_modal_def initial_notice_page_def initial_notices_def ids_unique_def)
  have "n_noticeType n = Some Event" "n_targetAudience n = Some [Aud_Parents, Aud_Teachers]"
    by (simp_all add: n_def initial_notices_def)
  then show ?thesis
    using notice_resave_local_midnight [OF ed mem u e fo v, of 0] notice_one_floor
    by (simp add: Let_def n_def [symmetric] st_def [symmetric] f_def [symmetric] days_before_year_def
        is_past_time_def)
qed

subsection \<open>Rendering\<close>

text \<open>
  A notice renders when its issue date is a valid Date and its expiry, if any, too.
  The schema checks the expiry with \<open>Date.parse\<close> but the handler stores
  \<open>parseISO\<close> of it; where the two agree on what is a date, every state the events
  reach renders, and where \<open>Date.parse\<close> accepts a string that \<open>parseISO\<close> does not
  (\<open>2024/07/25\<close> in V8), saving it stores an Invalid Date that crashes the page.
\<close>

abbreviation notice_dates_ok :: "notice \<Rightarrow> bool" where
  "notice_dates_ok n \<equiv> n_issuedDate n \<noteq> None \<and> n_expiryDate n \<noteq> Some None"

lemma notice_card_view_Some: "notice_dates_ok n \<Longrightarrow> notice_card_view fmt ex adm n \<noteq> None"
  by (auto simp: notice_card_view_def split: option.splits)

lemma notice_card_view_None: "n_expiryDate n = Some None \<Longrightarrow> notice_card_view fmt ex adm n = None"
  by (simp add: notice_card_view_def split: option.splits)

lemma invalid_expiry_active:
  "n \<in> set (items st) \<Longrightarrow> n_expiryDate n = Some None \<Longrightarrow> n \<in> set (active_notices now st)"
  by (simp add: active_notices_def js_sort_set_any is_past_time_def)

lemma notices_view_Some:
  assumes "list_all notice_dates_ok (items st)"
  shows "notices_view fmt now adm st \<noteq> None"
proof -
  have "\<forall>n\<in>set (active_notices now st). notice_card_view fmt False adm n \<noteq> None"
    "\<forall>n\<in>set (expired_notices now st). notice_card_view fmt True adm n \<noteq> None"
    using assms by (auto simp: active_notices_def expired_notices_def js_sort_set_any list_all_iff
        simp del: not_None_eq intro!: notice_card_view_Some)
  then obtain a e where "those (map (notice_card_view fmt False adm) (active_notices now st)) = Some a"
    and "those (map (notice_card_view fmt True adm) (expired_notices now st)) = Some e"
    using those_map_Some by metis
  then show ?thesis by (simp add: notices_view_def)
qed

lemma notice_submit_dates_ok:
  assumes "\<And>x. date_parse x \<noteq> None \<Longrightarrow> parse_iso x \<noteq> None"
    and "list_all notice_dates_ok (items st)"
  shows "list_all notice_dates_ok (items (fst (notice_submit date_parse parse_iso now v st)))"
proof (cases "validate_notice date_parse v = []")
  case True
  then have fe: "form_expiry parse_iso v \<noteq> Some None"
    using assms(1) by (auto simp: validate_notice_def form_expiry_def split: if_splits)
  show ?thesis
  proof (cases "editing st")
    case None
    then show ?thesis using True assms(2) fe
      by (simp add: notice_submit_def handle_submit_valid notice_form_submit_def js_sort_list_all new_notice_def)
  next
    case (Some e)
    have "list_all notice_dates_ok (update_by_id n_id (n_id e) (apply_notice_form parse_iso v) (items st))"
      using assms(2) by (rule update_by_id_list_all)
        (use assms(2) fe in \<open>simp add: apply_notice_form_def list_all_iff\<close>)
    then show ?thesis using True Some
      by (simp add: notice_submit_def handle_submit_valid notice_form_submit_def js_sort_list_all)
  qed
next
  case False
  then show ?thesis using assms(2) by (simp add: notice_submit_def handle_submit_invalid)
qed

lemma notice_step_dates_ok:
  assumes "\<And>x. date_parse x \<noteq> None \<Longrightarrow> parse_iso x \<noteq> None"
    and "list_all notice_dates_ok (items st)"
  shows "list_all notice_dates_ok (items (notice_step date_parse parse_iso now adm e st))"
proof -
  have sub: "list_all notice_dates_ok (items (fst (notice_submit date_parse parse_iso n v s)))"
    if "list_all notice_dates_ok (items s)" for n v s
    using assms(1) that by (rule notice_submit_dates_ok)
  have del: "list_all notice_dates_ok (items (fst (notice_delete_confirm s)))"
    if "list_all notice_dates_ok (items s)" for s
    unfolding notice_delete_confirm_def using that by (rule delete_confirm_list_all)
  have "list_all notice_dates_ok (items (crud_step (notice_submit date_parse parse_iso)
          notice_delete_confirm adm e st))"
    using sub del assms(2) by (rule crud_step_list_all)
  then show ?thesis using assms(2)
    by (cases e) (simp_all add: notice_step_def open_edit_modal_def request_delete_def del: crud_step.simps)
qed

lemma initial_notices_dates_ok: "list_all notice_dates_ok (items (initial_notice_page t0))"
  by (simp add: initial_notice_page_def initial_notices_def date_eval)

lemma notice_run_dates_ok:
  assumes "\<And>x. date_parse x \<noteq> None \<Longrightarrow> parse_iso x \<noteq> None"
  shows "list_all notice_dates_ok
           (items (foldl (\<lambda>s (t, e). notice_step date_parse parse_iso t adm e s) (initial_notice_page t0) tes))"
proof (induction tes rule: rev_induct)
  case Nil
  show ?case using initial_notices_dates_ok by simp
next
  case (snoc te tes)
  obtain t e where "te = (t, e)" by (cases te)
  then show ?case using notice_step_dates_ok [OF assms snoc.IH, where now = t and e = e] by simp
qed

theorem notices_render:
  assumes "\<And>x. date_parse x \<noteq> None \<Longrightarrow> parse_iso x \<noteq> None"
  shows "notices_view fmt now adm' (foldl (\<lambda>s (t, e). notice_step date_parse parse_iso t adm e s)
           (initial_notice_page t0) tes) \<noteq> None"
  by (rule notices_view_Some [OF notice_run_dates_ok [OF assms]])

text \<open>
  C30: the schema accepts an expiry date that \<open>Date.parse\<close> reads but \<open>parseISO\<close>
  does not; saving the add dialog with one stores an Invalid Date that is never
  past, so the notice is listed as active, its card's \<open>format\<close> throws and the page
  does not render, and its edit dialog cannot be opened either.
\<close>

theorem notice_invalid_expiry_crash:
  assumes "nf_expiryDate v \<noteq> []" and "date_parse (nf_expiryDate v) \<noteq> None"
    and "parse_iso (nf_expiryDate v) = None"
    and "validate_notice date_parse v = []" and "show_modal st" and "editing st = None"
  shows "let st' = notice_step date_parse parse_iso now True (Form_Submit t v) st in
           notices_view fmt now' adm st' = None
           \<and> notice_form_of fmt' (new_notice parse_iso t v) = None
           \<and> new_notice parse_iso t v \<in> set (active_notices now' st')"
proof -
  let ?n = "new_notice parse_iso t v"
  let ?st = "notice_step date_parse parse_iso now True (Form_Submit t v) st"
  have ex: "n_expiryDate ?n = Some None" using assms(1,3) by (simp add: new_notice_def form_expiry_def)
  have mem: "?n \<in> set (items ?st)"
    using assms(4-6) by (simp add: notice_step_def notice_submit_def handle_submit_valid
        notice_form_submit_def js_sort_set_any)
  have act: "?n \<in> set (active_notices now' ?st)" by (rule invalid_expiry_active [OF mem ex])
  have "those (map (notice_card_view fmt False adm) (active_notices now' ?st)) = None"
    by (rule those_map_None [OF act]) (rule notice_card_view_None [OF ex])
  then have "notices_view fmt now' adm ?st = None" using mem by (auto simp: notices_view_def)
  moreover have "notice_form_of fmt' ?n = None" using ex by (simp add: notice_form_of_def)
  ultimately show ?thesis using act by (simp add: Let_def)
qed

theorem notices_render_witness:
  "notices_view (format_local 0) 0 True
     (foldl (\<lambda>s (t, e). notice_step (parse_iso_local 0) (parse_iso_local 0) t True e s) (initial_notice_page 0)
        [(0, Add_Click)]) \<noteq> None"
  by (rule notices_render) simp

theorem notice_invalid_expiry_crash_witness:
  "let v = \<lparr>nf_title = ''Sports Day'', nf_content = ''Sports day on the main ground.'',
           nf_author = ''Admin Office'', nf_expiryDate = ''2024/07/25'', nf_noticeType = Event,
           nf_targetAudience = [Aud_All]\<rparr>;
       dp = (\<lambda>x. if x = ''2024/07/25'' then Some 1721865600000 else js_date_time x);
       st' = notice_step dp (parse_iso_local 0) 0 True (Form_Submit 1 v) (open_add_modal (initial_notice_page 0)) in
     notices_view (format_local 0) 1 True st' = None
     \<and> notice_form_of (format_local 0) (new_notice (parse_iso_local 0) 1 v) = None
     \<and> new_notice (parse_iso_local 0) 1 v \<in> set (active_notices 1 st')"
  using notice_invalid_expiry_crash
      [where v = "\<lparr>nf_title = ''Sports Day'', nf_content = ''Sports day on the main ground.'',
           nf_author = ''Admin Office'', nf_expiryDate = ''2024/07/25'', nf_noticeType = Event,
           nf_targetAudience = [Aud_All]\<rparr>"
         and date_parse = "\<lambda>x. if x = ''2024/07/25'' then Some 1721865600000 else js_date_time x"
         and parse_iso = "parse_iso_local 0" and st = "open_add_modal (initial_notice_page 0)"
         and now = 0 and t = 1 and fmt = "format_local 0" and now' = 1 and adm = True
         and fmt' = "format_local 0"]
  by (simp add: validate_notice_def parse_iso_local_def open_add_modal_def initial_notice_page_def date_eval)

end
