(* ===== verification/Timetable.thy ===== *)
theory Timetable
  imports Entity_List
begin

text \<open>
  The class timetable page (\<open>src/src/app/(app)/timetable/page.tsx\<close>): entries
  of a class for a day and a time slot, the zod schema, add/edit and delete with
  the generic collection pattern, the class selector and the grid, whose cell for a
  time slot and a day shows the first entry of the selected class for that slot
  (\<open>getCellData\<close>, an \<open>Array.prototype.find\<close>). The cell's Edit and Delete
  buttons pass the entry the cell shows.
\<close>

datatype weekday = Monday | Tuesday | Wednesday | Thursday | Friday | Saturday

record tt_entry =
  tt_id :: ident
  tt_classId :: string
  tt_day :: weekday
  tt_time :: string
  tt_subject :: string
  tt_teacher :: string
  tt_room :: string

record tt_form =
  ttf_classId :: string
  ttf_day :: weekday
  ttf_time :: string
  ttf_subject :: string
  ttf_teacher :: string
  ttf_room :: string

definition validate_timetable :: "tt_form \<Rightarrow> field_errors" where
  "validate_timetable v =
     (if ttf_classId v = [] then [(''classId'', ''Class & Section is required'')] else []) @
     (if ttf_time v = [] then [(''time'', ''Period / Time Slot is required'')] else []) @
     (if ttf_subject v = [] then [(''subject'', ''Subject is required'')] else []) @
     (if ttf_teacher v = [] then [(''teacher'', ''Teacher is required'')] else []) @
     (if ttf_room v = [] then [(''room'', ''Room is required'')] else [])"

definition time_slots :: "string list" where
  "time_slots = [''09:00 - 10:00'', ''10:00 - 11:00'', ''11:00 - 12:00'', ''12:00 - 13:00'',
                 ''13:00 - 14:00'', ''14:00 - 15:00'']"

definition days_of_week :: "weekday list" where
  "days_of_week = [Monday, Tuesday, Wednesday, Thursday, Friday, Saturday]"

definition sample_classes :: "string list" where
  "sample_classes = [''NC-A'', ''1A'', ''5B'', ''10C'', ''12A'']"

definition initial_timetable_data :: "tt_entry list" where
  "initial_timetable_data =
    [\<lparr>tt_id = ''tt1'', tt_classId = ''10C'', tt_day = Monday, tt_time = ''09:00 - 10:00'',
      tt_subject = ''Mathematics'', tt_teacher = ''Ms. Smith'', tt_room = ''Room 101''\<rparr>,
     \<lparr>tt_id = ''tt2'', tt_classId = ''10C'', tt_day = Monday, tt_time = ''10:00 - 11:00'',
      tt_subject = ''History'', tt_teacher = ''Mr. Brown'', tt_room = ''Room 102''\<rparr>,
     \<lparr>tt_id = ''tt3'', tt_classId = ''10C'', tt_day = Tuesday, tt_time = ''09:00 - 10:00'',
      tt_subject = ''Physics'', tt_teacher = ''Mr. Jones'', tt_room = ''Lab A''\<rparr>,
     \<lparr>tt_id = ''tt4'', tt_classId = ''5B'', tt_day = Wednesday, tt_time = ''11:00 - 12:00'',
      tt_subject = ''Art'', tt_teacher = ''Mr. Green'', tt_room = ''Studio 1''\<rparr>,
     \<lparr>tt_id = ''tt5'', tt_classId = ''10C'', tt_day = Saturday, tt_time = ''10:00 - 11:00'',
      tt_subject = ''Extra Curricular'', tt_teacher = ''Ms. Taylor'', tt_room = ''Hall A''\<rparr>]"

record tt_page = "tt_entry crud_page" +
  selected_class :: string

definition initial_tt_page :: tt_page where
  "initial_tt_page = \<lparr>items = initial_timetable_data, show_modal = False, editing = None, to_delete = None,
     selected_class = sample_classes ! 2\<rparr>"

subsection \<open>Handlers and the grid\<close>

definition apply_tt_form :: "tt_form \<Rightarrow> tt_entry \<Rightarrow> tt_entry" where
  "apply_tt_form v e = e\<lparr>tt_classId := ttf_classId v, tt_day := ttf_day v, tt_time := ttf_time v,
     tt_subject := ttf_subject v, tt_teacher := ttf_teacher v, tt_room := ttf_room v\<rparr>"

definition new_tt_entry :: "nat \<Rightarrow> tt_form \<Rightarrow> tt_entry" where
  "new_tt_entry now v = \<lparr>tt_id = ''tt'' @ string_of_nat now, tt_classId = ttf_classId v, tt_day = ttf_day v,
     tt_time = ttf_time v, tt_subject = ttf_subject v, tt_teacher = ttf_teacher v, tt_room = ttf_room v\<rparr>"

definition tt_form_submit :: "nat \<Rightarrow> tt_form \<Rightarrow> tt_page \<Rightarrow> tt_page \<times> toast list" where
  "tt_form_submit now v st =
     form_submit tt_id apply_tt_form (new_tt_entry now) ''Timetable Entry Updated'' ''Timetable Entry Added'' v st"

definition tt_submit :: "nat \<Rightarrow> tt_form \<Rightarrow> tt_page \<Rightarrow> tt_page \<times> (field_errors + toast list)" where
  "tt_submit now v st = handle_submit validate_timetable (tt_form_submit now) v st"

definition tt_delete_confirm :: "tt_page \<Rightarrow> tt_page \<times> toast list" where
  "tt_delete_confirm st = delete_confirm tt_id ''Timetable Entry Deleted'' st"

text \<open>
  The dialog's form (the \<open>useEffect\<close> reset): the edited entry, or the selected
  class, Monday, the first period and empty fields.
\<close>

definition tt_form_of :: "tt_page \<Rightarrow> tt_form" where
  "tt_form_of st =
     (case editing st of
        Some e \<Rightarrow> \<lparr>ttf_classId = tt_classId e, ttf_day = tt_day e, ttf_time = tt_time e, ttf_subject = tt_subject e,
                   ttf_teacher = tt_teacher e, ttf_room = tt_room e\<rparr>
      | None \<Rightarrow> \<lparr>ttf_classId = selected_class st, ttf_day = Monday, ttf_time = time_slots ! 0, ttf_subject = [],
                 ttf_teacher = [], ttf_room = []\<rparr>)"

text \<open>The entry a cell shows: the first of the class for that slot.\<close>

definition slot_entry :: "tt_entry list \<Rightarrow> string \<Rightarrow> string \<Rightarrow> weekday \<Rightarrow> tt_entry option" where
  "slot_entry xs c t d = find (\<lambda>e. tt_classId e = c \<and> tt_time e = t \<and> tt_day e = d) xs"

definition get_cell_data :: "tt_page \<Rightarrow> string \<Rightarrow> weekday \<Rightarrow> tt_entry option" where
  "get_cell_data st t d = slot_entry (items st) (selected_class st) t d"

text \<open>The row of the lunch slot shows a fixed card instead of its cells (\<open>isLunch\<close>).\<close>

definition lunch_slot :: string where
  "lunch_slot = ''12:00 - 13:00''"

definition shown_entries :: "tt_page \<Rightarrow> tt_entry list" where
  "shown_entries st = List.map_filter id (concat (map (\<lambda>t.
     if t = lunch_slot then [] else map (get_cell_data st t) days_of_week) time_slots))"

datatype tt_event = Tt_Crud "(tt_entry, tt_form) crud_event" | Select_Class string

fun tt_step :: "bool \<Rightarrow> tt_event \<Rightarrow> tt_page \<Rightarrow> tt_page" where
  "tt_step is_admin (Tt_Crud (Edit_Click e)) st =
     (if is_admin \<and> e \<in> set (shown_entries st) then open_edit_modal e st else st)"
| "tt_step is_admin (Tt_Crud (Delete_Click e)) st =
     (if is_admin \<and> e \<in> set (shown_entries st) then request_delete e st else st)"
| "tt_step is_admin (Tt_Crud e) st = crud_step tt_submit tt_delete_confirm is_admin e st"
| "tt_step is_admin (Select_Class c) st = (if c \<in> set sample_classes then st\<lparr>selected_class := c\<rparr> else st)"

text \<open>
  The rendered schedule card: its title and description, and the grid, one row per
  time slot with one cell per weekday. A cell of the lunch row is the LUNCH BREAK
  card; another cell shows the slot's first entry of the selected class (with Edit
  and Delete for an administrator) or a dash. The dialogs' texts follow
  \<open>editingEntry\<close> and \<open>entryToDelete\<close>; the delete text's line break after
  \<open>entry:\<close> is removed by JSX together with the space before it.
\<close>

primrec weekday_name :: "weekday \<Rightarrow> string" where
  "weekday_name Monday = ''monday''"
| "weekday_name Tuesday = ''tuesday''"
| "weekday_name Wednesday = ''wednesday''"
| "weekday_name Thursday = ''thursday''"
| "weekday_name Friday = ''friday''"
| "weekday_name Saturday = ''saturday''"

datatype tt_cell = Lunch_Cell | Entry_Cell tt_entry bool | Empty_Cell

definition tt_cell_view :: "bool \<Rightarrow> tt_page \<Rightarrow> string \<Rightarrow> weekday \<Rightarrow> tt_cell" where
  "tt_cell_view adm st t d =
     (if t = lunch_slot then Lunch_Cell
      else case get_cell_data st t d of Some e \<Rightarrow> Entry_Cell e adm | None \<Rightarrow> Empty_Cell)"

definition tt_grid :: "bool \<Rightarrow> tt_page \<Rightarrow> (string \<times> tt_cell list) list" where
  "tt_grid adm st = map (\<lambda>t. (t, map (tt_cell_view adm st t) days_of_week)) time_slots"

definition tt_card_title :: "tt_page \<Rightarrow> string" where
  "tt_card_title st = ''Weekly Schedule for '' @ selected_class st"

definition tt_card_description :: "bool \<Rightarrow> string" where
  "tt_card_description adm =
     (if adm then ''Click on an entry'' @ [char_of (39::nat)]
                  @ ''s actions to edit or delete, or add a new entry using the button above.''
      else ''Current timetable for the selected class.'')"

definition tt_dialog_title :: "tt_page \<Rightarrow> string" where
  "tt_dialog_title = edit_or_add ''Edit Timetable Entry'' ''Add New Timetable Entry''"

definition tt_submit_label :: "tt_page \<Rightarrow> string" where
  "tt_submit_label = edit_or_add ''Save Changes'' ''Add Entry''"

definition tt_delete_description :: "tt_page \<Rightarrow> string" where
  "tt_delete_description st =
     ''This action cannot be undone. This will permanently delete the timetable entry:''
     @ (case to_delete st of
          Some e \<Rightarrow> tt_subject e @ '' for Class '' @ tt_classId e @ '' on '' @ weekday_name (tt_day e)
                    @ '' at '' @ tt_time e
        | None \<Rightarrow> '' for Class  on  at '') @ ''.''"

subsection \<open>Properties\<close>

lemma find_append_single:
  "find P (xs @ [x]) = (case find P xs of None \<Rightarrow> if P x then Some x else None | Some y \<Rightarrow> Some y)"
  by (induction xs) auto

lemma shown_entries_cell:
  assumes "e \<in> set (shown_entries st)"
  shows "\<exists>t d. t \<noteq> lunch_slot \<and> get_cell_data st t d = Some e"
  using assms by (fastforce simp: shown_entries_def map_filter_def split: if_splits)

lemma shown_entries_not_lunch:
  "e \<in> set (shown_entries st) \<Longrightarrow> tt_time e \<noteq> lunch_slot"
  using shown_entries_cell [of e st]
  by (auto simp: get_cell_data_def slot_entry_def dest!: find_Some_iff [THEN iffD1])

definition tt_entry_ok :: "tt_entry \<Rightarrow> bool" where
  "tt_entry_ok e \<longleftrightarrow> tt_classId e \<noteq> [] \<and> tt_time e \<noteq> [] \<and> tt_subject e \<noteq> [] \<and> tt_teacher e \<noteq> []
     \<and> tt_room e \<noteq> []"

lemma tt_submit_ok:
  "list_all tt_entry_ok (items st) \<Longrightarrow> list_all tt_entry_ok (items (fst (tt_submit now v st)))"
  unfolding tt_submit_def tt_form_submit_def
  by (rule form_submit_list_all)
     (simp_all add: tt_entry_ok_def validate_timetable_def apply_tt_form_def new_tt_entry_def split: if_splits)

lemma tt_delete_ok:
  "list_all tt_entry_ok (items st) \<Longrightarrow> list_all tt_entry_ok (items (fst (tt_delete_confirm st)))"
  unfolding tt_delete_confirm_def by (rule delete_confirm_list_all)

lemma tt_submit_selected_class: "selected_class (fst (tt_submit now v st)) = selected_class st"
  by (cases "validate_timetable v = []")
     (simp_all add: tt_submit_def handle_submit_valid handle_submit_invalid tt_form_submit_def form_submit_def
       split: option.splits)

lemma tt_selected_class_kept:
  "selected_class (crud_step tt_submit tt_delete_confirm adm e st) = selected_class st"
  by (cases e)
     (simp_all add: tt_submit_selected_class tt_delete_confirm_def delete_confirm_def open_add_modal_def
       open_edit_modal_def request_delete_def cancel_delete_def modal_open_change_def split: option.splits)

text \<open>
  C31: adding an entry for a class, day and time slot that already has an entry
  stores it, but the grid is unchanged: for every class and every slot the cell
  shows what it showed before, so the new entry is never displayed and no cell's
  Edit or Delete button can reach it.
\<close>

theorem occupied_slot_add_hidden:
  assumes "editing st = None" and "validate_timetable v = []"
    and "slot_entry (items st) (ttf_classId v) (ttf_time v) (ttf_day v) = Some e"
  shows "let st' = fst (tt_submit now v st) in
           new_tt_entry now v \<in> set (items st') \<and> length (items st') = Suc (length (items st))
           \<and> (\<forall>c t d. slot_entry (items st') c t d = slot_entry (items st) c t d)"
proof -
  have items: "items (fst (tt_submit now v st)) = items st @ [new_tt_entry now v]"
    using assms(1,2) by (simp add: tt_submit_def handle_submit_valid tt_form_submit_def form_submit_def)
  have "slot_entry (items st @ [new_tt_entry now v]) c t d = slot_entry (items st) c t d" for c t d
  proof (cases "tt_classId (new_tt_entry now v) = c \<and> tt_time (new_tt_entry now v) = t
                \<and> tt_day (new_tt_entry now v) = d")
    case True
    then have "slot_entry (items st) c t d = Some e" using assms(3) by (simp add: new_tt_entry_def)
    then show ?thesis by (simp add: slot_entry_def find_append_single)
  next
    case False
    then show ?thesis by (simp add: slot_entry_def find_append_single split: option.splits)
  qed
  with items show ?thesis by (simp add: Let_def)
qed

definition physics_again :: tt_form where
  "physics_again = \<lparr>ttf_classId = ''10C'', ttf_day = Monday, ttf_time = ''09:00 - 10:00'',
     ttf_subject = ''Physics'', ttf_teacher = ''Mr. Jones'', ttf_room = ''Lab A''\<rparr>"

theorem occupied_slot_add_hidden_witness:
  "let st' = fst (tt_submit 1720000000000 physics_again initial_tt_page) in
     new_tt_entry 1720000000000 physics_again \<in> set (items st')
     \<and> length (items st') = Suc (length (items initial_tt_page))
     \<and> (\<forall>c t d. slot_entry (items st') c t d = slot_entry (items initial_tt_page) c t d)"
  by (rule occupied_slot_add_hidden [of _ _ "initial_timetable_data ! 0"])
     (simp_all add: initial_tt_page_def validate_timetable_def physics_again_def slot_entry_def
       initial_timetable_data_def)

text \<open>
  C32: the form offers the lunch slot as a period, and a valid entry for it is
  stored, but the grid's lunch row shows only the lunch card: whichever class is
  selected, the entry is not among those the grid shows, and clicking Edit or Delete
  with it changes nothing.
\<close>

theorem lunch_entry_hidden:
  assumes "editing st = None" and "validate_timetable v = []" and "ttf_time v = lunch_slot"
  shows "let st' = fst (tt_submit now v st) in
           new_tt_entry now v \<in> set (items st')
           \<and> (\<forall>c. new_tt_entry now v \<notin> set (shown_entries (st'\<lparr>selected_class := c\<rparr>)))
           \<and> tt_step True (Tt_Crud (Edit_Click (new_tt_entry now v))) st' = st'
           \<and> tt_step True (Tt_Crud (Delete_Click (new_tt_entry now v))) st' = st'"
proof -
  have items: "items (fst (tt_submit now v st)) = items st @ [new_tt_entry now v]"
    using assms(1,2) by (simp add: tt_submit_def handle_submit_valid tt_form_submit_def form_submit_def)
  have "new_tt_entry now v \<notin> set (shown_entries s)" for s
    using shown_entries_not_lunch [of "new_tt_entry now v" s] assms(3) by (auto simp: new_tt_entry_def)
  with items show ?thesis by (simp add: Let_def)
qed

theorem lunch_entry_hidden_witness:
  "let st' = fst (tt_submit 1720000000000 (physics_again\<lparr>ttf_time := ''12:00 - 13:00''\<rparr>) initial_tt_page) in
     new_tt_entry 1720000000000 (physics_again\<lparr>ttf_time := ''12:00 - 13:00''\<rparr>) \<in> set (items st')
     \<and> (\<forall>c. new_tt_entry 1720000000000 (physics_again\<lparr>ttf_time := ''12:00 - 13:00''\<rparr>)
            \<notin> set (shown_entries (st'\<lparr>selected_class := c\<rparr>)))
     \<and> tt_step True (Tt_Crud (Edit_Click (new_tt_entry 1720000000000 (physics_again\<lparr>ttf_time := ''12:00 - 13:00''\<rparr>)))) st' = st'
     \<and> tt_step True (Tt_Crud (Delete_Click (new_tt_entry 1720000000000 (physics_again\<lparr>ttf_time := ''12:00 - 13:00''\<rparr>)))) st' = st'"
  by (rule lunch_entry_hidden)
     (simp_all add: initial_tt_page_def validate_timetable_def physics_again_def lunch_slot_def)

lemma apply_tt_form_of: "editing st = Some e \<Longrightarrow> apply_tt_form (tt_form_of st) e = e"
  by (cases e) (simp add: apply_tt_form_def tt_form_of_def)

text \<open>Saving the edit dialog unchanged leaves the timetable as it was.\<close>

lemma tt_edit_unchanged:
  assumes "editing st = Some e" and "e \<in> set (items st)" and "ids_unique tt_id (items st)"
    and "tt_entry_ok e"
  shows "items (fst (tt_submit now (tt_form_of st) st)) = items st"
proof -
  have v: "validate_timetable (tt_form_of st) = []"
    using assms(1,4) by (simp add: tt_form_of_def validate_timetable_def tt_entry_ok_def)
  show ?thesis
    unfolding tt_submit_def tt_form_submit_def
    using assms(1-3) apply_tt_form_of [OF assms(1)] v by (rule form_submit_edit_unchanged)
qed

lemma tt_step_wellformed:
  assumes "list_all tt_entry_ok (items st)" and "selected_class st \<in> set sample_classes"
  shows "list_all tt_entry_ok (items (tt_step adm e st)) \<and> selected_class (tt_step adm e st) \<in> set sample_classes"
proof (cases e)
  case (Tt_Crud ce)
  have "list_all tt_entry_ok (items (crud_step tt_submit tt_delete_confirm adm ce st))"
    by (rule crud_step_list_all [OF tt_submit_ok tt_delete_ok assms(1)])
  then show ?thesis using Tt_Crud assms tt_selected_class_kept [of adm ce st]
    by (cases ce) (simp_all add: open_edit_modal_def request_delete_def)
next
  case (Select_Class c)
  then show ?thesis using assms by simp
qed

lemma initial_tt_wellformed:
  "list_all tt_entry_ok (items initial_tt_page) \<and> selected_class initial_tt_page \<in> set sample_classes"
  by (simp add: initial_tt_page_def initial_timetable_data_def tt_entry_ok_def sample_classes_def)

text \<open>
  C24: the page's data keeps its type. In every state reached by any events, for
  any user and clock, every entry has all its fields filled (what the schema
  demands) and the selected class is one of the classes the selector offers.
\<close>

theorem tt_reachable_wellformed:
  "list_all tt_entry_ok (items (foldl (\<lambda>s e. tt_step adm e s) initial_tt_page es))
   \<and> selected_class (foldl (\<lambda>s e. tt_step adm e s) initial_tt_page es) \<in> set sample_classes"
proof -
  have "list_all tt_entry_ok (items st) \<and> selected_class st \<in> set sample_classes \<Longrightarrow>
        list_all tt_entry_ok (items (foldl (\<lambda>s e. tt_step adm e s) st es))
        \<and> selected_class (foldl (\<lambda>s e. tt_step adm e s) st es) \<in> set sample_classes" for st
    by (induction es arbitrary: st) (simp_all add: tt_step_wellformed)
  then show ?thesis using initial_tt_wellformed by blast
qed

text \<open>
  The entries the grid shows (those that can be edited or deleted) are exactly
  \<open>shown_entries\<close>, read off the grid's cells row by row.
\<close>

definition cell_entry :: "tt_cell \<Rightarrow> tt_entry option" where
  "cell_entry c = (case c of Entry_Cell e _ \<Rightarrow> Some e | _ \<Rightarrow> None)"

lemma map_filter_cell_view:
  "List.map_filter cell_entry (map (tt_cell_view adm st t) ds)
     = (if t = lunch_slot then [] else List.map_filter id (map (get_cell_data st t) ds))"
  by (induction ds) (auto simp: List.map_filter_simps tt_cell_view_def cell_entry_def id_def split: option.splits)

lemma tt_grid_shown: "List.map_filter cell_entry (concat (map snd (tt_grid adm st))) = shown_entries st"
proof -
  have "List.map_filter cell_entry (concat (map (\<lambda>t. map (tt_cell_view adm st t) days_of_week) ts))
          = List.map_filter id (concat (map (\<lambda>t. if t = lunch_slot then [] else map (get_cell_data st t) days_of_week) ts))"
    for ts by (induction ts) (simp_all add: map_filter_append map_filter_cell_view id_def)
  then show ?thesis by (simp add: tt_grid_def shown_entries_def comp_def)
qed

end
