(* ===== verification/Enquiry.thy ===== *)
theory Enquiry
  imports Entity_List
begin

text \<open>
  The admission enquiry: the input schema (\<open>src/src/ai/flows/types/enquiry-form-types.ts\<close>),
  the server flow (\<open>src/src/ai/flows/handle-enquiry-submission.ts\<close>) and the public
  form (\<open>src/src/components/public/EnquiryFormSection.tsx\<close>). The flow is a genkit
  flow with an input schema: genkit parses the input with it and throws on a
  violation, so the flow is a function into \<open>string + enquiry_output\<close>, \<open>Inl\<close> the
  thrown error. The form's \<open>onSubmit\<close> awaits the server call; as for the study
  questions the \<open>await\<close> splits it in two (the submission and the completion), and
  the page is an inductive step relation in which the call either returns the flow's
  value or fails in transport with any error.
\<close>

subsection \<open>Schema and flow\<close>

record enquiry_input =
  eq_fullName :: string
  eq_email :: string
  eq_phone :: "string option"
  eq_classInterested :: string
  eq_message :: string

record enquiry_output =
  eo_success :: bool
  eo_message :: string

definition validate_enquiry :: "(string \<Rightarrow> bool) \<Rightarrow> enquiry_input \<Rightarrow> field_errors" where
  "validate_enquiry is_email v =
     (if eq_fullName v = [] then [(''fullName'', ''Full name is required.'')] else []) @
     (if is_email (eq_email v) then [] else [(''email'', ''Invalid email format.'')]) @
     (if eq_classInterested v = [] then [(''classInterested'', ''Class interested in is required.'')] else []) @
     (if eq_message v = [] then [(''message'', ''Message is required.'')] else [])"

definition acknowledgement_message :: "enquiry_input \<Rightarrow> string" where
  "acknowledgement_message v =
     ''Thank you for your enquiry, '' @ eq_fullName v @ ''. We have received your message regarding class ''
     @ eq_classInterested v @ '' and will get back to you shortly.''"

definition enquiry_handler_flow :: "(string \<Rightarrow> bool) \<Rightarrow> enquiry_input \<Rightarrow> string + enquiry_output" where
  "enquiry_handler_flow is_email v =
     (if validate_enquiry is_email v \<noteq> [] then Inl ''INVALID_ARGUMENT''
      else Inr \<lparr>eo_success = True, eo_message = acknowledgement_message v\<rparr>)"

definition handle_enquiry_submission :: "(string \<Rightarrow> bool) \<Rightarrow> enquiry_input \<Rightarrow> string + enquiry_output" where
  "handle_enquiry_submission is_email v = enquiry_handler_flow is_email v"

subsection \<open>The form\<close>

text \<open>The class options: the three pre-school classes, then classes 1 to 12.\<close>

definition class_options :: "string list" where
  "class_options = [''Nursery'', ''LKG'', ''UKG''] @ map string_of_nat [1..<13]"

definition enquiry_defaults :: enquiry_input where
  "enquiry_defaults = \<lparr>eq_fullName = [], eq_email = [], eq_phone = Some [], eq_classInterested = [],
     eq_message = []\<rparr>"

record enquiry_page =
  eq_values :: enquiry_input
  eq_loading :: bool
  eq_pending :: "enquiry_input option"

definition initial_enquiry_page :: enquiry_page where
  "initial_enquiry_page = \<lparr>eq_values = enquiry_defaults, eq_loading = False, eq_pending = None\<rparr>"

text \<open>\<open>onSubmit\<close> up to the \<open>await\<close>.\<close>

definition enquiry_submit_start :: "enquiry_input \<Rightarrow> enquiry_page \<Rightarrow> enquiry_page \<times> toast list" where
  "enquiry_submit_start v st = (st\<lparr>eq_loading := True, eq_pending := Some v\<rparr>, [])"

definition enquiry_submit :: "(string \<Rightarrow> bool) \<Rightarrow> enquiry_page \<Rightarrow> enquiry_page \<times> (field_errors + toast list)" where
  "enquiry_submit is_email st = handle_submit (validate_enquiry is_email) enquiry_submit_start (eq_values st) st"

text \<open>After the \<open>await\<close>: the \<open>try\<close> branches, the \<open>catch\<close> and the \<open>finally\<close>.\<close>

definition enquiry_done :: "string + enquiry_output \<Rightarrow> enquiry_page \<Rightarrow> enquiry_page \<times> toast list" where
  "enquiry_done r st =
     (case r of
        Inr res \<Rightarrow>
          if eo_success res
          then (st\<lparr>eq_values := enquiry_defaults, eq_loading := False, eq_pending := None\<rparr>,
                [mk_toast ''Enquiry Submitted!''])
          else (st\<lparr>eq_loading := False, eq_pending := None\<rparr>, [mk_destructive ''Submission Failed''])
      | Inl _ \<Rightarrow> (st\<lparr>eq_loading := False, eq_pending := None\<rparr>, [mk_destructive ''Error'']))"

text \<open>
  The fields stay editable while the call runs; the submit button is disabled. A
  submission with field errors changes nothing but the messages.
\<close>

inductive enquiry_step ::
  "(string \<Rightarrow> bool) \<Rightarrow> enquiry_page \<Rightarrow> enquiry_page \<times> toast list \<Rightarrow> bool" for is_email where
  type: "enquiry_step is_email st (st\<lparr>eq_values := v\<rparr>, [])"
| submit: "\<not> eq_loading st \<Longrightarrow> validate_enquiry is_email (eq_values st) = [] \<Longrightarrow>
    enquiry_step is_email st (enquiry_submit_start (eq_values st) st)"
| returned: "eq_pending st = Some v \<Longrightarrow>
    enquiry_step is_email st (enquiry_done (handle_enquiry_submission is_email v) st)"
| transport_error: "eq_pending st = Some v \<Longrightarrow> enquiry_step is_email st (enquiry_done (Inl e) st)"

inductive enquiry_reachable :: "(string \<Rightarrow> bool) \<Rightarrow> enquiry_page \<Rightarrow> bool" for is_email where
  init: "enquiry_reachable is_email initial_enquiry_page"
| step: "enquiry_reachable is_email st \<Longrightarrow> enquiry_step is_email st (st', ts) \<Longrightarrow>
    enquiry_reachable is_email st'"

definition enquiry_inv :: "(string \<Rightarrow> bool) \<Rightarrow> enquiry_page \<Rightarrow> bool" where
  "enquiry_inv is_email st \<longleftrightarrow>
     (eq_loading st \<longleftrightarrow> eq_pending st \<noteq> None) \<and>
     (case eq_pending st of None \<Rightarrow> True | Some v \<Rightarrow> validate_enquiry is_email v = [])"

subsection \<open>Properties\<close>

lemma enquiry_submit_step:
  "\<not> eq_loading st \<Longrightarrow> validate_enquiry is_email (eq_values st) = [] \<Longrightarrow>
   enquiry_submit is_email st = (fst (enquiry_submit_start (eq_values st) st), Inr [])"
  by (simp add: enquiry_submit_def handle_submit_valid enquiry_submit_start_def)

lemma enquiry_flow_valid:
  "validate_enquiry is_email v = [] \<Longrightarrow>
   handle_enquiry_submission is_email v = Inr \<lparr>eo_success = True, eo_message = acknowledgement_message v\<rparr>"
  by (simp add: handle_enquiry_submission_def enquiry_handler_flow_def)

lemma enquiry_step_inv:
  assumes "enquiry_step is_email st (st', ts)" and "enquiry_inv is_email st"
  shows "enquiry_inv is_email st'"
  using assms
  by (cases rule: enquiry_step.cases)
     (auto simp: enquiry_inv_def enquiry_submit_start_def enquiry_done_def split: sum.splits if_splits)

lemma enquiry_reachable_inv: "enquiry_reachable is_email st \<Longrightarrow> enquiry_inv is_email st"
proof (induction rule: enquiry_reachable.induct)
  case init
  then show ?case by (simp add: enquiry_inv_def initial_enquiry_page_def)
next
  case (step st st' ts)
  then show ?case by (blast intro: enquiry_step_inv)
qed

lemma enquiry_done_ends:
  "eq_pending (fst (enquiry_done r st)) = None \<and> \<not> eq_loading (fst (enquiry_done r st))"
  by (simp add: enquiry_done_def split: sum.splits)

definition example_enquiry :: enquiry_input where
  "example_enquiry = \<lparr>eq_fullName = ''Asha Rao'', eq_email = ''asha@example.com'', eq_phone = Some [],
     eq_classInterested = ''5'', eq_message = ''Is there a school bus?''\<rparr>"

definition at_email :: "string \<Rightarrow> bool" where
  "at_email s \<longleftrightarrow> CHR ''@'' \<in> set s"

lemma example_enquiry_pending:
  "enquiry_reachable at_email (fst (enquiry_submit_start example_enquiry
     (initial_enquiry_page\<lparr>eq_values := example_enquiry\<rparr>)))"
proof -
  let ?s1 = "initial_enquiry_page\<lparr>eq_values := example_enquiry\<rparr>"
  have r1: "enquiry_reachable at_email ?s1"
    by (rule enquiry_reachable.step [OF enquiry_reachable.init enquiry_step.type])
  have "enquiry_step at_email ?s1 (enquiry_submit_start (eq_values ?s1) ?s1)"
    by (rule enquiry_step.submit)
       (simp_all add: initial_enquiry_page_def validate_enquiry_def example_enquiry_def at_email_def)
  then have "enquiry_step at_email ?s1 (fst (enquiry_submit_start example_enquiry ?s1),
      snd (enquiry_submit_start example_enquiry ?s1))" by simp
  then show ?thesis by (rule enquiry_reachable.step [OF r1])
qed

text \<open>
  C33: a submission always completes. In every reachable state in which the form is
  submitting, the pending values are valid, and whatever the call does (return the
  flow's value or fail with any error) its completion is a step that clears the
  loading state; every other step leaves the submission pending.
\<close>

theorem enquiry_submission_completes:
  assumes "enquiry_reachable is_email st" and "eq_loading st"
  shows "\<exists>v. eq_pending st = Some v \<and> validate_enquiry is_email v = []
           \<and> (\<forall>r. (r = handle_enquiry_submission is_email v \<or> (\<exists>e. r = Inl e)) \<longrightarrow>
                  enquiry_step is_email st (enquiry_done r st) \<and> \<not> eq_loading (fst (enquiry_done r st)))
           \<and> (\<forall>st' ts. enquiry_step is_email st (st', ts) \<longrightarrow>
                  (eq_pending st' = eq_pending st \<and> eq_loading st') \<or> (eq_pending st' = None \<and> \<not> eq_loading st'))"
proof -
  have inv: "enquiry_inv is_email st" using assms(1) by (rule enquiry_reachable_inv)
  then obtain v where v: "eq_pending st = Some v" and ok: "validate_enquiry is_email v = []"
    using assms(2) by (auto simp: enquiry_inv_def)
  have fin: "enquiry_step is_email st (enquiry_done r st) \<and> \<not> eq_loading (fst (enquiry_done r st))"
    if "r = handle_enquiry_submission is_email v \<or> (\<exists>e. r = Inl e)" for r
    using that enquiry_step.returned [OF v] enquiry_step.transport_error [OF v] enquiry_done_ends
    by blast
  have other: "(eq_pending st' = eq_pending st \<and> eq_loading st') \<or> (eq_pending st' = None \<and> \<not> eq_loading st')"
    if "enquiry_step is_email st (st', ts)" for st' ts
    using that
  proof (cases rule: enquiry_step.cases)
    case (type v')
    then show ?thesis using assms(2) by simp
  next
    case submit
    then show ?thesis using assms(2) by simp
  next
    case (returned v')
    then show ?thesis using enquiry_done_ends [of _ st] by (metis fst_conv)
  next
    case (transport_error v' e)
    then show ?thesis using enquiry_done_ends [of _ st] by (metis fst_conv)
  qed
  show ?thesis using v ok fin other by blast
qed

theorem enquiry_submission_completes_witness:
  "\<exists>v. eq_pending (fst (enquiry_submit_start example_enquiry (initial_enquiry_page\<lparr>eq_values := example_enquiry\<rparr>))) = Some v
     \<and> validate_enquiry at_email v = []
     \<and> (\<forall>r. (r = handle_enquiry_submission at_email v \<or> (\<exists>e. r = Inl e)) \<longrightarrow>
          enquiry_step at_email (fst (enquiry_submit_start example_enquiry (initial_enquiry_page\<lparr>eq_values := example_enquiry\<rparr>)))
            (enquiry_done r (fst (enquiry_submit_start example_enquiry (initial_enquiry_page\<lparr>eq_values := example_enquiry\<rparr>))))
          \<and> \<not> eq_loading (fst (enquiry_done r (fst (enquiry_submit_start example_enquiry
                (initial_enquiry_page\<lparr>eq_values := example_enquiry\<rparr>))))))
     \<and> (\<forall>st' ts. enquiry_step at_email (fst (enquiry_submit_start example_enquiry
                (initial_enquiry_page\<lparr>eq_values := example_enquiry\<rparr>))) (st', ts) \<longrightarrow>
          (eq_pending st' = eq_pending (fst (enquiry_submit_start example_enquiry
                (initial_enquiry_page\<lparr>eq_values := example_enquiry\<rparr>))) \<and> eq_loading st')
          \<or> (eq_pending st' = None \<and> \<not> eq_loading st'))"
  by (rule enquiry_submission_completes [OF example_enquiry_pending])
     (simp add: enquiry_submit_start_def)

text \<open>
  C34: the form's "Submission Failed" branch is dead. The flow answers every input
  that reaches it, which the form has validated with the same schema, with
  \<open>success = true\<close>; so no step ever shows that toast. A completion shows either
  "Enquiry Submitted!" and resets the form, or, after a transport error, "Error".
\<close>

theorem enquiry_failure_toast_unreachable:
  assumes "enquiry_reachable is_email st" and "enquiry_step is_email st (st', ts)"
  shows "mk_destructive ''Submission Failed'' \<notin> set ts
         \<and> (eq_pending st \<noteq> None \<and> eq_pending st' = None \<longrightarrow>
              (ts = [mk_toast ''Enquiry Submitted!''] \<and> eq_values st' = enquiry_defaults)
              \<or> ts = [mk_destructive ''Error''])"
proof -
  have inv: "enquiry_inv is_email st" using assms(1) by (rule enquiry_reachable_inv)
  from assms(2) show ?thesis
  proof (cases rule: enquiry_step.cases)
    case (type v)
    then show ?thesis by auto
  next
    case submit
    then show ?thesis by (simp add: enquiry_submit_start_def)
  next
    case (returned v)
    then have "validate_enquiry is_email v = []" using inv by (simp add: enquiry_inv_def)
    then show ?thesis using returned
      by (simp add: enquiry_flow_valid enquiry_done_def mk_toast_def mk_destructive_def)
  next
    case (transport_error v e)
    then show ?thesis by (simp add: enquiry_done_def mk_destructive_def)
  qed
qed

theorem enquiry_failure_toast_unreachable_witness:
  "let st = fst (enquiry_submit_start example_enquiry (initial_enquiry_page\<lparr>eq_values := example_enquiry\<rparr>));
       (st', ts) = enquiry_done (handle_enquiry_submission at_email example_enquiry) st in
     mk_destructive ''Submission Failed'' \<notin> set ts
     \<and> (eq_pending st \<noteq> None \<and> eq_pending st' = None \<longrightarrow>
          (ts = [mk_toast ''Enquiry Submitted!''] \<and> eq_values st' = enquiry_defaults)
          \<or> ts = [mk_destructive ''Error''])"
proof -
  let ?st = "fst (enquiry_submit_start example_enquiry (initial_enquiry_page\<lparr>eq_values := example_enquiry\<rparr>))"
  have p: "eq_pending ?st = Some example_enquiry" by (simp add: enquiry_submit_start_def)
  have s: "enquiry_step at_email ?st (fst (enquiry_done (handle_enquiry_submission at_email example_enquiry) ?st),
             snd (enquiry_done (handle_enquiry_submission at_email example_enquiry) ?st))"
    using enquiry_step.returned [OF p] by simp
  show ?thesis
    using enquiry_failure_toast_unreachable [OF example_enquiry_pending s] by (simp add: Let_def split_def)
qed

end
