(* ===== verification/Js_Regex.thy ===== *)
theory Js_Regex
  imports Validation
begin

text \<open>
  Regular expressions as JavaScript's \<open>RegExp.test\<close> reads an anchored pattern
  \<open>/^...$/\<close> without flags: the whole string is in the pattern's language. The
  pattern constructors are the ones the source's patterns use: the empty pattern, a
  character class, concatenation and alternation; \<open>x?\<close>, \<open>x{n}\<close> and
  \<open>x{m,n}\<close> are abbreviations of these. The matcher tries every split of the
  string, so it is the reference semantics against which the hand-written greedy
  matchers of \<open>Validation\<close> are proved.
\<close>

datatype regex = Eps | Cls "char \<Rightarrow> bool" | Seq regex regex | Alt regex regex

fun matches :: "regex \<Rightarrow> string \<Rightarrow> bool" where
  "matches Eps s \<longleftrightarrow> s = []"
| "matches (Cls p) s \<longleftrightarrow> (case s of [c] \<Rightarrow> p c | _ \<Rightarrow> False)"
| "matches (Seq r1 r2) s \<longleftrightarrow>
     list_ex (\<lambda>k. matches r1 (take k s) \<and> matches r2 (drop k s)) [0..<Suc (length s)]"
| "matches (Alt r1 r2) s \<longleftrightarrow> matches r1 s \<or> matches r2 s"

declare matches.simps(3) [simp del]

definition opt :: "regex \<Rightarrow> regex" where
  "opt r = Alt r Eps"

definition seqs :: "regex list \<Rightarrow> regex" where
  "seqs rs = foldr Seq rs Eps"

definition digit :: regex where
  "digit = Cls is_digit"

text \<open>\<open>/^[+]?[(]?[0-9]{3}[)]?[-\s.]?[0-9]{3}[-\s.]?[0-9]{4,6}$/\<close>\<close>

definition phone_re :: regex where
  "phone_re = seqs
     ([opt (Cls (\<lambda>c. c = CHR ''+'')), opt (Cls (\<lambda>c. c = CHR ''(''))] @ replicate 3 digit
      @ [opt (Cls (\<lambda>c. c = CHR '')'')), opt (Cls is_phone_sep)] @ replicate 3 digit
      @ [opt (Cls is_phone_sep),
         Alt (seqs (replicate 4 digit)) (Alt (seqs (replicate 5 digit)) (seqs (replicate 6 digit)))])"

subsection \<open>Laws of the matcher\<close>

lemma matches_Seq_iff:
  "matches (Seq r1 r2) s \<longleftrightarrow> (\<exists>k\<le>length s. matches r1 (take k s) \<and> matches r2 (drop k s))"
  unfolding matches.simps(3) list_ex_iff set_upt by (auto simp del: upt_Suc simp: less_Suc_eq_le)

lemma matches_Cls_iff: "matches (Cls p) s \<longleftrightarrow> (\<exists>c. s = [c] \<and> p c)"
  by (auto split: list.splits)

lemma matches_Seq_Cls:
  "matches (Seq (Cls p) r) s \<longleftrightarrow> (case s of [] \<Rightarrow> False | c # s' \<Rightarrow> p c \<and> matches r s')"
proof
  assume "matches (Seq (Cls p) r) s"
  then obtain k where k: "k \<le> length s" "matches (Cls p) (take k s)" "matches r (drop k s)"
    by (auto simp: matches_Seq_iff)
  then obtain c where "take k s = [c]" "p c" by (auto simp only: matches_Cls_iff)
  with k show "case s of [] \<Rightarrow> False | c # s' \<Rightarrow> p c \<and> matches r s'"
    by (cases s; cases k) auto
next
  assume "case s of [] \<Rightarrow> False | c # s' \<Rightarrow> p c \<and> matches r s'"
  then show "matches (Seq (Cls p) r) s"
    by (auto simp: matches_Seq_iff matches_Cls_iff split: list.splits intro!: exI [of _ 1])
qed

lemma matches_Seq_Eps_left: "matches (Seq Eps r) s \<longleftrightarrow> matches r s"
  by (auto simp: matches_Seq_iff)

lemma matches_Seq_Eps_right: "matches (Seq r Eps) s \<longleftrightarrow> matches r s"
  by (auto simp: matches_Seq_iff intro: exI [of _ "length s"])

lemma matches_Seq_Alt:
  "matches (Seq (Alt r1 r2) r) s \<longleftrightarrow> matches (Seq r1 r) s \<or> matches (Seq r2 r) s"
  by (auto simp: matches_Seq_iff)

lemma seqs_Cons: "seqs (r # rs) = Seq r (seqs rs)"
  by (simp add: seqs_def)

lemma seqs_Nil: "seqs [] = Eps"
  by (simp add: seqs_def)

lemma matches_seqs_Cons: "matches (seqs (r # rs)) s \<longleftrightarrow> matches (Seq r (seqs rs)) s"
  by (simp add: seqs_Cons)

lemma matches_seqs_Nil: "matches (seqs []) s \<longleftrightarrow> s = []"
  by (simp add: seqs_Nil)

lemma matches_Seq_digit:
  "matches (Seq digit r) s \<longleftrightarrow> (case s of [] \<Rightarrow> False | c # s' \<Rightarrow> is_digit c \<and> matches r s')"
  unfolding digit_def by (rule matches_Seq_Cls)

text \<open>\<open>x{n}\<close> followed by a pattern: the digits are taken by \<open>take_digits\<close>.\<close>

lemma matches_digits:
  "matches (seqs (replicate n digit @ rs)) s \<longleftrightarrow>
   (case take_digits n s of None \<Rightarrow> False | Some t \<Rightarrow> matches (seqs rs) t)"
proof (induction n arbitrary: s)
  case 0
  then show ?case by (simp add: take_digits_def)
next
  case (Suc n)
  show ?case
    by (cases s)
       (auto simp: matches_seqs_Cons matches_Seq_digit Suc take_digits_def split: option.splits)
qed

text \<open>
  An optional character that the rest of the pattern cannot start with is taken
  whenever it is present: this is why the greedy \<open>opt_char\<close> is exact.
\<close>

lemma matches_opt_greedy:
  assumes "\<And>c t. p c \<Longrightarrow> \<not> matches r (c # t)"
  shows "matches (Seq (opt (Cls p)) r) s \<longleftrightarrow> matches r (opt_char p s)"
  using assms
  by (cases s) (auto simp: opt_def matches_Seq_Alt matches_Seq_Cls matches_Seq_Eps_left opt_char_def)

lemma matches_digits_exact:
  "matches (seqs (replicate n digit)) t \<longleftrightarrow> length t = n \<and> list_all is_digit t"
  using matches_digits [of n "[]" t]
  by (auto simp: matches_seqs_Nil take_digits_def split: option.splits if_splits)

lemma digits_first:
  "matches (seqs (replicate (Suc n) digit @ rs)) (c # t) \<Longrightarrow> is_digit c"
  using matches_digits [of "Suc n" rs "c # t"] by (simp add: take_digits_def split: if_splits)

lemma phone_sep_not_digit: "is_phone_sep c \<Longrightarrow> \<not> is_digit c"
  by (auto simp: is_phone_sep_def is_space_def is_digit_def)

subsection \<open>The phone pattern\<close>

abbreviation phone_last :: regex where
  "phone_last \<equiv> Alt (seqs (replicate 4 digit)) (Alt (seqs (replicate 5 digit)) (seqs (replicate 6 digit)))"

lemma phone_last_iff:
  "matches (seqs [phone_last]) t \<longleftrightarrow> list_all is_digit t \<and> 4 \<le> length t \<and> length t \<le> 6"
  by (auto simp only: matches_seqs_Cons seqs_Nil matches_Seq_Eps_right matches.simps(4) matches_digits_exact)

lemma phone_last_first: "matches (seqs [phone_last]) (c # t) \<Longrightarrow> is_digit c"
  by (simp add: phone_last_iff)

lemma phone_after_digits2:
  "matches (seqs [opt (Cls is_phone_sep), phone_last]) t \<longleftrightarrow>
   matches (seqs [phone_last]) (opt_char is_phone_sep t)"
  unfolding matches_seqs_Cons [of "opt _"]
  by (rule matches_opt_greedy) (use phone_last_first phone_sep_not_digit in blast)

lemma phone_after_digits1:
  "matches (seqs (opt (Cls (\<lambda>c. c = CHR '')'')) # opt (Cls is_phone_sep) # replicate 3 digit
                  @ [opt (Cls is_phone_sep), phone_last])) t \<longleftrightarrow>
   matches (seqs (replicate 3 digit @ [opt (Cls is_phone_sep), phone_last]))
     (opt_char is_phone_sep (opt_char (\<lambda>c. c = CHR '')'') t))"
proof -
  let ?r = "seqs (replicate 3 digit @ [opt (Cls is_phone_sep), phone_last])"
  have d: "\<not> matches ?r (c # u)" if "\<not> is_digit c" for c u
    using digits_first [of 2 "[opt (Cls is_phone_sep), phone_last]" c u] that by (simp add: numeral_3_eq_3) blast
  have sep: "matches (seqs (opt (Cls is_phone_sep) # replicate 3 digit @ [opt (Cls is_phone_sep), phone_last])) u
      \<longleftrightarrow> matches ?r (opt_char is_phone_sep u)" for u
    unfolding matches_seqs_Cons [of "opt _"]
    by (rule matches_opt_greedy) (use d phone_sep_not_digit in blast)
  have "\<not> matches (seqs (opt (Cls is_phone_sep) # replicate 3 digit @ [opt (Cls is_phone_sep), phone_last])) (CHR '')'' # u)"
    for u
    using d [of "CHR '')''"] by (simp add: sep opt_char_def is_phone_sep_def is_space_def is_digit_def)
  then have "matches (seqs (opt (Cls (\<lambda>c. c = CHR '')'')) # opt (Cls is_phone_sep) # replicate 3 digit
                  @ [opt (Cls is_phone_sep), phone_last])) t \<longleftrightarrow>
      matches (seqs (opt (Cls is_phone_sep) # replicate 3 digit @ [opt (Cls is_phone_sep), phone_last]))
        (opt_char (\<lambda>c. c = CHR '')'') t)"
    unfolding matches_seqs_Cons [of "opt (Cls (\<lambda>c. c = CHR '')''))"]
    by (intro matches_opt_greedy) blast
  then show ?thesis by (simp add: sep)
qed

text \<open>
  The hand-written matcher \<open>phone_regex\<close> of the student and teacher forms
  decides exactly the language of the source's pattern: a string passes the greedy
  left-to-right check if and only if some split of it matches the pattern.
\<close>

theorem phone_regex_equiv: "matches phone_re s \<longleftrightarrow> phone_regex s"
proof -
  let ?R1 = "opt (Cls (\<lambda>c. c = CHR '')'')) # opt (Cls is_phone_sep) # replicate 3 digit
             @ [opt (Cls is_phone_sep), phone_last]"
  let ?D = "seqs (replicate 3 digit @ ?R1)"
  have d: "\<not> matches ?D (c # u)" if "\<not> is_digit c" for c u
    using digits_first [of 2 ?R1 c u] that by (simp add: numeral_3_eq_3) blast
  have lpar: "matches (seqs (opt (Cls (\<lambda>c. c = CHR ''('')) # replicate 3 digit @ ?R1)) t
      \<longleftrightarrow> matches ?D (opt_char (\<lambda>c. c = CHR ''('') t)" for t
    unfolding matches_seqs_Cons [of "opt _"]
    by (rule matches_opt_greedy) (use d in \<open>auto simp: is_digit_def\<close>)
  have "\<not> matches (seqs (opt (Cls (\<lambda>c. c = CHR ''('')) # replicate 3 digit @ ?R1)) (CHR ''+'' # u)" for u
    using d [of "CHR ''+''" u] by (simp add: lpar opt_char_def is_digit_def)
  then have plus: "matches (seqs (opt (Cls (\<lambda>c. c = CHR ''+'')) # opt (Cls (\<lambda>c. c = CHR ''('')) # replicate 3 digit @ ?R1)) s
      \<longleftrightarrow> matches (seqs (opt (Cls (\<lambda>c. c = CHR ''('')) # replicate 3 digit @ ?R1))
            (opt_char (\<lambda>c. c = CHR ''+'') s)"
    unfolding matches_seqs_Cons [of "opt (Cls (\<lambda>c. c = CHR ''+''))"]
    by (intro matches_opt_greedy) blast
  have re: "phone_re = seqs (opt (Cls (\<lambda>c. c = CHR ''+'')) # opt (Cls (\<lambda>c. c = CHR ''('')) # replicate 3 digit @ ?R1)"
    by (simp add: phone_re_def)
  show ?thesis
    unfolding re plus lpar matches_digits phone_after_digits1
    by (simp add: phone_after_digits2 phone_last_iff phone_regex_def Let_def split: option.splits)
qed

end
