(* ===== verification/Dashboard.thy ===== *)
theory Dashboard
  imports Auth
begin

text \<open>
  The role dashboards (\<open>src/src/app/(app)/dashboard/page.tsx\<close>): a fixed list of
  cards per role (\<open>roleDashboards\<close>, with \<open>DefaultDashboard\<close> as the fallback),
  each card a title, an optional link (the card is then an anchor), and an optional
  metric with its label; the metrics are the file's static \<open>MOCK_*\<close> constants.
  Descriptions, icons and image URLs are display text; only whether a card has an
  image is kept, for the rule that decides whether it is shown.
\<close>

record dashboard_card =
  dc_title :: string
  dc_link :: "string option"
  dc_metric :: "nat option"
  dc_metric_label :: "string option"
  dc_image :: bool

definition mock_total_students :: nat where "mock_total_students = 250"
definition mock_total_teachers :: nat where "mock_total_teachers = 25"
definition mock_active_notices :: nat where "mock_active_notices = 5"
definition mock_pending_leave :: nat where "mock_pending_leave = 3"

definition card :: "string \<Rightarrow> string option \<Rightarrow> dashboard_card" where
  "card t l = \<lparr>dc_title = t, dc_link = l, dc_metric = None, dc_metric_label = None, dc_image = True\<rparr>"

definition metric_card :: "string \<Rightarrow> nat \<Rightarrow> string \<Rightarrow> string \<Rightarrow> dashboard_card" where
  "metric_card t m lbl l = \<lparr>dc_title = t, dc_link = Some l, dc_metric = Some m, dc_metric_label = Some lbl,
     dc_image = False\<rparr>"

definition admin_dashboard :: "dashboard_card list" where
  "admin_dashboard =
    [metric_card ''Total Students'' mock_total_students ''Students Enrolled'' ''/students'',
     metric_card ''Total Teachers'' mock_total_teachers ''Faculty Members'' ''/teachers'',
     metric_card ''Active Notices'' mock_active_notices ''Active Announcements'' ''/notices'',
     metric_card ''Pending Leave Requests'' mock_pending_leave ''Requests Awaiting Action'' ''/attendance-leave'',
     card ''User Management'' None, card ''System Settings'' None, card ''Overall Analytics'' None]"

definition teacher_dashboard :: "dashboard_card list" where
  "teacher_dashboard = [card ''My Classes'' None, card ''Gradebook'' None, card ''Announcements'' None,
     card ''My Salary'' None]"

definition student_dashboard :: "dashboard_card list" where
  "student_dashboard = [card ''My Courses'' None, card ''My Grades'' None,
     card ''School Timetable'' (Some ''/timetable''), card ''My Fee Status'' None]"

definition parent_dashboard :: "dashboard_card list" where
  "parent_dashboard = [card ''Child's Progress'' None, card ''School Notices'' (Some ''/notices''),
     card ''Teacher Communication'' None, card ''Child's Fee Status'' None]"

definition accountant_dashboard :: "dashboard_card list" where
  "accountant_dashboard = [card ''Fee Management'' (Some ''/fees''), card ''Salary Processing'' (Some ''/salaries''),
     card ''Financial Reports'' None]"

definition principal_dashboard :: "dashboard_card list" where
  "principal_dashboard = [card ''School Overview'' None, card ''Staff Management'' (Some ''/teachers''),
     card ''Academic Planning'' None, card ''Student Management'' (Some ''/students'')]"

definition librarian_dashboard :: "dashboard_card list" where
  "librarian_dashboard = [card ''Library Catalog'' (Some ''/library''), card ''Book Issue/Return'' None,
     card ''Member Management'' None]"

definition default_dashboard :: "dashboard_card list" where
  "default_dashboard = [card ''Welcome!'' None]"

definition role_dashboards :: "user_role \<Rightarrow> dashboard_card list option" where
  "role_dashboards r = (case r of
       Role_Admin \<Rightarrow> Some admin_dashboard | Role_Teacher \<Rightarrow> Some teacher_dashboard
     | Role_Student \<Rightarrow> Some student_dashboard | Role_Parent \<Rightarrow> Some parent_dashboard
     | Role_Accountant \<Rightarrow> Some accountant_dashboard | Role_Principal \<Rightarrow> Some principal_dashboard
     | Role_Librarian \<Rightarrow> Some librarian_dashboard | Role_Other _ \<Rightarrow> None)"

datatype dashboard_view = Loading_User_Data | Dashboard_Cards "dashboard_card list"

definition dashboard_page :: "user option \<Rightarrow> dashboard_view" where
  "dashboard_page u =
     (case u of
        None \<Rightarrow> Loading_User_Data
      | Some u \<Rightarrow> Dashboard_Cards (case role_dashboards (u_role u) of Some d \<Rightarrow> d | None \<Rightarrow> default_dashboard))"

text \<open>\<open>imageUrl && !metricValue\<close> and \<open>metricValue !== undefined\<close>: a metric of 0 is falsy.\<close>

definition card_shows_image :: "dashboard_card \<Rightarrow> bool" where
  "card_shows_image c \<longleftrightarrow> dc_image c \<and> (case dc_metric c of None \<Rightarrow> True | Some m \<Rightarrow> m = 0)"

definition card_shows_metric :: "dashboard_card \<Rightarrow> bool" where
  "card_shows_metric c \<longleftrightarrow> dc_metric c \<noteq> None"

definition dashboard_links :: "dashboard_view \<Rightarrow> string list" where
  "dashboard_links v = (case v of Loading_User_Data \<Rightarrow> [] | Dashboard_Cards cs \<Rightarrow> List.map_filter dc_link cs)"

text \<open>
  A rendered card (\<open>DashboardCard\<close>): its title, the image when there is one and
  no truthy metric, the metric when it is defined and its label when that is a
  non-empty string, and the anchor around the card when it has a link.
\<close>

record card_view =
  cv_title :: string
  cv_image :: bool
  cv_metric :: "nat option"
  cv_metric_label :: "string option"
  cv_href :: "string option"

definition dashboard_card_view :: "dashboard_card \<Rightarrow> card_view" where
  "dashboard_card_view c =
     \<lparr>cv_title = dc_title c, cv_image = card_shows_image c,
      cv_metric = (if card_shows_metric c then dc_metric c else None),
      cv_metric_label = (if card_shows_metric c
                         then (case dc_metric_label c of Some l \<Rightarrow> if l = [] then None else Some l | None \<Rightarrow> None)
                         else None),
      cv_href = dc_link c\<rparr>"

lemmas dashboard_defs = admin_dashboard_def teacher_dashboard_def student_dashboard_def parent_dashboard_def
  accountant_dashboard_def principal_dashboard_def librarian_dashboard_def default_dashboard_def card_def metric_card_def

lemma dashboard_links_role:
  "dashboard_links (dashboard_page (Some u)) =
     (case u_role u of
        Role_Admin \<Rightarrow> [''/students'', ''/teachers'', ''/notices'', ''/attendance-leave'']
      | Role_Teacher \<Rightarrow> [] | Role_Student \<Rightarrow> [''/timetable''] | Role_Parent \<Rightarrow> [''/notices'']
      | Role_Accountant \<Rightarrow> [''/fees'', ''/salaries''] | Role_Principal \<Rightarrow> [''/teachers'', ''/students'']
      | Role_Librarian \<Rightarrow> [''/library''] | Role_Other _ \<Rightarrow> [])"
  by (cases "u_role u")
     (simp_all add: dashboard_links_def dashboard_page_def role_dashboards_def dashboard_defs map_filter_simps)

text \<open>
  Every card of every role's dashboard shows either its image or its metric with
  a label, never both and never neither (no seeded metric is 0).
\<close>

lemma dashboard_cards_image_or_metric:
  assumes "dashboard_page (Some u) = Dashboard_Cards cs" and "c \<in> set cs"
  shows "cv_image (dashboard_card_view c) \<noteq> (cv_metric (dashboard_card_view c) \<noteq> None)
         \<and> (cv_metric (dashboard_card_view c) \<noteq> None \<longrightarrow> cv_metric_label (dashboard_card_view c) \<noteq> None)"
  using assms
  by (cases "u_role u")
     (auto simp: dashboard_page_def role_dashboards_def dashboard_defs dashboard_card_view_def
       card_shows_image_def card_shows_metric_def mock_total_students_def mock_total_teachers_def
       mock_active_notices_def mock_pending_leave_def)

end
