(* ===== verification/Public_Site.thy ===== *)
theory Public_Site
  imports Gallery Auth
begin

text \<open>
  The public home page (\<open>src/src/app/page.tsx\<close>) and the in-page links of its
  components (\<open>src/src/components/public/\<close>): the sections in the order the page
  composes them, each with the \<open>id\<close> its component gives its \<open>section\<close> element;
  the header's navigation links, the hero's and the footer's links; and the cards
  of \<open>ActiveFormsSection\<close>, whose button is a link only for an active form. A link
  \<open>#x\<close> scrolls to the element with id \<open>x\<close>; other links leave the page. Then the
  header's mobile menu as a small state machine, the rendered form cards, the
  gallery preview (a copy of the gallery page's seeded items) and the links that
  leave for the signed-in application, where the layout's guard of \<open>Auth\<close> meets
  them. The other sections (highlights, admission information, events, contact)
  are static text.
\<close>

definition hero_section_id :: string where "hero_section_id = ''hero''"
definition highlights_section_id :: string where "highlights_section_id = ''highlights''"
definition admission_section_id :: string where "admission_section_id = ''admission''"
definition enquiry_section_id :: string where "enquiry_section_id = ''admission-enquiry''"
definition active_forms_section_id :: string where "active_forms_section_id = ''active-forms''"
definition noticeboard_section_id :: string where "noticeboard_section_id = ''notices''"
definition events_section_id :: string where "events_section_id = ''events''"
definition gallery_preview_section_id :: string where "gallery_preview_section_id = ''gallery-preview''"
definition contact_section_id :: string where "contact_section_id = ''contact''"

definition home_page_sections :: "string list" where
  "home_page_sections =
     [hero_section_id, highlights_section_id, admission_section_id, enquiry_section_id,
      active_forms_section_id, noticeboard_section_id, events_section_id, gallery_preview_section_id,
      contact_section_id]"

definition public_nav_links :: "(string \<times> string) list" where
  "public_nav_links = [(''#hero'', ''Home''), (''#highlights'', ''About Us''), (''#admission'', ''Admissions''),
     (''#notices'', ''Notices''), (''#contact'', ''Contact'')]"

definition hero_links :: "string list" where
  "hero_links = [''#admission'', ''#contact'']"

definition footer_links :: "string list" where
  "footer_links = [''#admission'', ''#notices'', ''/login'']"

datatype form_link_status = Form_Active | Form_Coming_Soon

record conceptual_form_link =
  cf_id :: string
  cf_title :: string
  cf_href :: "string option"
  cf_sectionId :: "string option"
  cf_status :: form_link_status

definition active_forms :: "conceptual_form_link list" where
  "active_forms =
    [\<lparr>cf_id = ''admission-enquiry'', cf_title = ''Admission Enquiry'', cf_href = None,
      cf_sectionId = Some ''enquiry'', cf_status = Form_Active\<rparr>,
     \<lparr>cf_id = ''science-fair-reg'', cf_title = ''Science Fair Registration 2025'', cf_href = Some ''#'',
      cf_sectionId = None, cf_status = Form_Coming_Soon\<rparr>,
     \<lparr>cf_id = ''alumni-signup'', cf_title = ''Alumni Network Signup'', cf_href = Some ''#'',
      cf_sectionId = None, cf_status = Form_Coming_Soon\<rparr>]"

text \<open>
  The card's button: \<open>Open Form\<close> to \<open>href\<close> or \<open>Go to Section\<close> to
  \<open>#sectionId\<close> for an active form, otherwise no link (disabled when coming soon).
\<close>

definition js_truthy_str :: "string option \<Rightarrow> bool" where
  "js_truthy_str x = (case x of Some s \<Rightarrow> s \<noteq> [] | None \<Rightarrow> False)"

definition form_button_link :: "conceptual_form_link \<Rightarrow> string option" where
  "form_button_link f =
     (if js_truthy_str (cf_href f) \<and> cf_status f = Form_Active then cf_href f
      else if js_truthy_str (cf_sectionId f) \<and> cf_status f = Form_Active
        then map_option (\<lambda>s. ''#'' @ s) (cf_sectionId f)
      else None)"

definition home_in_page_links :: "string list" where
  "home_in_page_links = map fst public_nav_links @ hero_links @ footer_links @ List.map_filter form_button_link active_forms"

text \<open>A link resolves when it leaves the page or names a section of the page.\<close>

definition link_resolves :: "string \<Rightarrow> bool" where
  "link_resolves h = (case h of c # sid \<Rightarrow> c \<noteq> CHR ''#'' \<or> sid \<in> set home_page_sections | [] \<Rightarrow> False)"

subsection \<open>The header's mobile menu\<close>

record public_header =
  ph_menu_open :: bool
  ph_location :: string

definition initial_public_header :: public_header where
  "initial_public_header = \<lparr>ph_menu_open = False, ph_location = ''/''\<rparr>"

datatype public_header_event =
    Menu_Open_Change bool
  | Nav_Link string
  | Mobile_Nav_Link string
  | Logo_Click
  | Mobile_Logo_Click
  | Login_Click

text \<open>
  The sheet opens and closes through \<open>onOpenChange\<close>; its links and logo are shown
  only while it is open, and each closes it as it navigates. The desktop links, the
  logo and Login to ERP navigate only.
\<close>

fun public_header_step :: "public_header_event \<Rightarrow> public_header \<Rightarrow> public_header" where
  "public_header_step (Menu_Open_Change b) h = h\<lparr>ph_menu_open := b\<rparr>"
| "public_header_step (Nav_Link l) h = (if l \<in> set (map fst public_nav_links) then h\<lparr>ph_location := l\<rparr> else h)"
| "public_header_step (Mobile_Nav_Link l) h =
     (if ph_menu_open h \<and> l \<in> set (map fst public_nav_links) then \<lparr>ph_menu_open = False, ph_location = l\<rparr> else h)"
| "public_header_step Logo_Click h = h\<lparr>ph_location := ''/''\<rparr>"
| "public_header_step Mobile_Logo_Click h = (if ph_menu_open h then \<lparr>ph_menu_open = False, ph_location = ''/''\<rparr> else h)"
| "public_header_step Login_Click h = h\<lparr>ph_location := ''/login''\<rparr>"

subsection \<open>The rendered form cards\<close>

record form_card =
  fc_title :: string
  fc_badge :: bool
  fc_disabled :: bool
  fc_label :: string
  fc_link :: "string option"

definition form_card_view :: "conceptual_form_link \<Rightarrow> form_card" where
  "form_card_view f =
     \<lparr>fc_title = cf_title f, fc_badge = (cf_status f = Form_Coming_Soon),
      fc_disabled = (cf_status f = Form_Coming_Soon),
      fc_label = (if js_truthy_str (cf_href f) \<and> cf_status f = Form_Active then ''Open Form''
                  else if js_truthy_str (cf_sectionId f) \<and> cf_status f = Form_Active then ''Go to Section''
                  else if cf_status f = Form_Coming_Soon then ''Coming Soon'' else ''Open Form''),
      fc_link = form_button_link f\<rparr>"

text \<open>\<open>None\<close> is the "No active forms" message of an empty list.\<close>

definition active_forms_view :: "form_card list option" where
  "active_forms_view = (if active_forms = [] then None else Some (map form_card_view active_forms))"

subsection \<open>The gallery preview and the links into the application\<close>

text \<open>The preview's own copy of the gallery page's seeded items, and the first four of them.\<close>

definition public_gallery_items :: "gallery_item list" where
  "public_gallery_items =
    [\<lparr>g_id = ''1'', g_title = ''Annual Sports Day'', g_imageUrl = gallery_placeholder,
      g_imageHint = ''sports children'', g_date = ''2024-03-15'', g_eventTag = Some ''Sports''\<rparr>,
     \<lparr>g_id = ''2'', g_title = ''Science Fair Exhibition'', g_imageUrl = gallery_placeholder,
      g_imageHint = ''science experiment'', g_date = ''2024-04-22'', g_eventTag = Some ''Academics''\<rparr>,
     \<lparr>g_id = ''3'', g_title = ''Art & Craft Workshop'', g_imageUrl = gallery_placeholder,
      g_imageHint = ''art craft'', g_date = ''2024-05-10'', g_eventTag = Some ''Workshop''\<rparr>,
     \<lparr>g_id = ''4'', g_title = ''Graduation Ceremony'', g_imageUrl = gallery_placeholder,
      g_imageHint = ''graduation students'', g_date = ''2024-06-01'', g_eventTag = Some ''Ceremony''\<rparr>]"

definition gallery_preview_items :: "gallery_item list" where
  "gallery_preview_items = take 4 public_gallery_items"

definition gallery_preview_link :: string where
  "gallery_preview_link = ''/gallery''"

definition noticeboard_erp_link :: string where
  "noticeboard_erp_link = ''/login''"

text \<open>
  The preview grid of the gallery (the same card as the gallery page, without
  actions) and the noticeboard preview's static notices. \<open>new Date('2024-03-10')\<close>
  is UTC midnight; the card prints it with \<open>format(d, 'PPP')\<close> in the browser's zone
  \<open>off\<close>: \<open>fmt\<close> prints the local civil date.
\<close>

definition gallery_preview_view :: "(string \<Rightarrow> string) \<Rightarrow> gallery_card table" where
  "gallery_preview_view loc_date =
     table_of (gallery_card_view loc_date False)
       ''Our gallery is currently empty. Check back soon for exciting moments!'' gallery_preview_items"

record public_notice =
  pn_id :: ident
  pn_title :: string
  pn_content :: string
  pn_issuedDate :: "js_number option"
  pn_type :: string

definition sample_public_notices :: "public_notice list" where
  "sample_public_notices =
    [\<lparr>pn_id = ''pub1'', pn_title = ''Annual Sports Day Rescheduled'',
      pn_content = ''The Annual Sports Day will now be held on March 25th. All students are requested to note the change.'',
      pn_issuedDate = js_date_time ''2024-03-10'', pn_type = ''Event''\<rparr>,
     \<lparr>pn_id = ''pub2'', pn_title = ''Parent-Teacher Meeting - Junior Wing'',
      pn_content = ''PTM for classes Nursery to V will be on March 18th. Please book your slots.'',
      pn_issuedDate = js_date_time ''2024-03-08'', pn_type = ''Academic''\<rparr>,
     \<lparr>pn_id = ''pub3'', pn_title = ''Science Exhibition Entries Open'',
      pn_content = ''Submit your projects for the upcoming Science Exhibition by April 5th.'',
      pn_issuedDate = js_date_time ''2024-03-05'', pn_type = ''Event''\<rparr>]"

definition local_date :: "int \<Rightarrow> js_number \<Rightarrow> date" where
  "local_date off t = date_of_days \<lfloor>(t + real_of_int off) / 86400000\<rfloor>"

definition public_notice_card :: "(date \<Rightarrow> string) \<Rightarrow> int \<Rightarrow> public_notice \<Rightarrow> (string list) option" where
  "public_notice_card fmt off n =
     map_option (\<lambda>t. [pn_title n, pn_type n, ''Posted on: '' @ fmt (local_date off t), pn_content n])
       (pn_issuedDate n)"

text \<open>
  Following a link into the application: the router moves to the path, then the
  authenticated layout's effect runs.
\<close>

definition follow_app_link :: "string \<Rightarrow> auth_state \<Rightarrow> auth_state" where
  "follow_app_link p a = layout_effect (a\<lparr>path := p\<rparr>)"

text \<open>
  The routes of the application: Next's App Router serves a route for each
  directory of \<open>src/app\<close> that holds a \<open>page.tsx\<close>; the \<open>(app)\<close> group adds
  no segment. Any other path renders the framework's 404 page.
\<close>

definition app_routes :: "string list" where
  "app_routes = [''/'', ''/login'', ''/dashboard'', ''/students'', ''/teachers'', ''/timetable'', ''/exams'',
     ''/library'', ''/transport'', ''/gallery'', ''/notices'', ''/fees'', ''/salaries'', ''/attendance-leave'',
     ''/study-questions'', ''/form-admin'']"

text \<open>
  Every link of the home page, in the order the page renders them: the header (the
  logo, the section links, Login to ERP), the hero's two buttons, the admission
  section's Apply Now, the enabled form card, the noticeboard's and the gallery
  preview's buttons, the contact section's phone and email, the footer.
\<close>

definition public_header_links :: "string list" where
  "public_header_links = ''/'' # map fst public_nav_links @ [''/login'']"

definition admission_links :: "string list" where
  "admission_links = [''/admission-form'']"

definition contact_links :: "string list" where
  "contact_links = [''tel:+1234567890'', ''mailto:info@campushubschool.example.com'']"

definition home_links :: "string list" where
  "home_links = public_header_links @ hero_links @ admission_links @ List.map_filter form_button_link active_forms
     @ [noticeboard_erp_link, gallery_preview_link] @ contact_links @ footer_links"

text \<open>
  A link has a target when it names a section of the home page, a route of the
  application, or another scheme the browser hands on (telephone, mail).
\<close>

definition link_target_ok :: "string \<Rightarrow> bool" where
  "link_target_ok h =
     (case h of
        [] \<Rightarrow> False
      | c # sid \<Rightarrow> if c = CHR ''#'' then sid \<in> set home_page_sections
                  else h \<in> set app_routes \<or> take 4 h = ''tel:'' \<or> take 7 h = ''mailto:'')"

lemmas home_page_defs = home_page_sections_def hero_section_id_def highlights_section_id_def
  admission_section_id_def enquiry_section_id_def active_forms_section_id_def noticeboard_section_id_def
  events_section_id_def gallery_preview_section_id_def contact_section_id_def

text \<open>
  Every in-page link of the header, the hero and the footer leads to a section
  of the home page; the only link that leads nowhere is the Admission Enquiry card's
  "Go to Section", which points to \<open>#enquiry\<close> while the enquiry section's id is
  \<open>admission-enquiry\<close>.
\<close>

theorem broken_enquiry_card_link:
  "filter (\<lambda>h. \<not> link_resolves h) home_in_page_links = [''#enquiry'']
   \<and> form_button_link (active_forms ! 0) = Some ''#enquiry''
   \<and> cf_title (active_forms ! 0) = ''Admission Enquiry''
   \<and> enquiry_section_id \<in> set home_page_sections"
  by (simp add: home_in_page_links_def public_nav_links_def hero_links_def footer_links_def active_forms_def
      form_button_link_def js_truthy_str_def link_resolves_def home_page_defs map_filter_simps)

subsection \<open>The header, the cards, the preview\<close>

text \<open>
  A link of the open mobile menu closes the menu and scrolls to a section of the
  page.
\<close>

lemma mobile_link_closes_menu:
  assumes "ph_menu_open h" and "l \<in> set (map fst public_nav_links)"
  shows "\<not> ph_menu_open (public_header_step (Mobile_Nav_Link l) h)
         \<and> ph_location (public_header_step (Mobile_Nav_Link l) h) = l \<and> link_resolves l"
  using assms by (auto simp: public_nav_links_def link_resolves_def home_page_defs)

text \<open>
  Of the three form cards only the Admission Enquiry card has an enabled button;
  it reads Go to Section and points to the missing \<open>#enquiry\<close>.
\<close>

lemma form_cards_enabled:
  "active_forms_view = Some cs \<Longrightarrow>
   filter (\<lambda>c. \<not> fc_disabled c) cs =
     [\<lparr>fc_title = ''Admission Enquiry'', fc_badge = False, fc_disabled = False, fc_label = ''Go to Section'',
       fc_link = Some ''#enquiry''\<rparr>]"
  by (auto simp: active_forms_view_def active_forms_def form_card_view_def form_button_link_def js_truthy_str_def)

text \<open>
  The preview shows the same four items as the top of the gallery page's first
  view, newest first there, but in the opposite order; items added on the gallery
  page never reach it.
\<close>

lemma gallery_preview_order:
  "gallery_preview_items = rev (take 4 (processed_gallery_items initial_gallery_page))"
  by (simp add: gallery_preview_items_def public_gallery_items_def processed_gallery_items_def
      initial_gallery_page_def initial_gallery_items_def gallery_cmp_def js_sort_def date_eval)

text \<open>
  A visitor who is not signed in and follows View Full Gallery or View All Notices
  in ERP ends on the login page; a signed-in user who follows View Full Gallery
  sees the gallery.
\<close>

lemma app_links_guarded:
  assumes "session_ok a"
  shows "(auth_user a = None \<longrightarrow> path (follow_app_link gallery_preview_link a) = ''/login''
                              \<and> path (follow_app_link noticeboard_erp_link a) = ''/login''
                              \<and> \<not> layout_shows_app (follow_app_link gallery_preview_link a))
         \<and> (auth_user a \<noteq> None \<longrightarrow> path (follow_app_link gallery_preview_link a) = ''/gallery''
                              \<and> layout_shows_app (follow_app_link gallery_preview_link a))"
  using assms
  by (simp add: follow_app_link_def layout_effect_def layout_shows_app_def session_ok_def
      gallery_preview_link_def noticeboard_erp_link_def)

text \<open>
  The noticeboard preview dates its notices by the browser's zone: the seeded
  dates are UTC midnights, so west of UTC every card is posted a day earlier than
  its source says, and east of UTC (within a day) on the day it says.
\<close>

lemma sample_public_notice_times:
  "map pn_issuedDate sample_public_notices = map (\<lambda>k. Some (real_of_int k * 86400000)) [19792, 19790, 19787]"
  by (simp add: sample_public_notices_def date_eval)

lemma public_notice_days_west:
  assumes "-86400000 \<le> off" and "off < 0"
  shows "map (\<lambda>n. map_option (local_date off) (pn_issuedDate n)) sample_public_notices
           = [Some \<lparr>year = 2024, month = 3, day = 9\<rparr>, Some \<lparr>year = 2024, month = 3, day = 7\<rparr>,
              Some \<lparr>year = 2024, month = 3, day = 4\<rparr>]"
proof -
  have "map (\<lambda>n. map_option (local_date off) (pn_issuedDate n)) sample_public_notices
          = map (map_option (local_date off)) (map pn_issuedDate sample_public_notices)"
    by simp
  also have "\<dots> = map (map_option (local_date off)) (map (\<lambda>k. Some (real_of_int k * 86400000)) [19792, 19790, 19787])"
    by (simp only: sample_public_notice_times)
  also have "\<dots> = map (\<lambda>k. Some (date_of_days (k - 1))) [19792, 19790, 19787]"
    by (simp only: list.map option.map local_date_def floor_midnight_west [OF assms])
  also have "\<dots> = [Some \<lparr>year = 2024, month = 3, day = 9\<rparr>, Some \<lparr>year = 2024, month = 3, day = 7\<rparr>,
              Some \<lparr>year = 2024, month = 3, day = 4\<rparr>]"
    by (simp only: list.map) (simp add: civil_date_eval)
  finally show ?thesis .
qed

end
