(* ===== verification/App_Pages.thy ===== *)
theory App_Pages
  imports Auth
begin

text \<open>
  The two static pages of the signed-in shell: the transport page
  (\<open>src/src/app/(app)/transport/page.tsx\<close>) and the online form administration page
  (\<open>src/src/app/(app)/form-admin/page.tsx\<close>). The two pages hold no state; their
  only logic is which buttons are rendered, and whether they are enabled.
\<close>

subsection \<open>Transport and form administration\<close>

datatype ui_button = Ui_Button string bool

definition transport_cards :: "(string \<times> string) list" where
  "transport_cards =
    [(''Vehicle Management'', ''Manage Vehicles (Coming Soon)''),
     (''Route Management'', ''Manage Routes (Coming Soon)''),
     (''Driver & Helper Management'', ''Manage Staff (Coming Soon)''),
     (''Student Pickup/Drop'', ''Manage Schedules (Coming Soon)''),
     (''Maintenance Records'', ''View Records (Coming Soon)''),
     (''Transport Fee Reports'', ''Generate Reports (Coming Soon)'')]"

definition transport_buttons :: "user option \<Rightarrow> ui_button list" where
  "transport_buttons u =
     (if is_admin_user u then map (\<lambda>(t, b). Ui_Button b False) transport_cards else [])"

datatype admin_form_status = Form_Published | Form_Draft

record admin_form =
  af_id :: string
  af_title :: string
  af_status :: admin_form_status

definition conceptual_forms :: "admin_form list" where
  "conceptual_forms =
    [\<lparr>af_id = ''enquiry-form'', af_title = ''Admission Enquiry Form'', af_status = Form_Published\<rparr>,
     \<lparr>af_id = ''event-reg-annual'', af_title = ''Event Registration: Annual Day 2025'', af_status = Form_Draft\<rparr>,
     \<lparr>af_id = ''feedback-survey-2024'', af_title = ''Parent Feedback Survey 2024'', af_status = Form_Draft\<rparr>]"

datatype form_admin_view = Access_Denied | Form_List "admin_form list"

definition form_admin_page :: "user option \<Rightarrow> form_admin_view" where
  "form_admin_page u =
     (if (case u of Some v \<Rightarrow> u_role v \<noteq> Role_Admin | None \<Rightarrow> True) then Access_Denied
      else Form_List conceptual_forms)"

definition form_card_buttons :: "admin_form \<Rightarrow> ui_button list" where
  "form_card_buttons f =
     [Ui_Button ''View Submissions'' False, Ui_Button ''Edit Form'' False,
      Ui_Button (if af_status f = Form_Draft then ''Publish'' else ''Unpublish'') False]"

definition form_admin_buttons :: "user option \<Rightarrow> ui_button list" where
  "form_admin_buttons u =
     (case form_admin_page u of
        Access_Denied \<Rightarrow> []
      | Form_List fs \<Rightarrow> Ui_Button ''Create New Form (Coming Soon)'' False # concat (map form_card_buttons fs))"

definition button_enabled :: "ui_button \<Rightarrow> bool" where
  "button_enabled b = (case b of Ui_Button _ e \<Rightarrow> e)"

subsection \<open>Properties\<close>

text \<open>
  Neither page offers an enabled button to anyone, and the form administration page
  is refused to exactly the users whose sidebar lacks its entry.
\<close>

lemma app_pages_no_enabled_button:
  "\<not> list_ex button_enabled (transport_buttons u @ form_admin_buttons u)"
  by (simp add: transport_buttons_def form_admin_buttons_def form_admin_page_def conceptual_forms_def
      form_card_buttons_def transport_cards_def button_enabled_def split: option.splits)

lemma form_admin_guard_agrees:
  "form_admin_page u \<noteq> Access_Denied \<longleftrightarrow> ''/form-admin'' \<in> nav_href ` set (filtered_nav_items u)"
  by (cases u) (auto simp: form_admin_page_def filtered_nav_items_def nav_items_def)

end
