(* ===== verification/App_Header.thy ===== *)
theory App_Header
  imports Auth
begin

text \<open>
  The header of the signed-in shell (\<open>src/src/components/layout/AppHeader.tsx\<close>):
  the avatar initials \<open>getInitials\<close>, the sidebar toggle and the theme menu (their
  effects, a flipped flag and the chosen theme, belong to the sidebar and
  next-themes libraries and are kept as the header's own state), and the user menu,
  rendered only with a user, whose Sign Out item calls the provider's \<open>logout\<close>.
  The header runs beside the provider of \<open>Auth\<close>: its step acts on both.
\<close>

subsection \<open>Avatar initials\<close>

text \<open>\<open>String.prototype.split(' ')\<close>: the pieces between single spaces, empty ones included.\<close>

fun js_split_space :: "string \<Rightarrow> string list" where
  "js_split_space [] = [[]]"
| "js_split_space (c # s) =
     (let ws = js_split_space s in if c = CHR '' '' then [] # ws else (c # hd ws) # tl ws)"

text \<open>\<open>s[0]\<close> in a string concatenation: the first character, or \<open>undefined\<close>.\<close>

definition js_first_char :: "string \<Rightarrow> string" where
  "js_first_char s = (case s of c # _ \<Rightarrow> [c] | [] \<Rightarrow> ''undefined'')"

definition get_initials :: "string option \<Rightarrow> string" where
  "get_initials name =
     (case name of
        None \<Rightarrow> ''U''
      | Some n \<Rightarrow>
          if n = [] then ''U''
          else (let names = js_split_space n in
                if 1 < length names then js_first_char (hd names) @ js_first_char (last names)
                else js_first_char n))"

subsection \<open>The header's state and events\<close>

datatype theme = Theme_Light | Theme_Dark | Theme_System

record header_state =
  hd_theme :: "theme option"
  hd_sidebar_toggled :: bool

definition initial_header_state :: header_state where
  "initial_header_state = \<lparr>hd_theme = None, hd_sidebar_toggled = False\<rparr>"

datatype header_event = Toggle_Sidebar | Choose_Theme theme | Profile_Click | Sign_Out_Click

text \<open>
  The Profile item has no handler; the user menu, and so its two items, exist only
  while a user is signed in.
\<close>

fun header_step :: "header_event \<Rightarrow> header_state \<times> auth_state \<Rightarrow> header_state \<times> auth_state" where
  "header_step Toggle_Sidebar (h, a) = (h\<lparr>hd_sidebar_toggled := \<not> hd_sidebar_toggled h\<rparr>, a)"
| "header_step (Choose_Theme t) (h, a) = (h\<lparr>hd_theme := Some t\<rparr>, a)"
| "header_step Profile_Click (h, a) = (h, a)"
| "header_step Sign_Out_Click (h, a) = (if auth_user a \<noteq> None then (h, logout a) else (h, a))"

record user_menu =
  um_name :: string
  um_role :: string
  um_avatar_src :: string
  um_avatar_alt :: string
  um_fallback :: string

text \<open>
  The user menu: \<open>{user.name}\<close> (empty when absent), the role's value (capitalised by
  CSS only), the avatar image with the initials in its URL, its alt text
  \<open>user.name || 'User'\<close>, and the initials as fallback.
\<close>

definition header_user_menu :: "auth_state \<Rightarrow> user_menu option" where
  "header_user_menu a =
     map_option (\<lambda>u. \<lparr>um_name = (case u_name u of Some n \<Rightarrow> n | None \<Rightarrow> []),
                      um_role = role_value (u_role u),
                      um_avatar_src = ''https://placehold.co/100x100.png?text='' @ get_initials (u_name u),
                      um_avatar_alt = (case u_name u of Some n \<Rightarrow> if n = [] then ''User'' else n | None \<Rightarrow> ''User''),
                      um_fallback = get_initials (u_name u)\<rparr>) (auth_user a)"

subsection \<open>Properties\<close>

lemma js_split_space_length: "length (js_split_space s) = Suc (length (filter (\<lambda>c. c = CHR '' '') s))"
  by (induction s) (auto simp: Let_def)

lemma get_initials_one_word:
  "c \<noteq> CHR '' '' \<Longrightarrow> CHR '' '' \<notin> set s \<Longrightarrow> get_initials (Some (c # s)) = [c]"
  using js_split_space_length [of "c # s"]
  by (simp add: get_initials_def js_first_char_def filter_empty_conv)

text \<open>
  A name with a trailing space splits into a last, empty piece, so the avatar shows
  the first letter followed by the text \<open>undefined\<close>.
\<close>

lemma get_initials_trailing_space: "get_initials (Some ''Asha '') = ''Aundefined''"
  by (simp add: get_initials_def js_first_char_def)

lemma get_initials_two_words: "get_initials (Some ''Asha Rao'') = ''AR''"
  by (simp add: get_initials_def js_first_char_def)

text \<open>
  Only Sign Out touches the session, and only while a user is signed in.
\<close>

lemma header_step_frame:
  "snd (header_step e (h, a)) = (if e = Sign_Out_Click \<and> auth_user a \<noteq> None then logout a else a)"
  by (cases e) simp_all

lemma header_user_menu_shown: "header_user_menu a \<noteq> None \<longleftrightarrow> auth_user a \<noteq> None"
  by (simp add: header_user_menu_def)

text \<open>
  Signing out from the header ends the session for good: after the layout's effect
  the app is no longer shown, the page is the login page, and a reload restores no
  user.
\<close>

lemma header_sign_out_ends_session:
  assumes "session_ok a" and "auth_user a \<noteq> None"
  shows "let a' = layout_effect (snd (header_step Sign_Out_Click (h, a))) in
           auth_user a' = None \<and> path a' = ''/login'' \<and> \<not> layout_shows_app a'
           \<and> header_user_menu a' = None
           \<and> auth_user (restore_user (initial_auth_state (storage a') q)) = None"
  using assms
  by (simp add: Let_def logout_def layout_effect_def layout_shows_app_def header_user_menu_def
      session_ok_def restore_user_def initial_auth_state_def)

text \<open>
  A user who signed in on the login page with the address \<open>e\<close> sees the part of
  \<open>e\<close> before the first \<open>@\<close> as the name in the menu, and the role chosen there.
\<close>

lemma header_menu_after_login:
  "header_user_menu (login now e (Some r) a) =
     Some \<lparr>um_name = email_local_part e, um_role = role_value r,
           um_avatar_src = ''https://placehold.co/100x100.png?text='' @ get_initials (Some (email_local_part e)),
           um_avatar_alt = (if email_local_part e = [] then ''User'' else email_local_part e),
           um_fallback = get_initials (Some (email_local_part e))\<rparr>"
  by (simp add: header_user_menu_def login_def Let_def)

end
