(* ===== verification/Login_Page.thy ===== *)
theory Login_Page
  imports Auth Entity_List
begin

text \<open>
  The login page (\<open>src/src/app/login/page.tsx\<close>) as a state machine beside the
  provider of \<open>Auth\<close>: the form's values and errors (react-hook-form validates on
  submit, then again on every change), the \<open>isLoading\<close> flag that disables the
  button, the one-second wait of \<open>onSubmit\<close> before it calls \<open>login\<close> (the pending
  values until the timer fires), and the conceptual OTP section with its own
  handlers. The call \<open>setShowOtpInput(true)\<close> is commented out in the source, so
  nothing sets the flag; the lemmas show the OTP section is never shown, that a
  page signs in at most once, and that the page refines the atomic
  \<open>login_submit\<close> of \<open>Auth\<close>.
\<close>

definition login_roles :: "user_role list" where
  "login_roles = [Role_Admin, Role_Teacher, Role_Student, Role_Parent, Role_Accountant, Role_Principal, Role_Librarian]"

text \<open>\<open>role.charAt(0).toUpperCase() + role.slice(1)\<close>.\<close>

definition role_option_label :: "user_role \<Rightarrow> string" where
  "role_option_label r = (case role_value r of [] \<Rightarrow> [] | c # cs \<Rightarrow> upper_char c # cs)"

record login_page =
  lp_values :: login_form
  lp_errors :: field_errors
  lp_submitted :: bool
  lp_loading :: bool
  lp_show_otp :: bool
  lp_otp :: string
  lp_pending :: "login_form option"
  lp_otp_pending :: bool

definition initial_login_page :: login_page where
  "initial_login_page =
     \<lparr>lp_values = \<lparr>lf_email = [], lf_password = [], lf_role = None\<rparr>, lp_errors = [], lp_submitted = False,
      lp_loading = False, lp_show_otp = False, lp_otp = [], lp_pending = None, lp_otp_pending = False\<rparr>"

datatype login_event =
    Lp_Edit login_form
  | Lp_Submit
  | Lp_Sign_In_Timer nat
  | Lp_Otp_Change string
  | Lp_Otp_Submit
  | Lp_Otp_Timer
  | Lp_Back

text \<open>
  One event on the page and the provider. A submit while \<open>isLoading\<close> is refused by
  the disabled button; the form is not rendered while the OTP section is. The
  sign-in timer resumes \<open>onSubmit\<close>, which calls \<open>login\<close> and leaves \<open>isLoading\<close>
  set (navigation leaves the page). The OTP input keeps at most six characters
  (\<open>maxLength={6}\<close>); its submit waits a second and clears \<open>isLoading\<close>.
\<close>

fun login_page_step ::
  "(string \<Rightarrow> bool) \<Rightarrow> login_event \<Rightarrow> login_page \<times> auth_state \<Rightarrow> login_page \<times> auth_state" where
  "login_page_step is_email (Lp_Edit v) (p, a) =
     (if lp_show_otp p then (p, a)
      else (p\<lparr>lp_values := v, lp_errors := (if lp_submitted p then validate_login is_email v else lp_errors p)\<rparr>, a))"
| "login_page_step is_email Lp_Submit (p, a) =
     (if lp_show_otp p \<or> lp_loading p then (p, a)
      else let v = lp_values p; errs = validate_login is_email v in
        if errs = [] then (p\<lparr>lp_errors := [], lp_submitted := True, lp_loading := True, lp_pending := Some v\<rparr>, a)
        else (p\<lparr>lp_errors := errs, lp_submitted := True\<rparr>, a))"
| "login_page_step is_email (Lp_Sign_In_Timer now) (p, a) =
     (case lp_pending p of
        None \<Rightarrow> (p, a)
      | Some v \<Rightarrow> (p\<lparr>lp_pending := None\<rparr>, login now (lf_email v) (lf_role v) a))"
| "login_page_step is_email (Lp_Otp_Change s) (p, a) =
     (if lp_show_otp p then (p\<lparr>lp_otp := take 6 s\<rparr>, a) else (p, a))"
| "login_page_step is_email Lp_Otp_Submit (p, a) =
     (if lp_show_otp p \<and> \<not> lp_loading p then (p\<lparr>lp_loading := True, lp_otp_pending := True\<rparr>, a) else (p, a))"
| "login_page_step is_email Lp_Otp_Timer (p, a) =
     (if lp_otp_pending p then (p\<lparr>lp_loading := False, lp_otp_pending := False\<rparr>, a) else (p, a))"
| "login_page_step is_email Lp_Back (p, a) =
     (if lp_show_otp p then (p\<lparr>lp_show_otp := False\<rparr>, a) else (p, a))"

definition login_page_run ::
  "(string \<Rightarrow> bool) \<Rightarrow> login_event list \<Rightarrow> login_page \<times> auth_state \<Rightarrow> login_page \<times> auth_state" where
  "login_page_run is_email es s = foldl (\<lambda>s e. login_page_step is_email e s) s es"

text \<open>The number of \<open>login\<close> calls a sequence of events makes.\<close>

fun login_calls :: "(string \<Rightarrow> bool) \<Rightarrow> login_event list \<Rightarrow> login_page \<times> auth_state \<Rightarrow> nat" where
  "login_calls is_email [] s = 0"
| "login_calls is_email (e # es) s =
     (case e of Lp_Sign_In_Timer _ \<Rightarrow> if lp_pending (fst s) \<noteq> None then 1 else 0 | _ \<Rightarrow> 0)
     + login_calls is_email es (login_page_step is_email e s)"

definition login_page_inv :: "(string \<Rightarrow> bool) \<Rightarrow> login_page \<Rightarrow> bool" where
  "login_page_inv is_email p \<longleftrightarrow> \<not> lp_show_otp p \<and> \<not> lp_otp_pending p \<and> lp_otp p = []
     \<and> (case lp_pending p of None \<Rightarrow> True | Some v \<Rightarrow> lp_loading p \<and> validate_login is_email v = [])"

text \<open>The sign-ins a page in a given state can still make.\<close>

definition login_budget :: "login_page \<Rightarrow> nat" where
  "login_budget p = (if lp_loading p \<and> lp_pending p = None then 0 else 1)"

subsection \<open>Properties\<close>

lemma initial_login_page_inv: "login_page_inv is_email initial_login_page"
  by (simp add: login_page_inv_def initial_login_page_def)

lemma login_page_step_inv:
  "login_page_inv is_email p \<Longrightarrow> login_page_inv is_email (fst (login_page_step is_email e (p, a)))"
  by (cases e) (auto simp: login_page_inv_def Let_def split: option.splits)

lemma login_page_run_inv:
  "login_page_inv is_email (fst s) \<Longrightarrow> login_page_inv is_email (fst (login_page_run is_email es s))"
proof (induction es arbitrary: s)
  case (Cons e es)
  obtain p a where s: "s = (p, a)" by (cases s)
  show ?case
    using Cons.IH [of "login_page_step is_email e s"] login_page_step_inv [of is_email p e a] Cons.prems s
    by (simp add: login_page_run_def)
qed (simp add: login_page_run_def)

lemma login_page_run_Cons:
  "login_page_run is_email (e # es) s = login_page_run is_email es (login_page_step is_email e s)"
  by (simp add: login_page_run_def)

text \<open>A step spends at most the sign-ins it takes from the budget.\<close>

lemma login_step_budget:
  assumes "login_page_inv is_email p"
  shows "(case e of Lp_Sign_In_Timer _ \<Rightarrow> if lp_pending p \<noteq> None then 1 else 0 | _ \<Rightarrow> 0)
           + login_budget (fst (login_page_step is_email e (p, a))) \<le> login_budget p"
  using assms
  by (cases e) (auto simp: login_page_inv_def login_budget_def Let_def split: option.splits)

lemma login_calls_budget:
  "login_page_inv is_email (fst s) \<Longrightarrow> login_calls is_email es s \<le> login_budget (fst s)"
proof (induction es arbitrary: s)
  case (Cons e es)
  obtain p a where s: "s = (p, a)" by (cases s)
  have "login_calls is_email es (login_page_step is_email e s) \<le> login_budget (fst (login_page_step is_email e s))"
    using Cons.IH login_page_step_inv Cons.prems s by simp
  moreover have inv: "login_page_inv is_email p" using Cons.prems s by simp
  ultimately show ?case
    using login_step_budget [OF inv, of e a] s
    by (simp only: login_calls.simps fst_conv)
qed simp

lemma login_reachable_inv:
  "login_page_inv is_email (fst (login_page_run is_email es (initial_login_page, a)))"
  using login_page_run_inv [of is_email "(initial_login_page, a)" es] initial_login_page_inv by simp

text \<open>
  The OTP section is never shown: whatever the events, \<open>showOtpInput\<close> stays false,
  the OTP value stays empty and no OTP verification is ever pending, so the section's
  input, its \<open>handleOtpSubmit\<close> and its Back to Login button never act.
\<close>

theorem otp_section_unreachable:
  "let p = fst (login_page_run is_email es (initial_login_page, a)) in
     \<not> lp_show_otp p \<and> lp_otp p = [] \<and> \<not> lp_otp_pending p"
  using login_reachable_inv [of is_email es a] by (simp add: login_page_inv_def Let_def)

text \<open>
  C27: a login page calls \<open>login\<close> at most once, whatever the events: the button stays
  disabled from the first valid submit on, since only the unreachable OTP timer clears
  \<open>isLoading\<close>.
\<close>

theorem login_at_most_once:
  "login_calls is_email es (initial_login_page, a) \<le> 1"
  using login_calls_budget [of is_email "(initial_login_page, a)" es] initial_login_page_inv
  by (simp add: login_budget_def split: if_splits)

text \<open>
  Filling the form, submitting and waiting the second does to the provider exactly
  what the atomic \<open>login_submit\<close> of \<open>Auth\<close> does, for valid and invalid values alike.
\<close>

theorem login_page_refines:
  "snd (login_page_run is_email [Lp_Edit v, Lp_Submit, Lp_Sign_In_Timer now] (initial_login_page, a))
   = login_submit is_email now v a"
  by (simp add: login_page_run_def initial_login_page_def login_submit_def Let_def)

text \<open>
  When a sign-in is pending, the timer signs in a user with the role chosen in the
  form (the \<open>student\<close> fallback of \<open>login\<close> is never used from this page) and moves to
  the dashboard.
\<close>

theorem sign_in_selected_role:
  assumes "lp_pending (fst (login_page_run is_email es (initial_login_page, a))) = Some v"
  shows "\<exists>r. lf_role v = Some r \<and>
           (let a' = snd (login_page_step is_email (Lp_Sign_In_Timer now)
                            (login_page_run is_email es (initial_login_page, a)))
            in auth_user a' = Some \<lparr>u_id = string_of_nat now, u_name = Some (email_local_part (lf_email v)),
                                    u_email = Some (lf_email v), u_role = r\<rparr>
               \<and> path a' = ''/dashboard'')"
proof -
  obtain p a0 where s: "login_page_run is_email es (initial_login_page, a) = (p, a0)" by fastforce
  have "validate_login is_email v = []"
    using login_reachable_inv [of is_email es a] assms s by (simp add: login_page_inv_def)
  then obtain r where "lf_role v = Some r" by (cases "lf_role v") (simp_all add: validate_login_def)
  then show ?thesis using assms s by (simp add: login_def Let_def)
qed

theorem sign_in_selected_role_witness:
  "lp_pending (fst (login_page_run (\<lambda>e. e = ''asha@school.edu'')
       [Lp_Edit \<lparr>lf_email = ''asha@school.edu'', lf_password = ''pw'', lf_role = Some Role_Teacher\<rparr>, Lp_Submit]
       (initial_login_page, initial_auth_state No_Entry ''/login'')))
     = Some \<lparr>lf_email = ''asha@school.edu'', lf_password = ''pw'', lf_role = Some Role_Teacher\<rparr>
   \<and> auth_user (snd (login_page_step (\<lambda>e. e = ''asha@school.edu'') (Lp_Sign_In_Timer 7)
       (login_page_run (\<lambda>e. e = ''asha@school.edu'')
         [Lp_Edit \<lparr>lf_email = ''asha@school.edu'', lf_password = ''pw'', lf_role = Some Role_Teacher\<rparr>, Lp_Submit]
         (initial_login_page, initial_auth_state No_Entry ''/login''))))
     = Some \<lparr>u_id = string_of_nat 7, u_name = Some ''asha'', u_email = Some ''asha@school.edu'', u_role = Role_Teacher\<rparr>"
proof -
  let ?v = "\<lparr>lf_email = ''asha@school.edu'', lf_password = ''pw'', lf_role = Some Role_Teacher\<rparr>"
  let ?es = "[Lp_Edit ?v, Lp_Submit]"
  let ?s0 = "(initial_login_page, initial_auth_state No_Entry ''/login'')"
  have p: "lp_pending (fst (login_page_run (\<lambda>e. e = ''asha@school.edu'') ?es ?s0)) = Some ?v"
    by (simp add: login_page_run_def initial_login_page_def validate_login_def known_roles_def Let_def)
  have "email_local_part ''asha@school.edu'' = ''asha''" by (simp add: email_local_part_def)
  then show ?thesis
    using p sign_in_selected_role [OF p, of 7] by (simp add: Let_def)
qed

end
