(* ===== verification/App_Session.thy ===== *)
theory App_Session
  imports Students Fees Leave Library Teachers Exams Timetable Salaries Gallery Notices Study_Questions Auth
begin

text \<open>
  The application as one state machine: the provider's session (\<open>Auth\<close>) and the
  page the authenticated layout (\<open>src/src/app/(app)/layout.tsx\<close>) renders for the
  current route. The layout renders its \<open>children\<close> only while the session is
  loaded and has a user; the page component's state (\<open>useState\<close> seeded with the
  page's literals) lives as long as it stays mounted, so it starts afresh whenever
  the route changes or the layout switches between the spinner and the page. The
  student, fees, leave, library, teacher, exam, timetable, salary, gallery, notices
  and study-question pages are tracked; any other route is a page whose state is
  not. Every page event
  runs the page's step with the role of the signed-in user. The composed invariant
  (the session is consistent, the mounted page is the route's, its state keeps the
  page's own invariant, the notices page renders) holds in every reachable state,
  and a user other than an administrator never changes a tracked page's records.
\<close>

text \<open>
  The parameters the pages take from their environment: zod's email and URL
  patterns, the collation of \<open>localeCompare\<close>, \<open>toISOString\<close> of a clock value,
  the current year (the salary schema's bounds), \<open>isPast\<close> of a due date,
  \<open>Date.parse\<close> and \<open>parseISO\<close> (the notice schema and handler), and the clock
  value at which the notices module was evaluated: \<open>initialNotices\<close> is a
  module constant, so its \<open>new Date()\<close> is read once, not at every mount.
\<close>

record 'k app_env =
  env_is_email :: "string \<Rightarrow> bool"
  env_coll :: "string \<Rightarrow> 'k"
  env_to_iso :: "nat \<Rightarrow> string"
  env_year :: nat
  env_is_url :: "string \<Rightarrow> bool"
  env_is_past :: "string \<Rightarrow> bool"
  env_date_parse :: "string \<Rightarrow> js_number option"
  env_parse_iso :: "string \<Rightarrow> js_number option"
  env_notices_t0 :: js_number

datatype app_page =
    Students_Page student_page
  | Library_Page library_page
  | Teachers_Page teacher_page
  | Exams_Page exam_page
  | Timetable_Page tt_page
  | Salaries_Page salary_page
  | Fees_Page fees_page
  | Gallery_Page gallery_page
  | Notices_Page notice_page
  | Leave_Page leave_page
  | Study_Page sq_page
  | Other_Page string

record app_state =
  app_auth :: auth_state
  app_page :: "app_page option"

datatype app_event =
    Auth_Event auth_event
  | Student_Event student_event
  | Library_Event "(book, book_form) crud_event"
  | Teacher_Event "(teacher, teacher_form) crud_event"
  | Exam_Event "(exam_schedule, exam_form) crud_event"
  | Timetable_Event tt_event
  | Salary_Event "(salary_record, salary_form) crud_event"
  | Fee_Event fees_event
  | Gallery_Event gallery_event
  | Notice_Event nat "(notice, notice_form) crud_event"
  | Leave_Event leave_event
  | Study_Event sq_event

text \<open>The page component a route mounts, with the state its \<open>useState\<close> hooks start from.\<close>

definition mount_page :: "'k::linorder app_env \<Rightarrow> string \<Rightarrow> app_page" where
  "mount_page env p =
     (if p = ''/students'' then Students_Page (initial_student_page (env_coll env))
      else if p = ''/library'' then Library_Page initial_library_page
      else if p = ''/teachers'' then Teachers_Page (initial_teacher_page (env_coll env))
      else if p = ''/exams'' then Exams_Page initial_exam_page
      else if p = ''/timetable'' then Timetable_Page initial_tt_page
      else if p = ''/salaries'' then Salaries_Page initial_salary_page
      else if p = ''/fees'' then Fees_Page initial_fees_page
      else if p = ''/gallery'' then Gallery_Page initial_gallery_page
      else if p = ''/notices'' then Notices_Page (initial_notice_page (env_notices_t0 env))
      else if p = ''/attendance-leave'' then Leave_Page initial_leave_page
      else if p = ''/study-questions'' then Study_Page initial_sq_page
      else Other_Page p)"

definition rendered_page :: "'k::linorder app_env \<Rightarrow> auth_state \<Rightarrow> app_page option" where
  "rendered_page env a = (if layout_shows_app a then Some (mount_page env (path a)) else None)"

definition app_init :: "'k::linorder app_env \<Rightarrow> stored_entry \<Rightarrow> string \<Rightarrow> app_state" where
  "app_init env e p =
     (let a = restore_user (initial_auth_state e p) in \<lparr>app_auth = a, app_page = rendered_page env a\<rparr>)"

text \<open>
  A page event reaches the mounted page of its kind, with the signed-in user's role.
  A page is mounted only while the session has a user, so the study-question page's
  \<open>!user\<close> guard never disables its button there. A reply to a request of a page
  that has since unmounted reaches no page (React drops the state update of an
  unmounted component); a remounted page has no request in flight and ignores it.
  The fees page renders its action buttons (Add, Edit, Delete, Manage Payment) for
  administrators only and its step models an administrator's events, so another
  user's events do not reach it.
\<close>

fun page_event :: "'k::linorder app_env \<Rightarrow> bool \<Rightarrow> app_event \<Rightarrow> app_page \<Rightarrow> app_page" where
  "page_event env adm ev (Students_Page p) =
     Students_Page (case ev of Student_Event e \<Rightarrow> student_step (env_coll env) adm e p | _ \<Rightarrow> p)"
| "page_event env adm ev (Library_Page p) =
     Library_Page (case ev of Library_Event e \<Rightarrow> library_step adm e p | _ \<Rightarrow> p)"
| "page_event env adm ev (Teachers_Page p) =
     Teachers_Page (case ev of Teacher_Event e \<Rightarrow> teacher_step (env_is_email env) (env_coll env) adm e p | _ \<Rightarrow> p)"
| "page_event env adm ev (Exams_Page p) =
     Exams_Page (case ev of Exam_Event e \<Rightarrow> exam_step adm e p | _ \<Rightarrow> p)"
| "page_event env adm ev (Timetable_Page p) =
     Timetable_Page (case ev of Timetable_Event e \<Rightarrow> tt_step adm e p | _ \<Rightarrow> p)"
| "page_event env adm ev (Salaries_Page p) =
     Salaries_Page (case ev of Salary_Event e \<Rightarrow> salary_step (env_to_iso env) (env_year env) adm e p | _ \<Rightarrow> p)"
| "page_event env adm ev (Fees_Page p) =
     Fees_Page (case ev of Fee_Event e \<Rightarrow> if adm then fees_step (env_is_past env) p e else p | _ \<Rightarrow> p)"
| "page_event env adm ev (Gallery_Page p) =
     Gallery_Page (case ev of Gallery_Event e \<Rightarrow> gallery_step (env_is_url env) (env_to_iso env) adm e p | _ \<Rightarrow> p)"
| "page_event env adm ev (Notices_Page p) =
     Notices_Page (case ev of Notice_Event t e \<Rightarrow> notice_step (env_date_parse env) (env_parse_iso env) t adm e p
                  | _ \<Rightarrow> p)"
| "page_event env adm ev (Leave_Page p) =
     Leave_Page (case ev of Leave_Event e \<Rightarrow> leave_event_step adm e p | _ \<Rightarrow> p)"
| "page_event env adm ev (Study_Page p) =
     Study_Page (case ev of Study_Event e \<Rightarrow> sq_event_step True e p | _ \<Rightarrow> p)"
| "page_event env adm ev (Other_Page q) = Other_Page q"

fun app_step :: "'k::linorder app_env \<Rightarrow> app_event \<Rightarrow> app_state \<Rightarrow> app_state" where
  "app_step env (Auth_Event e) s =
     (let a = auth_step (env_is_email env) (app_auth s) e in
      if path a = path (app_auth s) \<and> layout_shows_app a = layout_shows_app (app_auth s)
      then s\<lparr>app_auth := a\<rparr>
      else \<lparr>app_auth = a, app_page = rendered_page env a\<rparr>)"
| "app_step env ev s =
     s\<lparr>app_page := map_option (page_event env (is_admin_user (auth_user (app_auth s))) ev) (app_page s)\<rparr>"

inductive app_reachable :: "'k::linorder app_env \<Rightarrow> stored_entry \<Rightarrow> string \<Rightarrow> app_state \<Rightarrow> bool"
  for env e p where
  init: "app_reachable env e p (app_init env e p)"
| step: "app_reachable env e p s \<Longrightarrow> app_reachable env e p (app_step env ev s)"

text \<open>The route a mounted page belongs to, and the invariant of its state.\<close>

fun page_route :: "app_page \<Rightarrow> string" where
  "page_route (Students_Page _) = ''/students''"
| "page_route (Library_Page _) = ''/library''"
| "page_route (Teachers_Page _) = ''/teachers''"
| "page_route (Exams_Page _) = ''/exams''"
| "page_route (Timetable_Page _) = ''/timetable''"
| "page_route (Salaries_Page _) = ''/salaries''"
| "page_route (Fees_Page _) = ''/fees''"
| "page_route (Gallery_Page _) = ''/gallery''"
| "page_route (Notices_Page _) = ''/notices''"
| "page_route (Leave_Page _) = ''/attendance-leave''"
| "page_route (Study_Page _) = ''/study-questions''"
| "page_route (Other_Page p) = p"

fun page_ok :: "'k::linorder app_env \<Rightarrow> app_page \<Rightarrow> bool" where
  "page_ok env (Students_Page st) = sorted (map (\<lambda>s. env_coll env (s_name s)) (items st))"
| "page_ok env (Library_Page st) = list_all book_ok (items st)"
| "page_ok env (Teachers_Page st) = sorted (map (\<lambda>t. env_coll env (t_name t)) (items st))"
| "page_ok env (Exams_Page st) = list_all exam_ok (items st)"
| "page_ok env (Timetable_Page st) = (list_all tt_entry_ok (items st) \<and> selected_class st \<in> set sample_classes)"
| "page_ok env (Salaries_Page st) = list_all salary_ok (items st)"
| "page_ok env (Fees_Page st) = fees_inv st"
| "page_ok env (Gallery_Page st) = True"
| "page_ok env (Notices_Page st) =
     ((\<forall>x. env_date_parse env x \<noteq> None \<longrightarrow> env_parse_iso env x \<noteq> None) \<longrightarrow> list_all notice_dates_ok (items st))"
| "page_ok env (Leave_Page st) = leave_inv st"
| "page_ok env (Study_Page st) = sq_inv st"
| "page_ok env (Other_Page _) = True"

definition app_inv :: "'k::linorder app_env \<Rightarrow> app_state \<Rightarrow> bool" where
  "app_inv env s \<longleftrightarrow> session_ok (app_auth s) \<and>
     (case app_page s of
        None \<Rightarrow> \<not> layout_shows_app (app_auth s)
      | Some pg \<Rightarrow> layout_shows_app (app_auth s) \<and> page_route pg = path (app_auth s) \<and> page_ok env pg)"

text \<open>
  What a user without the administrator role sees on a management page: the records
  the page was mounted with, and no dialog open. Only the filters and selectors a
  page offers every user may differ from the mounted state.
\<close>

definition dialogs_closed :: "('e, 'x) crud_page_scheme \<Rightarrow> bool" where
  "dialogs_closed st \<longleftrightarrow> \<not> show_modal st \<and> editing st = None \<and> to_delete st = None"

fun page_seeded :: "'k::linorder app_env \<Rightarrow> app_page \<Rightarrow> bool" where
  "page_seeded env (Students_Page st) = (items st = items (initial_student_page (env_coll env)) \<and> dialogs_closed st)"
| "page_seeded env (Library_Page st) = (items st = initial_books \<and> dialogs_closed st)"
| "page_seeded env (Teachers_Page st) = (items st = initial_teachers (env_coll env) \<and> dialogs_closed st)"
| "page_seeded env (Exams_Page st) = (items st = initial_exam_schedules \<and> dialogs_closed st)"
| "page_seeded env (Timetable_Page st) = (items st = initial_timetable_data \<and> dialogs_closed st)"
| "page_seeded env (Salaries_Page st) = (items st = initial_salary_records \<and> dialogs_closed st)"
| "page_seeded env (Fees_Page st) = (st = initial_fees_page)"
| "page_seeded env (Gallery_Page st) = (items st = initial_gallery_items \<and> dialogs_closed st)"
| "page_seeded env (Notices_Page st) = (items st = initial_notices (env_notices_t0 env) \<and> dialogs_closed st)"
| "page_seeded env (Leave_Page st) =
     (leave_inv st \<and> mset (leave_requests st) = mset initial_leave_requests \<and> request_to_process st = None)"
| "page_seeded env (Study_Page _) = True"
| "page_seeded env (Other_Page _) = True"

text \<open>
  The state a user without the administrator role can be shown: any mounted page
  is as it was mounted, apart from its filters.
\<close>

definition app_seeded :: "'k::linorder app_env \<Rightarrow> app_state \<Rightarrow> bool" where
  "app_seeded env s \<longleftrightarrow>
     is_admin_user (auth_user (app_auth s)) \<or> pred_option (page_seeded env) (app_page s)"

text \<open>A sample environment, an administrator and a librarian, for concrete sessions.\<close>

definition sample_env :: "string app_env" where
  "sample_env = \<lparr>env_is_email = (\<lambda>_. True), env_coll = id,
     env_to_iso = (\<lambda>_. ''2024-07-01T00:00:00.000Z''), env_year = 2024,
     env_is_url = (\<lambda>_. True), env_is_past = (\<lambda>_. False), env_date_parse = js_date_time,
     env_parse_iso = js_date_time, env_notices_t0 = 1720000000000\<rparr>"

definition sample_librarian :: user where
  "sample_librarian = \<lparr>u_id = ''2'', u_name = Some ''librarian'', u_email = Some ''librarian@school.edu'',
     u_role = Role_Librarian\<rparr>"

definition sample_admin :: user where
  "sample_admin = \<lparr>u_id = ''1'', u_name = Some ''admin'', u_email = Some ''admin@school.edu'', u_role = Role_Admin\<rparr>"

text \<open>
  A session as a run: the provider mounts on a stored entry and a path, then the
  events follow one by one. Only the auth events reach the provider.
\<close>

definition app_session :: "'k::linorder app_env \<Rightarrow> stored_entry \<Rightarrow> string \<Rightarrow> app_event list \<Rightarrow> app_state" where
  "app_session env e p evs = foldl (\<lambda>s ev. app_step env ev s) (app_init env e p) evs"

definition auth_event_of :: "app_event \<Rightarrow> auth_event option" where
  "auth_event_of ev = (case ev of Auth_Event e \<Rightarrow> Some e | _ \<Rightarrow> None)"

subsection \<open>The composed invariant\<close>

lemma mount_page_route [simp]: "page_route (mount_page env p) = p"
  by (simp add: mount_page_def)

lemma mount_page_ok: "page_ok env (mount_page env p)"
proof -
  have "sorted (map (\<lambda>s. env_coll env (s_name s)) (items (initial_student_page (env_coll env))))"
    using initial_student_inv [of "env_coll env"] by (simp add: student_inv_def)
  then show ?thesis
    using initial_teachers_sorted [of "env_coll env"] initial_tt_wellformed initial_notices_dates_ok initial_leave_inv
    by (simp add: mount_page_def initial_library_page_def initial_books_ok initial_exam_page_def
        initial_exams_ok initial_salary_page_def initial_salary_ok initial_fees_inv sq_inv_def initial_sq_page_def)
qed

lemma rendered_page_inv:
  "session_ok a \<Longrightarrow> app_inv env \<lparr>app_auth = a, app_page = rendered_page env a\<rparr>"
  by (simp add: app_inv_def rendered_page_def mount_page_ok)

lemma page_event_route [simp]: "page_route (page_event env adm ev pg) = page_route pg"
  by (cases pg) simp_all

lemma notice_event_ok:
  assumes "page_ok env (Notices_Page p)"
  shows "page_ok env (Notices_Page (notice_step (env_date_parse env) (env_parse_iso env) t adm e p))"
proof -
  have "list_all notice_dates_ok (items (notice_step (env_date_parse env) (env_parse_iso env) t adm e p))"
    if a: "\<forall>x. env_date_parse env x \<noteq> None \<longrightarrow> env_parse_iso env x \<noteq> None"
    using assms a by (intro notice_step_dates_ok [OF a [rule_format]]) simp_all
  then show ?thesis by simp
qed

lemma page_event_ok:
  assumes "page_ok env pg"
  shows "page_ok env (page_event env adm ev pg)"
proof (cases pg)
  case (Notices_Page p)
  then show ?thesis using assms by (cases ev) (simp_all add: notice_event_ok del: page_ok.simps)
qed (use assms in \<open>simp_all add: student_step_sorted library_step_ok teacher_step_sorted exam_step_ok
       tt_step_wellformed salary_step_ok fees_step_inv leave_event_inv sq_event_inv split: app_event.split\<close>)

lemma app_step_inv:
  assumes "app_inv env s"
  shows "app_inv env (app_step env ev s)"
proof (cases ev)
  case (Auth_Event e)
  let ?a = "auth_step (env_is_email env) (app_auth s) e"
  have ok: "session_ok ?a" using assms auth_step_ok by (simp add: app_inv_def)
  show ?thesis
  proof (cases "path ?a = path (app_auth s) \<and> layout_shows_app ?a = layout_shows_app (app_auth s)")
    case True
    then show ?thesis using assms ok Auth_Event
      by (auto simp: app_inv_def Let_def split: option.splits)
  next
    case False
    then show ?thesis using rendered_page_inv [OF ok, of env] Auth_Event by (auto simp: Let_def)
  qed
qed (use assms page_event_ok in \<open>auto simp: app_inv_def split: option.splits\<close>)

lemma app_init_inv: "app_inv env (app_init env e p)"
  by (simp add: app_init_def Let_def rendered_page_inv restore_user_ok)

text \<open>
  In every state the application reaches, the session is consistent, a page is
  mounted exactly while the layout shows the application, it is the page of the
  current route, and its state keeps the page's invariant (students and teachers
  sorted by name, every book's copy counts in range).
\<close>

lemma app_reachable_inv: "app_reachable env e p s \<Longrightarrow> app_inv env s"
  by (induction rule: app_reachable.induct) (simp_all add: app_init_inv app_step_inv)

lemma layout_shows_app_path [simp]: "layout_shows_app (a\<lparr>path := q\<rparr>) = layout_shows_app a"
  by (simp add: layout_shows_app_def)

text \<open>
  A page's records live only as long as the page is mounted, as the
  specification says (state lives for the lifetime of the page view): from any
  reachable state showing the student page, whatever was added, edited or deleted,
  navigating to another route and back shows the seeded list again.
\<close>

theorem page_state_lifetime:
  assumes "app_reachable env e p s" and "app_page s = Some (Students_Page st)"
    and "q \<noteq> ''/students''"
  shows "app_page (app_step env (Auth_Event (Navigate ''/students'')) (app_step env (Auth_Event (Navigate q)) s))
         = Some (Students_Page (initial_student_page (env_coll env)))"
proof -
  have inv: "app_inv env s" using assms(1) by (rule app_reachable_inv)
  then have "layout_shows_app (app_auth s)" and "path (app_auth s) = ''/students''"
    using assms(2) by (simp_all add: app_inv_def)
  then show ?thesis using assms(3) by (simp add: Let_def rendered_page_def mount_page_def)
qed

theorem page_state_lifetime_witness:
  "app_page (app_step sample_env (Auth_Event (Navigate ''/students''))
     (app_step sample_env (Auth_Event (Navigate ''/library''))
       (app_step sample_env (Student_Event (Set_Class_Filter ''10''))
         (app_init sample_env (Json_Entry (Some sample_admin)) ''/students''))))
   = Some (Students_Page (initial_student_page id))"
proof -
  have "app_reachable sample_env (Json_Entry (Some sample_admin)) ''/students''
      (app_step sample_env (Student_Event (Set_Class_Filter ''10''))
        (app_init sample_env (Json_Entry (Some sample_admin)) ''/students''))"
    by (rule app_reachable.step, rule app_reachable.init)
  moreover have "app_page (app_step sample_env (Student_Event (Set_Class_Filter ''10''))
        (app_init sample_env (Json_Entry (Some sample_admin)) ''/students''))
      = Some (Students_Page ((initial_student_page id)\<lparr>class_filter := ''10''\<rparr>))"
    by (simp add: sample_env_def sample_admin_def app_init_def restore_user_def initial_auth_state_def
        rendered_page_def mount_page_def layout_shows_app_def class_filter_options_def class_form_options_def Let_def)
  ultimately have "app_page (app_step sample_env (Auth_Event (Navigate ''/students''))
     (app_step sample_env (Auth_Event (Navigate ''/library''))
       (app_step sample_env (Student_Event (Set_Class_Filter ''10''))
         (app_init sample_env (Json_Entry (Some sample_admin)) ''/students''))))
   = Some (Students_Page (initial_student_page (env_coll sample_env)))"
    by (rule page_state_lifetime) simp
  then show ?thesis by (simp add: sample_env_def)
qed

subsection \<open>Users other than administrators\<close>

lemma crud_step_non_admin_closed:
  assumes "dialogs_closed st" and "\<And>s. to_delete s = None \<Longrightarrow> fst (del s) = s"
  shows "crud_step submit del False e st = st"
  using assms by (simp add: dialogs_closed_def crud_step_non_admin_idle)

lemma student_step_non_admin:
  assumes "dialogs_closed p"
  shows "items (student_step coll False e p) = items p \<and> dialogs_closed (student_step coll False e p)"
proof (cases e)
  case (St_Crud ce)
  then show ?thesis using assms
    by (cases ce) (simp_all add: crud_step_non_admin_closed [OF assms] student_delete_confirm_def del: crud_step.simps)
qed (use assms in \<open>simp_all add: dialogs_closed_def\<close>)

lemma tt_step_non_admin:
  assumes "dialogs_closed p"
  shows "items (tt_step False e p) = items p \<and> dialogs_closed (tt_step False e p)"
proof (cases e)
  case (Tt_Crud ce)
  then show ?thesis using assms
    by (cases ce) (simp_all add: crud_step_non_admin_closed [OF assms] tt_delete_confirm_def delete_confirm_idle
        del: crud_step.simps)
qed (use assms in \<open>simp_all add: dialogs_closed_def\<close>)

lemma gallery_step_non_admin:
  assumes "dialogs_closed p"
  shows "items (gallery_step u i False e p) = items p \<and> dialogs_closed (gallery_step u i False e p)"
proof (cases e)
  case (Gallery_Crud ce)
  then show ?thesis using assms
    by (simp add: crud_step_non_admin_closed [OF assms] gallery_delete_confirm_def delete_confirm_idle
        del: crud_step.simps)
qed (use assms in \<open>simp_all add: dialogs_closed_def toggle_sort_order_def\<close>)

lemma notice_step_non_admin:
  assumes "dialogs_closed p"
  shows "notice_step dparse iparse t False e p = p"
  using assms
  by (cases e) (simp_all add: notice_step_def crud_step_non_admin_closed [OF assms] notice_delete_confirm_def
      delete_confirm_idle del: crud_step.simps)

lemma page_event_non_admin:
  assumes "page_seeded env pg"
  shows "page_seeded env (page_event env False ev pg)"
  using assms
  by (cases pg)
     (auto simp: student_step_non_admin tt_step_non_admin gallery_step_non_admin notice_step_non_admin
       library_step_def teacher_step_def exam_step_def salary_step_def crud_step_non_admin_closed
       book_delete_confirm_def teacher_delete_confirm_def exam_delete_confirm_def salary_delete_confirm_def
       delete_confirm_idle leave_event_inv leave_event_non_admin split: app_event.split)

lemma mount_page_seeded: "page_seeded env (mount_page env p)"
  by (simp add: mount_page_def dialogs_closed_def initial_student_page_def initial_library_page_def
      initial_teacher_page_def initial_exam_page_def initial_tt_page_def initial_salary_page_def
      initial_gallery_page_def initial_notice_page_def initial_leave_page_def initial_leave_inv [unfolded initial_leave_page_def])

lemma page_route_dashboard: "page_route pg = ''/dashboard'' \<Longrightarrow> page_seeded env pg"
  by (cases pg) simp_all

text \<open>
  An auth event that keeps the route and the layout keeps the user, or happens on
  the dashboard route (a successful sign-in), or while the layout shows no page
  (signing out).
\<close>

lemma auth_step_same_route:
  assumes "path (auth_step is_email a e) = path a"
    and "layout_shows_app (auth_step is_email a e) = layout_shows_app a"
  shows "auth_user (auth_step is_email a e) = auth_user a \<or> path a = ''/dashboard'' \<or> \<not> layout_shows_app a"
  using assms
  by (cases e) (auto simp: login_submit_def login_def logout_def layout_effect_def layout_shows_app_def Let_def)

lemma page_step_seeded:
  assumes "app_seeded env s"
  shows "app_seeded env
           (s\<lparr>app_page := map_option (page_event env (is_admin_user (auth_user (app_auth s))) ev) (app_page s)\<rparr>)"
proof (cases "is_admin_user (auth_user (app_auth s))")
  case False
  then show ?thesis using assms by (cases "app_page s") (simp_all add: app_seeded_def page_event_non_admin)
qed (simp add: app_seeded_def)

lemma app_step_seeded:
  assumes "app_inv env s" and "app_seeded env s"
  shows "app_seeded env (app_step env ev s)"
proof (cases ev)
  case (Auth_Event e)
  let ?a = "auth_step (env_is_email env) (app_auth s) e"
  show ?thesis
  proof (cases "path ?a = path (app_auth s) \<and> layout_shows_app ?a = layout_shows_app (app_auth s)")
    case True
    then have "auth_user ?a = auth_user (app_auth s) \<or> path (app_auth s) = ''/dashboard''
        \<or> \<not> layout_shows_app (app_auth s)"
      by (intro auth_step_same_route) simp_all
    then show ?thesis using assms True Auth_Event
      by (auto simp: app_seeded_def app_inv_def Let_def page_route_dashboard split: option.splits)
  next
    case False
    then have "app_page (app_step env ev s) = rendered_page env ?a"
      using Auth_Event by (auto simp: Let_def)
    then show ?thesis by (simp add: app_seeded_def rendered_page_def mount_page_seeded)
  qed
qed (simp_all add: page_step_seeded assms(2))

lemma app_init_seeded: "app_seeded env (app_init env e p)"
  by (simp add: app_seeded_def app_init_def Let_def rendered_page_def mount_page_seeded)

lemma app_reachable_seeded:
  "app_reachable env e p s \<Longrightarrow> app_inv env s \<and> app_seeded env s"
  by (induction rule: app_reachable.induct) (simp_all add: app_init_inv app_step_inv app_step_seeded app_init_seeded)

text \<open>
  C23: whatever a user without the administrator role does in a session (sign in,
  navigate, click on any page), every management page shown to them holds the
  records it was mounted with and no dialog is open (the fees page is exactly as
  mounted, the leave page holds its requests in the order its render sorts them): the pages render their Add, Edit, Delete, Promote and Manage Payment
  buttons for administrators only, and every other way to change a page's records,
  another user signing in, remounts it.
\<close>

theorem non_admin_pages_seeded:
  assumes "app_reachable env e p s" and "\<not> is_admin_user (auth_user (app_auth s))"
    and "app_page s = Some pg"
  shows "page_seeded env pg"
  using app_reachable_seeded [OF assms(1)] assms(2,3) by (simp add: app_seeded_def)

theorem non_admin_pages_seeded_witness:
  "app_page (app_step sample_env (Library_Event Delete_Confirm)
     (app_step sample_env (Library_Event (Delete_Click (initial_books ! 0)))
       (app_step sample_env (Library_Event Add_Click)
         (app_init sample_env (Json_Entry (Some sample_librarian)) ''/library''))))
     = Some (Library_Page initial_library_page)
   \<and> page_seeded sample_env (Library_Page initial_library_page)"
proof -
  let ?s = "app_step sample_env (Library_Event Delete_Confirm)
     (app_step sample_env (Library_Event (Delete_Click (initial_books ! 0)))
       (app_step sample_env (Library_Event Add_Click)
         (app_init sample_env (Json_Entry (Some sample_librarian)) ''/library'')))"
  have r: "app_reachable sample_env (Json_Entry (Some sample_librarian)) ''/library'' ?s"
    by (intro app_reachable.step app_reachable.init)
  have u: "auth_user (app_auth ?s) = Some sample_librarian"
    by (simp add: app_init_def restore_user_def initial_auth_state_def sample_librarian_def Let_def)
  have na: "\<not> is_admin_user (auth_user (app_auth ?s))"
    by (simp only: u) (simp add: is_admin_user_def sample_librarian_def)
  have pg: "app_page ?s = Some (Library_Page initial_library_page)"
    by (simp add: u is_admin_user_def sample_librarian_def app_init_def restore_user_def initial_auth_state_def
        rendered_page_def mount_page_def layout_shows_app_def Let_def library_step_def
        initial_library_page_def book_delete_confirm_def delete_confirm_def)
  show ?thesis using non_admin_pages_seeded [OF r na pg] pg by (simp add: sample_env_def)
qed

subsection \<open>The session refines the provider\<close>

lemma app_step_auth:
  "app_auth (app_step env ev s) =
     (case auth_event_of ev of Some e \<Rightarrow> auth_step (env_is_email env) (app_auth s) e | None \<Rightarrow> app_auth s)"
  by (cases ev) (simp_all add: auth_event_of_def Let_def)

lemma app_session_snoc: "app_session env e p (evs @ [ev]) = app_step env ev (app_session env e p evs)"
  by (simp add: app_session_def)

text \<open>The reachable states are exactly the states of the runs.\<close>

lemma app_reachable_session: "app_reachable env e p s \<longleftrightarrow> (\<exists>evs. s = app_session env e p evs)"
proof
  assume "app_reachable env e p s"
  then show "\<exists>evs. s = app_session env e p evs"
  proof (induction rule: app_reachable.induct)
    case init
    have "app_init env e p = app_session env e p []" by (simp add: app_session_def)
    then show ?case by blast
  next
    case (step s ev)
    then obtain evs where "s = app_session env e p evs" by blast
    then have "app_step env ev s = app_session env e p (evs @ [ev])" by (simp add: app_session_snoc)
    then show ?case by blast
  qed
next
  assume "\<exists>evs. s = app_session env e p evs"
  then obtain evs where s: "s = app_session env e p evs" by blast
  have "app_reachable env e p (app_session env e p evs)"
  proof (induction evs rule: rev_induct)
    case Nil
    show ?case using app_reachable.init by (simp add: app_session_def)
  next
    case (snoc ev evs)
    then show ?case by (simp add: app_session_snoc app_reachable.step)
  qed
  then show "app_reachable env e p s" using s by simp
qed

text \<open>
  The pages never touch the session. Whatever the events of a session, the
  provider's state (user, stored entry, loading flag, route) is the one the provider
  alone reaches on the auth events of the run, in order: every page event leaves it
  unchanged and every auth event is the provider's own step.
\<close>

theorem app_session_refines_auth:
  "app_auth (app_session env e p evs) = auth_session (env_is_email env) e p (List.map_filter auth_event_of evs)"
proof (induction evs rule: rev_induct)
  case Nil
  show ?case by (simp add: app_session_def auth_session_def app_init_def Let_def map_filter_simps)
next
  case (snoc ev evs)
  then show ?case
    by (cases "auth_event_of ev")
       (simp_all add: app_session_snoc app_step_auth map_filter_append map_filter_simps auth_session_def)
qed

end
