(* ===== verification/Spec2Isabelle.thy ===== *)
theory Spec2Isabelle
  imports Students Fees Leave Library Exams Auth Study_Questions Salaries Teachers Gallery Notices Timetable Enquiry Js_Regex Dashboard Public_Site App_Pages App_Header Login_Page App_Session
begin

text \<open>
  \<^bold>\<open>Campus Hub: a verification development of the school management web app.\<close>

  \<^bold>\<open>The program.\<close> Campus Hub is a Next.js/React front end (\<open>src/src\<close>). Every
  management page keeps an in-memory array of records in React state and changes it
  through form dialogs (react-hook-form with a zod schema) and confirmation dialogs;
  the array lives as long as the page. Buttons that change data are rendered for the
  role \<open>admin\<close> only. A mock \<open>AuthProvider\<close> keeps the signed-in user in
  \<open>localStorage\<close>; the sidebar offers each role its pages. Two server flows call
  a hosted language model through genkit (study questions; the enquiry
  acknowledgement).

  \<^bold>\<open>How the code is modelled.\<close> A page's state is a record, its handlers are
  functions from the state (and the form values) to the new state and the toasts
  they show; a form submission is \<open>handle_submit\<close>, which returns the schema's
  field errors (\<open>Inl\<close>) or runs the handler (\<open>Inr\<close> of its toasts). A page as a
  whole is a step function, or an inductive step relation, over the UI events its
  rendered buttons allow, so reachable states are those of any event sequence.
  \<open>App_Session\<close> composes the provider with the pages into one state machine
  of the whole application, which mounts the route's page and runs page events with
  the signed-in user's role; the leave and study-question pages enter it through
  functions proved to agree with their step relations.
  JavaScript numbers are \<open>real\<close> (no value in the pages comes near the limits of
  doubles), identifiers and texts are \<open>string\<close>s, clocks are parameters: \<open>now\<close>
  (\<open>Date.now()\<close>, ms), \<open>is_past\<close> (\<open>isPast\<close>), \<open>to_iso\<close>
  (\<open>toISOString\<close>), \<open>cy\<close> (the current year); library predicates the code
  only calls are parameters as well: \<open>coll\<close> (\<open>localeCompare\<close>'s collation),
  \<open>is_email\<close> and \<open>is_url\<close> (zod's \<open>.email()\<close> and \<open>.url()\<close>).

  \<^bold>\<open>Theories.\<close>
  \<^item> \<open>Prelude\<close>: type names, toasts, generic facts on keyed lists.
  \<^item> \<open>Js_Runtime\<close>: the JavaScript built-ins the handlers call (stable
    \<open>Array.prototype.sort\<close> as insertion, proved equal to \<open>sort_key\<close> for a
    consistent comparator; \<open>toString\<close>, \<open>slice(-4)\<close>, \<open>toUpperCase\<close>,
    \<open>Number\<close>). \<open>Js_Regex\<close>: an anchored regular expression as
    \<open>RegExp.test\<close> reads it (a matcher that tries every split), against which the
    greedy phone matcher of \<open>Validation\<close> is proved exact (\<open>phone_regex_equiv\<close>).
  \<^item> \<open>Dates\<close>: \<open>YYYY-MM-DD\<close> strings as \<open>parseISO\<close>/\<open>isValid\<close> read them, day
    numbers, \<open>getTime\<close>, and the printer \<open>format(d, 'yyyy-MM-dd')\<close> with the
    parse/print round trip (\<open>format_parse_iso_date\<close>, \<open>parse_format_iso_date\<close>);
    the browser's zone as a fixed offset, with the civil date of a day number
    (\<open>date_of_days\<close>, proved the inverse of the day number by
    \<open>date_of_day_number_inverse\<close>), \<open>format_local\<close> and \<open>parse_iso_local\<close>.
    \<open>Validation\<close>: white space, \<open>trim\<close>, the phone pattern.
  \<^item> \<open>Entity_List\<close> (spec 4.1): the collection pattern of every page
    (\<open>update_by_id\<close> = \<open>prev.map\<close>, \<open>delete_by_id\<close> = \<open>prev.filter\<close>,
    append), the dialog state \<open>crud_page\<close>, the generic \<open>form_submit\<close>,
    \<open>delete_confirm\<close>, the UI events \<open>crud_event\<close> and the page step
    \<open>crud_step\<close>; the spec's abstract manager (a finite map with \<open>NotFound\<close>
    errors) and the refinement lemmas \<open>update_refines\<close>, \<open>delete_refines\<close>,
    \<open>create_refines\<close>; invariants of any event sequence (\<open>crud_run_list_all\<close>,
    \<open>crud_step_items\<close>), the read-only page of a non-administrator
    (\<open>crud_run_non_admin_idle\<close>), and the edit dialog saved unchanged
    (\<open>form_submit_edit_unchanged\<close>). Each page models its dialog's prefill (the
    \<open>useEffect\<close> reset: \<open>student_form_of\<close>, \<open>book_form_of\<close>,
    \<open>exam_form_of\<close>, \<open>tt_form_of\<close>, \<open>gallery_form_of\<close>, \<open>salary_form_of_record\<close>,
    \<open>structure_form_of\<close>) and proves that saving it unchanged leaves the page's
    records as they were; the notices page is the exception (\<open>notice_form_of\<close>, below).
  \<^item> \<open>Students\<close> (\<open>students/page.tsx\<close>): add/edit with re-sort, delete,
    promotion ladder, class filter and the page step \<open>student_step\<close>; ids unique
    and list sorted (C1), the table sorted after any events
    (\<open>student_table_sorted\<close>), edit refines the abstract update
    (C9), promotion of class 12 (C4), the
    clock-derived id and its collisions (C11, \<open>student_new_id_period\<close>), the guardian
    phone check (C19), rejection (\<open>student_long_section_rejected\<close>);
    the rendered table (\<open>student_table_view\<close>) has a row for every shown student in
    every reachable state, since no admission date that fails to parse is stored
    (\<open>student_table_renders\<close>).
  \<^item> \<open>Fees\<close> (\<open>fees/page.tsx\<close>): fee structures and the payment handler, the page
    as \<open>fees_step\<close>; the spec's payment example (C2), the status invariant of
    every reachable state (C3), the frame of other events (C17) and the
    amount a payment adds (C18).
  \<^item> \<open>Library\<close>, \<open>Exams\<close>, \<open>Salaries\<close>, \<open>Teachers\<close>, \<open>Gallery\<close>: the
    other management pages on the generic step; the spec's rejection examples
    (C5, C6), delete-once (C10), per-page invariants of every reachable
    state (C13, C14, C15; the salary table shows
    that invariant, \<open>salary_rows_consistent\<close>, and the exam table always renders,
    \<open>exam_table_renders\<close>), the ISBN pattern (C28), sorted views (\<open>sorted_schedules_view\<close>), the
    hint's white-space split terminates (\<open>split_ws_terminates\<close>), form
    details (C20, \<open>salary_unknown_teacher\<close>, \<open>blank_hint_accepted\<close>;
    a salary record more than five years old can never be saved again,
    C21);
    the Teacher List shows its rows in name order (\<open>teacher_list_sorted\<close>), a teacher
    added at a clock value ending in 2001 shares Dr. Vance's identifier and is deleted
    with her (\<open>teacher_id_collision_deletes_both\<close>), and the
    gallery grid is the selected tag's items sorted by date in the selected order,
    stable on equal dates (\<open>gallery_grid_order\<close>, while \<open>toISOString\<close> prints
    parseable dates). The list
    cards share \<open>table_of\<close> and \<open>render_rows\<close> (\<open>Entity_List\<close>: a message when
    there is nothing to list, otherwise one row per record, None when a row's
    \<open>format\<close> throws) and the dialog texts \<open>edit_or_add\<close> and \<open>delete_description\<close>.
  \<^item> \<open>Leave\<close> (\<open>attendance-leave/page.tsx\<close>): approve/reject as an inductive
    step relation with reachability; decisions are final (\<open>leave_processed_final\<close>) and refine the
    abstract update (C16), non-admins are read-only (\<open>leave_non_admin_readonly\<close>), the in-place render sort
    is harmless (\<open>leave_render_in_place\<close>); the rendered table and the
    confirmation dialog, which always names a pending request (\<open>leave_dialog_names_pending\<close>);
    the same events as a function, \<open>leave_event_step\<close>, equal to the relation
    (\<open>leave_event_step_sound\<close>, \<open>leave_event_step_complete\<close>).
  \<^item> \<open>Study_Questions\<close> (spec 4.2, \<open>generate-study-questions.ts\<close> and its page):
    the flow as a function of the collaborator's reply and the page as an inductive
    relation in which the model may answer anything; blank input is never sent
    (C7), one request at a time (C12), all-or-nothing results (C8); the results card shows only placeholders
    while a request runs (\<open>sq_loading_skeleton\<close>) and exactly the model's questions after it.
  \<^item> \<open>Auth\<close> (\<open>AuthContext.tsx\<close>, \<open>login/page.tsx\<close>, \<open>(app)/layout.tsx\<close>,
    \<open>AppSidebar.tsx\<close>): session restore agrees with memory (C22), the sidebar by
    role (\<open>nav_items_by_role\<close>). \<open>UserRole\<close> is a compile-time type only, so the role
    read back from \<open>localStorage\<close> may be any string: \<open>user_role\<close> has, beside the seven
    values, \<open>Role_Other s\<close> for any other string, which the restore accepts when it is
    non-empty and which the login form's \<open>z.enum\<close> never produces. \<open>Login_Page\<close> (\<open>login/page.tsx\<close>): the page's
    loading flag, the one-second wait before \<open>login\<close> and the OTP section, beside the
    provider; it refines the atomic \<open>login_submit\<close> (\<open>login_page_refines\<close>), signs in at most
    once (C27) and never shows the OTP section (\<open>otp_section_unreachable\<close>).
    \<open>Dashboard\<close> (\<open>dashboard/page.tsx\<close>): the cards of each role's
    dashboard, their links and metrics, and the rendered card (\<open>dashboard_card_view\<close>):
    each seeded card shows its image or its labelled metric, never both
    (\<open>dashboard_cards_image_or_metric\<close>).
  \<^item> \<open>Notices\<close> (\<open>notices/page.tsx\<close>): the Active and Expired sections partition
    the notices (\<open>notices_partition\<close>); the edit dialog prints the expiry in the
    browser's zone and reads it back as local midnight, so saving a notice unchanged
    moves its expiry to local midnight, up to a day earlier, for every zone and date
    (C29), and can expire it (\<open>notice_resave_expires\<close>); zone model \<open>format_local\<close>,
    \<open>parse_iso_local\<close>, \<open>date_of_days\<close> in \<open>Dates\<close>). The cards
    (\<open>notice_card_view\<close>, \<open>notices_view\<close>) fail to render on an Invalid Date; every
    reachable page renders when \<open>Date.parse\<close> and \<open>parseISO\<close> agree on what is a
    date (\<open>notices_render\<close>), and an expiry the first accepts and the second rejects
    crashes the page (C30). \<open>Timetable\<close> (\<open>timetable/page.tsx\<close>): the grid shows the
    first entry of a slot and a lunch card, so an entry added to an occupied slot
    (C31) or to the lunch period (C32) is stored but never shown; every reachable entry is well formed
    (C24); the rendered grid (\<open>tt_grid\<close>) shows exactly the
    entries \<open>shown_entries\<close> lists (\<open>tt_grid_shown\<close>). The gallery's filter is not
    reset when its tag disappears (\<open>gallery_stale_filter\<close>).
  \<^item> \<open>Enquiry\<close> (\<open>enquiry-form-types.ts\<close>, \<open>handle-enquiry-submission.ts\<close>,
    \<open>EnquiryFormSection.tsx\<close>): the schema, the flow and the public form as an
    inductive relation over submission and completion, the call free to return or
    fail; every submission completes (C33) and the form's failure branch is
    dead (C34).
  \<^item> \<open>Public_Site\<close> (\<open>app/page.tsx\<close>, \<open>components/public\<close>): the sections of
    the home page with their ids and every link the header, hero, footer and
    online-forms cards render; one card's link names no section (\<open>broken_enquiry_card_link\<close>);
    the header's mobile menu closes on every link (\<open>mobile_link_closes_menu\<close>), only
    the enquiry card's button is enabled (\<open>form_cards_enabled\<close>), the gallery preview
    is a reversed, frozen copy of the gallery's first view (\<open>gallery_preview_order\<close>),
    and its links into the application meet the layout guard (\<open>app_links_guarded\<close>);
    the noticeboard preview dates its UTC-midnight samples in the visitor's zone, a
    day early west of UTC (\<open>public_notice_days_west\<close>, with the offset bounds of
    \<open>floor_midnight_west\<close> in \<open>Dates\<close>).
  \<^item> \<open>App_Session\<close> (\<open>(app)/layout.tsx\<close> with \<open>AuthContext.tsx\<close>): the application
    as one state machine, the session and the page the authenticated layout mounts
    for the route (\<open>app_step\<close>, reachability \<open>app_reachable\<close>; the student,
    fees, leave, library, teacher, exam, timetable, salary, gallery, notices and
    study-question pages are tracked, the leave and study-question pages through
    \<open>leave_event_step\<close> and \<open>sq_event_step\<close>, which agree with their step relations
    (\<open>leave_event_step_sound\<close>, \<open>leave_event_step_complete\<close>, and the same for
    \<open>sq_event_step\<close>); a page is mounted only while there is a user, so the study
    page's \<open>!user\<close> guard is true there, and a reply reaching a remounted study page
    finds no request in flight and is ignored; \<open>initialNotices\<close> is a module constant, so the clock value its
    \<open>new Date()\<close> reads is a parameter of the environment, the same at every mount). A page's state is
    created when it mounts and dropped when it unmounts; the composed invariant holds
    in every reachable state by rule induction (\<open>app_reachable_inv\<close>), and navigating
    away and back shows the seeded list again (\<open>page_state_lifetime\<close>). A user who is
    not an administrator never sees a tracked page other than as it was mounted, with
    no dialog open (\<open>page_event_non_admin\<close>, \<open>app_step_seeded\<close>,
    C23): the pages' buttons are rendered for administrators only,
    and every change of user changes the route and remounts the page.
    The reachable states are the states of the runs (\<open>app_reachable_session\<close>),
    and the session refines the provider alone: page events never change it
    (\<open>app_session_refines_auth\<close>).
  \<^item> \<open>App_Header\<close> (\<open>AppHeader.tsx\<close>): the avatar initials (a trailing space
    in a name shows "undefined"), the theme and sidebar controls, and the user menu
    beside the provider; signing out ends the session for good
    (\<open>header_sign_out_ends_session\<close>).
  \<^item> \<open>App_Pages\<close> (\<open>transport/page.tsx\<close>, \<open>form-admin/page.tsx\<close>): the two
    stateless pages whose buttons are all disabled; the form administration guard
    agrees with the sidebar.
  \<^item> This theory: properties across components (\<open>librarian_library_readonly\<close>: a librarian sees the Library
    page but cannot change it; C25: every dashboard link is a page of the role's
    sidebar, and the fallback dashboard is shown exactly to an unknown role;
    C26: a stored user with an unknown role is signed in with an
    empty sidebar and the fallback dashboard; the admin dashboard's pending-leave metric is a constant;
    \<open>add_dialogs_today_disagree\<close>: the student and exam dialogs propose the UTC and the
    local date as today; C35: every link of the home page, the
    sidebar and the dashboards has a target, a section of the page or a route of the
    application (\<open>app_routes\<close>, the directories of \<open>src/app\<close> holding a
    \<open>page.tsx\<close>, read off the file layout rather than translated from code), except
    Apply Now and the enquiry card's Go to Section).

  \<^bold>\<open>Bounds and fuel.\<close> No loop of the program can run forever: every handler is
  a bounded map, filter or sort, so all definitions are total (\<open>fun\<close> with
  structural recursion, or \<open>function\<close> with a length measure for \<open>split_ws\<close>); no
  fuel is needed. The only unbounded behaviour is the model's reply, which the
  generation relation leaves arbitrary.

  \<^bold>\<open>Not modelled.\<close> Styling (class names, icons, layout) and static copy
  (headings, descriptions, placeholders), except where a property reads a text;
  the import lines; toast descriptions (only titles, but for the leave page's);
  what the sidebar and next-themes do with the header's toggle and theme choice
  (libraries: the header keeps the choice as its state); the text and images of
  the static public sections (highlights, admission, events, contact: only their
  links are modelled); the commented-out Firebase and language-model code;
  date-fns formatting for display; and the language model itself (an external
  collaborator). The route table \<open>app_routes\<close> is read off the directory layout
  of \<open>src/app\<close>, which is how the App Router defines routes. zod's email and URL patterns and
  \<open>localeCompare\<close>'s collation are parameters. Floating-point rounding is not
  modelled: amounts are sums of at most a few user-entered values.
\<close>

text \<open>
  A librarian is offered the Library page in the sidebar, but the page's Add,
  Edit and Delete buttons are rendered for administrators only, so whatever the
  librarian does on it the catalogue stays the seeded one.
\<close>

theorem librarian_library_readonly:
  assumes "u_role u = Role_Librarian"
  shows "''/library'' \<in> nav_href ` set (filtered_nav_items (Some u))
         \<and> foldl (\<lambda>s e. library_step (is_admin_user (Some u)) e s) initial_library_page es = initial_library_page"
proof
  show "''/library'' \<in> nav_href ` set (filtered_nav_items (Some u))"
    using assms by (simp add: filtered_nav_items_def nav_items_def)
  have "\<not> is_admin_user (Some u)" using assms by (simp add: is_admin_user_def)
  moreover have "crud_run book_submit book_delete_confirm False es initial_library_page = initial_library_page"
    by (rule crud_run_non_admin_idle)
       (simp_all add: initial_library_page_def book_delete_confirm_def delete_confirm_idle)
  ultimately show "foldl (\<lambda>s e. library_step (is_admin_user (Some u)) e s) initial_library_page es
      = initial_library_page"
    by (simp add: crud_run_def library_step_def)
qed

theorem librarian_library_readonly_witness:
  "''/library'' \<in> nav_href ` set (filtered_nav_items
       (Some \<lparr>u_id = ''1720000000000'', u_name = Some ''lib'', u_email = Some ''lib@school.edu'', u_role = Role_Librarian\<rparr>))
   \<and> foldl (\<lambda>s e. library_step (is_admin_user
       (Some \<lparr>u_id = ''1720000000000'', u_name = Some ''lib'', u_email = Some ''lib@school.edu'', u_role = Role_Librarian\<rparr>)) e s)
       initial_library_page [Add_Click, Delete_Click (initial_books ! 0), Delete_Confirm] = initial_library_page"
  by (rule librarian_library_readonly) simp




text \<open>
  The administrator's "Pending Leave Requests" card shows the constant
  \<open>MOCK_PENDING_LEAVE\<close>, 3, while the leave page starts with two Pending requests
  (and its count changes with every decision).
\<close>

lemma admin_pending_metric_stale:
  "dc_metric (admin_dashboard ! 3) = Some 3
   \<and> length (filter (\<lambda>r. lr_status r = Leave_Pending) initial_leave_requests) = 2"
  by (simp add: admin_dashboard_def metric_card_def mock_pending_leave_def initial_leave_requests_def)

text \<open>
  C35: every link the application renders has a target, with two exceptions. Of
  the home page's links, only the admission section's Apply Now (to
  \<open>/admission-form\<close>, a route the application does not have) and the Admission
  Enquiry card's Go to Section (to \<open>#enquiry\<close>, while the section's id is
  \<open>admission-enquiry\<close>) lead nowhere; every sidebar entry and every dashboard card's
  link is a route of the application.
\<close>

theorem rendered_links_targets:
  "filter (\<lambda>h. \<not> link_target_ok h) home_links = [''/admission-form'', ''#enquiry'']
   \<and> set (map nav_href nav_items) \<subseteq> set app_routes
   \<and> set (dashboard_links (dashboard_page u)) \<subseteq> set app_routes"
proof (intro conjI)
  show "filter (\<lambda>h. \<not> link_target_ok h) home_links = [''/admission-form'', ''#enquiry'']"
    by (simp add: home_links_def public_header_links_def public_nav_links_def hero_links_def admission_links_def
        active_forms_def form_button_link_def js_truthy_str_def noticeboard_erp_link_def gallery_preview_link_def
        contact_links_def footer_links_def link_target_ok_def home_page_defs app_routes_def map_filter_simps)
  show "set (map nav_href nav_items) \<subseteq> set app_routes"
    by (simp add: nav_items_def app_routes_def)
  show "set (dashboard_links (dashboard_page u)) \<subseteq> set app_routes"
  proof (cases u)
    case (Some v)
    then show ?thesis by (cases "u_role v") (simp_all add: dashboard_links_role app_routes_def)
  qed (simp add: dashboard_page_def dashboard_links_def)
qed

text \<open>
  The Add Student and Add Exam dialogs disagree on what today is. The student
  form proposes the date part of \<open>toISOString()\<close>, the UTC date; the exam form
  proposes \<open>format(new Date(), 'yyyy-MM-dd')\<close>, the browser's local date. The two
  agree exactly when the UTC day and the local day coincide, so in a zone east of
  UTC (a school at UTC+5:30) a student added in the first hours of the day gets
  yesterday's admission date.
\<close>

theorem add_dialogs_today_disagree:
  assumes "0 \<le> \<lfloor>t / 86400000\<rfloor> + 719528" and "\<lfloor>t / 86400000\<rfloor> + 719528 < int (days_before_year 10000)"
    and "0 \<le> \<lfloor>(t + real_of_int off) / 86400000\<rfloor> + 719528"
    and "\<lfloor>(t + real_of_int off) / 86400000\<rfloor> + 719528 < int (days_before_year 10000)"
  shows "sf_admissionDate (student_form_of (iso_date_part t) None)
           = ef_startDate (the (exam_form_of (date_of_days \<lfloor>(t + real_of_int off) / 86400000\<rfloor>) None))
         \<longleftrightarrow> \<lfloor>t / 86400000\<rfloor> = \<lfloor>(t + real_of_int off) / 86400000\<rfloor>"
  using iso_date_part_local [OF assms]
  by (simp add: student_form_of_def exam_form_of_def format_local_def)

lemma utc_plus_530_floors:
  "\<lfloor>(1721849400000::real) / 86400000\<rfloor> = 19928"
  "\<lfloor>(1721849400000 + real_of_int 19800000) / 86400000\<rfloor> = 19929"
  by (rule floor_unique; simp)+

theorem add_dialogs_today_disagree_witness:
  "sf_admissionDate (student_form_of (iso_date_part 1721849400000) None) = ''2024-07-24''
   \<and> ef_startDate (the (exam_form_of (date_of_days \<lfloor>(1721849400000 + real_of_int 19800000) / 86400000\<rfloor>) None))
       = ''2024-07-25''
   \<and> sf_admissionDate (student_form_of (iso_date_part 1721849400000) None)
       \<noteq> ef_startDate (the (exam_form_of (date_of_days \<lfloor>(1721849400000 + real_of_int 19800000) / 86400000\<rfloor>) None))"
proof -
  have d: "date_of_days 19928 = \<lparr>year = 2024, month = 7, day = 24\<rparr>"
    "date_of_days 19929 = \<lparr>year = 2024, month = 7, day = 25\<rparr>"
    by (simp_all add: date_of_days_def date_of_day_number_def find_year.simps find_month.simps
        days_before_year_def days_in_month_def leap_year_def)
  have "days_before_year 10000 = 3652425" by (simp add: days_before_year_def)
  then have "sf_admissionDate (student_form_of (iso_date_part 1721849400000) None)
      \<noteq> ef_startDate (the (exam_form_of (date_of_days \<lfloor>(1721849400000 + real_of_int 19800000) / 86400000\<rfloor>) None))"
    using add_dialogs_today_disagree [of 1721849400000 19800000] utc_plus_530_floors by simp
  moreover have "sf_admissionDate (student_form_of (iso_date_part 1721849400000) None) = ''2024-07-24''"
    using utc_plus_530_floors(1) d(1) by (simp add: student_form_of_def iso_date_part_def format_local_def format_eval)
  moreover have "ef_startDate (the (exam_form_of (date_of_days \<lfloor>(1721849400000 + real_of_int 19800000) / 86400000\<rfloor>) None))
       = ''2024-07-25''"
    using utc_plus_530_floors(2) d(2) by (simp add: exam_form_of_def format_eval)
  ultimately show ?thesis by simp
qed

end
